(* ===== verification/Prelude.thy ===== *)
theory Prelude
  imports Complex_Main "HOL-Library.Word" "HOL-Library.Sublist"
begin

text \<open>
  Shared vocabulary of the development.

  \<^item> \<open>outcome\<close>: what a call of the code gives back: a value (Rust's \<open>Ok\<close>), an error
    (\<open>Err\<close>) or a panic of the task (a slice out of range, an index past the end).
  \<^item> \<open>prog\<close>: an \<open>async fn\<close> of the code. It is run on the history of the effects issued
    so far (database queries, HTTP requests, queue messages, SSE events) and gives its outcome
    and the extended history. The \<open>?\<close> operator is \<open>bind\<close>, a \<open>match\<close> on a
    \<open>Result\<close> is \<open>on_result\<close>, a \<open>for\<close> loop is \<open>fold_prog\<close>, and a stream with
    \<open>buffer_unordered(1)\<close> is \<open>run_all\<close>.
  \<^item> \<open>emits\<close>, \<open>returns\<close>, \<open>no_panic\<close>: the three compositional judgements on programs;
    their rules are collected in \<open>prog_rules\<close>.
\<close>

named_theorems prog_rules \<open>compositional rules for the judgements on programs\<close>
named_theorems prog_simps \<open>evaluation of programs on a concrete history\<close>

subsection \<open>Outcomes\<close>

datatype ('e, 'a) outcome = Ok 'a | Err 'e | Panic

primrec is_ok :: "('e, 'a) outcome \<Rightarrow> bool" where
  "is_ok (Ok x) = True"
| "is_ok (Err e) = False"
| "is_ok Panic = False"

primrec and_then :: "('e, 'a) outcome \<Rightarrow> ('a \<Rightarrow> ('e, 'b) outcome) \<Rightarrow> ('e, 'b) outcome" where
  "and_then (Ok x) f = f x"
| "and_then (Err e) f = Err e"
| "and_then Panic f = Panic"

primrec map_err_outcome :: "('e \<Rightarrow> 'd) \<Rightarrow> ('e, 'a) outcome \<Rightarrow> ('d, 'a) outcome" where
  "map_err_outcome f (Ok x) = Ok x"
| "map_err_outcome f (Err e) = Err (f e)"
| "map_err_outcome f Panic = Panic"

definition ok_or :: "'e \<Rightarrow> 'a option \<Rightarrow> ('e, 'a) outcome" where
  "ok_or e x = (case x of None \<Rightarrow> Err e | Some v \<Rightarrow> Ok v)"

lemma ok_or_simps [simp]:
  "ok_or e None = Err e"
  "ok_or e (Some v) = Ok v"
  by (simp_all add: ok_or_def)

lemma ok_or_eq_Ok [simp]: "ok_or e x = Ok v \<longleftrightarrow> x = Some v"
  by (cases x) auto

lemma ok_or_no_panic [simp]: "ok_or e x \<noteq> Panic"
  by (cases x) auto

lemma and_then_eq_Ok: "and_then r f = Ok y \<longleftrightarrow> (\<exists>x. r = Ok x \<and> f x = Ok y)"
  by (cases r) auto

lemma and_then_eq_Panic: "and_then r f = Panic \<longleftrightarrow> r = Panic \<or> (\<exists>x. r = Ok x \<and> f x = Panic)"
  by (cases r) auto

lemma map_err_outcome_eq_Ok: "map_err_outcome f r = Ok x \<longleftrightarrow> r = Ok x"
  by (cases r) auto

lemma is_ok_iff: "is_ok r \<longleftrightarrow> (\<exists>x. r = Ok x)"
  by (cases r) auto

text \<open>\<open>iter.collect::<Result<Vec<_>, _>>()\<close>: the first error wins.\<close>

primrec collect_results :: "('e, 'a) outcome list \<Rightarrow> ('e, 'a list) outcome" where
  "collect_results [] = Ok []"
| "collect_results (r # rs) =
     and_then r (\<lambda>x. and_then (collect_results rs) (\<lambda>xs. Ok (x # xs)))"

lemma collect_results_Ok_iff: "collect_results rs = Ok xs \<longleftrightarrow> rs = map Ok xs"
  by (induction rs arbitrary: xs) (auto simp: and_then_eq_Ok Cons_eq_map_conv)

subsection \<open>Programs over a history of effects\<close>

type_synonym ('f, 'e, 'a) prog = "'f list \<Rightarrow> ('e, 'a) outcome \<times> 'f list"

definition ret :: "'a \<Rightarrow> ('f, 'e, 'a) prog" where
  "ret x = (\<lambda>h. (Ok x, h))"

definition fail :: "'e \<Rightarrow> ('f, 'e, 'a) prog" where
  "fail e = (\<lambda>h. (Err e, h))"

definition lift_outcome :: "('e, 'a) outcome \<Rightarrow> ('f, 'e, 'a) prog" where
  "lift_outcome r = (\<lambda>h. (r, h))"

definition bind :: "('f, 'e, 'a) prog \<Rightarrow> ('a \<Rightarrow> ('f, 'e, 'b) prog) \<Rightarrow> ('f, 'e, 'b) prog" where
  "bind m k = (\<lambda>h. case m h of
      (Ok x, h') \<Rightarrow> k x h'
    | (Err e, h') \<Rightarrow> (Err e, h')
    | (Panic, h') \<Rightarrow> (Panic, h'))"

definition on_result ::
  "('f, 'e, 'a) prog \<Rightarrow> ('a \<Rightarrow> ('f, 'd, 'b) prog) \<Rightarrow> ('e \<Rightarrow> ('f, 'd, 'b) prog) \<Rightarrow> ('f, 'd, 'b) prog" where
  "on_result m k c = (\<lambda>h. case m h of
      (Ok x, h') \<Rightarrow> k x h'
    | (Err e, h') \<Rightarrow> c e h'
    | (Panic, h') \<Rightarrow> (Panic, h'))"

definition map_err :: "('e \<Rightarrow> 'd) \<Rightarrow> ('f, 'e, 'a) prog \<Rightarrow> ('f, 'd, 'a) prog" where
  "map_err f m = (\<lambda>h. case m h of (r, h') \<Rightarrow> (map_err_outcome f r, h'))"

definition issue :: "'f \<Rightarrow> ('f list \<Rightarrow> ('e, 'a) outcome) \<Rightarrow> ('f, 'e, 'a) prog" where
  \<comment> \<open>issue one effect; the answer may depend on everything issued before it\<close>
  "issue f answer = (\<lambda>h. (answer h, h @ [f]))"

primrec fold_prog :: "('s \<Rightarrow> 'x \<Rightarrow> ('f, 'e, 's) prog) \<Rightarrow> 's \<Rightarrow> 'x list \<Rightarrow> ('f, 'e, 's) prog" where
  "fold_prog f s [] = ret s"
| "fold_prog f s (x # xs) = bind (f s x) (\<lambda>s'. fold_prog f s' xs)"

primrec run_all :: "('x \<Rightarrow> ('f, 'e, 'a) prog) \<Rightarrow> 'x list \<Rightarrow> ('f, 'd, ('e, 'a) outcome list) prog" where
  \<comment> \<open>every future runs, also after one of them has failed; a panic unwinds at once\<close>
  "run_all f [] = ret []"
| "run_all f (x # xs) = (\<lambda>h. case f x h of
      (Panic, h') \<Rightarrow> (Panic, h')
    | (r, h') \<Rightarrow> bind (run_all f xs) (\<lambda>rs. ret (r # rs)) h')"

definition batch :: "('x \<Rightarrow> ('f, 'e, 'a) prog) \<Rightarrow> 'x list \<Rightarrow> ('f, 'e, 'a list) prog" where
  "batch f xs = bind (run_all f xs) (\<lambda>rs. lift_outcome (collect_results rs))"

lemmas prog_defs = ret_def fail_def lift_outcome_def bind_def on_result_def map_err_def issue_def

lemma bind_eq_Ok:
  "bind m k h = (Ok y, h') \<longleftrightarrow> (\<exists>x h1. m h = (Ok x, h1) \<and> k x h1 = (Ok y, h'))"
  by (auto simp: bind_def split: prod.splits outcome.splits)

lemma on_result_eq_Ok:
  "on_result m k c h = (Ok y, h') \<longleftrightarrow>
     (\<exists>x h1. m h = (Ok x, h1) \<and> k x h1 = (Ok y, h')) \<or> (\<exists>e h1. m h = (Err e, h1) \<and> c e h1 = (Ok y, h'))"
  by (auto simp: on_result_def split: prod.splits outcome.splits)

lemma map_err_eq_Ok: "map_err f m h = (Ok y, h') \<longleftrightarrow> m h = (Ok y, h')"
  by (cases "fst (m h)") (auto simp: map_err_def split: prod.splits)

lemma ret_eq_Ok: "ret x h = (Ok y, h') \<longleftrightarrow> y = x \<and> h' = h"
  by (auto simp: ret_def)

lemma fail_not_Ok: "fail e h \<noteq> (Ok y, h')"
  by (simp add: fail_def)

lemma lift_outcome_eq_Ok: "lift_outcome r h = (Ok y, h') \<longleftrightarrow> r = Ok y \<and> h' = h"
  by (auto simp: lift_outcome_def)

lemma issue_eq_Ok: "issue f a h = (Ok y, h') \<longleftrightarrow> a h = Ok y \<and> h' = h @ [f]"
  by (auto simp: issue_def)

lemmas prog_Ok_iff = bind_eq_Ok on_result_eq_Ok map_err_eq_Ok ret_eq_Ok fail_not_Ok
  lift_outcome_eq_Ok issue_eq_Ok

lemma bind_OkE:
  assumes "bind m k h = (Ok y, h')"
  obtains x h1 where "m h = (Ok x, h1)" "k x h1 = (Ok y, h')"
  using assms by (auto simp: bind_eq_Ok)

lemma bind_run [prog_simps]:
  "m h = (Ok x, h1) \<Longrightarrow> bind m k h = k x h1"
  "m h = (Err e, h1) \<Longrightarrow> bind m k h = (Err e, h1)"
  "m h = (Panic, h1) \<Longrightarrow> bind m k h = (Panic, h1)"
  by (simp_all add: bind_def)

lemma on_result_run [prog_simps]:
  "m h = (Ok x, h1) \<Longrightarrow> on_result m k c h = k x h1"
  "m h = (Err e, h1) \<Longrightarrow> on_result m k c h = c e h1"
  "m h = (Panic, h1) \<Longrightarrow> on_result m k c h = (Panic, h1)"
  by (simp_all add: on_result_def)

lemma bind_ret [simp]: "bind (ret x) k = k x"
  by (simp add: bind_def ret_def)

lemma bind_fail [simp]: "bind (fail e) k = fail e"
  by (simp add: bind_def fail_def)

lemma bind_assoc: "bind (bind m k) l = bind m (\<lambda>x. bind (k x) l)"
  by (rule ext) (auto simp: bind_def split: prod.splits outcome.splits)

text \<open>Renaming the errors of a program. With \<open>forget\<close> two programs are compared up to the errors
  they give.\<close>

lemma map_err_outcome_comp: "map_err_outcome f (map_err_outcome g r) = map_err_outcome (\<lambda>e. f (g e)) r"
  by (cases r) auto

lemma map_err_simps:
  "map_err f (ret x) = ret x"
  "map_err f (fail e) = fail (f e)"
  "map_err f (lift_outcome r) = lift_outcome (map_err_outcome f r)"
  "map_err f (map_err g m) = map_err (\<lambda>e. f (g e)) m"
  by (rule ext; simp add: map_err_def ret_def fail_def lift_outcome_def map_err_outcome_comp split: prod.split)+

lemma map_err_bind: "map_err f (bind m k) = bind (map_err f m) (\<lambda>x. map_err f (k x))"
  by (rule ext) (auto simp: map_err_def bind_def split: prod.splits outcome.splits)

lemma map_err_outcome_and_then:
  "map_err_outcome f (and_then r k) = and_then (map_err_outcome f r) (\<lambda>x. map_err_outcome f (k x))"
  by (cases r) auto

definition forget :: "('f, 'e, 'a) prog \<Rightarrow> ('f, unit, 'a) prog" where
  "forget m = map_err (\<lambda>e. ()) m"

lemma forget_simps:
  "forget (ret x) = ret x"
  "forget (fail e) = fail ()"
  "forget (lift_outcome r) = lift_outcome (map_err_outcome (\<lambda>e. ()) r)"
  "forget (map_err g m) = forget m"
  "forget (bind m k) = bind (forget m) (\<lambda>x. forget (k x))"
  by (simp_all add: forget_def map_err_simps map_err_bind)

lemma forget_eq_Ok: "forget m h = (Ok x, h') \<longleftrightarrow> m h = (Ok x, h')"
  by (cases "m h"; cases "fst (m h)") (auto simp: forget_def map_err_def)

subsection \<open>Judgements\<close>

definition emits :: "('f \<Rightarrow> bool) \<Rightarrow> ('f, 'e, 'a) prog \<Rightarrow> bool" where
  \<comment> \<open>the program only appends to the history, and only effects that satisfy the predicate\<close>
  "emits P m \<longleftrightarrow> (\<forall>h. \<exists>u. snd (m h) = h @ u \<and> list_all P u)"

definition returns :: "('f, 'e, 'a) prog \<Rightarrow> ('a \<Rightarrow> bool) \<Rightarrow> bool" where
  "returns m Q \<longleftrightarrow> (\<forall>h v. fst (m h) = Ok v \<longrightarrow> Q v)"

definition no_panic :: "('f, 'e, 'a) prog \<Rightarrow> bool" where
  "no_panic m \<longleftrightarrow> (\<forall>h. fst (m h) \<noteq> Panic)"

lemma emitsI: "(\<And>h. \<exists>u. snd (m h) = h @ u \<and> list_all P u) \<Longrightarrow> emits P m"
  by (simp add: emits_def)

lemma emitsE:
  assumes "emits P m" and "m h = (r, h')"
  obtains u where "h' = h @ u" and "list_all P u"
  using assms by (metis emits_def snd_conv)

lemma emits_mono: "emits P m \<Longrightarrow> (\<And>f. P f \<Longrightarrow> Q f) \<Longrightarrow> emits Q m"
  by (metis (no_types, lifting) emits_def list.pred_mono_strong)

lemma emits_ret [prog_rules]: "emits P (ret x)"
  by (simp add: emits_def ret_def)

lemma emits_fail [prog_rules]: "emits P (fail e)"
  by (simp add: emits_def fail_def)

lemma emits_lift_outcome [prog_rules]: "emits P (lift_outcome r)"
  by (simp add: emits_def lift_outcome_def)

lemma emits_issue [prog_rules]: "P f \<Longrightarrow> emits P (issue f a)"
  by (simp add: emits_def issue_def)

lemma emits_bind [prog_rules]:
  assumes m: "emits P m" and k: "\<And>x. emits P (k x)"
  shows "emits P (bind m k)"
proof (rule emitsI)
  fix h
  obtain r h1 where mh: "m h = (r, h1)" by (cases "m h")
  then obtain u where u: "h1 = h @ u" "list_all P u" using m by (blast elim: emitsE)
  show "\<exists>u. snd (bind m k h) = h @ u \<and> list_all P u"
  proof (cases r)
    case (Ok x)
    obtain r2 h2 where kh: "k x h1 = (r2, h2)" by (cases "k x h1")
    then obtain w where "h2 = h1 @ w" "list_all P w" using k by (blast elim: emitsE)
    with mh Ok kh u show ?thesis by (simp add: bind_def)
  qed (use mh u in \<open>simp_all add: bind_def\<close>)
qed

lemma emits_on_result [prog_rules]:
  assumes m: "emits P m" and k: "\<And>x. emits P (k x)" and c: "\<And>e. emits P (c e)"
  shows "emits P (on_result m k c)"
proof (rule emitsI)
  fix h
  obtain r h1 where mh: "m h = (r, h1)" by (cases "m h")
  then obtain u where u: "h1 = h @ u" "list_all P u" using m by (blast elim: emitsE)
  show "\<exists>u. snd (on_result m k c h) = h @ u \<and> list_all P u"
  proof (cases r)
    case (Ok x)
    obtain r2 h2 where kh: "k x h1 = (r2, h2)" by (cases "k x h1")
    then obtain w where "h2 = h1 @ w" "list_all P w" using k by (blast elim: emitsE)
    with mh Ok kh u show ?thesis by (simp add: on_result_def)
  next
    case (Err e)
    obtain r2 h2 where kh: "c e h1 = (r2, h2)" by (cases "c e h1")
    then obtain w where "h2 = h1 @ w" "list_all P w" using c by (blast elim: emitsE)
    with mh Err kh u show ?thesis by (simp add: on_result_def)
  qed (use mh u in \<open>simp add: on_result_def\<close>)
qed

lemma emits_map_err [prog_rules]: "emits P m \<Longrightarrow> emits P (map_err f m)"
  by (simp add: emits_def map_err_def case_prod_beta)

lemma emits_fold_prog [prog_rules]:
  "(\<And>s x. emits P (f s x)) \<Longrightarrow> emits P (fold_prog f s xs)"
  by (induction xs arbitrary: s) (auto intro: prog_rules)

lemma emits_run_all [prog_rules]:
  fixes f :: "'x \<Rightarrow> ('f, 'e, 'a) prog"
  assumes "\<And>x. emits P (f x)"
  shows "emits P (run_all f xs :: ('f, 'd, ('e, 'a) outcome list) prog)"
proof (induction xs)
  case Nil
  then show ?case by (simp add: emits_ret)
next
  case (Cons x xs)
  show ?case
  proof (rule emitsI)
    fix h
    obtain r h1 where fx: "f x h = (r, h1)" by (cases "f x h")
    then obtain u where u: "h1 = h @ u" "list_all P u" using assms by (blast elim: emitsE)
    let ?rest = "bind (run_all f xs) (\<lambda>rs. ret (r # rs)) :: ('f, 'd, ('e, 'a) outcome list) prog"
    have "emits P ?rest"
      by (intro emits_bind emits_ret Cons.IH)
    then obtain w where "snd (?rest h1) = h1 @ w" "list_all P w"
      by (auto simp: emits_def)
    with fx u show "\<exists>u. snd ((run_all f (x # xs) :: ('f, 'd, ('e, 'a) outcome list) prog) h) = h @ u \<and> list_all P u"
      by (cases r) (auto intro!: exI [of _ "u @ w"])
  qed
qed

lemma emits_batch [prog_rules]: "(\<And>x. emits P (f x)) \<Longrightarrow> emits P (batch f xs)"
  unfolding batch_def by (intro emits_bind emits_run_all emits_lift_outcome)

lemma emits_if [prog_rules]: "emits P a \<Longrightarrow> emits P b \<Longrightarrow> emits P (if c then a else b)"
  by simp

lemma returns_ret: "returns (ret x) Q \<longleftrightarrow> Q x"
  by (simp add: returns_def ret_def)

lemma returns_bindI: "(\<And>x. returns (k x) Q) \<Longrightarrow> returns (bind m k) Q"
  by (auto simp: returns_def bind_def split: prod.splits outcome.splits)

lemma no_panic_iff: "no_panic m \<longleftrightarrow> (\<forall>h h'. m h \<noteq> (Panic, h'))"
  unfolding no_panic_def by (metis fst_conv prod.collapse)

lemma no_panic_ret [prog_rules]: "no_panic (ret x)"
  by (simp add: no_panic_def ret_def)

lemma no_panic_fail [prog_rules]: "no_panic (fail e)"
  by (simp add: no_panic_def fail_def)

lemma no_panic_issue [prog_rules]: "(\<And>h. a h \<noteq> Panic) \<Longrightarrow> no_panic (issue f a)"
  by (simp add: no_panic_def issue_def)

lemma no_panic_lift [prog_rules]: "r \<noteq> Panic \<Longrightarrow> no_panic (lift_outcome r)"
  by (simp add: no_panic_def lift_outcome_def)

lemma no_panic_bind [prog_rules]: "no_panic m \<Longrightarrow> (\<And>x. no_panic (k x)) \<Longrightarrow> no_panic (bind m k)"
  unfolding no_panic_iff by (auto simp: bind_def split: prod.splits outcome.splits)

lemma no_panic_on_result [prog_rules]:
  "no_panic m \<Longrightarrow> (\<And>x. no_panic (k x)) \<Longrightarrow> (\<And>e. no_panic (c e)) \<Longrightarrow> no_panic (on_result m k c)"
  unfolding no_panic_iff by (auto simp: on_result_def split: prod.splits outcome.splits)

lemma no_panic_map_err [prog_rules]: "no_panic m \<Longrightarrow> no_panic (map_err f m)"
proof -
  have eq: "map_err_outcome f r = Panic \<longleftrightarrow> r = Panic" for r by (cases r) auto
  show "no_panic m \<Longrightarrow> no_panic (map_err f m)"
    by (auto simp: no_panic_def map_err_def eq case_prod_beta)
qed

lemma no_panic_fold_prog [prog_rules]:
  "(\<And>s x. no_panic (f s x)) \<Longrightarrow> no_panic (fold_prog f s xs)"
  by (induction xs arbitrary: s) (auto intro: prog_rules)

lemma no_panic_if [prog_rules]: "no_panic a \<Longrightarrow> no_panic b \<Longrightarrow> no_panic (if c then a else b)"
  by simp

text \<open>Rules that carry a fact about the intermediate result, and loops with an invariant.\<close>

lemma returns_iff: "returns m Q \<longleftrightarrow> (\<forall>h v h'. m h = (Ok v, h') \<longrightarrow> Q v)"
  unfolding returns_def by (metis fst_conv prod.collapse)

lemma returnsD: "returns m Q \<Longrightarrow> m h = (Ok v, h') \<Longrightarrow> Q v"
  by (auto simp: returns_iff)

lemma returns_bind: "returns m P \<Longrightarrow> (\<And>x. P x \<Longrightarrow> returns (k x) Q) \<Longrightarrow> returns (bind m k) Q"
  unfolding returns_iff bind_eq_Ok by blast

lemma returns_on_result:
  "returns m P \<Longrightarrow> (\<And>x. P x \<Longrightarrow> returns (k x) Q) \<Longrightarrow> (\<And>e. returns (c e) Q) \<Longrightarrow>
   returns (on_result m k c) Q"
  unfolding returns_iff on_result_eq_Ok by blast

lemma returns_True [simp]: "returns m (\<lambda>_. True)"
  by (simp add: returns_def)

lemma returns_fail [simp]: "returns (fail e) Q"
  by (simp add: returns_def fail_def)

lemma returns_lift [simp]: "returns (lift_outcome r) Q \<longleftrightarrow> (\<forall>v. r = Ok v \<longrightarrow> Q v)"
  by (simp add: returns_def lift_outcome_def)

lemma returns_map_err [simp]: "returns (map_err f m) Q \<longleftrightarrow> returns m Q"
  by (simp add: returns_iff map_err_eq_Ok)

lemma returns_mono: "returns m P \<Longrightarrow> (\<And>x. P x \<Longrightarrow> Q x) \<Longrightarrow> returns m Q"
  by (auto simp: returns_def)

lemma returns_fold_prog:
  "I s \<Longrightarrow> (\<And>s x. x \<in> set xs \<Longrightarrow> I s \<Longrightarrow> returns (f s x) I) \<Longrightarrow> returns (fold_prog f s xs) I"
proof (induction xs arbitrary: s)
  case Nil
  then show ?case by (simp add: returns_ret)
next
  case (Cons x xs)
  show ?case
    by (simp, rule returns_bind [where P = I]) (use Cons in auto)
qed

lemma emits_bind_returns:
  assumes m: "emits P m" and r: "returns m Q" and k: "\<And>x. Q x \<Longrightarrow> emits P (k x)"
  shows "emits P (bind m k)"
proof (rule emitsI)
  fix h
  obtain r h1 where mh: "m h = (r, h1)" by (cases "m h")
  then obtain u where u: "h1 = h @ u" "list_all P u" using m by (blast elim: emitsE)
  show "\<exists>u. snd (bind m k h) = h @ u \<and> list_all P u"
  proof (cases r)
    case (Ok x)
    obtain r2 h2 where kh: "k x h1 = (r2, h2)" by (cases "k x h1")
    moreover have "Q x" using returnsD [OF assms(2)] mh Ok by blast
    ultimately obtain w where "h2 = h1 @ w" "list_all P w" using k by (blast elim: emitsE)
    with mh Ok kh u show ?thesis by (simp add: bind_def)
  qed (use mh u in \<open>simp_all add: bind_def\<close>)
qed

lemma emits_fold_prog_mem:
  "(\<And>s x. x \<in> set xs \<Longrightarrow> emits P (f s x)) \<Longrightarrow> emits P (fold_prog f s xs)"
  by (induction xs arbitrary: s) (auto intro!: emits_bind emits_ret)

lemma emits_fold_prog_inv:
  assumes "I s" and "\<And>s x. x \<in> set xs \<Longrightarrow> I s \<Longrightarrow> emits P (f s x)"
    and "\<And>s x. x \<in> set xs \<Longrightarrow> I s \<Longrightarrow> returns (f s x) I"
  shows "emits P (fold_prog f s xs)"
  using assms
proof (induction xs arbitrary: s)
  case (Cons x xs)
  show ?case
    by (simp, rule emits_bind_returns [where Q = I]) (use Cons in auto)
qed (simp add: emits_ret)

text \<open>Both ways of ending at once: what a value satisfies and what an error satisfies.\<close>

definition ends :: "('f, 'e, 'a) prog \<Rightarrow> ('a \<Rightarrow> bool) \<Rightarrow> ('e \<Rightarrow> bool) \<Rightarrow> bool" where
  "ends m Q R \<longleftrightarrow> (\<forall>h v h'. m h = (Ok v, h') \<longrightarrow> Q v) \<and> (\<forall>h e h'. m h = (Err e, h') \<longrightarrow> R e)"

lemma ends_ret [simp]: "ends (ret x) Q R \<longleftrightarrow> Q x"
  by (simp add: ends_def ret_def)

lemma ends_fail [simp]: "ends (fail e) Q R \<longleftrightarrow> R e"
  by (simp add: ends_def fail_def)

lemma ends_lift_outcome [simp]:
  "ends (lift_outcome r) Q R \<longleftrightarrow> (\<forall>v. r = Ok v \<longrightarrow> Q v) \<and> (\<forall>e. r = Err e \<longrightarrow> R e)"
  by (auto simp: ends_def lift_outcome_def)

lemma bind_eq_Err:
  "bind m k h = (Err e, h') \<longleftrightarrow>
     m h = (Err e, h') \<or> (\<exists>x h1. m h = (Ok x, h1) \<and> k x h1 = (Err e, h'))"
  by (auto simp: bind_def split: prod.splits outcome.splits)

lemma on_result_eq_Err:
  "on_result m k c h = (Err e, h') \<longleftrightarrow>
     (\<exists>x h1. m h = (Ok x, h1) \<and> k x h1 = (Err e, h')) \<or> (\<exists>d h1. m h = (Err d, h1) \<and> c d h1 = (Err e, h'))"
  by (auto simp: on_result_def split: prod.splits outcome.splits)

lemma map_err_eq_Err: "map_err f m h = (Err e, h') \<longleftrightarrow> (\<exists>d. m h = (Err d, h') \<and> e = f d)"
  by (cases "fst (m h)") (auto simp: map_err_def split: prod.splits)

lemma ends_bind: "ends m P R \<Longrightarrow> (\<And>x. P x \<Longrightarrow> ends (k x) Q R) \<Longrightarrow> ends (bind m k) Q R"
  unfolding ends_def bind_eq_Ok bind_eq_Err by blast

lemma ends_on_result:
  "ends m P S \<Longrightarrow> (\<And>x. P x \<Longrightarrow> ends (k x) Q R) \<Longrightarrow> (\<And>e. S e \<Longrightarrow> ends (c e) Q R) \<Longrightarrow>
   ends (on_result m k c) Q R"
  unfolding ends_def on_result_eq_Ok on_result_eq_Err by blast

lemma ends_map_err: "ends m Q (\<lambda>e. R (f e)) \<Longrightarrow> ends (map_err f m) Q R"
  unfolding ends_def map_err_eq_Ok map_err_eq_Err by blast

lemma ends_mono:
  "ends m Q R \<Longrightarrow> (\<And>x. Q x \<Longrightarrow> Q' x) \<Longrightarrow> (\<And>e. R e \<Longrightarrow> R' e) \<Longrightarrow> ends m Q' R'"
  by (auto simp: ends_def)

lemma ends_True [simp]: "ends m (\<lambda>_. True) (\<lambda>_. True)"
  by (simp add: ends_def)

lemma ends_fold_prog:
  "I s \<Longrightarrow> (\<And>s x. x \<in> set xs \<Longrightarrow> I s \<Longrightarrow> ends (f s x) I R) \<Longrightarrow> ends (fold_prog f s xs) I R"
proof (induction xs arbitrary: s)
  case (Cons x xs)
  show ?case
    by (simp, rule ends_bind [where P = I]) (use Cons in auto)
qed simp

lemma ends_returns: "ends m Q R \<Longrightarrow> returns m Q"
  by (auto simp: ends_def returns_iff)

text \<open>Programs that always give a value, whatever the outside answers.\<close>

definition never_fails :: "('f, 'e, 'a) prog \<Rightarrow> bool" where
  "never_fails m \<longleftrightarrow> (\<forall>h. is_ok (fst (m h)))"

lemma never_fails_iff: "never_fails m \<longleftrightarrow> (\<forall>h. \<exists>v h'. m h = (Ok v, h'))"
  unfolding never_fails_def is_ok_iff by (metis fst_conv prod.collapse)

lemma never_fails_ret [prog_rules]: "never_fails (ret x)"
  by (simp add: never_fails_def ret_def)

lemma never_fails_bind [prog_rules]:
  assumes "never_fails m" and "\<And>x. never_fails (k x)"
  shows "never_fails (bind m k)"
  unfolding never_fails_iff
proof
  fix h
  obtain v h1 where "m h = (Ok v, h1)" using assms(1) unfolding never_fails_iff by blast
  moreover obtain w h2 where "k v h1 = (Ok w, h2)" using assms(2)[of v] unfolding never_fails_iff by blast
  ultimately show "\<exists>v h'. bind m k h = (Ok v, h')" by (auto simp: bind_def)
qed

lemma never_fails_on_result [prog_rules]:
  "no_panic m \<Longrightarrow> (\<And>x. never_fails (k x)) \<Longrightarrow> (\<And>e. never_fails (c e)) \<Longrightarrow> never_fails (on_result m k c)"
  unfolding never_fails_def no_panic_iff
  by (auto simp: on_result_def split: prod.splits outcome.splits)

lemma never_fails_fold_prog [prog_rules]: "(\<And>s x. never_fails (f s x)) \<Longrightarrow> never_fails (fold_prog f s xs)"
  by (induction xs arbitrary: s) (auto intro: prog_rules)

lemma never_fails_if [prog_rules]: "never_fails a \<Longrightarrow> never_fails b \<Longrightarrow> never_fails (if c then a else b)"
  by simp

lemma never_fails_no_panic: "never_fails m \<Longrightarrow> no_panic m"
  by (auto simp: never_fails_def no_panic_def is_ok_iff) (metis outcome.distinct(3))

lemma never_fails_ends: "never_fails m \<Longrightarrow> ends m (\<lambda>_. True) R"
  unfolding never_fails_iff ends_def by (metis outcome.distinct(1) prod.inject)

text \<open>A loop over the indices of a list that skips the ones past the end of another list runs over
  the pairs of the two.\<close>

lemma fold_prog_enumerate_zip:
  "fold_prog (\<lambda>s (i, x). if i \<ge> length ids then ret s else f s (ids ! i) x) s (enumerate n xs) =
   fold_prog (\<lambda>s (y, x). f s y x) s (zip (drop n ids) xs)"
proof (induction xs arbitrary: n s)
  case (Cons x xs)
  show ?case
  proof (cases "n < length ids")
    case True
    then show ?thesis
      using Cons by (simp add: Cons_nth_drop_Suc [symmetric])
  next
    case False
    then show ?thesis using Cons[of s "Suc n"] by simp
  qed
qed simp

subsection \<open>Lists\<close>

text \<open>\<open>Vec::retain\<close> with \<open>seen.insert(key)\<close>: keep the first element of every key.\<close>

fun retain_first :: "('a \<Rightarrow> 'k) \<Rightarrow> 'k set \<Rightarrow> 'a list \<Rightarrow> 'a list" where
  "retain_first key seen [] = []"
| "retain_first key seen (x # xs) =
     (if key x \<in> seen then retain_first key seen xs
      else x # retain_first key (insert (key x) seen) xs)"

lemma retain_first_keys: "key ` set (retain_first key seen xs) = key ` set xs - seen"
  by (induction key seen xs rule: retain_first.induct) auto

lemma retain_first_distinct: "distinct (map key (retain_first key seen xs))"
proof (induction key seen xs rule: retain_first.induct)
  case (2 key seen x xs)
  then show ?case using retain_first_keys[of key "insert (key x) seen" xs] by auto
qed simp

lemma retain_first_subseq: "subseq (retain_first key seen xs) xs"
  by (induction key seen xs rule: retain_first.induct) auto

lemma retain_first_id:
  "distinct (map key xs) \<Longrightarrow> key ` set xs \<inter> seen = {} \<Longrightarrow> retain_first key seen xs = xs"
  by (induction key seen xs rule: retain_first.induct) auto

lemma retain_first_idem: "retain_first key {} (retain_first key {} xs) = retain_first key {} xs"
  by (rule retain_first_id) (simp_all add: retain_first_distinct)

text \<open>The element kept for a key is the first one of the list that has it.\<close>

lemma retain_first_find:
  "k \<notin> seen \<Longrightarrow> find (\<lambda>x. key x = k) (retain_first key seen xs) = find (\<lambda>x. key x = k) xs"
  by (induction key seen xs rule: retain_first.induct) auto

text \<open>\<open>Iterator::find_map\<close>.\<close>

primrec find_map :: "('a \<Rightarrow> 'b option) \<Rightarrow> 'a list \<Rightarrow> 'b option" where
  "find_map f [] = None"
| "find_map f (x # xs) = (case f x of None \<Rightarrow> find_map f xs | Some y \<Rightarrow> Some y)"

text \<open>\<open>slice::first\<close> and \<open>slice::get\<close>.\<close>

definition first_of :: "'a list \<Rightarrow> 'a option" where
  "first_of xs = (case xs of [] \<Rightarrow> None | x # _ \<Rightarrow> Some x)"

definition get_at :: "'a list \<Rightarrow> nat \<Rightarrow> 'a option" where
  "get_at xs i = (if i < length xs then Some (xs ! i) else None)"

lemma first_of_simps [simp]: "first_of [] = None" "first_of (x # xs) = Some x"
  by (simp_all add: first_of_def)

lemma first_of_Some: "first_of xs = Some x \<Longrightarrow> x \<in> set xs"
  by (cases xs) auto

lemma find_SomeD: "find P xs = Some x \<Longrightarrow> x \<in> set xs \<and> P x"
  by (metis find_Some_iff nth_mem)

end
