(* ===== verification/Rust_Text.thy ===== *)
theory Rust_Text
  imports Prelude
begin

text \<open>
  Rust's \<open>str\<close> and \<open>String\<close>: the bytes of the UTF-8 encoding, one \<open>char\<close> of HOL per
  byte, so that \<open>len\<close>, \<open>find\<close> and slicing count bytes as the code does, and a slice
  that cuts a character in two panics. Here are the methods the source uses: slicing,
  \<open>find\<close>, \<open>rfind\<close>, \<open>trim\<close>, \<open>starts_with\<close>, \<open>strip_prefix\<close>,
  \<open>trim_start_matches\<close>, \<open>trim_end_matches\<close>, \<open>contains\<close>, \<open>replace\<close>, \<open>split\<close>,
  \<open>join\<close>, \<open>chars\<close>, and the decimal output of \<open>format!\<close>.
\<close>

subsection \<open>Characters and slices\<close>

definition is_cont :: "char \<Rightarrow> bool" where
  \<comment> \<open>a continuation byte of a UTF-8 sequence, \<open>10xxxxxx\<close>\<close>
  "is_cont c = (let n = (of_char c :: nat) in 128 \<le> n \<and> n < 192)"

definition char_boundary :: "string \<Rightarrow> nat \<Rightarrow> bool" where
  "char_boundary s i = (i = 0 \<or> i = length s \<or> (i < length s \<and> \<not> is_cont (s ! i)))"

definition slice :: "string \<Rightarrow> nat \<Rightarrow> nat \<Rightarrow> ('e, string) outcome" where
  \<comment> \<open>\<open>&s[i..j]\<close>; \<open>&s[i..=j]\<close> is \<open>slice s i (j + 1)\<close>\<close>
  "slice s i j =
     (if i \<le> j \<and> j \<le> length s \<and> char_boundary s i \<and> char_boundary s j
      then Ok (take (j - i) (drop i s)) else Panic)"

function str_chars :: "string \<Rightarrow> string list" where
  \<comment> \<open>\<open>s.chars()\<close>, each character as its encoding\<close>
  "str_chars [] = []"
| "str_chars (c # s) = (c # takeWhile is_cont s) # str_chars (dropWhile is_cont s)"
  by pat_completeness auto
termination
  by (relation "measure length") (auto simp: le_imp_less_Suc length_dropWhile_le)

definition char_count :: "string \<Rightarrow> nat" where
  "char_count s = length (str_chars s)"

lemma concat_str_chars: "concat (str_chars s) = s"
  by (induction s rule: str_chars.induct) auto

lemma slice_not_Err [simp]: "slice s i j \<noteq> Err e"
  by (simp add: slice_def)

subsection \<open>Searching\<close>

primrec find_char :: "char \<Rightarrow> string \<Rightarrow> nat option" where
  "find_char c [] = None"
| "find_char c (x # s) = (if x = c then Some 0 else map_option Suc (find_char c s))"

definition rfind_char :: "char \<Rightarrow> string \<Rightarrow> nat option" where
  "rfind_char c s = map_option (\<lambda>i. length s - 1 - i) (find_char c (rev s))"

lemma find_char_None [simp]: "find_char c s = None \<longleftrightarrow> c \<notin> set s"
  by (induction s) auto

lemma find_char_Some:
  "find_char c s = Some i \<Longrightarrow> i < length s \<and> s ! i = c \<and> (\<forall>j<i. s ! j \<noteq> c)"
proof (induction s arbitrary: i)
  case (Cons x s)
  show ?case
  proof (cases "x = c")
    case False
    with Cons.prems obtain k where k: "find_char c s = Some k" "i = Suc k" by auto
    with Cons.IH[OF k(1)] False show ?thesis by (auto simp: less_Suc_eq_0_disj)
  qed (use Cons.prems in simp)
qed simp

lemma rfind_char_None [simp]: "rfind_char c s = None \<longleftrightarrow> c \<notin> set s"
  by (simp add: rfind_char_def)

lemma rfind_char_Some:
  assumes "rfind_char c s = Some i"
  shows "i < length s \<and> s ! i = c \<and> (\<forall>j. i < j \<and> j < length s \<longrightarrow> s ! j \<noteq> c)"
proof -
  from assms obtain k where k: "find_char c (rev s) = Some k" and i: "i = length s - 1 - k"
    by (auto simp: rfind_char_def)
  from find_char_Some[OF k] have k3: "k < length s" "rev s ! k = c" "\<forall>j<k. rev s ! j \<noteq> c" by auto
  have "s ! j \<noteq> c" if "i < j" "j < length s" for j
  proof -
    have "length s - 1 - j < k" using that i k3(1) by linarith
    with k3(3) have "rev s ! (length s - 1 - j) \<noteq> c" by blast
    then show ?thesis using that by (simp add: rev_nth)
  qed
  with k3 i show ?thesis by (simp add: rev_nth)
qed

lemma find_le_rfind: "find_char c s = Some i \<Longrightarrow> rfind_char c s = Some j \<Longrightarrow> i \<le> j"
  using find_char_Some[of c s i] rfind_char_Some[of c s j] by (metis linorder_not_less)

lemma ascii_boundary: "i < length s \<Longrightarrow> \<not> is_cont (s ! i) \<Longrightarrow> char_boundary s i"
  by (simp add: char_boundary_def)

primrec contains_str :: "string \<Rightarrow> string \<Rightarrow> bool" where
  \<comment> \<open>\<open>s.contains(p)\<close>; the pattern comes first\<close>
  "contains_str p [] = (p = [])"
| "contains_str p (x # s) = (prefix p (x # s) \<or> contains_str p s)"

lemma contains_str_iff: "contains_str p s \<longleftrightarrow> sublist p s"
  by (induction s) (auto simp: sublist_Cons_right)

subsection \<open>Trimming\<close>

text \<open>The encodings of the characters with the Unicode property White\_Space.\<close>

definition ws_chars :: "string list" where
  "ws_chars =
     [[CHR 0x09], [CHR 0x0A], [CHR 0x0B], [CHR 0x0C], [CHR 0x0D], [CHR 0x20],
      [CHR 0xC2, CHR 0x85], [CHR 0xC2, CHR 0xA0], [CHR 0xE1, CHR 0x9A, CHR 0x80],
      [CHR 0xE2, CHR 0x80, CHR 0x80], [CHR 0xE2, CHR 0x80, CHR 0x81], [CHR 0xE2, CHR 0x80, CHR 0x82],
      [CHR 0xE2, CHR 0x80, CHR 0x83], [CHR 0xE2, CHR 0x80, CHR 0x84], [CHR 0xE2, CHR 0x80, CHR 0x85],
      [CHR 0xE2, CHR 0x80, CHR 0x86], [CHR 0xE2, CHR 0x80, CHR 0x87], [CHR 0xE2, CHR 0x80, CHR 0x88],
      [CHR 0xE2, CHR 0x80, CHR 0x89], [CHR 0xE2, CHR 0x80, CHR 0x8A], [CHR 0xE2, CHR 0x80, CHR 0xA8],
      [CHR 0xE2, CHR 0x80, CHR 0xA9], [CHR 0xE2, CHR 0x80, CHR 0xAF], [CHR 0xE2, CHR 0x81, CHR 0x9F],
      [CHR 0xE3, CHR 0x80, CHR 0x80]]"

text \<open>Strip one of the patterns from the front, again and again.\<close>

function strip_all :: "string list \<Rightarrow> string \<Rightarrow> string" where
  "strip_all ps s =
     (case find (\<lambda>p. p \<noteq> [] \<and> prefix p s) ps of
        None \<Rightarrow> s
      | Some p \<Rightarrow> strip_all ps (drop (length p) s))"
  by pat_completeness auto
termination
proof (relation "measure (\<lambda>(ps, s). length s)")
  show "((ps, drop (length p) s), ps, s) \<in> measure (\<lambda>(ps, s). length s)"
    if "find (\<lambda>p. p \<noteq> [] \<and> prefix p s) ps = Some p" for ps s p
    using find_SomeD[OF that] by (auto simp: prefix_def)
qed simp

declare strip_all.simps [simp del]

definition trim_start :: "string \<Rightarrow> string" where
  "trim_start s = strip_all ws_chars s"

definition trim_end :: "string \<Rightarrow> string" where
  "trim_end s = rev (strip_all (map rev ws_chars) (rev s))"

definition trim :: "string \<Rightarrow> string" where
  "trim s = trim_end (trim_start s)"

definition starts_with :: "string \<Rightarrow> string \<Rightarrow> bool" where
  "starts_with s p = prefix p s"

definition strip_prefix :: "string \<Rightarrow> string \<Rightarrow> string option" where
  "strip_prefix s p = (if prefix p s then Some (drop (length p) s) else None)"

definition trim_start_matches :: "string \<Rightarrow> string \<Rightarrow> string" where
  "trim_start_matches s p = strip_all [p] s"

definition trim_end_matches :: "string \<Rightarrow> string \<Rightarrow> string" where
  "trim_end_matches s p = rev (strip_all [rev p] (rev s))"

text \<open>What is left has none of the patterns in front, and was the end of the input.\<close>

lemma strip_all_no_prefix: "p \<in> set ps \<Longrightarrow> p \<noteq> [] \<Longrightarrow> \<not> prefix p (strip_all ps s)"
proof (induction ps s rule: strip_all.induct)
  case (1 ps s)
  show ?case
  proof (cases "find (\<lambda>p. p \<noteq> [] \<and> prefix p s) ps")
    case None
    then have "strip_all ps s = s" by (simp add: strip_all.simps[of ps s])
    with None show ?thesis using "1.prems" by (auto simp: find_None_iff)
  next
    case (Some q)
    then show ?thesis using "1.IH"[OF Some "1.prems"] by (simp add: strip_all.simps[of ps s])
  qed
qed

lemma strip_all_suffix: "suffix (strip_all ps s) s"
proof (induction ps s rule: strip_all.induct)
  case (1 ps s)
  show ?case
  proof (cases "find (\<lambda>p. p \<noteq> [] \<and> prefix p s) ps")
    case None
    then show ?thesis by (simp add: strip_all.simps[of ps s])
  next
    case (Some q)
    have "suffix (drop (length q) s) s" by (rule suffix_drop)
    with 1[OF Some] have "suffix (strip_all ps (drop (length q) s)) s"
      by (blast intro: suffix_order.trans)
    with Some show ?thesis by (simp add: strip_all.simps[of ps s])
  qed
qed

lemma strip_all_id: "(\<And>p. p \<in> set ps \<Longrightarrow> p \<noteq> [] \<Longrightarrow> \<not> prefix p s) \<Longrightarrow> strip_all ps s = s"
  by (subst strip_all.simps) (auto split: option.splits dest: find_SomeD)

lemma strip_all_idem: "strip_all ps (strip_all ps s) = strip_all ps s"
  by (rule strip_all_id) (rule strip_all_no_prefix)

text \<open>What trimming leaves is a piece of the input.\<close>

lemma trim_start_suffix: "suffix (trim_start s) s"
  by (simp add: trim_start_def strip_all_suffix)

lemma trim_end_prefix: "prefix (trim_end s) s"
  using strip_all_suffix[of "map rev ws_chars" "rev s"]
  by (simp add: trim_end_def suffix_to_prefix)

lemma trim_sublist: "sublist (trim s) s"
proof -
  obtain a where a: "s = a @ trim_start s" using trim_start_suffix[of s] by (auto simp: suffix_def)
  obtain b where b: "trim_start s = trim_end (trim_start s) @ b"
    using trim_end_prefix[of "trim_start s"] by (auto simp: prefix_def)
  have "s = a @ trim s @ b" using a b by (simp add: trim_def)
  then show ?thesis by (metis sublist_appendI)
qed

text \<open>The part of the validity of UTF-8 that slicing at ASCII characters needs: a continuation byte
  never follows an ASCII byte. Every \<open>str\<close> satisfies it.\<close>

definition well_encoded :: "string \<Rightarrow> bool" where
  "well_encoded s \<longleftrightarrow>
     (\<forall>i. Suc i < length s \<longrightarrow> (of_char (s ! i) :: nat) < 128 \<longrightarrow> \<not> is_cont (s ! Suc i))"

lemma ascii_well_encoded: "list_all (\<lambda>c. (of_char c :: nat) < 128) s \<Longrightarrow> well_encoded s"
  by (auto simp: well_encoded_def list_all_length is_cont_def Let_def not_le)

lemma well_encoded_sublist: "sublist t s \<Longrightarrow> well_encoded s \<Longrightarrow> well_encoded t"
proof -
  assume "sublist t s" and s: "well_encoded s"
  then obtain a b where ab: "s = a @ t @ b" by (auto simp: sublist_def)
  show ?thesis
    unfolding well_encoded_def
  proof (intro allI impI)
    fix i assume i: "Suc i < length t" "(of_char (t ! i) :: nat) < 128"
    have "s ! (length a + i) = t ! i" "s ! Suc (length a + i) = t ! Suc i"
      using i by (simp_all add: ab nth_append)
    moreover have "Suc (length a + i) < length s" using i by (simp add: ab)
    ultimately show "\<not> is_cont (t ! Suc i)" using s i unfolding well_encoded_def by metis
  qed
qed

lemma well_encoded_trim [simp]: "well_encoded s \<Longrightarrow> well_encoded (trim s)"
  by (rule well_encoded_sublist [OF trim_sublist])

lemma ascii_boundaries:
  assumes "well_encoded s" and "i < length s" and "(of_char (s ! i) :: nat) < 128"
  shows "char_boundary s i" and "char_boundary s (Suc i)"
  using assms by (auto simp: char_boundary_def well_encoded_def is_cont_def Let_def)

text \<open>\<open>&s[i..=j]\<close> from one ASCII character to another panics exactly when it runs backwards.\<close>

lemma slice_between:
  assumes "well_encoded s" and "find_char a s = Some i" and "rfind_char b s = Some j"
    and "(of_char a :: nat) < 128" and "(of_char b :: nat) < 128"
  shows "slice s i (Suc j) = (if i \<le> Suc j then Ok (take (Suc j - i) (drop i s)) else Panic)"
proof -
  have i: "i < length s" "s ! i = a" using find_char_Some[OF assms(2)] by auto
  have j: "j < length s" "s ! j = b" using rfind_char_Some[OF assms(3)] by auto
  show ?thesis
    using ascii_boundaries[OF assms(1), of i] ascii_boundaries[OF assms(1), of j] i j assms(4,5)
    by (simp add: slice_def)
qed

subsection \<open>Replacing, splitting, joining\<close>

primrec replace_char :: "char \<Rightarrow> string \<Rightarrow> string \<Rightarrow> string" where
  "replace_char c r [] = []"
| "replace_char c r (x # s) = (if x = c then r else [x]) @ replace_char c r s"

function replace_str :: "string \<Rightarrow> string \<Rightarrow> string \<Rightarrow> string" where
  \<comment> \<open>\<open>s.replace(p, r)\<close> for a pattern that is not empty; arguments in the order \<open>p r s\<close>\<close>
  "replace_str p r [] = []"
| "replace_str p r (x # s) =
     (if p \<noteq> [] \<and> prefix p (x # s) then r @ replace_str p r (drop (length p) (x # s))
      else x # replace_str p r s)"
  by pat_completeness auto
termination
  by (relation "measure (\<lambda>(p, r, s). length s)") (auto simp: prefix_def)

primrec split_char :: "char \<Rightarrow> string \<Rightarrow> string list" where
  \<comment> \<open>\<open>s.split(c)\<close>\<close>
  "split_char c [] = [[]]"
| "split_char c (x # s) =
     (if x = c then [] # split_char c s
      else (case split_char c s of [] \<Rightarrow> [[x]] | y # ys \<Rightarrow> (x # y) # ys))"

fun join :: "string \<Rightarrow> string list \<Rightarrow> string" where
  "join sep [] = []"
| "join sep [x] = x"
| "join sep (x # y # ys) = x @ sep @ join sep (y # ys)"

definition nl :: string where
  "nl = [CHR 0x0A]"

definition text_lines :: "string list \<Rightarrow> string" where
  \<comment> \<open>a text of several lines, as a raw string of the source\<close>
  "text_lines ls = join nl ls"

lemma split_char_ne [simp]: "split_char c s \<noteq> []"
  by (cases s) (auto split: list.splits)

lemma join_split_char: "join [c] (split_char c s) = s"
proof (induction s)
  case (Cons x s)
  obtain y ys where ys: "split_char c s = y # ys" by (cases "split_char c s") auto
  with Cons.IH show ?case by (cases ys) auto
qed simp

lemma split_char_no_sep: "t \<in> set (split_char c s) \<Longrightarrow> c \<notin> set t"
proof (induction s arbitrary: t)
  case (Cons x s)
  obtain y ys where ys: "split_char c s = y # ys" by (cases "split_char c s") auto
  with Cons show ?case by (auto split: if_splits)
qed simp

subsection \<open>Numbers as text\<close>

fun nat_text :: "nat \<Rightarrow> string" where
  "nat_text n =
     (if n < 10 then [char_of (48 + n)] else nat_text (n div 10) @ [char_of (48 + n mod 10)])"

declare nat_text.simps [simp del]

definition int_text :: "int \<Rightarrow> string" where
  "int_text i = (if i < 0 then ''-'' @ nat_text (nat (- i)) else nat_text (nat i))"

lemma nat_text_ne [simp]: "nat_text n \<noteq> []"
  by (subst nat_text.simps) simp

text \<open>The decimal text determines the number.\<close>

definition digits_value :: "string \<Rightarrow> nat" where
  "digits_value s = foldl (\<lambda>a c. 10 * a + (of_char c - 48)) 0 s"

lemma digits_value_nat_text: "digits_value (nat_text n) = n"
proof (induction n rule: nat_text.induct)
  case (1 n)
  show ?case
  proof (cases "n < 10")
    case True
    then show ?thesis by (subst nat_text.simps) (simp add: digits_value_def)
  next
    case False
    with 1 have "digits_value (nat_text (n div 10)) = n div 10" by simp
    with False show ?thesis by (subst nat_text.simps) (simp add: digits_value_def)
  qed
qed

lemma nat_text_inj: "nat_text m = nat_text n \<longleftrightarrow> m = n"
  by (metis digits_value_nat_text)

text \<open>\<open>str::parse\<close> for the integer types: an optional sign, then digits only.\<close>

definition is_digit :: "char \<Rightarrow> bool" where
  "is_digit c = (let n = (of_char c :: nat) in 48 \<le> n \<and> n \<le> 57)"

definition parse_i64 :: "string \<Rightarrow> int option" where
  "parse_i64 s =
     (let (neg, ds) = (case s of c # cs \<Rightarrow> if c = CHR ''-'' then (True, cs)
                                   else if c = CHR ''+'' then (False, cs) else (False, s)
                       | [] \<Rightarrow> (False, []));
          v = (if neg then - int (digits_value ds) else int (digits_value ds))
      in if ds \<noteq> [] \<and> list_all is_digit ds \<and> - (2 ^ 63) \<le> v \<and> v < 2 ^ 63 then Some v else None)"

definition parse_u16 :: "string \<Rightarrow> nat option" where
  "parse_u16 s =
     (let ds = (case s of c # cs \<Rightarrow> if c = CHR ''+'' then cs else s | [] \<Rightarrow> [])
      in if ds \<noteq> [] \<and> list_all is_digit ds \<and> digits_value ds < 2 ^ 16 then Some (digits_value ds) else None)"

end
