(* ===== verification/Json.thy ===== *)
theory Json
  imports Rust_Text "HOL-Library.List_Lexorder" "HOL-Library.Char_ord"
begin

text \<open>
  \<open>f64\<close> values with the comparisons of IEEE 754, \<open>serde_json::Value\<close>, and the conversions
  of \<open>common/neo4j_utils.rs\<close>: JSON to Bolt parameters, and the rows of the database in the
  shape of Bolt 4 to the shape of Bolt 5 that the web UI reads.

  A \<open>serde_json::Map\<close> is a \<open>BTreeMap\<close> (the feature \<open>preserve_order\<close> is off in
  Cargo.toml): an association list in key order, which \<open>map_insert\<close> keeps.
\<close>

subsection \<open>Floating point scores\<close>

datatype f64 = Finite rat | PosInf | NegInf | NaN

fun f64_lt :: "f64 \<Rightarrow> f64 \<Rightarrow> bool" where
  "f64_lt (Finite a) (Finite b) = (a < b)"
| "f64_lt NaN _ = False"
| "f64_lt _ NaN = False"
| "f64_lt NegInf b = (b \<noteq> NegInf)"
| "f64_lt _ NegInf = False"
| "f64_lt PosInf _ = False"
| "f64_lt _ PosInf = True"

definition f64_eq :: "f64 \<Rightarrow> f64 \<Rightarrow> bool" where
  "f64_eq a b = (a \<noteq> NaN \<and> a = b)"

definition f64_ge :: "f64 \<Rightarrow> f64 \<Rightarrow> bool" where
  "f64_ge a b = (f64_lt b a \<or> f64_eq a b)"

definition f64_gt :: "f64 \<Rightarrow> f64 \<Rightarrow> bool" where
  "f64_gt a b = f64_lt b a"

text \<open>The thresholds of the source are the doubles nearest to the decimal literals.\<close>

definition f64_0_65 :: f64 where "f64_0_65 = Finite (5854679515581645 / 9007199254740992)"
definition f64_0_70 :: f64 where "f64_0_70 = Finite (3152519739159347 / 4503599627370496)"
definition f64_0_85 :: f64 where "f64_0_85 = Finite (7656119366529843 / 9007199254740992)"
definition f64_0_95 :: f64 where "f64_0_95 = Finite (4278419646001971 / 4503599627370496)"
definition f64_zero :: f64 where "f64_zero = Finite 0"

lemmas f64_consts = f64_0_65_def f64_0_70_def f64_0_85_def f64_0_95_def f64_zero_def

lemma f64_lt_not_ge: "f64_lt a b \<Longrightarrow> \<not> f64_ge a b"
  by (cases a; cases b) (auto simp: f64_ge_def f64_eq_def)

lemma f64_not_lt_ge: "\<not> f64_lt a b \<Longrightarrow> a \<noteq> NaN \<Longrightarrow> b \<noteq> NaN \<Longrightarrow> f64_ge a b"
  by (cases a; cases b) (auto simp: f64_ge_def f64_eq_def)

lemma f64_ge_trans: "f64_ge a b \<Longrightarrow> f64_ge b c \<Longrightarrow> f64_ge a c"
  by (cases a; cases b; cases c) (auto simp: f64_ge_def f64_eq_def)

lemma f64_NaN_compare [simp]:
  "\<not> f64_lt NaN b" "\<not> f64_ge NaN b" "\<not> f64_gt NaN b"
  by (cases b; simp add: f64_ge_def f64_eq_def f64_gt_def)+

text \<open>\<open>format!("{:.2}", x)\<close>: two decimals, ties to even.\<close>

definition round_half_even :: "rat \<Rightarrow> int" where
  "round_half_even q =
     (let f = \<lfloor>q\<rfloor>; r = q - of_int f
      in if r < 1 / 2 then f else if r > 1 / 2 then f + 1 else if even f then f else f + 1)"

definition two_digits :: "nat \<Rightarrow> string" where
  "two_digits n = (if n < 10 then ''0'' @ nat_text n else nat_text n)"

definition f64_text_2 :: "f64 \<Rightarrow> string" where
  "f64_text_2 x = (case x of
      Finite q \<Rightarrow>
        (let n = nat (round_half_even (\<bar>q\<bar> * 100))
         in (if q < 0 then ''-'' else []) @ nat_text (n div 100) @ ''.'' @ two_digits (n mod 100))
    | PosInf \<Rightarrow> ''inf'' | NegInf \<Rightarrow> ''-inf'' | NaN \<Rightarrow> ''NaN'')"

text \<open>\<open>u64 as f64\<close>: round to 53 bits, ties to even.\<close>

fun excess_bits :: "nat \<Rightarrow> nat" where
  "excess_bits n = (if n < 2 ^ 53 then 0 else Suc (excess_bits (n div 2)))"

declare excess_bits.simps [simp del]

definition u64_to_f64 :: "nat \<Rightarrow> f64" where
  "u64_to_f64 n =
     (let k = excess_bits n; q = n div 2 ^ k; r = 2 * (n mod 2 ^ k);
          q' = (if r > 2 ^ k \<or> (r = 2 ^ k \<and> odd q) then q + 1 else q)
      in Finite (of_nat (q' * 2 ^ k)))"

subsection \<open>JSON values\<close>

datatype number = PosInt nat | NegInt int | Float f64

datatype json =
    JNull
  | JBool bool
  | JNum number
  | JStr string
  | JArr "json list"
  | JObj "(string \<times> json) list"

primrec map_insert :: "string \<Rightarrow> 'v \<Rightarrow> (string \<times> 'v) list \<Rightarrow> (string \<times> 'v) list" where
  "map_insert k v [] = [(k, v)]"
| "map_insert k v (e # m) =
     (if k = fst e then (k, v) # m
      else if k < fst e then (k, v) # e # m
      else e # map_insert k v m)"

definition jobj :: "(string \<times> json) list \<Rightarrow> json" where
  \<comment> \<open>\<open>json!({ ... })\<close>\<close>
  "jobj kvs = JObj (foldl (\<lambda>m (k, v). map_insert k v m) [] kvs)"

fun as_object :: "json \<Rightarrow> (string \<times> json) list option" where
  "as_object (JObj m) = Some m"
| "as_object _ = None"

fun as_array :: "json \<Rightarrow> json list option" where
  "as_array (JArr xs) = Some xs"
| "as_array _ = None"

fun as_str :: "json \<Rightarrow> string option" where
  "as_str (JStr s) = Some s"
| "as_str _ = None"

fun as_i64 :: "json \<Rightarrow> int option" where
  "as_i64 (JNum (PosInt n)) = (if n < 2 ^ 63 then Some (int n) else None)"
| "as_i64 (JNum (NegInt i)) = Some i"
| "as_i64 _ = None"

fun as_f64 :: "json \<Rightarrow> f64 option" where
  "as_f64 (JNum (PosInt n)) = Some (u64_to_f64 n)"
| "as_f64 (JNum (NegInt i)) =
     Some (case u64_to_f64 (nat (- i)) of Finite q \<Rightarrow> Finite (- q) | x \<Rightarrow> x)"
| "as_f64 (JNum (Float x)) = Some x"
| "as_f64 _ = None"

definition obj_get :: "(string \<times> json) list \<Rightarrow> string \<Rightarrow> json option" where
  "obj_get m k = map_of m k"

definition jget :: "json \<Rightarrow> string \<Rightarrow> json option" where
  \<comment> \<open>\<open>Value::get\<close> with a string key\<close>
  "jget v k = (case v of JObj m \<Rightarrow> map_of m k | _ \<Rightarrow> None)"

definition has_key :: "(string \<times> json) list \<Rightarrow> string \<Rightarrow> bool" where
  "has_key m k = (map_of m k \<noteq> None)"

definition jstr_field :: "json \<Rightarrow> string \<Rightarrow> string option" where
  \<comment> \<open>\<open>v.get(k).and_then(|v| v.as_str())\<close>\<close>
  "jstr_field v k = Option.bind (jget v k) as_str"

lemma map_of_map_insert: "map_of (map_insert k v m) = (map_of m)(k \<mapsto> v)"
  by (induction m) (auto simp: fun_eq_iff)

lemma map_insert_keys: "fst ` set (map_insert k v m) = insert k (fst ` set m)"
  by (induction m) auto

lemma map_insert_sorted:
  "sorted_wrt (<) (map fst m) \<Longrightarrow> sorted_wrt (<) (map fst (map_insert k v m))"
proof (induction m)
  case (Cons e m)
  have "set (map fst (map_insert k v m)) = insert k (set (map fst m))"
    using map_insert_keys[of k v m] by simp
  with Cons show ?case by (auto intro: order.strict_trans)
qed simp

lemma map_of_foldl_insert:
  "map_of (foldl (\<lambda>m (k, v). map_insert k v m) m0 kvs) k =
     (case map_of (rev kvs) k of Some v \<Rightarrow> Some v | None \<Rightarrow> map_of m0 k)"
  by (induction kvs arbitrary: m0)
    (auto simp: map_of_map_insert map_add_def split: option.splits)

lemma foldl_insert_sorted:
  "sorted_wrt (<) (map fst m0) \<Longrightarrow>
   sorted_wrt (<) (map fst (foldl (\<lambda>m (k, v). map_insert k v m) m0 kvs))"
  by (induction kvs arbitrary: m0) (auto simp: map_insert_sorted)

lemma jget_jobj: "jget (jobj kvs) k = map_of (rev kvs) k"
  by (simp add: jobj_def jget_def map_of_foldl_insert split: option.splits)

text \<open>
  A value that is written with the fields of a struct in declaration order and read back as a
  \<open>Value\<close> has its objects in key order.
\<close>

lemma map_of_rev_distinct: "distinct (map fst m) \<Longrightarrow> map_of (rev m) = map_of m"
  by (simp add: map_of_inject_set flip: rev_map)

fun sorted_json :: "json \<Rightarrow> json" where
  "sorted_json (JObj m) = jobj (map (\<lambda>(k, v). (k, sorted_json v)) m)"
| "sorted_json (JArr xs) = JArr (map sorted_json xs)"
| "sorted_json v = v"

lemma jget_sorted_json:
  assumes "distinct (map fst m)"
  shows "jget (sorted_json (JObj m)) k = map_option sorted_json (map_of m k)"
proof -
  have "distinct (map fst (map (\<lambda>(k, v). (k, sorted_json v)) m))"
    using assms by (simp add: case_prod_beta comp_def)
  then show ?thesis by (simp add: jget_jobj map_of_rev_distinct map_of_map case_prod_beta)
qed

lemma jget_simps [simp]:
  "jget JNull k = None" "jget (JBool b) k = None" "jget (JNum n) k = None"
  "jget (JStr s) k = None" "jget (JArr xs) k = None" "jget (JObj m) k = map_of m k"
  by (simp_all add: jget_def)

subsection \<open>Parameters of Bolt queries\<close>

datatype bolt =
    BNull
  | BBool bool
  | BInt int
  | BFloat f64
  | BStr string
  | BList "bolt list"

fun json_value_to_bolt_type :: "(json \<Rightarrow> string) \<Rightarrow> json \<Rightarrow> bolt" where
  \<comment> \<open>the first argument is \<open>Value::to_string\<close>\<close>
  "json_value_to_bolt_type show JNull = BNull"
| "json_value_to_bolt_type show (JBool b) = BBool b"
| "json_value_to_bolt_type show (JNum n) =
     (case as_i64 (JNum n) of
        Some i \<Rightarrow> BInt i
      | None \<Rightarrow> (case as_f64 (JNum n) of
                  Some f \<Rightarrow> BFloat f
                | None \<Rightarrow> BStr (show (JNum n))))"
| "json_value_to_bolt_type show (JStr s) = BStr s"
| "json_value_to_bolt_type show (JArr arr) = BList (map (json_value_to_bolt_type show) arr)"
| "json_value_to_bolt_type show (JObj m) = BStr (show (JObj m))"

text \<open>A number is never sent as text, and an integer that fits \<open>i64\<close> is sent exactly.\<close>

lemma bolt_number_not_text: "json_value_to_bolt_type show (JNum n) \<noteq> BStr s"
  by (cases n) auto

subsection \<open>Bolt 4 to Bolt 5\<close>

definition json_int :: "int \<Rightarrow> json" where
  \<comment> \<open>\<open>json!(i)\<close> for an \<open>i64\<close>\<close>
  "json_int i = JNum (if i < 0 then NegInt i else PosInt (nat i))"

definition map_bolt4_to_bolt5_node :: "json \<Rightarrow> json" where
  "map_bolt4_to_bolt5_node node_data =
     (case as_object node_data of
        None \<Rightarrow> node_data
      | Some obj \<Rightarrow>
          (let id = (case Option.bind (obj_get obj ''id'') as_i64 of Some i \<Rightarrow> i | None \<Rightarrow> 0);
               element_id = (case Option.bind (obj_get obj ''elementId'') as_str of Some s \<Rightarrow> s | None \<Rightarrow> []);
               labels = (case Option.bind (obj_get obj ''labels'') as_array of Some l \<Rightarrow> l | None \<Rightarrow> []);
               generalizes_to_element_id = obj_get obj ''generalizesToElementId'';
               props =
                 (case obj_get obj ''props'' of
                    Some nested_props \<Rightarrow>
                      (case as_object nested_props of
                         Some props_obj \<Rightarrow> JObj (filter (\<lambda>(key, value). key \<noteq> ''embedding'') props_obj)
                       | None \<Rightarrow> nested_props)
                  | None \<Rightarrow>
                      JObj (filter (\<lambda>(key, value). key \<notin>
                        {''id'', ''elementId'', ''labels'', ''generalizesToElementId'', ''embedding''}) obj));
               result =
                 [(''Id'', json_int id),
                  (''ElementId'', JStr element_id),
                  (''Labels'', JArr labels),
                  (''Props'', props)]
           in jobj (case generalizes_to_element_id of
                      Some gen_id \<Rightarrow> result @ [(''GeneralizesToElementId'', gen_id)]
                    | None \<Rightarrow> result)))"

definition map_bolt4_to_bolt5_relationship :: "json \<Rightarrow> json" where
  "map_bolt4_to_bolt5_relationship rel_data =
     (case as_object rel_data of
        None \<Rightarrow> rel_data
      | Some obj \<Rightarrow>
          (let int_of = (\<lambda>k. case Option.bind (obj_get obj k) as_i64 of Some i \<Rightarrow> i | None \<Rightarrow> 0);
               str_of = (\<lambda>k. case Option.bind (obj_get obj k) as_str of Some s \<Rightarrow> s | None \<Rightarrow> []);
               props =
                 (case obj_get obj ''props'' of
                    Some nested_props \<Rightarrow> nested_props
                  | None \<Rightarrow>
                      JObj (filter (\<lambda>(key, value). key \<notin>
                        {''id'', ''elementId'', ''startId'', ''startElementId'', ''endId'',
                         ''endElementId'', ''type''}) obj))
           in jobj
                [(''Id'', json_int (int_of ''id'')),
                 (''ElementId'', JStr (str_of ''elementId'')),
                 (''StartId'', json_int (int_of ''startId'')),
                 (''StartElementId'', JStr (str_of ''startElementId'')),
                 (''EndId'', json_int (int_of ''endId'')),
                 (''EndElementId'', JStr (str_of ''endElementId'')),
                 (''Type'', JStr (str_of ''type'')),
                 (''Props'', props)]))"

definition bolt5_row :: "(string \<times> json) list \<Rightarrow> json" where
  \<comment> \<open>one iteration of the loop over \<open>data\<close> in the complex case\<close>
  "bolt5_row obj =
     jobj
       [(''Values'', JArr
          ((case obj_get obj ''node'' of
              Some node \<Rightarrow> [map_bolt4_to_bolt5_node node] | None \<Rightarrow> []) @
           (case obj_get obj ''relationships'' of
              Some relationships \<Rightarrow>
                [(case as_array relationships of
                    Some rel_array \<Rightarrow> JArr (map map_bolt4_to_bolt5_relationship rel_array)
                  | None \<Rightarrow> JArr [])]
            | None \<Rightarrow> []) @
           (case obj_get obj ''affiliatedNodes'' of
              Some affiliated_nodes \<Rightarrow>
                [(case as_array affiliated_nodes of
                    Some nodes_array \<Rightarrow> JArr (map map_bolt4_to_bolt5_node nodes_array)
                  | None \<Rightarrow> JArr [])]
            | None \<Rightarrow> []))),
        (''Keys'', JArr [JStr ''node'', JStr ''relationships'', JStr ''affiliatedNodes''])]"

definition map_bolt4_to_bolt5 :: "json list \<Rightarrow> json" where
  "map_bolt4_to_bolt5 data =
     (case data of
        [] \<Rightarrow> JArr []
      | first_item # _ \<Rightarrow>
          (let is_complex =
                 (case as_object first_item of
                    Some obj \<Rightarrow> has_key obj ''node'' \<or> has_key obj ''relationships'' \<or>
                                has_key obj ''affiliatedNodes''
                  | None \<Rightarrow> False)
           in if is_complex
              then JArr (map bolt5_row (List.map_filter as_object data))
              else (case as_object first_item of
                      Some obj \<Rightarrow>
                        (if has_key obj ''startId'' \<or> has_key obj ''type'' \<or> has_key obj ''Type''
                         then JArr (map map_bolt4_to_bolt5_relationship data)
                         else JArr (map map_bolt4_to_bolt5_node data))
                    | None \<Rightarrow> JArr data)))"

end
