(* ===== verification/Agent_Models.thy ===== *)
theory Agent_Models
  imports Json
begin

text \<open>
  \<open>agent/models.rs\<close>: the registry of the nodes and relationships of one domain generation,
  the decisions about a concept, the agents in execution order, the SSE events and the context
  that the agents share. Every operation of the registry and of the context is here, with the
  facts about lookup, counting and deduplication.
\<close>

subsection \<open>Statistics\<close>

record domain_statistics =
  domain_levels_created :: nat
  knowledge_created :: nat
  skills_created :: nat
  traits_created :: nat
  milestones_created :: nat
  relationships_created :: nat
  nodes_reused :: nat
  generation_time_ms :: nat

definition default_statistics :: domain_statistics where
  "default_statistics =
     \<lparr>domain_levels_created = 0, knowledge_created = 0, skills_created = 0, traits_created = 0,
      milestones_created = 0, relationships_created = 0, nodes_reused = 0, generation_time_ms = 0\<rparr>"

subsection \<open>The registry\<close>

record created_node =
  cn_name :: string
  cn_element_id :: string
  cn_label :: string
  cn_was_reused :: bool

definition CreatedNode_new :: "string \<Rightarrow> string \<Rightarrow> string \<Rightarrow> created_node" where
  "CreatedNode_new name element_id label =
     \<lparr>cn_name = name, cn_element_id = element_id, cn_label = label, cn_was_reused = False\<rparr>"

definition CreatedNode_reused :: "string \<Rightarrow> string \<Rightarrow> string \<Rightarrow> created_node" where
  "CreatedNode_reused name element_id label =
     \<lparr>cn_name = name, cn_element_id = element_id, cn_label = label, cn_was_reused = True\<rparr>"

record level_requirement =
  lr_level_id :: string
  lr_component_id :: string
  lr_component_name :: string
  lr_component_type :: string
  lr_proficiency :: "string option"

record generalization_link =
  gl_specific_id :: string
  gl_specific_name :: string
  gl_general_id :: string
  gl_general_name :: string
  gl_node_type :: string

record prerequisite_link =
  pl_source_id :: string
  pl_source_name :: string
  pl_target_id :: string
  pl_target_name :: string
  pl_relationship_type :: string

record registry =
  reg_domain :: "created_node option"
  reg_domain_levels :: "created_node list"
  reg_knowledge :: "created_node list"
  reg_skills :: "created_node list"
  reg_traits :: "created_node list"
  reg_milestones :: "created_node list"
  reg_level_requirements :: "level_requirement list"
  reg_generalizations :: "generalization_link list"
  reg_prerequisites :: "prerequisite_link list"

definition empty_registry :: registry where
  "empty_registry =
     \<lparr>reg_domain = None, reg_domain_levels = [], reg_knowledge = [], reg_skills = [],
      reg_traits = [], reg_milestones = [], reg_level_requirements = [],
      reg_generalizations = [], reg_prerequisites = []\<rparr>"

definition find_by_name :: "registry \<Rightarrow> string \<Rightarrow> created_node option" where
  "find_by_name g name =
     find (\<lambda>n. cn_name n = name)
       (reg_knowledge g @ reg_skills g @ reg_traits g @ reg_milestones g @ reg_domain_levels g)"

definition all_nodes :: "registry \<Rightarrow> created_node list" where
  "all_nodes g =
     (case reg_domain g of Some domain \<Rightarrow> [domain] | None \<Rightarrow> []) @
     reg_domain_levels g @ reg_knowledge g @ reg_skills g @ reg_traits g @ reg_milestones g"

definition find_by_id :: "registry \<Rightarrow> string \<Rightarrow> created_node option" where
  "find_by_id g element_id = find (\<lambda>n. cn_element_id n = element_id) (all_nodes g)"

definition count_created :: "registry \<Rightarrow> nat" where
  "count_created g = length (filter (\<lambda>n. \<not> cn_was_reused n) (all_nodes g))"

definition count_reused :: "registry \<Rightarrow> nat" where
  "count_reused g = length (filter cn_was_reused (all_nodes g))"

definition reg_add_level_requirement :: "registry \<Rightarrow> level_requirement \<Rightarrow> registry" where
  "reg_add_level_requirement g req =
     g\<lparr>reg_level_requirements := reg_level_requirements g @ [req]\<rparr>"

definition reg_add_generalization :: "registry \<Rightarrow> generalization_link \<Rightarrow> registry" where
  "reg_add_generalization g link = g\<lparr>reg_generalizations := reg_generalizations g @ [link]\<rparr>"

definition reg_add_prerequisite :: "registry \<Rightarrow> prerequisite_link \<Rightarrow> registry" where
  "reg_add_prerequisite g link = g\<lparr>reg_prerequisites := reg_prerequisites g @ [link]\<rparr>"

definition get_generalizations_for :: "registry \<Rightarrow> string \<Rightarrow> generalization_link list" where
  "get_generalizations_for g specific_id =
     filter (\<lambda>l. gl_specific_id l = specific_id) (reg_generalizations g)"

definition get_requirements_for_level :: "registry \<Rightarrow> string \<Rightarrow> level_requirement list" where
  "get_requirements_for_level g level_id =
     filter (\<lambda>r. lr_level_id r = level_id) (reg_level_requirements g)"

definition get_prerequisites_for :: "registry \<Rightarrow> string \<Rightarrow> prerequisite_link list" where
  "get_prerequisites_for g source_id =
     filter (\<lambda>p. pl_source_id p = source_id) (reg_prerequisites g)"

definition retain_ids :: "created_node list \<Rightarrow> created_node list" where
  \<comment> \<open>\<open>seen.clear(); v.retain(|n| seen.insert(n.element_id.clone()))\<close>\<close>
  "retain_ids ns = retain_first cn_element_id {} ns"

definition deduplicate :: "registry \<Rightarrow> registry" where
  "deduplicate g =
     g\<lparr>reg_knowledge := retain_ids (reg_knowledge g),
       reg_skills := retain_ids (reg_skills g),
       reg_traits := retain_ids (reg_traits g),
       reg_milestones := retain_ids (reg_milestones g),
       reg_domain_levels := retain_ids (reg_domain_levels g)\<rparr>"

subsection \<open>Decisions about a concept\<close>

datatype concept_action =
    CreateNew
  | UseExisting string  \<comment> \<open>\<open>element_id\<close>\<close>
  | CreateAndGeneralize string string bool
      \<comment> \<open>\<open>generalizes_to_id\<close>, \<open>generalizes_to_name\<close>, \<open>needs_creation\<close>\<close>

record verified_concept =
  vc_name :: string
  vc_action :: concept_action

definition vc_create_new :: "string \<Rightarrow> verified_concept" where
  "vc_create_new name = \<lparr>vc_name = name, vc_action = CreateNew\<rparr>"

definition vc_use_existing :: "string \<Rightarrow> string \<Rightarrow> verified_concept" where
  "vc_use_existing name element_id = \<lparr>vc_name = name, vc_action = UseExisting element_id\<rparr>"

definition vc_create_and_generalize ::
  "string \<Rightarrow> string \<Rightarrow> string \<Rightarrow> bool \<Rightarrow> verified_concept" where
  "vc_create_and_generalize name gid gname needs_creation =
     \<lparr>vc_name = name, vc_action = CreateAndGeneralize gid gname needs_creation\<rparr>"

lemmas vc_defs = vc_create_new_def vc_use_existing_def vc_create_and_generalize_def

subsection \<open>Agents\<close>

datatype agent_type =
    DomainArchitect | KnowledgeGenerator | SkillGenerator | TraitGenerator
  | MilestoneGenerator | LevelDistributor | PrerequisiteMapper

fun display_name :: "agent_type \<Rightarrow> string" where
  "display_name DomainArchitect = ''Domain Architect''"
| "display_name KnowledgeGenerator = ''Knowledge Generator''"
| "display_name SkillGenerator = ''Skill Generator''"
| "display_name TraitGenerator = ''Trait Generator''"
| "display_name MilestoneGenerator = ''Milestone Generator''"
| "display_name LevelDistributor = ''Level Distributor''"
| "display_name PrerequisiteMapper = ''Prerequisite Mapper''"

fun instruction_file :: "agent_type \<Rightarrow> string" where
  "instruction_file DomainArchitect = ''1_domain_architect.md''"
| "instruction_file KnowledgeGenerator = ''2a_knowledge_generator.md''"
| "instruction_file SkillGenerator = ''2b_skill_generator.md''"
| "instruction_file TraitGenerator = ''2c_trait_generator.md''"
| "instruction_file MilestoneGenerator = ''2d_milestone_generator.md''"
| "instruction_file LevelDistributor = ''3a_level_distributor.md''"
| "instruction_file PrerequisiteMapper = ''3b_prerequisite_mapper.md''"

fun agent_order :: "agent_type \<Rightarrow> nat" where
  "agent_order DomainArchitect = 1"
| "agent_order KnowledgeGenerator = 2"
| "agent_order SkillGenerator = 3"
| "agent_order TraitGenerator = 4"
| "agent_order MilestoneGenerator = 5"
| "agent_order LevelDistributor = 6"
| "agent_order PrerequisiteMapper = 7"

definition all_agents :: "agent_type list" where
  "all_agents =
     [DomainArchitect, KnowledgeGenerator, SkillGenerator, TraitGenerator,
      MilestoneGenerator, LevelDistributor, PrerequisiteMapper]"

text \<open>The agents are ordered by their number, so that the library's sorting applies to them.\<close>

instantiation agent_type :: linorder
begin

definition less_eq_agent_type :: "agent_type \<Rightarrow> agent_type \<Rightarrow> bool" where
  "less_eq_agent_type a b \<longleftrightarrow> agent_order a \<le> agent_order b"

definition less_agent_type :: "agent_type \<Rightarrow> agent_type \<Rightarrow> bool" where
  "less_agent_type a b \<longleftrightarrow> agent_order a < agent_order b"

instance
proof
  fix a b :: agent_type
  show "a \<le> b \<Longrightarrow> b \<le> a \<Longrightarrow> a = b"
    by (cases a; cases b) (simp_all add: less_eq_agent_type_def)
qed (auto simp: less_eq_agent_type_def less_agent_type_def)

end

lemma set_all_agents: "set all_agents = UNIV"
  using agent_type.exhaust by (auto simp: all_agents_def)

lemma all_agents_sorted: "sorted_wrt (<) all_agents"
  by (simp add: all_agents_def less_agent_type_def)

lemma all_agents_numbered: "map agent_order all_agents = [1..<8]"
  by (simp add: all_agents_def upt_rec)

subsection \<open>SSE events\<close>

datatype sse_event =
    Started string nat  \<comment> \<open>\<open>domain_name\<close>, \<open>total_agents\<close>\<close>
  | DomainExists string string  \<comment> \<open>\<open>requested_name\<close>, \<open>existing_domain\<close>\<close>
  | AgentStarted agent_type nat string  \<comment> \<open>\<open>agent\<close>, \<open>agent_number\<close>, \<open>agent_name\<close>\<close>
  | StepProgress agent_type string  \<comment> \<open>\<open>agent\<close>, \<open>message\<close>\<close>
  | SimilarityCheck agent_type string nat "f64 option"
      \<comment> \<open>\<open>agent\<close>, \<open>concept\<close>, \<open>similar_found\<close>, \<open>top_score\<close>\<close>
  | VerificationResult agent_type string string "string option"
      \<comment> \<open>\<open>agent\<close>, \<open>concept\<close>, \<open>decision\<close>, \<open>generalizes_to\<close>\<close>
  | NodeCreated agent_type string string bool
      \<comment> \<open>\<open>agent\<close>, \<open>node_name\<close>, \<open>label\<close>, \<open>was_reused\<close>\<close>
  | AgentCompleted agent_type nat nat  \<comment> \<open>\<open>agent\<close>, \<open>nodes_created\<close>, \<open>nodes_reused\<close>\<close>
  | AgentFailed agent_type string  \<comment> \<open>\<open>agent\<close>, \<open>error\<close>\<close>
  | Completed string domain_statistics  \<comment> \<open>\<open>domain_name\<close>, \<open>statistics\<close>\<close>
  | Failed string "agent_type option" "registry option"
      \<comment> \<open>\<open>error\<close>, \<open>last_agent\<close>, \<open>nodes_created_before_failure\<close>\<close>

subsection \<open>The context of a generation\<close>

record agent_context =
  ctx_domain_name :: string
  ctx_description :: "string option"
  ctx_domain_element_id :: "string option"
  ctx_graph :: registry

definition AgentContext_new :: "string \<Rightarrow> string option \<Rightarrow> agent_context" where
  "AgentContext_new domain_name description =
     \<lparr>ctx_domain_name = domain_name, ctx_description = description,
      ctx_domain_element_id = None, ctx_graph = empty_registry\<rparr>"

definition set_domain :: "agent_context \<Rightarrow> created_node \<Rightarrow> agent_context" where
  "set_domain c domain =
     c\<lparr>ctx_domain_element_id := Some (cn_element_id domain),
       ctx_graph := (ctx_graph c)\<lparr>reg_domain := Some domain\<rparr>\<rparr>"

definition add_domain_level :: "agent_context \<Rightarrow> created_node \<Rightarrow> agent_context" where
  "add_domain_level c n =
     c\<lparr>ctx_graph := (ctx_graph c)\<lparr>reg_domain_levels := reg_domain_levels (ctx_graph c) @ [n]\<rparr>\<rparr>"

definition add_knowledge :: "agent_context \<Rightarrow> created_node \<Rightarrow> agent_context" where
  "add_knowledge c n =
     c\<lparr>ctx_graph := (ctx_graph c)\<lparr>reg_knowledge := reg_knowledge (ctx_graph c) @ [n]\<rparr>\<rparr>"

definition add_skill :: "agent_context \<Rightarrow> created_node \<Rightarrow> agent_context" where
  "add_skill c n =
     c\<lparr>ctx_graph := (ctx_graph c)\<lparr>reg_skills := reg_skills (ctx_graph c) @ [n]\<rparr>\<rparr>"

definition add_trait :: "agent_context \<Rightarrow> created_node \<Rightarrow> agent_context" where
  "add_trait c n =
     c\<lparr>ctx_graph := (ctx_graph c)\<lparr>reg_traits := reg_traits (ctx_graph c) @ [n]\<rparr>\<rparr>"

definition add_milestone :: "agent_context \<Rightarrow> created_node \<Rightarrow> agent_context" where
  "add_milestone c n =
     c\<lparr>ctx_graph := (ctx_graph c)\<lparr>reg_milestones := reg_milestones (ctx_graph c) @ [n]\<rparr>\<rparr>"

definition add_level_requirement :: "agent_context \<Rightarrow> level_requirement \<Rightarrow> agent_context" where
  "add_level_requirement c req = c\<lparr>ctx_graph := reg_add_level_requirement (ctx_graph c) req\<rparr>"

definition add_generalization :: "agent_context \<Rightarrow> generalization_link \<Rightarrow> agent_context" where
  "add_generalization c link = c\<lparr>ctx_graph := reg_add_generalization (ctx_graph c) link\<rparr>"

definition add_prerequisite :: "agent_context \<Rightarrow> prerequisite_link \<Rightarrow> agent_context" where
  "add_prerequisite c link = c\<lparr>ctx_graph := reg_add_prerequisite (ctx_graph c) link\<rparr>"

lemmas context_defs = set_domain_def add_domain_level_def add_knowledge_def add_skill_def
  add_trait_def add_milestone_def add_level_requirement_def add_generalization_def
  add_prerequisite_def reg_add_level_requirement_def reg_add_generalization_def
  reg_add_prerequisite_def

subsection \<open>Facts about the registry\<close>

lemma retain_ids_distinct: "distinct (map cn_element_id (retain_ids ns))"
  by (simp add: retain_ids_def retain_first_distinct)

lemma retain_ids_keys: "cn_element_id ` set (retain_ids ns) = cn_element_id ` set ns"
  by (simp add: retain_ids_def retain_first_keys)

lemma retain_ids_find:
  "find (\<lambda>n. cn_element_id n = i) (retain_ids ns) = find (\<lambda>n. cn_element_id n = i) ns"
  by (simp add: retain_ids_def retain_first_find)

lemma retain_ids_idem: "retain_ids (retain_ids ns) = retain_ids ns"
  by (simp add: retain_ids_def retain_first_idem)

lemma find_append: "find P (xs @ ys) = (case find P xs of None \<Rightarrow> find P ys | Some x \<Rightarrow> Some x)"
  by (induction xs) auto

lemma count_partition: "count_created g + count_reused g = length (all_nodes g)"
  unfolding count_created_def count_reused_def
  using sum_length_filter_compl[of cn_was_reused "all_nodes g"] by simp

lemma all_nodes_deduplicate_find:
  "find (\<lambda>n. cn_element_id n = i) (all_nodes (deduplicate g)) = find (\<lambda>n. cn_element_id n = i) (all_nodes g)"
  by (simp add: all_nodes_def deduplicate_def find_append retain_ids_find cong: option.case_cong)

lemma deduplicate_find_by_id: "find_by_id (deduplicate g) i = find_by_id g i"
  by (simp add: find_by_id_def all_nodes_deduplicate_find)

lemma deduplicate_idem: "deduplicate (deduplicate g) = deduplicate g"
  by (simp add: deduplicate_def retain_ids_idem)

text \<open>
  What one step of the workflow may do to the registry: every list of the registry keeps what it
  has and grows at its end, and the domain node, once set, stays.
\<close>

definition registry_grows :: "registry \<Rightarrow> registry \<Rightarrow> bool" where
  "registry_grows g g' \<longleftrightarrow>
     (reg_domain g \<noteq> None \<longrightarrow> reg_domain g' \<noteq> None) \<and>
     prefix (reg_domain_levels g) (reg_domain_levels g') \<and>
     prefix (reg_knowledge g) (reg_knowledge g') \<and>
     prefix (reg_skills g) (reg_skills g') \<and>
     prefix (reg_traits g) (reg_traits g') \<and>
     prefix (reg_milestones g) (reg_milestones g') \<and>
     prefix (reg_level_requirements g) (reg_level_requirements g') \<and>
     prefix (reg_generalizations g) (reg_generalizations g') \<and>
     prefix (reg_prerequisites g) (reg_prerequisites g')"

definition context_grows :: "agent_context \<Rightarrow> agent_context \<Rightarrow> bool" where
  "context_grows c c' \<longleftrightarrow>
     ctx_domain_name c' = ctx_domain_name c \<and> ctx_description c' = ctx_description c \<and>
     registry_grows (ctx_graph c) (ctx_graph c')"

lemma context_grows_refl [simp, intro]: "context_grows c c"
  by (simp add: context_grows_def registry_grows_def)

lemma context_grows_trans: "context_grows a b \<Longrightarrow> context_grows b c \<Longrightarrow> context_grows a c"
  unfolding context_grows_def registry_grows_def by (auto intro: prefix_order.trans)

lemma context_grows_ops [intro]:
  "context_grows c (set_domain c n)"
  "context_grows c (add_domain_level c n)"
  "context_grows c (add_knowledge c n)"
  "context_grows c (add_skill c n)"
  "context_grows c (add_trait c n)"
  "context_grows c (add_milestone c n)"
  "context_grows c (add_level_requirement c r)"
  "context_grows c (add_generalization c l)"
  "context_grows c (add_prerequisite c p)"
  by (simp_all add: context_grows_def registry_grows_def context_defs)

end
