(* ===== verification/World.thy ===== *)
theory World
  imports Agent_Models
begin

text \<open>
  What the program talks to. The database (Neo4j through \<open>neo4rs\<close>), the HTTP services
  (embedding endpoint, LLM providers), the SQS queue, the environment variables, the clock and the
  text functions of third-party crates are not under src/: they are the fields of the record
  \<open>env\<close>, a parameter \<open>E\<close> of every definition that uses them. A service answers as an
  arbitrary function of everything issued before, so it may keep any state and fail at any time.

  An effect is one request to the outside; the history of a program is the list of its effects.
\<close>

subsection \<open>Requests and answers\<close>

record query =
  q_text :: string
  q_params :: "(string \<times> bolt) list"

record row =
  \<comment> \<open>\<open>row.get::<T>(column)\<close> for the types the code asks for; \<open>None\<close> is its error\<close>
  col_string :: "string \<Rightarrow> string option"
  col_f64 :: "string \<Rightarrow> f64 option"
  col_i64 :: "string \<Rightarrow> int option"
  col_value :: "string \<Rightarrow> json option"

type_synonym row_stream = "(string + row) list"
  \<comment> \<open>what the calls of \<open>next()\<close> give, in order; \<open>Inl\<close> is an error, the end is \<open>Ok(None)\<close>\<close>

datatype http_method = GET | POST

record http_request =
  hr_method :: http_method
  hr_url :: string
  hr_headers :: "(string \<times> string) list"
  hr_body :: "json option"

datatype http_result =
    HttpError bool string  \<comment> \<open>\<open>is_timeout()\<close> and the text of the error\<close>
  | HttpResponse nat "string option"  \<comment> \<open>status and body; \<open>None\<close>: the body cannot be read\<close>

datatype effect =
    DbExecute query
  | DbRun query
  | Http http_request
  | SqsSend string string  \<comment> \<open>queue URL and message body\<close>
  | Emit sse_event
  | ReadClock
  | ReadInstant
  | ReadRandom

type_synonym ('e, 'a) action = "(effect, 'e, 'a) prog"

record env =
  env_var :: "string \<Rightarrow> string option"
  db_execute :: "effect list \<Rightarrow> query \<Rightarrow> string + row_stream"
  db_run :: "effect list \<Rightarrow> query \<Rightarrow> string option"  \<comment> \<open>\<open>Some\<close> is the text of the error\<close>
  http_send :: "effect list \<Rightarrow> http_request \<Rightarrow> http_result"
  sqs_send :: "effect list \<Rightarrow> string \<Rightarrow> string \<Rightarrow> string option"
  client_error :: "string option"  \<comment> \<open>the error of \<open>Client::builder().timeout(_).build()\<close>\<close>
  unix_nanos :: "effect list \<Rightarrow> nat option"  \<comment> \<open>\<open>None\<close>: the clock is before the epoch\<close>
  instant_ms :: "effect list \<Rightarrow> nat"  \<comment> \<open>the monotonic clock of \<open>Instant\<close>\<close>
  random_bytes :: "effect list \<Rightarrow> string"
  json_parse :: "string \<Rightarrow> string + json"  \<comment> \<open>\<open>serde_json::from_str::<Value>\<close>\<close>
  json_print :: "json \<Rightarrow> string"  \<comment> \<open>\<open>serde_json::to_string\<close>\<close>
  serde_error :: "string \<Rightarrow> string"  \<comment> \<open>the text of the error for JSON of another shape\<close>
  body_error :: "string option \<Rightarrow> string"  \<comment> \<open>the text of \<open>reqwest\<close>'s error for such a body\<close>
  status_text :: "nat \<Rightarrow> string"  \<comment> \<open>\<open>StatusCode\<close>'s \<open>Display\<close>\<close>
  f64_text :: "f64 \<Rightarrow> string"  \<comment> \<open>\<open>format!("{}", x)\<close>, the shortest text that reads back\<close>
  debug_str :: "string \<Rightarrow> string"  \<comment> \<open>\<open>format!("{:?}", s)\<close>\<close>
  to_lowercase :: "string \<Rightarrow> string"
  is_alphanumeric :: "string \<Rightarrow> bool"  \<comment> \<open>of one character, by its encoding\<close>

subsection \<open>Calls\<close>

definition sum_outcome :: "'e + 'a \<Rightarrow> ('e, 'a) outcome" where
  "sum_outcome r = (case r of Inl e \<Rightarrow> Err e | Inr x \<Rightarrow> Ok x)"

definition graph_execute :: "env \<Rightarrow> query \<Rightarrow> (string, row_stream) action" where
  "graph_execute E q = issue (DbExecute q) (\<lambda>h. sum_outcome (db_execute E h q))"

definition graph_run :: "env \<Rightarrow> query \<Rightarrow> (string, unit) action" where
  "graph_run E q =
     issue (DbRun q) (\<lambda>h. case db_run E h q of Some e \<Rightarrow> Err e | None \<Rightarrow> Ok ())"

definition http_call :: "env \<Rightarrow> http_request \<Rightarrow> ('e, http_result) action" where
  "http_call E r = issue (Http r) (\<lambda>h. Ok (http_send E h r))"

definition send_message :: "env \<Rightarrow> string \<Rightarrow> string \<Rightarrow> (string, unit) action" where
  "send_message E url body =
     issue (SqsSend url body)
       (\<lambda>h. case sqs_send E h url body of Some e \<Rightarrow> Err e | None \<Rightarrow> Ok ())"

definition emit_event :: "sse_event \<Rightarrow> ('e, unit) action" where
  \<comment> \<open>a closed channel is only logged\<close>
  "emit_event ev = issue (Emit ev) (\<lambda>h. Ok ())"

definition read_clock :: "env \<Rightarrow> ('e, nat option) action" where
  "read_clock E = issue ReadClock (\<lambda>h. Ok (unix_nanos E h))"

definition read_instant :: "env \<Rightarrow> ('e, nat) action" where
  "read_instant E = issue ReadInstant (\<lambda>h. Ok (instant_ms E h))"

definition read_random :: "env \<Rightarrow> ('e, string) action" where
  "read_random E = issue ReadRandom (\<lambda>h. Ok (random_bytes E h))"

subsection \<open>Rows\<close>

definition next_row :: "row_stream \<Rightarrow> (string, row option) outcome" where
  "next_row s = (case s of [] \<Rightarrow> Ok None | Inl e # _ \<Rightarrow> Err e | Inr r # _ \<Rightarrow> Ok (Some r))"

definition first_row :: "row_stream \<Rightarrow> row option" where
  \<comment> \<open>\<open>if let Ok(Some(row)) = result.next().await\<close>\<close>
  "first_row s = (case s of Inr r # _ \<Rightarrow> Some r | _ \<Rightarrow> None)"

fun rows_until_error :: "row_stream \<Rightarrow> row list" where
  \<comment> \<open>\<open>while let Ok(Some(row)) = result.next().await\<close>\<close>
  "rows_until_error (Inr r # s) = r # rows_until_error s"
| "rows_until_error _ = []"

fun all_rows :: "row_stream \<Rightarrow> (string, row list) outcome" where
  \<comment> \<open>\<open>while let Some(row) = result.next().await?\<close>\<close>
  "all_rows [] = Ok []"
| "all_rows (Inl e # s) = Err e"
| "all_rows (Inr r # s) = and_then (all_rows s) (\<lambda>rs. Ok (r # rs))"

definition string_or_default :: "row \<Rightarrow> string \<Rightarrow> string" where
  "string_or_default r k = (case col_string r k of Some s \<Rightarrow> s | None \<Rightarrow> [])"

definition value_or :: "json \<Rightarrow> row \<Rightarrow> string \<Rightarrow> json" where
  "value_or d r k = (case col_value r k of Some v \<Rightarrow> v | None \<Rightarrow> d)"

lemma all_rows_no_panic [simp]: "all_rows s \<noteq> Panic"
  by (induction s rule: all_rows.induct) (auto simp: and_then_eq_Panic)

lemma all_rows_Ok_iff: "all_rows s = Ok rs \<longleftrightarrow> s = map Inr rs"
  by (induction s arbitrary: rs rule: all_rows.induct) (auto simp: and_then_eq_Ok Cons_eq_map_conv)

subsection \<open>Deserialisation as serde derives it\<close>

definition parse_value :: "env \<Rightarrow> string \<Rightarrow> (string, json) outcome" where
  "parse_value E s = sum_outcome (json_parse E s)"

definition from_str :: "env \<Rightarrow> (json \<Rightarrow> 'a option) \<Rightarrow> string \<Rightarrow> (string, 'a) outcome" where
  "from_str E de s = and_then (parse_value E s) (\<lambda>v. ok_or (serde_error E s) (de v))"

fun de_string :: "json \<Rightarrow> string option" where
  "de_string (JStr s) = Some s"
| "de_string _ = None"

definition de_unsigned :: "nat \<Rightarrow> json \<Rightarrow> nat option" where
  \<comment> \<open>an unsigned integer of the given width\<close>
  "de_unsigned w v = (case v of JNum (PosInt n) \<Rightarrow> if n < 2 ^ w then Some n else None | _ \<Rightarrow> None)"

fun de_f64 :: "json \<Rightarrow> f64 option" where
  "de_f64 (JNum n) = as_f64 (JNum n)"
| "de_f64 _ = None"

primrec option_all :: "'a option list \<Rightarrow> 'a list option" where
  "option_all [] = Some []"
| "option_all (x # xs) = (case x of None \<Rightarrow> None | Some y \<Rightarrow> map_option (Cons y) (option_all xs))"

definition de_vec :: "(json \<Rightarrow> 'a option) \<Rightarrow> json \<Rightarrow> 'a list option" where
  "de_vec de v = (case v of JArr xs \<Rightarrow> option_all (map de xs) | _ \<Rightarrow> None)"

definition de_field :: "string \<Rightarrow> (json \<Rightarrow> 'a option) \<Rightarrow> json \<Rightarrow> 'a option" where
  \<comment> \<open>a field that must be there\<close>
  "de_field k de v = Option.bind (jget v k) de"

definition de_option :: "string \<Rightarrow> (json \<Rightarrow> 'a option) \<Rightarrow> json \<Rightarrow> 'a option option" where
  \<comment> \<open>a field of an \<open>Option\<close> type: missing or \<open>null\<close> is \<open>None\<close>\<close>
  "de_option k de v =
     (case jget v k of None \<Rightarrow> Some None | Some JNull \<Rightarrow> Some None | Some w \<Rightarrow> map_option Some (de w))"

definition json_opt :: "('a \<Rightarrow> json) \<Rightarrow> 'a option \<Rightarrow> json" where
  "json_opt f x = (case x of None \<Rightarrow> JNull | Some y \<Rightarrow> f y)"

lemma option_all_map_Some [simp]: "option_all (map (\<lambda>x. Some (f x)) xs) = Some (map f xs)"
  by (induction xs) auto

lemma option_all_eq_Some: "option_all xs = Some ys \<longleftrightarrow> xs = map Some ys"
  by (induction xs arbitrary: ys) (auto simp: Cons_eq_map_conv split: option.splits)

lemma from_str_no_panic [simp]: "from_str E de s \<noteq> Panic"
  by (auto simp: from_str_def and_then_eq_Panic parse_value_def sum_outcome_def split: sum.splits)

subsection \<open>Rules\<close>

lemma emits_calls [prog_rules]:
  "P (DbExecute q) \<Longrightarrow> emits P (graph_execute E q)"
  "P (DbRun q) \<Longrightarrow> emits P (graph_run E q)"
  "P (Http r) \<Longrightarrow> emits P (http_call E r)"
  "P (SqsSend url body) \<Longrightarrow> emits P (send_message E url body)"
  "P (Emit ev) \<Longrightarrow> emits P (emit_event ev)"
  "P ReadClock \<Longrightarrow> emits P (read_clock E)"
  "P ReadInstant \<Longrightarrow> emits P (read_instant E)"
  "P ReadRandom \<Longrightarrow> emits P (read_random E)"
  by (simp_all add: read_instant_def graph_execute_def graph_run_def http_call_def send_message_def
      emit_event_def read_clock_def read_random_def emits_issue)

lemma no_panic_calls [prog_rules]:
  "no_panic (graph_execute E q)"
  "no_panic (graph_run E q)"
  "no_panic (http_call E r)"
  "no_panic (send_message E url body)"
  "no_panic (emit_event ev)"
  "no_panic (read_clock E)"
  "no_panic (read_instant E)"
  "no_panic (read_random E)"
  by (auto simp: read_instant_def graph_execute_def graph_run_def http_call_def send_message_def emit_event_def
      read_clock_def read_random_def sum_outcome_def intro!: no_panic_issue
      split: option.splits sum.splits)

lemma never_fails_calls [prog_rules]:
  "never_fails (http_call E r)"
  "never_fails (emit_event ev)"
  "never_fails (read_clock E)"
  "never_fails (read_instant E)"
  "never_fails (read_random E)"
  by (simp_all add: read_instant_def never_fails_def http_call_def emit_event_def read_clock_def read_random_def issue_def)

lemma call_runs [prog_simps]:
  "graph_execute E q h = (sum_outcome (db_execute E h q), h @ [DbExecute q])"
  "graph_run E q h = (case db_run E h q of Some e \<Rightarrow> Err e | None \<Rightarrow> Ok (), h @ [DbRun q])"
  "http_call E r h = (Ok (http_send E h r), h @ [Http r])"
  "send_message E url body h =
     (case sqs_send E h url body of Some e \<Rightarrow> Err e | None \<Rightarrow> Ok (), h @ [SqsSend url body])"
  "emit_event ev h = (Ok (), h @ [Emit ev])"
  "read_clock E h = (Ok (unix_nanos E h), h @ [ReadClock])"
  "read_instant E h = (Ok (instant_ms E h), h @ [ReadInstant])"
  "read_random E h = (Ok (random_bytes E h), h @ [ReadRandom])"
  by (simp_all add: read_instant_def graph_execute_def graph_run_def http_call_def send_message_def
      emit_event_def read_clock_def read_random_def issue_def)

text \<open>The effects that reach the database.\<close>

fun is_db :: "effect \<Rightarrow> bool" where
  "is_db (DbExecute q) = True"
| "is_db (DbRun q) = True"
| "is_db _ = False"

fun is_emit :: "effect \<Rightarrow> bool" where
  "is_emit (Emit ev) = True"
| "is_emit _ = False"

fun db_query :: "effect \<Rightarrow> query option" where
  "db_query (DbExecute q) = Some q"
| "db_query (DbRun q) = Some q"
| "db_query _ = None"

definition event_of :: "effect \<Rightarrow> sse_event option" where
  "event_of f = (case f of Emit ev \<Rightarrow> Some ev | _ \<Rightarrow> None)"

definition events :: "effect list \<Rightarrow> sse_event list" where
  \<comment> \<open>the SSE stream the client has received\<close>
  "events h = List.map_filter event_of h"

end
