(* ===== verification/Services.thy ===== *)
theory Services
  imports World
begin

text \<open>
  The clients of the services that both programs use: the embedding endpoint
  (\<open>common/embedding.rs\<close> of the API, \<open>services/embedding.rs\<close> of the worker) and the vector
  search (\<open>common/similarity.rs\<close>, \<open>services/similarity.rs\<close>). The two copies differ in their
  error types only: the API boxes a text, the worker keeps an enum.
\<close>

subsection \<open>HTTP with JSON bodies\<close>

definition is_success :: "nat \<Rightarrow> bool" where
  "is_success status = (200 \<le> status \<and> status < 300)"

definition post_json :: "string \<Rightarrow> (string \<times> string) list \<Rightarrow> json \<Rightarrow> http_request" where
  "post_json url headers body =
     \<lparr>hr_method = POST, hr_url = url, hr_headers = headers, hr_body = Some body\<rparr>"

definition json_body :: "env \<Rightarrow> (json \<Rightarrow> 'a option) \<Rightarrow> string option \<Rightarrow> (string, 'a) outcome" where
  \<comment> \<open>\<open>response.json().await\<close>\<close>
  "json_body E de body =
     (case body of
        None \<Rightarrow> Err (body_error E None)
      | Some s \<Rightarrow> map_err_outcome (\<lambda>e. body_error E (Some s)) (from_str E de s))"

lemma json_body_no_panic [simp]: "json_body E de b \<noteq> Panic"
proof -
  have "map_err_outcome f (from_str E de s) \<noteq> Panic" for f :: "string \<Rightarrow> string" and s
    using from_str_no_panic[of E de s] by (cases "from_str E de s") auto
  then show ?thesis by (simp add: json_body_def split: option.split)
qed

subsection \<open>Embeddings\<close>

definition de_embedding_response :: "json \<Rightarrow> f64 list list list option" where
  \<comment> \<open>\<open>EmbeddingResponse\<close>: an array of objects with a field \<open>embedding\<close>\<close>
  "de_embedding_response = de_vec (de_field ''embedding'' (de_vec (de_vec de_f64)))"

definition embedding_request :: "string \<Rightarrow> json" where
  "embedding_request content = JObj [(''content'', JStr content)]"

definition first_embedding :: "f64 list list list \<Rightarrow> f64 list option" where
  "first_embedding r = (case r of (e # _) # _ \<Rightarrow> Some e | _ \<Rightarrow> None)"

definition generate_embedding :: "env \<Rightarrow> string \<Rightarrow> (string, f64 list) action" where
  "generate_embedding E text_to_embed =
     bind (lift_outcome (ok_or ''EMBEDDING_ENDPOINT environment variable not set''
             (env_var E ''EMBEDDING_ENDPOINT''))) (\<lambda>embedding_endpoint.
     bind (http_call E (post_json embedding_endpoint [(''Content-Type'', ''application/json'')]
             (embedding_request text_to_embed))) (\<lambda>response.
     case response of
       HttpError timeout e \<Rightarrow> fail e
     | HttpResponse status body \<Rightarrow>
         (if \<not> is_success status
          then fail (''Embedding endpoint returned status: '' @ status_text E status)
          else bind (lift_outcome (json_body E de_embedding_response body)) (\<lambda>embedding_response.
               case first_embedding embedding_response of
                 None \<Rightarrow> fail ''Invalid embedding response''
               | Some e \<Rightarrow> ret e))))"

datatype embedding_error =
    EmbNotConfigured string
  | EmbConnectionFailed string
  | EmbRequestFailed string
  | EmbParseError string
  | EmbInvalidResponse string

fun embedding_error_text :: "embedding_error \<Rightarrow> string" where
  "embedding_error_text (EmbNotConfigured m) = ''Not configured: '' @ m"
| "embedding_error_text (EmbConnectionFailed m) = ''Connection failed: '' @ m"
| "embedding_error_text (EmbRequestFailed m) = ''Request failed: '' @ m"
| "embedding_error_text (EmbParseError m) = ''Parse error: '' @ m"
| "embedding_error_text (EmbInvalidResponse m) = ''Invalid response: '' @ m"

definition worker_generate_embedding :: "env \<Rightarrow> string \<Rightarrow> (embedding_error, f64 list) action" where
  "worker_generate_embedding E text_to_embed =
     bind (lift_outcome (ok_or (EmbNotConfigured ''EMBEDDING_ENDPOINT environment variable not set'')
             (env_var E ''EMBEDDING_ENDPOINT''))) (\<lambda>embedding_endpoint.
     bind (http_call E (post_json embedding_endpoint [(''Content-Type'', ''application/json'')]
             (embedding_request text_to_embed))) (\<lambda>response.
     case response of
       HttpError timeout e \<Rightarrow> fail (EmbConnectionFailed e)
     | HttpResponse status body \<Rightarrow>
         (if \<not> is_success status
          then fail (EmbRequestFailed (''Status: '' @ status_text E status))
          else bind (map_err EmbParseError (lift_outcome (json_body E de_embedding_response body)))
               (\<lambda>embedding_response.
               case first_embedding embedding_response of
                 None \<Rightarrow> fail (EmbInvalidResponse ''Empty embedding response'')
               | Some e \<Rightarrow> ret e))))"

text \<open>An embedding call issues HTTP requests only, at most one, and does not panic.\<close>

fun is_http :: "effect \<Rightarrow> bool" where
  "is_http (Http r) = True"
| "is_http _ = False"

lemma emits_generate_embedding:
  assumes "\<And>r. P (Http r)"
  shows "emits P (generate_embedding E s)" "emits P (worker_generate_embedding E s)"
  unfolding generate_embedding_def worker_generate_embedding_def
  by (auto intro!: prog_rules assms split: http_result.split option.split)

lemma no_panic_generate_embedding [prog_rules]:
  "no_panic (generate_embedding E s)" "no_panic (worker_generate_embedding E s)"
  unfolding generate_embedding_def worker_generate_embedding_def
  by (auto intro!: prog_rules split: http_result.split option.split)

subsection \<open>Vector search\<close>

record find_similar_request =
  fs_node_id :: "string option"
  fs_embedding :: "f64 list option"
  fs_text :: "string option"
  fs_label :: "string option"
  fs_limit :: "int option"

definition default_similar_request :: find_similar_request where
  "default_similar_request =
     \<lparr>fs_node_id = None, fs_embedding = None, fs_text = None, fs_label = None, fs_limit = None\<rparr>"

record similar_node =
  sn_name :: string
  sn_description :: "string option"
  sn_id :: string
  sn_score :: f64

definition build_node_id_query :: "string option \<Rightarrow> string" where
  "build_node_id_query label =
     (let label_filter = (case label of Some l \<Rightarrow> '' AND node:'' @ l | None \<Rightarrow> [])
      in text_lines
     [[],
      ''        MATCH (n)'',
      ''        WHERE elementId(n) = $nodeId'',
      ''        CALL db.index.vector.queryNodes('nodeEmbeddings', $limit, n.embedding)'',
      ''        YIELD node, score'',
      ''        WHERE elementId(node) <> $nodeId'' @ label_filter,
      ''        RETURN node.name as name, node.description as description, elementId(node) as id, score'',
      ''        ORDER BY score DESC'',
      ''        ''])"

definition build_embedding_query :: "string option \<Rightarrow> string" where
  "build_embedding_query label =
     (let label_filter = (case label of Some l \<Rightarrow> ''WHERE node:'' @ l @ nl @ ''            '' | None \<Rightarrow> [])
      in text_lines
     [[],
      ''        CALL db.index.vector.queryNodes('nodeEmbeddings', $limit, $embedding)'',
      ''        YIELD node, score'',
      ''        '' @ label_filter @ ''RETURN node.name as name, node.description as description, elementId(node) as id, score'',
      ''        ORDER BY score DESC'',
      ''        ''])"

definition similar_of_row :: "row \<Rightarrow> similar_node" where
  "similar_of_row r =
     \<lparr>sn_name = string_or_default r ''name'', sn_description = col_string r ''description'',
      sn_id = string_or_default r ''id'',
      sn_score = (case col_f64 r ''score'' of Some s \<Rightarrow> s | None \<Rightarrow> f64_zero)\<rparr>"

definition execute_similarity_query ::
  "env \<Rightarrow> string \<Rightarrow> (string \<times> bolt) list \<Rightarrow> (string, similar_node list) action" where
  "execute_similarity_query E query_str params =
     bind (graph_execute E \<lparr>q_text = query_str, q_params = params\<rparr>) (\<lambda>result.
     bind (lift_outcome (all_rows result)) (\<lambda>rows.
     ret (map similar_of_row rows)))"

definition embedding_params :: "f64 list \<Rightarrow> int \<Rightarrow> (string \<times> bolt) list" where
  "embedding_params embedding limit =
     [(''embedding'', BList (map BFloat embedding)), (''limit'', BInt limit)]"

definition find_similar_nodes ::
  "env \<Rightarrow> find_similar_request \<Rightarrow> (string, similar_node list) action" where
  "find_similar_nodes E request =
     (let limit = (case fs_limit request of Some l \<Rightarrow> l | None \<Rightarrow> 5);
          label = fs_label request
      in case fs_node_id request of
           Some node_id \<Rightarrow>
             execute_similarity_query E (build_node_id_query label)
               [(''nodeId'', BStr node_id), (''limit'', BInt limit)]
         | None \<Rightarrow>
         (case fs_embedding request of
           Some embedding \<Rightarrow>
             execute_similarity_query E (build_embedding_query label) (embedding_params embedding limit)
         | None \<Rightarrow>
         (case fs_text request of
           Some text \<Rightarrow>
             bind (generate_embedding E text) (\<lambda>embedding.
             execute_similarity_query E (build_embedding_query label) (embedding_params embedding limit))
         | None \<Rightarrow> fail ''Either node_id, embedding, or text must be provided'')))"

datatype similarity_error =
    SimEmbeddingFailed string
  | SimQueryFailed string
  | SimInvalidRequest string

fun similarity_error_text :: "similarity_error \<Rightarrow> string" where
  "similarity_error_text (SimEmbeddingFailed m) = ''Embedding generation failed: '' @ m"
| "similarity_error_text (SimQueryFailed m) = ''Query failed: '' @ m"
| "similarity_error_text (SimInvalidRequest m) = ''Invalid request: '' @ m"

definition worker_build_node_id_query :: "string option \<Rightarrow> string" where
  "worker_build_node_id_query label =
     (let label_filter = (case label of Some l \<Rightarrow> '' AND node:'' @ l | None \<Rightarrow> [])
      in text_lines
     [[],
      ''        MATCH (n)'',
      ''        WHERE elementId(n) = $nodeId'',
      ''        CALL db.index.vector.queryNodes('nodeEmbeddings', $limit, n.embedding)'',
      ''        YIELD node, score'',
      ''        WHERE elementId(node) <> $nodeId'' @ label_filter,
      ''        RETURN node.name as name, node.description as description, elementId(node) as id, score'',
      ''        ORDER BY score DESC'',
      ''        ''])"

definition worker_build_embedding_query :: "string option \<Rightarrow> string" where
  "worker_build_embedding_query label =
     (let label_filter = (case label of Some l \<Rightarrow> ''WHERE node:'' @ l @ nl @ ''            '' | None \<Rightarrow> [])
      in text_lines
     [[],
      ''        CALL db.index.vector.queryNodes('nodeEmbeddings', $limit, $embedding)'',
      ''        YIELD node, score'',
      ''        '' @ label_filter @ ''RETURN node.name as name, node.description as description, elementId(node) as id, score'',
      ''        ORDER BY score DESC'',
      ''        ''])"

definition worker_execute_similarity_query ::
  "env \<Rightarrow> string \<Rightarrow> (string \<times> bolt) list \<Rightarrow> (similarity_error, similar_node list) action" where
  "worker_execute_similarity_query E query_str params =
     bind (map_err SimQueryFailed (graph_execute E \<lparr>q_text = query_str, q_params = params\<rparr>)) (\<lambda>result.
     bind (map_err SimQueryFailed (lift_outcome (all_rows result))) (\<lambda>rows.
     ret (map similar_of_row rows)))"

definition worker_find_similar_nodes ::
  "env \<Rightarrow> find_similar_request \<Rightarrow> (similarity_error, similar_node list) action" where
  "worker_find_similar_nodes E request =
     (let limit = (case fs_limit request of Some l \<Rightarrow> l | None \<Rightarrow> 5);
          label = fs_label request
      in case fs_node_id request of
           Some node_id \<Rightarrow>
             worker_execute_similarity_query E (worker_build_node_id_query label)
               [(''nodeId'', BStr node_id), (''limit'', BInt limit)]
         | None \<Rightarrow>
         (case fs_embedding request of
           Some embedding \<Rightarrow>
             worker_execute_similarity_query E (worker_build_embedding_query label)
               (embedding_params embedding limit)
         | None \<Rightarrow>
         (case fs_text request of
           Some text \<Rightarrow>
             bind (map_err (\<lambda>e. SimEmbeddingFailed (embedding_error_text e))
                     (worker_generate_embedding E text)) (\<lambda>embedding.
             worker_execute_similarity_query E (worker_build_embedding_query label)
               (embedding_params embedding limit))
         | None \<Rightarrow>
             fail (SimInvalidRequest ''Either node_id, embedding, or text must be provided''))))"

definition find_similar_by_text ::
  "env \<Rightarrow> string \<Rightarrow> string option \<Rightarrow> int \<Rightarrow> (similarity_error, similar_node list) action" where
  "find_similar_by_text E text label limit =
     worker_find_similar_nodes E
       (default_similar_request\<lparr>fs_text := Some text, fs_label := label, fs_limit := Some limit\<rparr>)"

text \<open>The worker's copies send the same requests and read the same answers as the API's: they differ
  in their errors only.\<close>

lemma worker_queries [simp]:
  "worker_build_node_id_query = build_node_id_query"
  "worker_build_embedding_query = build_embedding_query"
  by (rule ext; simp add: worker_build_node_id_query_def build_node_id_query_def
      worker_build_embedding_query_def build_embedding_query_def)+

lemma worker_execute_similarity_query:
  "worker_execute_similarity_query E q ps = map_err SimQueryFailed (execute_similarity_query E q ps)"
  unfolding worker_execute_similarity_query_def execute_similarity_query_def
  by (simp add: map_err_bind map_err_simps)

lemma forget_worker_embedding: "forget (worker_generate_embedding E s) = forget (generate_embedding E s)"
  by (rule ext)
    (auto simp: forget_def generate_embedding_def worker_generate_embedding_def map_err_def bind_def
      lift_outcome_def call_runs fail_def ret_def ok_or_def
      split: option.split http_result.split outcome.splits)

lemma forget_worker_search:
  "forget (worker_find_similar_nodes E r) = forget (find_similar_nodes E r)"
  unfolding worker_find_similar_nodes_def find_similar_nodes_def Let_def worker_execute_similarity_query
  by (simp add: forget_simps forget_worker_embedding split: option.split)

text \<open>The vector search sends one of its two queries and never writes.\<close>

definition is_search_query :: "query \<Rightarrow> bool" where
  "is_search_query q \<longleftrightarrow>
     (\<exists>label. q_text q = build_node_id_query label \<or> q_text q = build_embedding_query label)"

fun search_effect :: "effect \<Rightarrow> bool" where
  "search_effect (Http r) = True"
| "search_effect (DbExecute q) = is_search_query q"
| "search_effect _ = False"

lemma emits_execute_similarity:
  "P (DbExecute \<lparr>q_text = s, q_params = p\<rparr>) \<Longrightarrow> emits P (execute_similarity_query E s p)"
  unfolding execute_similarity_query_def by (intro prog_rules)

lemma search_effect_query [simp]:
  "is_search_query \<lparr>q_text = build_node_id_query l, q_params = p\<rparr>"
  "is_search_query \<lparr>q_text = build_embedding_query l, q_params = p\<rparr>"
  by (auto simp: is_search_query_def)

lemma emits_find_similar_nodes:
  "emits search_effect (find_similar_nodes E r)"
  "emits search_effect (worker_find_similar_nodes E r)"
  unfolding find_similar_nodes_def worker_find_similar_nodes_def Let_def worker_execute_similarity_query
  by (auto intro!: prog_rules emits_execute_similarity emits_generate_embedding split: option.split)

lemma no_panic_find_similar_nodes [prog_rules]:
  "no_panic (find_similar_nodes E r)"
  "no_panic (worker_find_similar_nodes E r)"
  unfolding find_similar_nodes_def worker_find_similar_nodes_def Let_def
    worker_execute_similarity_query execute_similarity_query_def
  by (auto intro!: prog_rules split: option.split)

end
