(* ===== verification/Graph_Models.thy ===== *)
theory Graph_Models
  imports Services "HOL-Library.AList"
begin

text \<open>
  \<open>graph/models.rs\<close>: the errors of the graph services, the requests and the results.

  A \<open>HashMap\<close> is the association list of its entries in its iteration order, with
  \<open>AList.update\<close> for \<open>insert\<close>; no key occurs twice. The order itself is arbitrary: every
  statement holds for all of them.
\<close>

type_synonym 'v hash_map = "(string \<times> 'v) list"

datatype service_error =
    DatabaseError string
  | EmbeddingFailed string
  | SimilarNodeExists f64 string  \<comment> \<open>score and details\<close>
  | NotFound string
  | ValidationError string

fun service_error_text :: "env \<Rightarrow> service_error \<Rightarrow> string" where
  "service_error_text E (DatabaseError msg) = ''Database error: '' @ msg"
| "service_error_text E (EmbeddingFailed msg) = ''Embedding failed: '' @ msg"
| "service_error_text E (SimilarNodeExists score details) =
     ''Similar node exists (score: '' @ f64_text E score @ ''): '' @ details"
| "service_error_text E (NotFound msg) = ''Not found: '' @ msg"
| "service_error_text E (ValidationError msg) = ''Validation error: '' @ msg"

definition db_error :: "string \<Rightarrow> service_error" where
  "db_error e = DatabaseError (''Database error: '' @ e)"

subsection \<open>Nodes and relationships\<close>

record create_node_request =
  cnr_labels :: "string list"
  cnr_properties :: "json hash_map"

record create_node_result =
  nres_element_id :: string
  nres_name :: string
  nres_labels :: "string list"

record node_with_relationships =
  nwr_node :: json
  nwr_relationships :: json
  nwr_affiliated_nodes :: json

record update_node_request =
  unr_target_id :: string
  unr_labels :: "string list option"
  unr_properties :: "json hash_map option"

record create_relationship_request =
  crr_source_id :: string
  crr_target_id :: string
  crr_type :: string
  crr_properties :: "json hash_map option"

record create_relationship_result =
  rres_element_id :: string
  rres_type :: string
  rres_source_id :: string
  rres_target_id :: string

record update_relationship_request =
  urr_target_id :: string
  urr_type :: string
  urr_properties :: "json hash_map option"

subsection \<open>Domains\<close>

record new_node_data =
  nd_name :: string
  nd_description :: string
  nd_how_to_learn :: "string option"
  nd_how_to_develop :: "string option"
  nd_measurement_criteria :: "string option"
  nd_how_to_achieve :: "string option"

record knowledge_requirement =
  kr_node_element_id :: "string option"
  kr_new_node :: "new_node_data option"
  kr_bloom_level :: string

record skill_requirement =
  sr_node_element_id :: "string option"
  sr_new_node :: "new_node_data option"
  sr_dreyfus_level :: string

record trait_requirement =
  tr_node_element_id :: "string option"
  tr_new_node :: "new_node_data option"
  tr_min_score :: int

record milestone_requirement =
  mr_node_element_id :: "string option"
  mr_new_node :: "new_node_data option"

record level_requirements =
  lreq_knowledge :: "knowledge_requirement list"
  lreq_skills :: "skill_requirement list"
  lreq_traits :: "trait_requirement list"
  lreq_milestones :: "milestone_requirement list"

record domain_level =
  dl_level :: int
  dl_name :: string
  dl_description :: "string option"
  dl_points_required :: int
  dl_requirements :: level_requirements

record domain_info =
  di_name :: string
  di_description :: string

record create_domain_request =
  cdr_domain :: domain_info
  cdr_levels :: "domain_level list"

record created_node_info =
  cni_element_id :: string
  cni_name :: string
  cni_labels :: "string list"

record create_domain_result =
  cdres_success :: bool
  cdres_domain_element_id :: string
  cdres_domain_name :: string
  cdres_created_nodes :: "created_node_info list"

record update_domain_request =
  udr_domain_element_id :: string
  udr_domain :: domain_info
  udr_levels :: "domain_level list"
  udr_removed_node_element_ids :: "string list"

record update_domain_result =
  udres_success :: bool
  udres_domain_element_id :: string
  udres_domain_name :: string
  udres_created_nodes :: "created_node_info list"
  udres_affected_user_progress_count :: int

record domain_name_validation =
  dnv_available :: bool
  dnv_existing_domain_element_id :: "string option"

subsection \<open>Cypher built from properties\<close>

definition set_clauses_of :: "string \<Rightarrow> json hash_map \<Rightarrow> string list" where
  \<comment> \<open>\<open>format!("n.{} = ${}", key, key)\<close> over the keys\<close>
  "set_clauses_of var props = map (\<lambda>(key, value). var @ ''.'' @ key @ '' = $'' @ key) props"

definition bolt_params :: "env \<Rightarrow> json hash_map \<Rightarrow> (string \<times> bolt) list" where
  "bolt_params E props =
     map (\<lambda>(key, value). (key, json_value_to_bolt_type (json_print E) value)) props"

definition str_property :: "json hash_map \<Rightarrow> string \<Rightarrow> string" where
  \<comment> \<open>\<open>properties.get(k).and_then(|v| v.as_str()).unwrap_or("")\<close>\<close>
  "str_property props k =
     (case Option.bind (map_of props k) as_str of Some s \<Rightarrow> s | None \<Rightarrow> [])"

definition f64_json :: "f64 \<Rightarrow> json" where
  \<comment> \<open>\<open>json!(x)\<close>: a value that is not finite is \<open>null\<close>\<close>
  "f64_json x = (case x of Finite q \<Rightarrow> JNum (Float x) | _ \<Rightarrow> JNull)"

lemma bolt_params_keys [simp]: "map fst (bolt_params E props) = map fst props"
  by (simp add: bolt_params_def case_prod_beta)

lemma map_of_bolt_params:
  "map_of (bolt_params E props) k =
     map_option (json_value_to_bolt_type (json_print E)) (map_of props k)"
  by (induction props) (auto simp: bolt_params_def)

subsection \<open>Shape of a statement\<close>

definition run_returning_first ::
  "env \<Rightarrow> query \<Rightarrow> (row \<Rightarrow> 'a) \<Rightarrow> service_error \<Rightarrow> (service_error, 'a) action" where
  \<comment> \<open>run a statement that must give a row; the value is read from the first one\<close>
  "run_returning_first E q read missing =
     on_result (graph_execute E q)
       (\<lambda>result. case first_row result of Some r \<Rightarrow> ret (read r) | None \<Rightarrow> fail missing)
       (\<lambda>e. fail (db_error e))"

definition run_collecting ::
  "env \<Rightarrow> query \<Rightarrow> (row \<Rightarrow> 'a) \<Rightarrow> (service_error, 'a list) action" where
  \<comment> \<open>run a statement and read every row up to the first error\<close>
  "run_collecting E q read =
     on_result (graph_execute E q)
       (\<lambda>result. ret (map read (rows_until_error result)))
       (\<lambda>e. fail (db_error e))"

lemma emits_run_statement [prog_rules]:
  "P (DbExecute q) \<Longrightarrow> emits P (run_returning_first E q rd m)"
  "P (DbExecute q) \<Longrightarrow> emits P (run_collecting E q rd)"
  unfolding run_returning_first_def run_collecting_def
  by (auto intro!: prog_rules split: option.split)

lemma no_panic_run_statement [prog_rules]:
  "no_panic (run_returning_first E q rd m)"
  "no_panic (run_collecting E q rd)"
  unfolding run_returning_first_def run_collecting_def
  by (auto intro!: prog_rules split: option.split)

lemma run_returning_first_Ok:
  "run_returning_first E q rd m h = (Ok x, h') \<longleftrightarrow>
     (\<exists>s r. db_execute E h q = Inr s \<and> first_row s = Some r \<and> x = rd r \<and> h' = h @ [DbExecute q])"
  by (auto simp: run_returning_first_def prog_Ok_iff graph_execute_def sum_outcome_def ret_def
      fail_def split: option.splits sum.splits)

lemma run_collecting_Ok:
  "run_collecting E q rd h = (Ok xs, h') \<longleftrightarrow>
     (\<exists>s. db_execute E h q = Inr s \<and> xs = map rd (rows_until_error s) \<and> h' = h @ [DbExecute q])"
  by (auto simp: run_collecting_def on_result_def call_runs sum_outcome_def ret_def fail_def
      split: sum.splits)

lemma run_returning_first_snd [simp]:
  "snd (run_returning_first E q rd m h) = h @ [DbExecute q]"
  by (auto simp: run_returning_first_def on_result_def call_runs sum_outcome_def ret_def fail_def
      split: option.splits sum.splits)

text \<open>\<open>Query::param\<close> of \<open>neo4rs\<close> puts the parameter into a map: of two with the same name the
  later one is sent.\<close>

definition effective_param :: "query \<Rightarrow> string \<Rightarrow> bolt option" where
  "effective_param q k = map_of (rev (q_params q)) k"

lemma effective_param_props:
  assumes "distinct (map fst props)" and "q_params q = ps @ bolt_params E props"
  shows "effective_param q k = (case map_of props k of
      Some v \<Rightarrow> Some (json_value_to_bolt_type (json_print E) v) | None \<Rightarrow> map_of (rev ps) k)"
proof -
  have "map_of (rev (bolt_params E props)) k = map_of (bolt_params E props) k"
    using map_of_rev_distinct [of "bolt_params E props"] assms(1) by simp
  then show ?thesis
    by (simp add: effective_param_def assms(2) map_of_bolt_params map_add_def split: option.split)
qed

end
