(* ===== verification/Graph_Node.thy ===== *)
theory Graph_Node
  imports Graph_Models
begin

text \<open>
  \<open>graph/services/node.rs\<close>: creation of nodes with the check for similar ones, lookup by name,
  the queries of nodes with their relationships, and update.
\<close>

definition node_with_relationships_query_fragment :: "int \<Rightarrow> string" where
  "node_with_relationships_query_fragment depth =
     text_lines
     [[],
      ''        OPTIONAL MATCH (node)-[r*1..'' @ int_text depth @ '']->(m)'',
      ''        UNWIND coalesce(r, [null]) AS unwound_relationships'',
      ''        UNWIND coalesce(m, [null]) AS unwound_affiliates'',
      ''        WITH'',
      ''            {'',
      ''                id: id(node),'',
      ''                elementId: elementId(node),'',
      ''                labels: labels(node),'',
      ''                props: properties(node)'',
      ''            } AS nodeWithMeta,'',
      ''            collect(distinct case when unwound_relationships is not null then {'',
      ''                id: id(unwound_relationships),'',
      ''                elementId: elementId(unwound_relationships),'',
      ''                startId: id(startNode(unwound_relationships)),'',
      ''                startElementId: elementId(startNode(unwound_relationships)),'',
      ''                endId: id(endNode(unwound_relationships)),'',
      ''                endElementId: elementId(endNode(unwound_relationships)),'',
      ''                type: type(unwound_relationships),'',
      ''                props: properties(unwound_relationships)'',
      ''            } else null end) AS relationshipsWithMeta,'',
      ''            collect(distinct case when unwound_affiliates is not null then {'',
      ''                id: id(unwound_affiliates),'',
      ''                elementId: elementId(unwound_affiliates),'',
      ''                labels: labels(unwound_affiliates),'',
      ''                props: properties(unwound_affiliates)'',
      ''            } else null end) AS affiliatedNodesWithMeta'',
      ''        RETURN'',
      ''            nodeWithMeta AS node,'',
      ''            relationshipsWithMeta AS relationships,'',
      ''            affiliatedNodesWithMeta AS affiliatedNodes'',
      ''        '']"

subsection \<open>Creation\<close>

definition similar_exists_error :: "env \<Rightarrow> f64 \<Rightarrow> service_error" where
  "similar_exists_error E score =
     SimilarNodeExists score
       (''A node with a similarity score of '' @ f64_text E score @ '' already exists.'')"

definition check_similar :: "env \<Rightarrow> f64 list \<Rightarrow> (service_error, unit) action" where
  \<comment> \<open>the block \<open>if check_similarity { ... }\<close>\<close>
  "check_similar E embedding =
     on_result
       (find_similar_nodes E
          (default_similar_request\<lparr>fs_embedding := Some embedding, fs_limit := Some 1\<rparr>))
       (\<lambda>similar_nodes. case similar_nodes of
            [] \<Rightarrow> ret ()
          | s # _ \<Rightarrow>
              (if f64_gt (sn_score s) f64_0_70 then fail (similar_exists_error E (sn_score s))
               else ret ()))
       (\<lambda>e. fail (DatabaseError (''Failed to find similar nodes: '' @ e)))"

definition create_node_query :: "env \<Rightarrow> create_node_request \<Rightarrow> f64 list \<Rightarrow> query" where
  "create_node_query E request embedding =
     (let final_properties =
            AList.update ''embedding'' (JArr (map f64_json embedding)) (cnr_properties request);
          label_string = '':'' @ join '':'' (cnr_labels request);
          set_clauses = set_clauses_of ''n'' final_properties
      in \<lparr>q_text = ''CREATE (n'' @ label_string @ '') SET '' @ join '', '' set_clauses @
                   '' RETURN elementId(n) AS elementId, n.name AS name'',
          q_params = bolt_params E final_properties\<rparr>)"

definition node_text :: "json hash_map \<Rightarrow> string" where
  \<comment> \<open>\<open>text_to_embed\<close>\<close>
  "node_text props = str_property props ''name'' @ '': '' @ str_property props ''description''"

definition create_node ::
  "env \<Rightarrow> create_node_request \<Rightarrow> bool \<Rightarrow> (service_error, create_node_result) action" where
  "create_node E request check_similarity =
     (let text_to_embed = node_text (cnr_properties request)
      in bind (map_err EmbeddingFailed (generate_embedding E text_to_embed)) (\<lambda>embedding.
         bind (if check_similarity then check_similar E embedding else ret ()) (\<lambda>_.
         run_returning_first E (create_node_query E request embedding)
           (\<lambda>row. \<lparr>nres_element_id = string_or_default row ''elementId'',
                   nres_name = string_or_default row ''name'', nres_labels = cnr_labels request\<rparr>)
           (DatabaseError ''Failed to get element ID after node creation''))))"

subsection \<open>Lookup\<close>

definition find_node_query :: "string \<Rightarrow> string option \<Rightarrow> query" where
  "find_node_query name label =
     \<lparr>q_text = (case label of
          Some lbl \<Rightarrow> ''MATCH (n:'' @ lbl @ '' {name: $name}) RETURN elementId(n) AS elementId LIMIT 1''
        | None \<Rightarrow> ''MATCH (n {name: $name}) RETURN elementId(n) AS elementId LIMIT 1''),
      q_params = [(''name'', BStr name)]\<rparr>"

definition find_node_by_name ::
  "env \<Rightarrow> string \<Rightarrow> string option \<Rightarrow> (service_error, string option) action" where
  "find_node_by_name E name label =
     on_result (graph_execute E (find_node_query name label))
       (\<lambda>result. ret (map_option (\<lambda>row. string_or_default row ''elementId'') (first_row result)))
       (\<lambda>e. fail (db_error e))"

definition node_row :: "row \<Rightarrow> json" where
  \<comment> \<open>the object pushed to \<open>nodes_data\<close>\<close>
  "node_row r =
     jobj [(''node'', value_or (JObj []) r ''node''),
           (''relationships'', value_or (JArr []) r ''relationships''),
           (''affiliatedNodes'', value_or (JArr []) r ''affiliatedNodes'')]"

definition where_clause :: "string \<times> json \<Rightarrow> string option" where
  "where_clause kv =
     (let key = trim (fst kv)
      in case as_str (snd kv) of
           None \<Rightarrow> None
         | Some value_str \<Rightarrow>
             (let value_str = trim value_str
              in Some (if key = ''elementId'' then ''elementId(node) = '' @ [CHR 0x27] @ value_str @ [CHR 0x27]
                       else ''node.'' @ key @ '' = '' @ [CHR 0x27] @ value_str @ [CHR 0x27])))"

definition nodes_query :: "string list option \<Rightarrow> json hash_map option \<Rightarrow> int \<Rightarrow> query" where
  "nodes_query labels properties depth =
     (let match_clauses =
            (case labels of
               Some labels_vec \<Rightarrow> map (\<lambda>label. ''MATCH (node:`'' @ label @ ''`)'') labels_vec
             | None \<Rightarrow> [''MATCH (node)'']);
          props = (case properties of Some p \<Rightarrow> p | None \<Rightarrow> []);
          where_clauses = List.map_filter where_clause props
      in \<lparr>q_text = join nl match_clauses @
            (if where_clauses = [] then [] else nl @ ''WHERE '' @ join '' AND '' where_clauses) @
            node_with_relationships_query_fragment depth,
          q_params = []\<rparr>)"

definition get_nodes_with_relationships ::
  "env \<Rightarrow> string list option \<Rightarrow> json hash_map option \<Rightarrow> int \<Rightarrow> (service_error, json) action" where
  "get_nodes_with_relationships E labels properties depth =
     bind (run_collecting E (nodes_query labels properties depth) node_row) (\<lambda>nodes_data.
     ret (map_bolt4_to_bolt5 nodes_data))"

definition search_term_query :: "f64 list \<Rightarrow> int \<Rightarrow> query" where
  "search_term_query embedding depth =
     \<lparr>q_text = text_lines
     [[],
      ''        CALL db.index.vector.queryNodes('nodeEmbeddings', 1, $embedding)'',
      ''        YIELD node, score'',
      ''        '' @ node_with_relationships_query_fragment depth,
      ''        ''],
      q_params = [(''embedding'', BList (map BFloat embedding))]\<rparr>"

definition node_of_bolt5 :: "json \<Rightarrow> node_with_relationships" where
  "node_of_bolt5 v =
     (let get_or = (\<lambda>k d. case jget v k of Some x \<Rightarrow> x | None \<Rightarrow> d)
      in \<lparr>nwr_node = get_or ''node'' (JObj []),
          nwr_relationships = get_or ''relationships'' (JArr []),
          nwr_affiliated_nodes = get_or ''affiliatedNodes'' (JArr [])\<rparr>)"

definition get_nodes_by_search_term ::
  "env \<Rightarrow> string \<Rightarrow> int \<Rightarrow> (service_error, node_with_relationships list) action" where
  "get_nodes_by_search_term E search_term depth =
     bind (map_err EmbeddingFailed (generate_embedding E search_term)) (\<lambda>embedding.
     bind (run_collecting E (search_term_query embedding depth) node_row) (\<lambda>nodes_data.
     (let bolt5_data = map_bolt4_to_bolt5 nodes_data
      in ret (case bolt5_data of JArr arr \<Rightarrow> map node_of_bolt5 arr | _ \<Rightarrow> []))))"

subsection \<open>Update\<close>

definition update_node_query ::
  "env \<Rightarrow> string \<Rightarrow> string list option \<Rightarrow> json hash_map option \<Rightarrow> query" where
  "update_node_query E target_id labels properties =
     (let props = (case properties of Some p \<Rightarrow> p | None \<Rightarrow> []);
          label_parts =
            (case labels of
               Some labels_vec \<Rightarrow> ''REMOVE n:_'' # map (\<lambda>label. ''SET n:`'' @ label @ ''`'') labels_vec
             | None \<Rightarrow> []);
          set_parts = (if props = [] then [] else [''SET '' @ join '', '' (set_clauses_of ''n'' props)])
      in \<lparr>q_text = join nl ([''MATCH (n)'', ''WHERE elementId(n) = $targetId''] @ label_parts @
                     set_parts @ [''RETURN n'']),
          q_params = (''targetId'', BStr target_id) # bolt_params E props\<rparr>)"

definition update_node ::
  "env \<Rightarrow> string \<Rightarrow> string list option \<Rightarrow> json hash_map option \<Rightarrow> (service_error, json list) action" where
  "update_node E target_id labels properties =
     (if labels = None \<and> properties = None
      then fail (ValidationError ''At least one of 'labels' or 'properties' must be provided'')
      else run_collecting E (update_node_query E target_id labels properties) (\<lambda>row. value_or (JObj []) row ''n''))"

subsection \<open>What the operations send and give\<close>

lemma emits_create_node:
  assumes "\<And>r. P (Http r)" "\<And>q. is_search_query q \<Longrightarrow> P (DbExecute q)"
    and "\<And>emb. P (DbExecute (create_node_query E request emb))"
  shows "emits P (create_node E request c)"
proof -
  have search: "emits P (find_similar_nodes E r)" for r
  proof (rule emits_mono [OF emits_find_similar_nodes(1)])
    fix f assume "search_effect f" then show "P f" using assms(1,2) by (cases f) auto
  qed
  show ?thesis
    unfolding create_node_def check_similar_def Let_def
    by (auto intro!: prog_rules search emits_generate_embedding assms split: list.split)
qed

lemma no_panic_create_node [prog_rules]: "no_panic (create_node E request c)"
  unfolding create_node_def check_similar_def Let_def
  by (auto intro!: prog_rules split: list.split)

lemma no_panic_node_operations [prog_rules]:
  "no_panic (find_node_by_name E name label)"
  "no_panic (get_nodes_with_relationships E labels properties depth)"
  "no_panic (get_nodes_by_search_term E term depth)"
  "no_panic (update_node E target_id labels properties)"
  unfolding find_node_by_name_def get_nodes_with_relationships_def get_nodes_by_search_term_def
    update_node_def Let_def
  by (auto intro!: prog_rules)

lemma create_node_params:
  assumes "\<forall>x\<in>set embedding. \<exists>q. x = Finite q"
  shows "map_of (q_params (create_node_query E request embedding)) k =
     (if k = ''embedding'' then Some (BList (map BFloat embedding))
      else map_option (json_value_to_bolt_type (json_print E)) (map_of (cnr_properties request) k))"
  using assms
  by (auto simp: create_node_query_def Let_def map_of_bolt_params update_conv f64_json_def)

lemma create_node_Ok:
  assumes "create_node E request c h = (Ok res, h')"
  obtains embedding h1 h2 where
    "generate_embedding E (node_text (cnr_properties request)) h = (Ok embedding, h1)"
    "(if c then check_similar E embedding else ret ()) h1 = (Ok (), h2)"
    "h' = h2 @ [DbExecute (create_node_query E request embedding)]"
    "nres_labels res = cnr_labels request"
  using assms by (auto simp: create_node_def Let_def prog_Ok_iff run_returning_first_Ok)

lemma check_similar_Ok:
  "check_similar E embedding h = (Ok (), h') \<longleftrightarrow>
     (\<exists>found. find_similar_nodes E
          (default_similar_request\<lparr>fs_embedding := Some embedding, fs_limit := Some 1\<rparr>) h = (Ok found, h') \<and>
        (found = [] \<or> \<not> f64_gt (sn_score (hd found)) f64_0_70))"
  by (auto simp: check_similar_def on_result_def ret_def fail_def
      split: prod.splits outcome.splits list.splits if_splits)

lemma create_node_similar:
  assumes "generate_embedding E (node_text (cnr_properties request)) h = (Ok embedding, h1)"
    and "find_similar_nodes E
          (default_similar_request\<lparr>fs_embedding := Some embedding, fs_limit := Some 1\<rparr>) h1 =
         (Ok (s # rest), h2)"
    and "f64_gt (sn_score s) f64_0_70"
  shows "create_node E request True h = (Err (similar_exists_error E (sn_score s)), h2)"
  using assms
  by (simp add: create_node_def check_similar_def Let_def bind_def on_result_def map_err_def fail_def)

lemma create_node_unchecked:
  assumes "generate_embedding E (node_text (cnr_properties request)) h = (Ok embedding, h1)"
  shows "snd (create_node E request False h) = h1 @ [DbExecute (create_node_query E request embedding)]"
  using assms
  by (simp add: create_node_def Let_def bind_def map_err_def ret_def run_returning_first_def on_result_def
      call_runs sum_outcome_def fail_def split: sum.split option.split)

text \<open>The objects read from the rows are all of the complex shape.\<close>

lemma as_object_node_row: "\<exists>m. node_row r = JObj m \<and>
   map_of m ''node'' = Some (value_or (JObj []) r ''node'') \<and>
   map_of m ''relationships'' = Some (value_or (JArr []) r ''relationships'') \<and>
   map_of m ''affiliatedNodes'' = Some (value_or (JArr []) r ''affiliatedNodes'')"
  by (simp add: node_row_def jobj_def map_of_foldl_insert)

lemma map_bolt4_to_bolt5_node_rows:
  "map_bolt4_to_bolt5 (map node_row rows) =
     JArr (map (\<lambda>r. case node_row r of JObj m \<Rightarrow> bolt5_row m | _ \<Rightarrow> JNull) rows)"
proof (cases rows)
  case (Cons r rs)
  have conv: "List.map_filter as_object (map node_row xs) =
      map (\<lambda>r. case node_row r of JObj m \<Rightarrow> m | _ \<Rightarrow> []) xs" for xs
  proof (induction xs)
    case (Cons x xs)
    then show ?case using as_object_node_row[of x] by (auto simp: List.map_filter_simps)
  qed (simp add: List.map_filter_simps)
  have each: "bolt5_row (case node_row x of JObj m \<Rightarrow> m | _ \<Rightarrow> []) =
      (case node_row x of JObj m \<Rightarrow> bolt5_row m | _ \<Rightarrow> JNull)" for x
    using as_object_node_row[of x] by auto
  obtain m where m: "node_row r = JObj m" "map_of m ''node'' = Some (value_or (JObj []) r ''node'')"
    using as_object_node_row by blast
  have "map_bolt4_to_bolt5 (map node_row rows) =
      JArr (map bolt5_row (List.map_filter as_object (map node_row rows)))"
    using Cons m by (simp add: map_bolt4_to_bolt5_def has_key_def)
  then show ?thesis by (simp only: conv map_map comp_def each)
qed (simp add: map_bolt4_to_bolt5_def)

lemma bolt5_row_get:
  "jget (bolt5_row m) k = (if k = ''Keys''
      then Some (JArr [JStr ''node'', JStr ''relationships'', JStr ''affiliatedNodes''])
      else if k = ''Values'' then jget (bolt5_row m) ''Values'' else None)"
  by (simp add: bolt5_row_def jget_jobj)

lemma node_of_bolt5_row:
  "node_of_bolt5 (case node_row r of JObj m \<Rightarrow> bolt5_row m | _ \<Rightarrow> JNull) =
     \<lparr>nwr_node = JObj [], nwr_relationships = JArr [], nwr_affiliated_nodes = JArr []\<rparr>"
proof -
  obtain m where "node_row r = JObj m" using as_object_node_row by blast
  then show ?thesis by (simp add: node_of_bolt5_def bolt5_row_get)
qed

text \<open>A property that is called \<open>targetId\<close> replaces the id of the node to update.\<close>

lemma update_node_target:
  assumes "distinct (map fst props)"
  shows "effective_param (update_node_query E target_id labels (Some props)) ''targetId'' =
     (case map_of props ''targetId'' of
        Some v \<Rightarrow> Some (json_value_to_bolt_type (json_print E) v) | None \<Rightarrow> Some (BStr target_id))"
proof -
  have "q_params (update_node_query E target_id labels (Some props)) =
      [(''targetId'', BStr target_id)] @ bolt_params E props" by (simp add: update_node_query_def)
  from effective_param_props [OF assms this] show ?thesis by (simp split: option.split)
qed

text \<open>The value of a property goes into the text of the query as it is.\<close>

lemma nodes_query_contains:
  assumes "trim k \<noteq> ''elementId''"
  shows "contains_str (''WHERE node.'' @ trim k @ '' = '' @ [CHR 0x27] @ trim v @ [CHR 0x27])
    (q_text (nodes_query labels (Some [(k, JStr v)]) depth))"
proof -
  define clause where "clause = ''node.'' @ trim k @ '' = '' @ [CHR 0x27] @ trim v @ [CHR 0x27]"
  have "List.map_filter where_clause [(k, JStr v)] = [clause]"
    using assms by (simp add: List.map_filter_simps where_clause_def Let_def clause_def)
  then have "\<exists>pre. q_text (nodes_query labels (Some [(k, JStr v)]) depth) =
      pre @ (''WHERE '' @ clause) @ node_with_relationships_query_fragment depth"
    unfolding nodes_query_def Let_def option.case
    by (intro exI [of _ "join nl (case labels of Some ls \<Rightarrow> map (\<lambda>label. ''MATCH (node:`'' @ label @ ''`)'') ls
        | None \<Rightarrow> [''MATCH (node)'']) @ nl"]) simp
  then obtain pre where qt: "q_text (nodes_query labels (Some [(k, JStr v)]) depth) =
      pre @ (''WHERE '' @ clause) @ node_with_relationships_query_fragment depth" ..
  have "contains_str (''WHERE '' @ clause) (q_text (nodes_query labels (Some [(k, JStr v)]) depth))"
    unfolding contains_str_iff qt by (rule sublist_appendI)
  then show ?thesis by (simp only: clause_def append.simps)
qed

lemma get_nodes_with_relationships_sends:
  "snd (get_nodes_with_relationships E labels properties depth h) =
     h @ [DbExecute (nodes_query labels properties depth)]"
  by (simp add: get_nodes_with_relationships_def run_collecting_def bind_def on_result_def call_runs
      sum_outcome_def fail_def ret_def split: sum.split)

lemma search_term_nodes_empty:
  assumes "get_nodes_by_search_term E term depth h = (Ok ns, h')"
  shows "\<forall>n\<in>set ns. n = \<lparr>nwr_node = JObj [], nwr_relationships = JArr [], nwr_affiliated_nodes = JArr []\<rparr>"
  using assms
  by (auto simp: get_nodes_by_search_term_def bind_eq_Ok run_collecting_Ok ret_eq_Ok
      map_bolt4_to_bolt5_node_rows node_of_bolt5_row)

end
