(* ===== verification/Graph_Domain.thy ===== *)
theory Graph_Domain
  imports Graph_Node
begin

text \<open>
  \<open>graph/services/domain.rs\<close>: reading a domain, the check of its name, and the creation and the
  update of a domain with its levels and their requirements.
\<close>

subsection \<open>Queries\<close>

definition get_domain_query :: "string \<Rightarrow> query" where
  "get_domain_query name =
     \<lparr>q_text = text_lines
     [[],
      ''        MATCH (domain:Domain {name: $name})'',
      ''        OPTIONAL MATCH (domain)-[:HAS_DOMAIN_LEVEL]->(level:Domain_Level)'',
      [],
      ''        // Get knowledge requirements for each level'',
      ''        OPTIONAL MATCH (level)-[kr:REQUIRES_KNOWLEDGE]->(k:Knowledge)'',
      [],
      ''        // Get skill requirements for each level'',
      ''        OPTIONAL MATCH (level)-[sr:REQUIRES_SKILL]->(s:Skill)'',
      [],
      ''        // Get trait requirements for each level'',
      ''        OPTIONAL MATCH (level)-[tr:REQUIRES_TRAIT]->(t:Trait)'',
      [],
      ''        // Get milestone requirements for each level'',
      ''        OPTIONAL MATCH (level)-[mr:REQUIRES_MILESTONE]->(m:Milestone)'',
      [],
      ''        // Get GENERALIZES_TO relationships for skills and knowledge'',
      ''        OPTIONAL MATCH (s)-[:GENERALIZES_TO]->(generalSkill:Skill)'',
      ''        OPTIONAL MATCH (k)-[:GENERALIZES_TO]->(generalKnowledge:Knowledge)'',
      [],
      ''        WITH domain, level,'',
      ''             collect(DISTINCT CASE WHEN k IS NOT NULL THEN {'',
      ''                 elementId: elementId(k),'',
      ''                 type: 'knowledge','',
      ''                 name: k.name,'',
      ''                 description: k.description,'',
      ''                 howToLearn: k.how_to_learn,'',
      ''                 bloomLevel: kr.bloom_level,'',
      ''                 generalizesTo: CASE WHEN generalKnowledge IS NOT NULL THEN {'',
      ''                     elementId: elementId(generalKnowledge),'',
      ''                     name: generalKnowledge.name'',
      ''                 } ELSE null END'',
      ''             } ELSE NULL END) AS knowledge,'',
      ''             collect(DISTINCT CASE WHEN s IS NOT NULL THEN {'',
      ''                 elementId: elementId(s),'',
      ''                 type: 'skill','',
      ''                 name: s.name,'',
      ''                 description: s.description,'',
      ''                 howToDevelop: s.how_to_develop,'',
      ''                 dreyfusLevel: sr.dreyfus_level,'',
      ''                 generalizesTo: CASE WHEN generalSkill IS NOT NULL THEN {'',
      ''                     elementId: elementId(generalSkill),'',
      ''                     name: generalSkill.name'',
      ''                 } ELSE null END'',
      ''             } ELSE NULL END) AS skills,'',
      ''             collect(DISTINCT CASE WHEN t IS NOT NULL THEN {'',
      ''                 elementId: elementId(t),'',
      ''                 type: 'trait','',
      ''                 name: t.name,'',
      ''                 description: t.description,'',
      ''                 measurementCriteria: t.measurement_criteria,'',
      ''                 minScore: tr.min_score'',
      ''             } ELSE NULL END) AS traits,'',
      ''             collect(DISTINCT CASE WHEN m IS NOT NULL THEN {'',
      ''                 elementId: elementId(m),'',
      ''                 type: 'milestone','',
      ''                 name: m.name,'',
      ''                 description: m.description,'',
      ''                 howToAchieve: m.how_to_achieve'',
      ''             } ELSE NULL END) AS milestones'',
      [],
      ''        ORDER BY level.level'',
      [],
      ''        WITH domain,'',
      ''             collect(CASE WHEN level IS NOT NULL THEN {'',
      ''                 elementId: elementId(level),'',
      ''                 level: level.level,'',
      ''                 name: level.name,'',
      ''                 description: level.description,'',
      ''                 pointsRequired: level.total_points_required,'',
      ''                 knowledge: [item IN knowledge WHERE item IS NOT NULL],'',
      ''                 skills: [item IN skills WHERE item IS NOT NULL],'',
      ''                 traits: [item IN traits WHERE item IS NOT NULL],'',
      ''                 milestones: [item IN milestones WHERE item IS NOT NULL]'',
      ''             } ELSE NULL END) AS levels'',
      [],
      ''        RETURN {'',
      ''            elementId: elementId(domain),'',
      ''            name: domain.name,'',
      ''            description: domain.description,'',
      ''            levels: [l IN levels WHERE l IS NOT NULL]'',
      ''        } AS result'',
      ''    ''],
      q_params = [(''name'', BStr name)]\<rparr>"

definition validate_domain_name_query :: "string \<Rightarrow> query" where
  "validate_domain_name_query name =
     \<lparr>q_text = text_lines
     [[],
      ''        MATCH (d:Domain {name: $name})'',
      ''        RETURN elementId(d) AS elementId'',
      ''        LIMIT 1'',
      ''    ''],
      q_params = [(''name'', BStr name)]\<rparr>"

definition get_domain :: "env \<Rightarrow> string \<Rightarrow> (service_error, json option) action" where
  "get_domain E name =
     on_result (graph_execute E (get_domain_query name))
       (\<lambda>result. ret (case first_row result of
           Some row \<Rightarrow>
             (let domain_data = value_or JNull row ''result''
              in if domain_data = JNull then None else Some domain_data)
         | None \<Rightarrow> None))
       (\<lambda>e. fail (db_error e))"

definition validate_domain_name :: "env \<Rightarrow> string \<Rightarrow> (service_error, domain_name_validation) action" where
  "validate_domain_name E name =
     on_result (graph_execute E (validate_domain_name_query name))
       (\<lambda>result. ret (case first_row result of
           Some row \<Rightarrow> \<lparr>dnv_available = False,
                        dnv_existing_domain_element_id = Some (string_or_default row ''elementId'')\<rparr>
         | None \<Rightarrow> \<lparr>dnv_available = True, dnv_existing_domain_element_id = None\<rparr>))
       (\<lambda>e. fail (db_error e))"

subsection \<open>Requirements of one level\<close>

definition component_props :: "string \<Rightarrow> new_node_data \<Rightarrow> (string \<times> string) list" where
  "component_props label node_data =
     (let extra = (\<lambda>k v. case v of Some s \<Rightarrow> [(k, s)] | None \<Rightarrow> [])
      in [(''name'', nd_name node_data), (''description'', nd_description node_data)] @
         (if label = ''Knowledge'' then extra ''how_to_learn'' (nd_how_to_learn node_data)
          else if label = ''Skill'' then extra ''how_to_develop'' (nd_how_to_develop node_data)
          else if label = ''Trait'' then extra ''measurement_criteria'' (nd_measurement_criteria node_data)
          else if label = ''Milestone'' then extra ''how_to_achieve'' (nd_how_to_achieve node_data)
          else []))"

definition component_query :: "string \<Rightarrow> new_node_data \<Rightarrow> query" where
  "component_query label node_data =
     (let props = component_props label node_data;
          set_clauses = map (\<lambda>(i, key, value). ''n.'' @ key @ '' = $prop'' @ nat_text i) (enumerate 0 props)
      in \<lparr>q_text = text_lines
     [[],
      ''        MERGE (n:'' @ label @ '' {name: $name})'',
      ''        ON CREATE SET '' @ join '', '' set_clauses,
      ''        RETURN elementId(n) AS elementId'',
      ''        ''],
          q_params = (''name'', BStr (nd_name node_data)) #
            map (\<lambda>(i, key, value). (''prop'' @ nat_text i, BStr value)) (enumerate 0 props)\<rparr>)"

definition create_component_node :: "env \<Rightarrow> string \<Rightarrow> new_node_data \<Rightarrow> (service_error, string) action" where
  "create_component_node E label node_data =
     run_returning_first E (component_query label node_data)
       (\<lambda>row. string_or_default row ''elementId'')
       (DatabaseError ''Failed to get element ID after creation'')"

definition knowledge_link_query :: "string \<Rightarrow> string \<Rightarrow> string \<Rightarrow> query" where
  "knowledge_link_query bloom_level level_element_id node_id =
     \<lparr>q_text = text_lines
     [[],
      ''            MATCH (l:Domain_Level), (k:Knowledge)'',
      ''            WHERE elementId(l) = $levelId AND elementId(k) = $nodeId'',
      ''            CREATE (l)-[:REQUIRES_KNOWLEDGE {bloom_level: $bloomLevel}]->(k)'',
      ''            ''],
      q_params = [(''levelId'', BStr level_element_id), (''nodeId'', BStr node_id),
                  (''bloomLevel'', BStr bloom_level)]\<rparr>"

definition skill_link_query :: "string \<Rightarrow> string \<Rightarrow> string \<Rightarrow> query" where
  "skill_link_query dreyfus_level level_element_id node_id =
     \<lparr>q_text = text_lines
     [[],
      ''            MATCH (l:Domain_Level), (s:Skill)'',
      ''            WHERE elementId(l) = $levelId AND elementId(s) = $nodeId'',
      ''            CREATE (l)-[:REQUIRES_SKILL {dreyfus_level: $dreyfusLevel}]->(s)'',
      ''            ''],
      q_params = [(''levelId'', BStr level_element_id), (''nodeId'', BStr node_id),
                  (''dreyfusLevel'', BStr dreyfus_level)]\<rparr>"

definition trait_link_query :: "int \<Rightarrow> string \<Rightarrow> string \<Rightarrow> query" where
  "trait_link_query min_score level_element_id node_id =
     \<lparr>q_text = text_lines
     [[],
      ''            MATCH (l:Domain_Level), (t:Trait)'',
      ''            WHERE elementId(l) = $levelId AND elementId(t) = $nodeId'',
      ''            CREATE (l)-[:REQUIRES_TRAIT {min_score: $minScore}]->(t)'',
      ''            ''],
      q_params = [(''levelId'', BStr level_element_id), (''nodeId'', BStr node_id),
                  (''minScore'', BInt min_score)]\<rparr>"

definition milestone_link_query :: "string \<Rightarrow> string \<Rightarrow> query" where
  "milestone_link_query level_element_id node_id =
     \<lparr>q_text = text_lines
     [[],
      ''            MATCH (l:Domain_Level), (m:Milestone)'',
      ''            WHERE elementId(l) = $levelId AND elementId(m) = $nodeId'',
      ''            CREATE (l)-[:REQUIRES_MILESTONE]->(m)'',
      ''            ''],
      q_params = [(''levelId'', BStr level_element_id), (''nodeId'', BStr node_id)]\<rparr>"

definition run_logged :: "env \<Rightarrow> query \<Rightarrow> 'a \<Rightarrow> ('e, 'a) action" where
  \<comment> \<open>\<open>if let Err(e) = graph.run(q).await { log }\<close>, then go on with \<open>x\<close>\<close>
  "run_logged E q x = on_result (graph_run E q) (\<lambda>_. ret x) (\<lambda>_. ret x)"

definition process_requirement ::
  "env \<Rightarrow> string \<Rightarrow> (string \<Rightarrow> query) \<Rightarrow> string option \<Rightarrow> new_node_data option \<Rightarrow>
     created_node_info list \<Rightarrow> ('e, created_node_info list) action" where
  \<comment> \<open>one iteration of the four loops, which differ in the label and the query of the relationship\<close>
  "process_requirement E label link_query node_element_id new_node created_nodes =
     (case node_element_id of
        Some existing_id \<Rightarrow> run_logged E (link_query existing_id) created_nodes
      | None \<Rightarrow>
      (case new_node of
        Some nd \<Rightarrow>
          on_result (create_component_node E label nd)
            (\<lambda>id. run_logged E (link_query id)
               (created_nodes @ [\<lparr>cni_element_id = id, cni_name = nd_name nd, cni_labels = [label]\<rparr>]))
            (\<lambda>e. ret created_nodes)
      | None \<Rightarrow> ret created_nodes))"

definition process_level_requirements ::
  "env \<Rightarrow> string \<Rightarrow> level_requirements \<Rightarrow> (service_error, created_node_info list) action" where
  "process_level_requirements E level_element_id requirements =
     bind (fold_prog (\<lambda>created r. process_requirement E ''Knowledge''
             (knowledge_link_query (kr_bloom_level r) level_element_id)
             (kr_node_element_id r) (kr_new_node r) created) [] (lreq_knowledge requirements)) (\<lambda>created.
     bind (fold_prog (\<lambda>created r. process_requirement E ''Skill''
             (skill_link_query (sr_dreyfus_level r) level_element_id)
             (sr_node_element_id r) (sr_new_node r) created) created (lreq_skills requirements)) (\<lambda>created.
     bind (fold_prog (\<lambda>created r. process_requirement E ''Trait''
             (trait_link_query (tr_min_score r) level_element_id)
             (tr_node_element_id r) (tr_new_node r) created) created (lreq_traits requirements)) (\<lambda>created.
     fold_prog (\<lambda>created r. process_requirement E ''Milestone''
             (milestone_link_query level_element_id)
             (mr_node_element_id r) (mr_new_node r) created) created (lreq_milestones requirements))))"

subsection \<open>Levels\<close>

definition create_level_query :: "string \<Rightarrow> domain_level \<Rightarrow> query" where
  "create_level_query domain_element_id level =
     (let level_description = (case dl_description level of Some d \<Rightarrow> d | None \<Rightarrow> [])
      in \<lparr>q_text = text_lines
     [[],
      ''            MATCH (d:Domain) WHERE elementId(d) = $domainId'',
      ''            CREATE (l:Domain_Level {'',
      ''                level: $level,'',
      ''                name: $name,'',
      ''                description: $description,'',
      ''                total_points_required: $points'',
      ''            })'',
      ''            CREATE (d)-[:HAS_DOMAIN_LEVEL]->(l)'',
      ''            RETURN elementId(l) AS elementId'',
      ''            ''],
          q_params = [(''domainId'', BStr domain_element_id), (''level'', BInt (dl_level level)),
                      (''name'', BStr (dl_name level)), (''description'', BStr level_description),
                      (''points'', BInt (dl_points_required level))]\<rparr>)"

definition create_level :: "env \<Rightarrow> string \<Rightarrow> string list \<Rightarrow> domain_level \<Rightarrow> ('e, string list) action" where
  "create_level E domain_element_id level_element_ids level =
     on_result (graph_execute E (create_level_query domain_element_id level))
       (\<lambda>result. ret (case first_row result of
           Some row \<Rightarrow> level_element_ids @ [string_or_default row ''elementId'']
         | None \<Rightarrow> level_element_ids))
       (\<lambda>e. ret level_element_ids)"

definition create_levels :: "env \<Rightarrow> string \<Rightarrow> domain_level list \<Rightarrow> ('e, string list) action" where
  "create_levels E domain_element_id levels = fold_prog (create_level E domain_element_id) [] levels"

definition process_levels ::
  "env \<Rightarrow> string list \<Rightarrow> domain_level list \<Rightarrow> (service_error, created_node_info list) action" where
  "process_levels E level_element_ids levels =
     fold_prog (\<lambda>created_nodes (level_idx, level).
        if level_idx \<ge> length level_element_ids then ret created_nodes
        else on_result (process_level_requirements E (level_element_ids ! level_idx) (dl_requirements level))
               (\<lambda>nodes. ret (created_nodes @ nodes))
               (\<lambda>e. ret created_nodes))
       [] (enumerate 0 levels)"

subsection \<open>Creation and update of a domain\<close>

definition domain_exists_query :: "string \<Rightarrow> query" where
  "domain_exists_query name =
     \<lparr>q_text = ''MATCH (d:Domain {name: $name}) RETURN elementId(d) AS id LIMIT 1'',
      q_params = [(''name'', BStr name)]\<rparr>"

definition create_domain_node_query :: "domain_info \<Rightarrow> query" where
  "create_domain_node_query d =
     \<lparr>q_text = text_lines
     [[],
      ''        CREATE (d:Domain {name: $name, description: $description})'',
      ''        RETURN elementId(d) AS elementId'',
      ''        ''],
      q_params = [(''name'', BStr (di_name d)), (''description'', BStr (di_description d))]\<rparr>"

definition validate_domain_request :: "domain_info \<Rightarrow> domain_level list \<Rightarrow> (service_error, unit) outcome" where
  "validate_domain_request d levels =
     (if di_name d = [] then Err (ValidationError ''Domain name is required'')
      else if levels = [] then Err (ValidationError ''At least one level is required'')
      else Ok ())"

definition create_domain :: "env \<Rightarrow> create_domain_request \<Rightarrow> (service_error, create_domain_result) action" where
  "create_domain E request =
     bind (lift_outcome (validate_domain_request (cdr_domain request) (cdr_levels request))) (\<lambda>_.
     bind (on_result (graph_execute E (domain_exists_query (di_name (cdr_domain request))))
             (\<lambda>result. if first_row result \<noteq> None
                       then fail (ValidationError ''Domain with this name already exists'') else ret ())
             (\<lambda>e. fail (DatabaseError ''Failed to check domain existence''))) (\<lambda>_.
     bind (on_result (graph_execute E (create_domain_node_query (cdr_domain request)))
             (\<lambda>result. case first_row result of
                  Some row \<Rightarrow> ret (string_or_default row ''elementId'')
                | None \<Rightarrow> fail (DatabaseError ''Failed to create domain node''))
             (\<lambda>e. fail (DatabaseError ''Failed to create domain''))) (\<lambda>domain_element_id.
     bind (create_levels E domain_element_id (cdr_levels request)) (\<lambda>level_element_ids.
     bind (process_levels E level_element_ids (cdr_levels request)) (\<lambda>created_nodes.
     ret \<lparr>cdres_success = True, cdres_domain_element_id = domain_element_id,
          cdres_domain_name = di_name (cdr_domain request), cdres_created_nodes = created_nodes\<rparr>)))))"

definition verify_domain_query :: "string \<Rightarrow> query" where
  "verify_domain_query domain_element_id =
     \<lparr>q_text = ''MATCH (d:Domain) WHERE elementId(d) = $domainId RETURN d.name AS name'',
      q_params = [(''domainId'', BStr domain_element_id)]\<rparr>"

definition delete_progress_query :: "string list \<Rightarrow> query" where
  "delete_progress_query node_ids =
     \<lparr>q_text = text_lines
     [[],
      ''            UNWIND $nodeIds AS nodeId'',
      ''            MATCH (u:User)-[r:HAS_KNOWLEDGE|HAS_SKILL|HAS_TRAIT|ACHIEVED]->(n)'',
      ''            WHERE elementId(n) = nodeId'',
      ''            DELETE r'',
      ''            RETURN count(r) AS deletedCount'',
      ''            ''],
      q_params = [(''nodeIds'', BList (map BStr node_ids))]\<rparr>"

definition update_domain_node_query :: "string \<Rightarrow> domain_info \<Rightarrow> query" where
  "update_domain_node_query domain_element_id d =
     \<lparr>q_text = text_lines
     [[],
      ''        MATCH (d:Domain) WHERE elementId(d) = $domainId'',
      ''        SET d.name = $name, d.description = $description'',
      ''        RETURN elementId(d) AS elementId'',
      ''        ''],
      q_params = [(''domainId'', BStr domain_element_id), (''name'', BStr (di_name d)),
                  (''description'', BStr (di_description d))]\<rparr>"

definition delete_levels_query :: "string \<Rightarrow> query" where
  "delete_levels_query domain_element_id =
     \<lparr>q_text = text_lines
     [[],
      ''        MATCH (d:Domain)-[:HAS_DOMAIN_LEVEL]->(l:Domain_Level)'',
      ''        WHERE elementId(d) = $domainId'',
      ''        DETACH DELETE l'',
      ''        ''],
      q_params = [(''domainId'', BStr domain_element_id)]\<rparr>"

definition delete_progress :: "env \<Rightarrow> string list \<Rightarrow> ('e, int) action" where
  \<comment> \<open>the progress of users on the removed nodes; a failure is only logged\<close>
  "delete_progress E removed =
     (if removed = [] then ret 0
      else on_result (graph_execute E (delete_progress_query removed))
             (\<lambda>result. ret (case first_row result of
                 Some row \<Rightarrow> (case col_i64 row ''deletedCount'' of Some n \<Rightarrow> n | None \<Rightarrow> 0)
               | None \<Rightarrow> 0))
             (\<lambda>e. ret 0))"

definition update_domain :: "env \<Rightarrow> update_domain_request \<Rightarrow> (service_error, update_domain_result) action" where
  "update_domain E request =
     bind (lift_outcome (validate_domain_request (udr_domain request) (udr_levels request))) (\<lambda>_.
     bind (on_result (graph_execute E (verify_domain_query (udr_domain_element_id request)))
             (\<lambda>result. if first_row result = None
                       then fail (NotFound ''Domain not found'') else ret ())
             (\<lambda>e. fail (DatabaseError ''Failed to verify domain''))) (\<lambda>_.
     bind (delete_progress E (udr_removed_node_element_ids request)) (\<lambda>affected_user_count.
     bind (map_err (\<lambda>_. DatabaseError ''Failed to update domain'')
             (graph_run E (update_domain_node_query (udr_domain_element_id request) (udr_domain request)))) (\<lambda>_.
     bind (map_err (\<lambda>_. DatabaseError ''Failed to delete old levels'')
             (graph_run E (delete_levels_query (udr_domain_element_id request)))) (\<lambda>_.
     bind (create_levels E (udr_domain_element_id request) (udr_levels request)) (\<lambda>level_element_ids.
     bind (process_levels E level_element_ids (udr_levels request)) (\<lambda>created_nodes.
     ret \<lparr>udres_success = True, udres_domain_element_id = udr_domain_element_id request,
          udres_domain_name = di_name (udr_domain request), udres_created_nodes = created_nodes,
          udres_affected_user_progress_count = affected_user_count\<rparr>)))))))"

subsection \<open>The loops never fail\<close>

lemma never_fails_run_logged [prog_rules]: "never_fails (run_logged E q x)"
  unfolding run_logged_def by (intro prog_rules)

lemma never_fails_process_requirement [prog_rules]:
  "never_fails (process_requirement E label lq eid nn created)"
  unfolding process_requirement_def create_component_node_def
  by (auto intro!: prog_rules split: option.split)

lemma never_fails_process_level_requirements [prog_rules]:
  "never_fails (process_level_requirements E level_element_id requirements)"
  unfolding process_level_requirements_def by (intro prog_rules)

lemma never_fails_create_levels [prog_rules]: "never_fails (create_levels E domain_element_id levels)"
  unfolding create_levels_def create_level_def by (intro prog_rules)

lemma never_fails_process_levels [prog_rules]: "never_fails (process_levels E ids levels)"
  unfolding process_levels_def
  by (auto intro!: prog_rules never_fails_no_panic [OF never_fails_process_level_requirements])

lemma no_panic_domain_operations [prog_rules]:
  "no_panic (get_domain E name)"
  "no_panic (validate_domain_name E name)"
  "no_panic (create_domain E cr)"
  "no_panic (update_domain E ur)"
proof -
  have [simp]: "validate_domain_request d l \<noteq> Panic" for d l
    by (simp add: validate_domain_request_def)
  have [prog_rules]: "no_panic (delete_progress E removed)" for removed
    unfolding delete_progress_def by (auto intro!: prog_rules)
  show "no_panic (get_domain E name)" "no_panic (validate_domain_name E name)"
    unfolding get_domain_def validate_domain_name_def by (intro prog_rules)+
  show "no_panic (create_domain E cr)" "no_panic (update_domain E ur)"
    unfolding create_domain_def update_domain_def
    by (auto intro!: prog_rules never_fails_no_panic [OF never_fails_create_levels]
        never_fails_no_panic [OF never_fails_process_levels] split: option.split)
qed

subsection \<open>Requirements and levels\<close>

text \<open>The levels are processed in pairs with the ids: the \<open>n\<close>-th id gets the requirements of the
  \<open>n\<close>-th level.\<close>

definition process_pair ::
  "env \<Rightarrow> created_node_info list \<Rightarrow> string \<times> domain_level \<Rightarrow> (service_error, created_node_info list) action" where
  "process_pair E created_nodes p =
     on_result (process_level_requirements E (fst p) (dl_requirements (snd p)))
       (\<lambda>nodes. ret (created_nodes @ nodes)) (\<lambda>e. ret created_nodes)"

lemma process_levels_zip: "process_levels E ids levels = fold_prog (process_pair E) [] (zip ids levels)"
proof -
  let ?f = "\<lambda>s y x. on_result (process_level_requirements E y (dl_requirements x))
              (\<lambda>nodes. ret (s @ nodes)) (\<lambda>e. ret s)"
  have "process_pair E = (\<lambda>s (y, x). ?f s y x)"
    by (auto simp: fun_eq_iff process_pair_def)
  then show ?thesis
    using fold_prog_enumerate_zip [where f = ?f and n = 0 and s = "[]" and ids = ids and xs = levels]
    by (simp add: process_levels_def)
qed

definition level_answer :: "env \<Rightarrow> string \<Rightarrow> effect list \<Rightarrow> domain_level \<Rightarrow> string option" where
  \<comment> \<open>the id the database gives for a level\<close>
  "level_answer E d h level =
     (case db_execute E h (create_level_query d level) of
        Inl e \<Rightarrow> None
      | Inr result \<Rightarrow> map_option (\<lambda>row. string_or_default row ''elementId'') (first_row result))"

definition level_history :: "string \<Rightarrow> effect list \<Rightarrow> domain_level list \<Rightarrow> effect list" where
  "level_history d h levels = h @ map (\<lambda>l. DbExecute (create_level_query d l)) levels"

primrec level_answers :: "env \<Rightarrow> string \<Rightarrow> effect list \<Rightarrow> domain_level list \<Rightarrow> string option list" where
  "level_answers E d h [] = []"
| "level_answers E d h (l # ls) =
     level_answer E d h l # level_answers E d (h @ [DbExecute (create_level_query d l)]) ls"

lemma level_answers_nth:
  "i < length ls \<Longrightarrow>
   level_answers E d h ls ! i = level_answer E d (level_history d h (take i ls)) (ls ! i)"
  by (induction ls arbitrary: h i) (auto simp: level_history_def nth_Cons' take_Cons')

lemma length_level_answers [simp]: "length (level_answers E d h ls) = length ls"
  by (induction ls arbitrary: h) auto

lemma create_level_run:
  "create_level E d ids l h =
     (Ok (ids @ (case level_answer E d h l of Some i \<Rightarrow> [i] | None \<Rightarrow> [])),
      h @ [DbExecute (create_level_query d l)])"
  by (auto simp: create_level_def level_answer_def on_result_def call_runs sum_outcome_def ret_def
      split: sum.split option.split)

lemma fold_create_level:
  "fold_prog (create_level E d) ids ls h =
     (Ok (ids @ List.map_filter (\<lambda>x. x) (level_answers E d h ls)), level_history d h ls)"
proof (induction ls arbitrary: ids h)
  case (Cons l ls)
  then show ?case
    by (auto simp: bind_def create_level_run List.map_filter_simps level_history_def split: option.split)
qed (simp add: ret_def List.map_filter_simps level_history_def)

lemma create_levels_run:
  "create_levels E d ls h =
     (Ok (List.map_filter (\<lambda>x. x) (level_answers E d h ls)), level_history d h ls)"
  by (simp add: create_levels_def fold_create_level)

lemma length_map_filter_id:
  "length (List.map_filter (\<lambda>x. x) xs) = length xs \<Longrightarrow> xs = map Some (List.map_filter (\<lambda>x. x) xs)"
proof (induction xs)
  case (Cons x xs)
  have "length (List.map_filter (\<lambda>x. x) xs) \<le> length xs"
    by (induction xs) (auto simp: List.map_filter_simps split: option.split)
  with Cons show ?case by (cases x) (auto simp: List.map_filter_simps)
qed (simp add: List.map_filter_simps)

lemma levels_aligned_when_all_created:
  assumes "create_levels E d ls h = (Ok ids, h')" and "length ids = length ls" and "i < length ls"
  shows "level_answer E d (level_history d h (take i ls)) (ls ! i) = Some (ids ! i)"
proof -
  have ids: "ids = List.map_filter (\<lambda>x. x) (level_answers E d h ls)"
    using assms(1) by (simp add: create_levels_run)
  then have "level_answers E d h ls = map Some ids"
    using assms(2) length_map_filter_id[of "level_answers E d h ls"] by simp
  then show ?thesis using level_answers_nth[OF assms(3), of E d h] assms(2,3) by simp
qed

text \<open>A level that could not be created is skipped in the list of ids: the requirements of every
  level from there on go to the node of the level after it, and those of the last one are lost.\<close>

lemma level_ids_shift:
  assumes "level_answer E d h l1 = None"
    and "level_answer E d (h @ [DbExecute (create_level_query d l1)]) l2 = Some i"
  shows "bind (create_levels E d [l1, l2]) (\<lambda>ids. process_levels E ids [l1, l2]) h =
     process_pair E [] (i, l1) (level_history d h [l1, l2])"
proof -
  have "bind m ret = m" for m :: "(service_error, created_node_info list) action"
    by (rule ext) (auto simp: bind_def ret_def split: prod.splits outcome.splits)
  then show ?thesis
    using assms
    by (simp add: bind_def [of "create_levels _ _ _"] create_levels_run List.map_filter_simps
        process_levels_zip)
qed

text \<open>The created nodes that are reported come from the new nodes of the request.\<close>

definition requested_node :: "level_requirements \<Rightarrow> created_node_info \<Rightarrow> bool" where
  "requested_node r info \<longleftrightarrow>
     (\<exists>k\<in>set (lreq_knowledge r). cni_labels info = [''Knowledge''] \<and> kr_node_element_id k = None \<and>
        map_option nd_name (kr_new_node k) = Some (cni_name info)) \<or>
     (\<exists>k\<in>set (lreq_skills r). cni_labels info = [''Skill''] \<and> sr_node_element_id k = None \<and>
        map_option nd_name (sr_new_node k) = Some (cni_name info)) \<or>
     (\<exists>k\<in>set (lreq_traits r). cni_labels info = [''Trait''] \<and> tr_node_element_id k = None \<and>
        map_option nd_name (tr_new_node k) = Some (cni_name info)) \<or>
     (\<exists>k\<in>set (lreq_milestones r). cni_labels info = [''Milestone''] \<and> mr_node_element_id k = None \<and>
        map_option nd_name (mr_new_node k) = Some (cni_name info))"

lemma returns_process_requirement:
  assumes "list_all P created"
    and "\<And>id nd. eid = None \<Longrightarrow> nn = Some nd \<Longrightarrow>
       P \<lparr>cni_element_id = id, cni_name = nd_name nd, cni_labels = [label]\<rparr>"
  shows "returns (process_requirement E label lq eid nn created) (list_all P)"
proof -
  have logged: "list_all P x \<Longrightarrow> returns (run_logged E q x) (list_all P)" for q x
    unfolding run_logged_def
    by (rule returns_on_result [where P = "\<lambda>_. True"]) (auto simp: returns_ret)
  show ?thesis
    unfolding process_requirement_def
    by (auto split: option.split simp: returns_ret assms(1)
        intro!: logged returns_on_result [where P = "\<lambda>_. True"] assms)
qed

lemma returns_process_level_requirements:
  "returns (process_level_requirements E level_id r) (list_all (requested_node r))"
  unfolding process_level_requirements_def
  by (rule returns_bind [where P = "list_all (requested_node r)"] returns_fold_prog
      returns_process_requirement | simp | assumption | (auto simp: requested_node_def; fail))+

text \<open>A request that is refused writes nothing; one that succeeds reports nodes of its levels only.\<close>

lemma create_domain_invalid:
  assumes "validate_domain_request (cdr_domain q) (cdr_levels q) = Err e"
  shows "create_domain E q h = (Err e, h)"
  using assms by (simp add: create_domain_def bind_def lift_outcome_def)

lemma create_domain_taken:
  assumes "validate_domain_request (cdr_domain q) (cdr_levels q) = Ok ()"
    and "db_execute E h (domain_exists_query (di_name (cdr_domain q))) = Inr (Inr r # rest)"
  shows "create_domain E q h = (Err (ValidationError ''Domain with this name already exists''),
     h @ [DbExecute (domain_exists_query (di_name (cdr_domain q)))])"
  using assms
  by (simp add: create_domain_def bind_def on_result_def lift_outcome_def call_runs sum_outcome_def
      first_row_def fail_def)

lemma process_levels_requested:
  "returns (process_levels E ids levels)
     (list_all (\<lambda>info. \<exists>l\<in>set levels. requested_node (dl_requirements l) info))"
proof -
  have "set pairs \<subseteq> set (zip ids levels) \<Longrightarrow>
      list_all (\<lambda>info. \<exists>l\<in>set levels. requested_node (dl_requirements l) info) acc \<Longrightarrow>
      returns (fold_prog (process_pair E) acc pairs)
        (list_all (\<lambda>info. \<exists>l\<in>set levels. requested_node (dl_requirements l) info))" for pairs acc
  proof (induction pairs arbitrary: acc)
    case (Cons p pairs)
    obtain i l where p: "p = (i, l)" by (cases p)
    with Cons.prems(1) have l: "l \<in> set levels" by (auto dest: set_zip_rightD)
    have "returns (process_pair E acc p)
        (list_all (\<lambda>info. \<exists>l\<in>set levels. requested_node (dl_requirements l) info))"
      unfolding process_pair_def p prod.case
      by (rule returns_on_result [OF returns_process_level_requirements])
        (use Cons.prems(2) l in \<open>auto simp: returns_ret list_all_iff\<close>)
    then show ?case
      using Cons by (auto intro!: returns_bind)
  qed (simp add: returns_ret)
  then show ?thesis by (simp add: process_levels_zip)
qed

lemma create_domain_Ok:
  assumes "create_domain E q h = (Ok res, h')"
  shows "validate_domain_request (cdr_domain q) (cdr_levels q) = Ok () \<and>
    (\<exists>s. db_execute E h (domain_exists_query (di_name (cdr_domain q))) = Inr s \<and> first_row s = None) \<and>
    cdres_domain_name res = di_name (cdr_domain q) \<and>
    list_all (\<lambda>info. \<exists>l\<in>set (cdr_levels q). requested_node (dl_requirements l) info)
      (cdres_created_nodes res)"
  using assms unfolding create_domain_def
proof (elim bind_OkE)
  fix u1 h1 u2 h2 did h3 ids h4 created h5
  assume valid: "lift_outcome (validate_domain_request (cdr_domain q) (cdr_levels q)) h = (Ok u1, h1)"
    and free: "on_result (graph_execute E (domain_exists_query (di_name (cdr_domain q))))
        (\<lambda>result. if first_row result \<noteq> None
           then fail (ValidationError ''Domain with this name already exists'') else ret ())
        (\<lambda>e. fail (DatabaseError ''Failed to check domain existence'')) h1 = (Ok u2, h2)"
    and nodes: "process_levels E ids (cdr_levels q) h4 = (Ok created, h5)"
    and res: "ret \<lparr>cdres_success = True, cdres_domain_element_id = did,
      cdres_domain_name = di_name (cdr_domain q), cdres_created_nodes = created\<rparr> h5 = (Ok res, h')"
  have "h1 = h" "validate_domain_request (cdr_domain q) (cdr_levels q) = Ok ()"
    using valid by (auto simp: lift_outcome_eq_Ok)
  moreover from free obtain s where "db_execute E h1 (domain_exists_query (di_name (cdr_domain q))) = Inr s"
    "first_row s = None"
    by (auto simp: prog_Ok_iff call_runs sum_outcome_def split: sum.splits if_splits)
  ultimately show ?thesis
    using returnsD[OF process_levels_requested nodes] res by (auto simp: ret_eq_Ok)
qed

subsection \<open>The order of the statements\<close>

text \<open>The check of the name: a row refuses the request; no row, and also a row that cannot be read,
  lets it pass to the creation.\<close>

lemma first_row_None_iff: "first_row s = None \<longleftrightarrow> s = [] \<or> (\<exists>e rest. s = Inl e # rest)"
  by (auto simp: first_row_def split: list.split sum.split)

lemma emits_process_levels: "emits (\<lambda>_. True) (process_levels E ids levels)"
  unfolding process_levels_def process_level_requirements_def process_requirement_def create_component_node_def
    run_logged_def run_returning_first_def case_prod_beta
  by (auto intro!: prog_rules split: option.split)

lemma create_domain_passed:
  assumes "validate_domain_request (cdr_domain q) (cdr_levels q) = Ok ()"
    and "db_execute E h (domain_exists_query (di_name (cdr_domain q))) = Inr s" and "first_row s = None"
  shows "\<exists>out u. create_domain E q h = (out, h @ [DbExecute (domain_exists_query (di_name (cdr_domain q))),
      DbExecute (create_domain_node_query (cdr_domain q))] @ u)"
proof -
  let ?h = "h @ [DbExecute (domain_exists_query (di_name (cdr_domain q)))]"
    and ?n = "create_domain_node_query (cdr_domain q)"
  let ?k = "\<lambda>d. bind (create_levels E d (cdr_levels q)) (\<lambda>ids.
      bind (process_levels E ids (cdr_levels q)) (\<lambda>created. ret \<lparr>cdres_success = True,
        cdres_domain_element_id = d, cdres_domain_name = di_name (cdr_domain q),
        cdres_created_nodes = created\<rparr>))"
  have rest: "emits (\<lambda>_. True) (?k d)" for d
    unfolding create_levels_def create_level_def by (intro prog_rules emits_process_levels) simp_all
  let ?made = "on_result (graph_execute E ?n)
        (\<lambda>result. case first_row result of
             Some row \<Rightarrow> ret (string_or_default row ''elementId'')
           | None \<Rightarrow> fail (DatabaseError ''Failed to create domain node''))
        (\<lambda>e. fail (DatabaseError ''Failed to create domain''))"
  have "snd (?made ?h) = ?h @ [DbExecute ?n]"
    by (simp add: on_result_def call_runs sum_outcome_def fail_def ret_def split: sum.split option.split)
  then obtain r where made: "?made ?h = (r, ?h @ [DbExecute ?n])" by (metis prod.collapse)
  have "\<exists>out u. bind ?made ?k ?h = (out, (?h @ [DbExecute ?n]) @ u)"
  proof (cases r)
    case (Ok d)
    obtain out h' where k: "?k d (?h @ [DbExecute ?n]) = (out, h')" by (cases "?k d (?h @ [DbExecute ?n])")
    from emitsE [OF rest k] obtain u where "h' = (?h @ [DbExecute ?n]) @ u" .
    moreover have "bind ?made ?k ?h = ?k d (?h @ [DbExecute ?n])"
      using made unfolding Ok by (rule bind_run)
    ultimately show ?thesis using k by metis
  qed (use made in \<open>simp_all add: bind_def\<close>)
  moreover have valid: "lift_outcome (validate_domain_request (cdr_domain q) (cdr_levels q)) h = (Ok (), h)"
    using assms(1) by (simp add: lift_outcome_def)
  moreover have free: "on_result (graph_execute E (domain_exists_query (di_name (cdr_domain q))))
      (\<lambda>result. if first_row result \<noteq> None
         then fail (ValidationError ''Domain with this name already exists'') else ret ())
      (\<lambda>e. fail (DatabaseError ''Failed to check domain existence'')) h = (Ok (), ?h)"
    using assms(2,3) by (simp add: on_result_def call_runs sum_outcome_def ret_def)
  have "create_domain E q h = bind ?made ?k ?h"
    unfolding create_domain_def
    by (subst bind_run(1), rule valid, subst bind_run(1), rule free, rule refl)
  ultimately show ?thesis by simp
qed

text \<open>An update deletes the old levels before it creates the new ones, and only logs a creation that
  fails.\<close>

lemma level_answers_none: "set (level_answers E d h ls) \<subseteq> {None} \<Longrightarrow> List.map_filter (\<lambda>x. x) (level_answers E d h ls) = []"
  by (induction ls arbitrary: h) (simp_all add: List.map_filter_simps)

lemma update_domain_after_deletion:
  assumes "validate_domain_request (udr_domain q) (udr_levels q) = Ok ()"
    and "db_execute E h (verify_domain_query (udr_domain_element_id q)) = Inr (Inr row # rest)"
    and "delete_progress E (udr_removed_node_element_ids q)
           (h @ [DbExecute (verify_domain_query (udr_domain_element_id q))]) =
         (Ok n :: (service_error, int) outcome, h1)"
    and "db_run E h1 (update_domain_node_query (udr_domain_element_id q) (udr_domain q)) = None"
    and "h2 = h1 @ [DbRun (update_domain_node_query (udr_domain_element_id q) (udr_domain q))]"
    and "db_run E h2 (delete_levels_query (udr_domain_element_id q)) = None"
    and "h3 = h2 @ [DbRun (delete_levels_query (udr_domain_element_id q))]"
  shows "\<exists>res u. update_domain E q h = (Ok res, h3 @ u) \<and> udres_success res \<and>
    (set (level_answers E (udr_domain_element_id q) h3 (udr_levels q)) \<subseteq> {None} \<longrightarrow>
       udres_created_nodes res = [] \<and>
       u = map (\<lambda>l. DbExecute (create_level_query (udr_domain_element_id q) l)) (udr_levels q))"
proof -
  let ?d = "udr_domain_element_id q" and ?ls = "udr_levels q"
  let ?ids = "List.map_filter (\<lambda>x. x) (level_answers E ?d h3 ?ls)"
  obtain created h4 where nodes: "process_levels E ?ids ?ls (level_history ?d h3 ?ls) = (Ok created, h4)"
    using never_fails_process_levels unfolding never_fails_iff by blast
  have "update_domain E q h = (Ok \<lparr>udres_success = True, udres_domain_element_id = ?d,
      udres_domain_name = di_name (udr_domain q), udres_created_nodes = created,
      udres_affected_user_progress_count = n\<rparr>, h4)"
    using assms nodes
    by (simp add: update_domain_def bind_def lift_outcome_def on_result_def call_runs sum_outcome_def
        first_row_def map_err_def ret_def create_levels_run)
  moreover obtain v where "h4 = level_history ?d h3 ?ls @ v"
    using emitsE [OF emits_process_levels nodes] by blast
  moreover have "created = [] \<and> v = []" if "set (level_answers E ?d h3 ?ls) \<subseteq> {None}"
    using nodes level_answers_none [OF that] calculation(2) by (simp add: process_levels_zip ret_def)
  ultimately show ?thesis by (auto simp: level_history_def)
qed

end
