(* ===== verification/Concurrency.thy ===== *)
theory Concurrency
  imports Graph_Domain
begin

text \<open>
  Requests that are served at the same time. A schedule is the list of all effects with the client that
  issued each; a program takes part in it when, in the environment that answers with everything issued
  before by anybody, it issues exactly its own effects. Theorems that hold in every environment hold in
  this one too, so that interference needs no further case; what needs one is a promise across two
  statements of a request. The case here is \<open>create_domain\<close> (\<open>graph/services/domain.rs\<close>), which checks
  the name with one statement and creates the domain with another.
\<close>

subsection \<open>Schedules\<close>

type_synonym schedule = "(nat \<times> effect) list"

fun own :: "nat \<Rightarrow> schedule \<Rightarrow> effect list" where
  "own c [] = []"
| "own c ((d, f) # w) = (if d = c then f # own c w else own c w)"

fun before :: "nat \<Rightarrow> schedule \<Rightarrow> nat \<Rightarrow> effect list" where
  \<comment> \<open>what everybody has issued when the client issues its \<open>n\<close>th effect (from 0)\<close>
  "before c [] n = []"
| "before c ((d, f) # w) 0 = (if d = c then [] else f # before c w 0)"
| "before c ((d, f) # w) (Suc n) = f # before c w (if d = c then n else Suc n)"

definition seen_by :: "env \<Rightarrow> effect list \<Rightarrow> schedule \<Rightarrow> nat \<Rightarrow> env" where
  "seen_by E h w c =
     E\<lparr>db_execute := (\<lambda>u. db_execute E (h @ before c w (length u))),
       db_run := (\<lambda>u. db_run E (h @ before c w (length u))),
       http_send := (\<lambda>u. http_send E (h @ before c w (length u))),
       sqs_send := (\<lambda>u. sqs_send E (h @ before c w (length u))),
       unix_nanos := (\<lambda>u. unix_nanos E (h @ before c w (length u))),
       instant_ms := (\<lambda>u. instant_ms E (h @ before c w (length u))),
       random_bytes := (\<lambda>u. random_bytes E (h @ before c w (length u)))\<rparr>"

definition takes_part ::
  "env \<Rightarrow> effect list \<Rightarrow> schedule \<Rightarrow> nat \<Rightarrow> (env \<Rightarrow> ('e, 'a) action) \<Rightarrow> ('e, 'a) outcome \<Rightarrow> bool" where
  "takes_part E h w c program r \<longleftrightarrow> program (seen_by E h w c) [] = (r, own c w)"

lemma before_other: "d \<noteq> c \<Longrightarrow> before c ((d, f) # w) n = f # before c w n"
  by (cases n) simp_all

lemma own_append [simp]: "own c (v @ w) = own c v @ own c w"
  by (induction v rule: own.induct) simp_all

lemma before_at [simp]: "before c (v @ (c, f) # w) (length (own c v)) = map snd v"
  by (induction c v rule: own.induct) (auto simp: before_other)

lemma before_first: "own c v = [] \<Longrightarrow> before c (v @ (c, f) # w) 0 = map snd v"
  using before_at [of c v f w] by simp

lemma own_first:
  "own c w = f # u \<Longrightarrow> \<exists>x y. w = x @ (c, f) # y \<and> own c x = [] \<and> own c y = u"
proof (induction c w rule: own.induct)
  case (2 c d g w)
  show ?case
  proof (cases "d = c")
    case True
    with "2.prems" show ?thesis by (intro exI [of _ "[]"] exI [of _ w]) simp
  next
    case False
    with 2 obtain x y where "w = x @ (c, f) # y" "own c x = []" "own c y = u" by auto
    with False show ?thesis by (intro exI [of _ "(d, g) # x"] exI [of _ y]) simp
  qed
qed simp

lemma seen_by_execute [simp]:
  "db_execute (seen_by E h w c) u = db_execute E (h @ before c w (length u))"
  by (simp add: seen_by_def)

subsection \<open>Two requests for the same name\<close>

definition created_in :: "env \<Rightarrow> effect list \<Rightarrow> string \<Rightarrow> bool" where
  \<comment> \<open>a statement of the history created a domain with the name\<close>
  "created_in E h n \<longleftrightarrow>
     (\<exists>u v d t. h = u @ DbExecute (create_domain_node_query d) # v \<and> di_name d = n \<and>
        db_execute E u (create_domain_node_query d) = Inr t \<and> first_row t \<noteq> None)"

definition missed :: "env \<Rightarrow> effect list \<Rightarrow> schedule \<Rightarrow> nat \<Rightarrow> domain_info \<Rightarrow> bool" where
  \<comment> \<open>the domain was created before the client checked its name, and the check answered no row, or one
    that cannot be read\<close>
  "missed E h w c d \<longleftrightarrow>
     (\<exists>u v t s. before c w 0 = u @ DbExecute (create_domain_node_query d) # v \<and>
        db_execute E (h @ u) (create_domain_node_query d) = Inr t \<and> first_row t \<noteq> None \<and>
        db_execute E (h @ before c w 0) (domain_exists_query (di_name d)) = Inr s \<and>
        (s = [] \<or> (\<exists>e rest. s = Inl e # rest)))"

lemma create_domain_statements:
  assumes "create_domain E q h = (Ok r, h')"
  shows "\<exists>s t u. h' = h @ [DbExecute (domain_exists_query (di_name (cdr_domain q))),
      DbExecute (create_domain_node_query (cdr_domain q))] @ u \<and>
    db_execute E h (domain_exists_query (di_name (cdr_domain q))) = Inr s \<and> first_row s = None \<and>
    db_execute E (h @ [DbExecute (domain_exists_query (di_name (cdr_domain q)))])
      (create_domain_node_query (cdr_domain q)) = Inr t \<and> first_row t \<noteq> None"
  using assms unfolding create_domain_def
proof (elim bind_OkE)
  fix u1 h1 u2 h2 did h3 ids h4 created h5
  assume "lift_outcome (validate_domain_request (cdr_domain q) (cdr_levels q)) h = (Ok u1, h1)"
    and free: "on_result (graph_execute E (domain_exists_query (di_name (cdr_domain q))))
        (\<lambda>result. if first_row result \<noteq> None
           then fail (ValidationError ''Domain with this name already exists'') else ret ())
        (\<lambda>e. fail (DatabaseError ''Failed to check domain existence'')) h1 = (Ok u2, h2)"
    and made: "on_result (graph_execute E (create_domain_node_query (cdr_domain q)))
        (\<lambda>result. case first_row result of
             Some row \<Rightarrow> ret (string_or_default row ''elementId'')
           | None \<Rightarrow> fail (DatabaseError ''Failed to create domain node''))
        (\<lambda>e. fail (DatabaseError ''Failed to create domain'')) h2 = (Ok did, h3)"
    and levels: "create_levels E did (cdr_levels q) h3 = (Ok ids, h4)"
    and nodes: "process_levels E ids (cdr_levels q) h4 = (Ok created, h5)"
    and res: "ret \<lparr>cdres_success = True, cdres_domain_element_id = did,
      cdres_domain_name = di_name (cdr_domain q), cdres_created_nodes = created\<rparr> h5 = (Ok r, h')"
  then have h1: "h1 = h" by (simp add: lift_outcome_eq_Ok)
  obtain s where "db_execute E h (domain_exists_query (di_name (cdr_domain q))) = Inr s" "first_row s = None"
    and h2: "h2 = h @ [DbExecute (domain_exists_query (di_name (cdr_domain q)))]"
    using free by (auto simp: h1 prog_Ok_iff call_runs sum_outcome_def split: sum.splits if_splits)
  moreover obtain t where "db_execute E h2 (create_domain_node_query (cdr_domain q)) = Inr t" "first_row t \<noteq> None"
    and h3: "h3 = h2 @ [DbExecute (create_domain_node_query (cdr_domain q))]"
    using made by (auto simp: prog_Ok_iff call_runs sum_outcome_def split: sum.splits option.splits)
  moreover obtain u where "h4 = h3 @ u" using levels by (auto simp: create_levels_run level_history_def)
  moreover obtain v where "h5 = h4 @ v"
    using emitsE [OF emits_process_levels nodes] by blast
  ultimately show ?thesis using res by (auto simp: ret_eq_Ok)
qed

lemma race_needs_overlap:
  assumes "c \<noteq> d" and not_missed: "\<not> missed E h w d (cdr_domain p)"
    and c: "takes_part E h w c (\<lambda>E. create_domain E p) (Ok a)"
    and d: "takes_part E h w d (\<lambda>E. create_domain E q) (Ok b)"
    and name: "di_name (cdr_domain p) = n" "di_name (cdr_domain q) = n"
    and first: "w = x @ (c, DbExecute (domain_exists_query n)) # y @ (d, DbExecute (domain_exists_query n)) # z"
      "own c x = []" "own d (x @ y) = []"
  shows "own c y = []"
proof (rule ccontr)
  assume "own c y \<noteq> []"
  obtain s t u where oc: "own c w = [DbExecute (domain_exists_query n),
      DbExecute (create_domain_node_query (cdr_domain p))] @ u"
    and t: "db_execute E (h @ before c w 1) (create_domain_node_query (cdr_domain p)) = Inr t" "first_row t \<noteq> None"
    using create_domain_statements [OF c [unfolded takes_part_def]] name(1) by auto
  have "own c w = DbExecute (domain_exists_query n) # own c y @ own c z"
    using first(1,2) \<open>c \<noteq> d\<close> by simp
  with oc \<open>own c y \<noteq> []\<close> obtain v where "own c y = DbExecute (create_domain_node_query (cdr_domain p)) # v"
    by (cases "own c y") auto
  then obtain y1 y2 where y: "y = y1 @ (c, DbExecute (create_domain_node_query (cdr_domain p))) # y2"
    and y1: "own c y1 = []" using own_first by blast
  let ?v = "x @ (c, DbExecute (domain_exists_query n)) # y1"
  have "length (own c ?v) = 1" using first(2) y1 by simp
  then have at: "before c w 1 = map snd ?v"
    using before_at [of c ?v "DbExecute (create_domain_node_query (cdr_domain p))"] first(1) y by simp
  let ?x = "x @ (c, DbExecute (domain_exists_query n)) # y"
  have "own d ?x = []" using first(3) \<open>c \<noteq> d\<close> by simp
  then have bd: "before d w 0 = map snd ?x"
    using before_first [of d ?x "DbExecute (domain_exists_query n)" z] first(1) by simp
  obtain s' where s': "db_execute E (h @ before d w 0) (domain_exists_query n) = Inr s'" "first_row s' = None"
    using create_domain_statements [OF d [unfolded takes_part_def]] name(2) by auto
  have "before d w 0 = map snd ?v @ DbExecute (create_domain_node_query (cdr_domain p)) # map snd y2"
    by (simp add: bd y)
  moreover have "db_execute E (h @ map snd ?v) (create_domain_node_query (cdr_domain p)) = Inr t"
    using t(1) at by simp
  moreover have "s' = [] \<or> (\<exists>e rest. s' = Inl e # rest)" using s'(2) first_row_None_iff by blast
  ultimately have "missed E h w d (cdr_domain p)"
    unfolding missed_def name(1) using t(2) s'(1) by blast
  with not_missed show False by blast
qed

definition checks_overlap :: "schedule \<Rightarrow> effect \<Rightarrow> nat \<Rightarrow> nat \<Rightarrow> bool" where
  \<comment> \<open>both clients issue the check as their first effect, and neither goes on before the other has checked\<close>
  "checks_overlap w check c d \<longleftrightarrow>
     (\<exists>i j x y z. {i, j} = {c, d} \<and> w = x @ (i, check) # y @ (j, check) # z \<and>
        own c (x @ y) = [] \<and> own d (x @ y) = [])"

lemma race_overlaps:
  assumes "c \<noteq> d"
    and c: "takes_part E h w c (\<lambda>E. create_domain E p) (Ok a)"
    and d: "takes_part E h w d (\<lambda>E. create_domain E q) (Ok b)"
    and name: "di_name (cdr_domain p) = n" "di_name (cdr_domain q) = n"
  shows "checks_overlap w (DbExecute (domain_exists_query n)) c d \<or>
    missed E h w d (cdr_domain p) \<or> missed E h w c (cdr_domain q)"
proof (rule ccontr)
  assume not: "\<not> ?thesis"
  let ?f = "DbExecute (domain_exists_query n)"
  have one: "checks_overlap w ?f c' d'"
    if c': "takes_part E h w c' (\<lambda>E. create_domain E p') (Ok a')"
      and d': "takes_part E h w d' (\<lambda>E. create_domain E q') (Ok b')"
      and n': "di_name (cdr_domain p') = n" "di_name (cdr_domain q') = n" and ne: "c' \<noteq> d'"
      and w: "w = x @ (c', ?f) # r" "own c' x = []" and x: "own d' x = []"
      and seen: "\<not> missed E h w d' (cdr_domain p')"
    for c' d' p' q' a' b' x r
  proof -
    obtain u where "own d' w = ?f # u"
      using create_domain_statements [OF d' [unfolded takes_part_def]] n'(2) by auto
    then have "own d' r = ?f # u" using w(1) x ne by simp
    then obtain y z where r: "r = y @ (d', ?f) # z" "own d' y = []" using own_first by blast
    have "own c' y = []"
      by (rule race_needs_overlap [OF ne seen c' d' n']) (use w x r in simp_all)
    with w x r show ?thesis
      unfolding checks_overlap_def
      by (intro exI [of _ c'] exI [of _ d'] exI [of _ x] exI [of _ y] exI [of _ z]) simp
  qed
  obtain u where "own c w = ?f # u"
    using create_domain_statements [OF c [unfolded takes_part_def]] name(1) by auto
  then obtain x r where w: "w = x @ (c, ?f) # r" "own c x = []" using own_first by blast
  show False
  proof (cases "own d x")
    case Nil
    then show ?thesis using one [OF c d name assms(1) w] not by simp
  next
    case (Cons g v)
    obtain u' where "own d w = ?f # u'"
      using create_domain_statements [OF d [unfolded takes_part_def]] name(2) by auto
    with Cons w have "own d x = ?f # v" by simp
    then obtain x1 x2 where x: "x = x1 @ (d, ?f) # x2" "own d x1 = []" using own_first by blast
    then have "own c x1 = []" using w(2) assms(1) by simp
    with x w not have "checks_overlap w ?f d c"
      by (intro one [OF d c name(2,1) assms(1) [symmetric]]) simp_all
    then have "checks_overlap w ?f c d" unfolding checks_overlap_def by (metis insert_commute)
    with not show ?thesis by simp
  qed
qed

end
