(* ===== verification/Llm.thy ===== *)
theory Llm
  imports Services
begin

text \<open>
  The LLM clients: \<open>agent/llm\<close> of the API (the trait \<open>LlmProvider\<close>, the Claude and the
  llama.cpp provider, the factory) and \<open>services/llm.rs\<close> of the worker. A provider is a request,
  the decoding of the answer, and the errors in between. The locale \<open>llm_provider\<close> states what
  the agents rely on: one call sends at most one HTTP request, nothing else, and does not panic.
\<close>

subsection \<open>Types\<close>

record generation_config =
  gc_max_tokens :: "nat option"
  gc_temperature :: "f64 option"
  gc_stop_sequences :: "string list option"

text \<open>The \<open>f32\<close> literals of the source.\<close>

definition f32_0_7 :: f64 where "f32_0_7 = Finite (11744051 / 16777216)"
definition f32_0_3 :: f64 where "f32_0_3 = Finite (5033165 / 16777216)"
definition f32_0_2 :: f64 where "f32_0_2 = Finite (13421773 / 67108864)"

definition default_generation_config :: generation_config where
  "default_generation_config =
     \<lparr>gc_max_tokens = Some 8192, gc_temperature = Some f32_0_7, gc_stop_sequences = None\<rparr>"

datatype llm_error =
    LlmConnectionFailed string
  | LlmRequestFailed string
  | LlmParseError string
  | LlmTimeout
  | LlmRateLimited
  | LlmNotConfigured string

fun llm_error_text :: "llm_error \<Rightarrow> string" where
  "llm_error_text (LlmConnectionFailed msg) = ''Connection failed: '' @ msg"
| "llm_error_text (LlmRequestFailed msg) = ''Request failed: '' @ msg"
| "llm_error_text (LlmParseError msg) = ''Parse error: '' @ msg"
| "llm_error_text LlmTimeout = ''Request timed out''"
| "llm_error_text LlmRateLimited = ''Rate limited''"
| "llm_error_text (LlmNotConfigured msg) = ''Not configured: '' @ msg"

text \<open>\<open>format!("{:?}", e)\<close>, the derived \<open>Debug\<close> text.\<close>

fun llm_error_debug :: "env \<Rightarrow> llm_error \<Rightarrow> string" where
  "llm_error_debug E (LlmConnectionFailed m) = ''ConnectionFailed('' @ debug_str E m @ '')''"
| "llm_error_debug E (LlmRequestFailed m) = ''RequestFailed('' @ debug_str E m @ '')''"
| "llm_error_debug E (LlmParseError m) = ''ParseError('' @ debug_str E m @ '')''"
| "llm_error_debug E LlmTimeout = ''Timeout''"
| "llm_error_debug E LlmRateLimited = ''RateLimited''"
| "llm_error_debug E (LlmNotConfigured m) = ''NotConfigured('' @ debug_str E m @ '')''"

subsection \<open>Claude Messages API\<close>

record content_block =
  cb_type :: string
  cb_text :: "string option"

record claude_usage =
  cu_input_tokens :: "nat option"
  cu_output_tokens :: "nat option"

record claude_response =
  cr_content :: "content_block list"
  cr_stop_reason :: "string option"
  cr_usage :: "claude_usage option"

definition de_content_block :: "json \<Rightarrow> content_block option" where
  "de_content_block v =
     Option.bind (de_field ''type'' de_string v) (\<lambda>ty.
     Option.bind (de_option ''text'' de_string v) (\<lambda>tx.
     Some \<lparr>cb_type = ty, cb_text = tx\<rparr>))"

definition de_claude_usage :: "json \<Rightarrow> claude_usage option" where
  "de_claude_usage v =
     Option.bind (as_object v) (\<lambda>_.
     Option.bind (de_option ''input_tokens'' (de_unsigned 32) v) (\<lambda>i.
     Option.bind (de_option ''output_tokens'' (de_unsigned 32) v) (\<lambda>out.
     Some \<lparr>cu_input_tokens = i, cu_output_tokens = out\<rparr>)))"

definition de_claude_response :: "json \<Rightarrow> claude_response option" where
  "de_claude_response v =
     Option.bind (de_field ''content'' (de_vec de_content_block) v) (\<lambda>c.
     Option.bind (de_option ''stop_reason'' de_string v) (\<lambda>r.
     Option.bind (de_option ''usage'' de_claude_usage v) (\<lambda>u.
     Some \<lparr>cr_content = c, cr_stop_reason = r, cr_usage = u\<rparr>)))"

definition de_claude_error :: "json \<Rightarrow> (string \<times> string) option" where
  \<comment> \<open>\<open>ClaudeErrorResponse\<close>: the type and the message of the error\<close>
  "de_claude_error =
     de_field ''error'' (\<lambda>v.
       Option.bind (de_field ''message'' de_string v) (\<lambda>m.
       Option.bind (de_field ''type'' de_string v) (\<lambda>ty. Some (ty, m))))"

definition json_nat :: "nat \<Rightarrow> json" where
  "json_nat n = JNum (PosInt n)"

definition json_message :: "string \<Rightarrow> string \<Rightarrow> json" where
  "json_message role content = JObj [(''role'', JStr role), (''content'', JStr content)]"

definition skip_none :: "string \<Rightarrow> ('a \<Rightarrow> json) \<Rightarrow> 'a option \<Rightarrow> (string \<times> json) list" where
  \<comment> \<open>\<open>skip_serializing_if = "Option::is_none"\<close>\<close>
  "skip_none k f x = (case x of None \<Rightarrow> [] | Some y \<Rightarrow> [(k, f y)])"

definition first_text :: "content_block list \<Rightarrow> string option" where
  "first_text blocks = find_map (\<lambda>block. if cb_type block = ''text'' then cb_text block else None) blocks"

record claude_provider =
  cp_api_key :: string
  cp_model :: string

definition claude_request :: "claude_provider \<Rightarrow> string \<Rightarrow> string \<Rightarrow> generation_config \<Rightarrow> json" where
  "claude_request p system_prompt user_prompt config =
     JObj ([(''model'', JStr (cp_model p)),
            (''max_tokens'', json_nat (case gc_max_tokens config of Some n \<Rightarrow> n | None \<Rightarrow> 16384)),
            (''system'', JStr system_prompt),
            (''messages'', JArr [json_message ''user'' user_prompt])] @
           skip_none ''temperature'' (\<lambda>t. JNum (Float t)) (gc_temperature config) @
           skip_none ''stop_sequences'' (\<lambda>ss. JArr (map JStr ss)) (gc_stop_sequences config))"

definition claude_endpoint :: string where
  "claude_endpoint = ''https://api.anthropic.com/v1/messages''"

definition claude_headers :: "string \<Rightarrow> (string \<times> string) list" where
  "claude_headers api_key =
     [(''x-api-key'', api_key), (''anthropic-version'', ''2023-06-01''),
      (''content-type'', ''application/json'')]"

definition claude_failure :: "env \<Rightarrow> nat \<Rightarrow> string option \<Rightarrow> llm_error" where
  \<comment> \<open>the answer has a status that is neither a success nor 429\<close>
  "claude_failure E status body =
     (let error_body = (case body of Some s \<Rightarrow> s | None \<Rightarrow> [])
      in case from_str E de_claude_error error_body of
           Ok (error_type, message) \<Rightarrow> LlmRequestFailed (error_type @ '': '' @ message)
         | _ \<Rightarrow> LlmRequestFailed (''Status '' @ status_text E status @ '': '' @ error_body))"

definition claude_answer :: "env \<Rightarrow> http_result \<Rightarrow> (llm_error, string) outcome" where
  \<comment> \<open>from the result of \<open>send()\<close> to the text of the model\<close>
  "claude_answer E response =
     (case response of
        HttpError timeout e \<Rightarrow> Err (if timeout then LlmTimeout else LlmConnectionFailed e)
      | HttpResponse status body \<Rightarrow>
          (if status = 429 then Err LlmRateLimited
           else if \<not> is_success status then Err (claude_failure E status body)
           else and_then (map_err_outcome LlmParseError (json_body E de_claude_response body)) (\<lambda>result.
                ok_or (LlmParseError ''No text content in response'') (first_text (cr_content result)))))"

definition ClaudeProvider_new :: "env \<Rightarrow> (llm_error, claude_provider) outcome" where
  "ClaudeProvider_new E =
     and_then (ok_or (LlmNotConfigured ''CLAUDE_API_KEY environment variable not set'')
                (env_var E ''CLAUDE_API_KEY'')) (\<lambda>api_key.
     let model = (case env_var E ''CLAUDE_MODEL'' of Some m \<Rightarrow> m | None \<Rightarrow> ''claude-sonnet-4-20250514'')
     in case client_error E of
          Some e \<Rightarrow> Err (LlmConnectionFailed e)
        | None \<Rightarrow> Ok \<lparr>cp_api_key = api_key, cp_model = model\<rparr>)"

definition claude_generate ::
  "env \<Rightarrow> claude_provider \<Rightarrow> string \<Rightarrow> string \<Rightarrow> generation_config \<Rightarrow> (llm_error, string) action" where
  "claude_generate E p system_prompt user_prompt config =
     bind (http_call E (post_json claude_endpoint (claude_headers (cp_api_key p))
             (claude_request p system_prompt user_prompt config))) (\<lambda>response.
     lift_outcome (claude_answer E response))"

definition claude_health_check :: "claude_provider \<Rightarrow> (llm_error, unit) outcome" where
  "claude_health_check p =
     (if cp_api_key p = [] then Err (LlmNotConfigured ''API key is empty'') else Ok ())"

subsection \<open>OpenAI-compatible chat completions\<close>

record llama_provider =
  lp_endpoint :: string

definition LlamaCppProvider_new :: "env \<Rightarrow> (llm_error, llama_provider) outcome" where
  "LlamaCppProvider_new E =
     and_then (ok_or (LlmConnectionFailed ''LLM_ENDPOINT environment variable not set'')
                (env_var E ''LLM_ENDPOINT'')) (\<lambda>endpoint.
     case client_error E of
       Some e \<Rightarrow> Err (LlmConnectionFailed e)
     | None \<Rightarrow> Ok \<lparr>lp_endpoint = endpoint\<rparr>)"

definition llama_request :: "string \<Rightarrow> string \<Rightarrow> generation_config \<Rightarrow> json" where
  "llama_request system_prompt user_prompt config =
     JObj [(''model'', JStr ''local''),
           (''messages'', JArr [json_message ''system'' system_prompt, json_message ''user'' user_prompt]),
           (''max_tokens'', json_opt json_nat (gc_max_tokens config)),
           (''temperature'', json_opt (\<lambda>t. JNum (Float t)) (gc_temperature config)),
           (''stop'', json_opt (\<lambda>ss. JArr (map JStr ss)) (gc_stop_sequences config)),
           (''stream'', JBool False)]"

definition de_chat_response :: "json \<Rightarrow> string list option" where
  \<comment> \<open>\<open>ChatCompletionResponse\<close>: the contents of the choices\<close>
  "de_chat_response =
     de_field ''choices'' (de_vec (de_field ''message'' (de_field ''content'' de_string)))"

definition llama_answer :: "env \<Rightarrow> http_result \<Rightarrow> (llm_error, string) outcome" where
  "llama_answer E response =
     (case response of
        HttpError timeout e \<Rightarrow> Err (LlmConnectionFailed e)
      | HttpResponse status body \<Rightarrow>
          (if \<not> is_success status
           then Err (LlmRequestFailed (''Status '' @ status_text E status @ '': '' @
                  (case body of Some s \<Rightarrow> s | None \<Rightarrow> [])))
           else and_then (map_err_outcome LlmParseError (json_body E de_chat_response body)) (\<lambda>choices.
                ok_or (LlmParseError ''No choices in response'') (first_of choices))))"

definition llama_generate ::
  "env \<Rightarrow> llama_provider \<Rightarrow> string \<Rightarrow> string \<Rightarrow> generation_config \<Rightarrow> (llm_error, string) action" where
  "llama_generate E p system_prompt user_prompt config =
     bind (http_call E (post_json (lp_endpoint p) [] (llama_request system_prompt user_prompt config)))
       (\<lambda>response. lift_outcome (llama_answer E response))"

definition llama_health_check :: "env \<Rightarrow> llama_provider \<Rightarrow> (llm_error, unit) action" where
  "llama_health_check E p =
     (let health_url = replace_str ''/v1/chat/completions'' ''/health'' (lp_endpoint p)
      in bind (http_call E \<lparr>hr_method = GET, hr_url = health_url, hr_headers = [], hr_body = None\<rparr>) (\<lambda>response.
         case response of
           HttpResponse status body \<Rightarrow>
             (if is_success status then ret ()
              else fail (LlmRequestFailed (''Health check returned status: '' @ status_text E status)))
         | HttpError timeout e \<Rightarrow> fail (LlmConnectionFailed e)))"

subsection \<open>The trait and the factory\<close>

datatype provider_type = LlamaCpp | Claude

definition default_provider_type :: provider_type where
  "default_provider_type = LlamaCpp"

datatype provider = ClaudeP claude_provider | LlamaP llama_provider

definition create_provider :: "env \<Rightarrow> provider_type \<Rightarrow> (llm_error, provider) outcome" where
  "create_provider E provider_type =
     (case provider_type of
        LlamaCpp \<Rightarrow> and_then (LlamaCppProvider_new E) (\<lambda>p. Ok (LlamaP p))
      | Claude \<Rightarrow> and_then (ClaudeProvider_new E) (\<lambda>p. Ok (ClaudeP p)))"

fun llm_generate ::
  "env \<Rightarrow> provider \<Rightarrow> string \<Rightarrow> string \<Rightarrow> generation_config \<Rightarrow> (llm_error, string) action" where
  "llm_generate E (ClaudeP p) s u c = claude_generate E p s u c"
| "llm_generate E (LlamaP p) s u c = llama_generate E p s u c"

fun provider_name :: "provider \<Rightarrow> string" where
  "provider_name (ClaudeP p) = ''claude''"
| "provider_name (LlamaP p) = ''llama-cpp''"

subsection \<open>The client of the worker\<close>

record worker_config =
  wc_max_tokens :: nat
  wc_temperature :: f64

definition default_worker_config :: worker_config where
  "default_worker_config = \<lparr>wc_max_tokens = 8192, wc_temperature = f32_0_7\<rparr>"

record llm_service =
  ls_api_key :: string
  ls_model :: string

definition LlmService_new :: "env \<Rightarrow> string \<Rightarrow> ('e, llm_service) outcome" where
  \<comment> \<open>with the \<open>expect("Failed to create HTTP client")\<close>\<close>
  "LlmService_new E api_key =
     (case client_error E of
        Some e \<Rightarrow> Panic
      | None \<Rightarrow> Ok \<lparr>ls_api_key = api_key, ls_model = ''claude-sonnet-4-20250514''\<rparr>)"

definition worker_llm_request :: "llm_service \<Rightarrow> string \<Rightarrow> string \<Rightarrow> worker_config \<Rightarrow> json" where
  "worker_llm_request s system_prompt user_prompt config =
     JObj [(''model'', JStr (ls_model s)), (''max_tokens'', json_nat (wc_max_tokens config)),
           (''system'', JStr system_prompt), (''messages'', JArr [json_message ''user'' user_prompt]),
           (''temperature'', JNum (Float (wc_temperature config)))]"

definition de_worker_claude_response :: "json \<Rightarrow> claude_response option" where
  \<comment> \<open>as \<open>de_claude_response\<close>, without the field \<open>usage\<close>\<close>
  "de_worker_claude_response v =
     Option.bind (de_field ''content'' (de_vec de_content_block) v) (\<lambda>c.
     Option.bind (de_option ''stop_reason'' de_string v) (\<lambda>r.
     Some \<lparr>cr_content = c, cr_stop_reason = r, cr_usage = None\<rparr>))"

definition worker_llm_answer :: "env \<Rightarrow> http_result \<Rightarrow> (llm_error, string) outcome" where
  "worker_llm_answer E response =
     (case response of
        HttpError timeout e \<Rightarrow> Err (if timeout then LlmTimeout else LlmConnectionFailed e)
      | HttpResponse status body \<Rightarrow>
          (if status = 429 then Err LlmRateLimited
           else if \<not> is_success status then Err (claude_failure E status body)
           else and_then (map_err_outcome LlmParseError (json_body E de_worker_claude_response body)) (\<lambda>result.
                ok_or (LlmParseError ''No text content in response'') (first_text (cr_content result)))))"

definition worker_llm_generate ::
  "env \<Rightarrow> llm_service \<Rightarrow> string \<Rightarrow> string \<Rightarrow> worker_config \<Rightarrow> (llm_error, string) action" where
  "worker_llm_generate E s system_prompt user_prompt config =
     bind (http_call E (post_json claude_endpoint (claude_headers (ls_api_key s))
             (worker_llm_request s system_prompt user_prompt config))) (\<lambda>response.
     lift_outcome (worker_llm_answer E response))"

fun llm_error_retryable :: "llm_error \<Rightarrow> bool" where
  "llm_error_retryable (LlmConnectionFailed _) = True"
| "llm_error_retryable LlmTimeout = True"
| "llm_error_retryable LlmRateLimited = True"
| "llm_error_retryable _ = False"

text \<open>With the same key, model and settings the worker sends the request of the API's Claude provider,
  and what the API reads from the answer the worker reads, too. (The converse fails for an answer whose
  field \<open>usage\<close> is malformed: only the API decodes it.)\<close>

lemma worker_request_is_claude_request:
  assumes "cp_model p = ls_model s"
  shows "worker_llm_request s system_prompt user_prompt \<lparr>wc_max_tokens = n, wc_temperature = t\<rparr> =
    claude_request p system_prompt user_prompt
      \<lparr>gc_max_tokens = Some n, gc_temperature = Some t, gc_stop_sequences = None\<rparr>"
  using assms by (simp add: worker_llm_request_def claude_request_def skip_none_def)

lemma de_claude_response_worker:
  "de_claude_response v = Some r \<Longrightarrow>
     \<exists>r'. de_worker_claude_response v = Some r' \<and> cr_content r' = cr_content r"
  by (auto simp: de_claude_response_def de_worker_claude_response_def split: bind_splits)

lemma json_body_Ok_mono:
  assumes "json_body E de body = Ok x" and "\<And>v y. de v = Some y \<Longrightarrow> \<exists>z. de' v = Some z \<and> f z = g y"
  shows "\<exists>z. json_body E de' body = Ok z \<and> f z = g x"
proof -
  obtain s v where "body = Some s" "json_parse E s = Inr v" "de v = Some x"
    using assms(1)
    by (auto simp: json_body_def from_str_def parse_value_def sum_outcome_def and_then_eq_Ok
        map_err_outcome_eq_Ok split: option.splits sum.splits)
  with assms(2)[of v x] show ?thesis
    by (auto simp: json_body_def from_str_def parse_value_def sum_outcome_def)
qed

lemma claude_answer_worker:
  assumes "claude_answer E response = Ok t"
  shows "worker_llm_answer E response = Ok t"
proof (cases response)
  case (HttpResponse status body)
  with assms obtain r where r: "json_body E de_claude_response body = Ok r"
    and ok: "status \<noteq> 429" "is_success status" "first_text (cr_content r) = Some t"
    by (cases "json_body E de_claude_response body")
      (auto simp: claude_answer_def split: if_splits)
  obtain r' where "json_body E de_worker_claude_response body = Ok r'" "cr_content r' = cr_content r"
    using json_body_Ok_mono [OF r, of de_worker_claude_response cr_content cr_content]
      de_claude_response_worker by blast
  with HttpResponse ok show ?thesis by (simp add: worker_llm_answer_def)
qed (use assms in \<open>simp add: claude_answer_def\<close>)

lemma worker_llm_agrees:
  assumes "cp_model p = ls_model s" and "cp_api_key p = ls_api_key s"
    and "claude_generate E p system_prompt user_prompt
      \<lparr>gc_max_tokens = Some n, gc_temperature = Some t, gc_stop_sequences = None\<rparr> h = (Ok a, h')"
  shows "worker_llm_generate E s system_prompt user_prompt \<lparr>wc_max_tokens = n, wc_temperature = t\<rparr> h = (Ok a, h')"
  using assms claude_answer_worker
  by (auto simp: claude_generate_def worker_llm_generate_def worker_request_is_claude_request [OF assms(1)]
      bind_eq_Ok lift_outcome_eq_Ok)

subsection \<open>What a caller relies on\<close>

locale llm_provider =
  fixes generate :: "string \<Rightarrow> string \<Rightarrow> 'c \<Rightarrow> (llm_error, string) action"
  assumes one_request: "\<exists>r out. generate s u c h = (out, h @ [Http r]) \<and> out \<noteq> Panic"
begin

lemma generate_emits [intro]: "(\<And>r. P (Http r)) \<Longrightarrow> emits P (generate s u c)"
proof (rule emitsI)
  fix h
  assume P: "\<And>r. P (Http r)"
  from one_request obtain r out where "generate s u c h = (out, h @ [Http r])" by blast
  with P show "\<exists>t. snd (generate s u c h) = h @ t \<and> list_all P t" by simp
qed

lemma generate_no_panic [intro]: "no_panic (generate s u c)"
  unfolding no_panic_iff
proof (intro allI)
  fix h h'
  from one_request[of s u c h] show "generate s u c h \<noteq> (Panic, h')" by auto
qed

text \<open>A call never touches the database, the queue or the stream of events.\<close>

lemma generate_http_only: "generate s u c h = (out, h') \<Longrightarrow> \<exists>t. h' = h @ t \<and> list_all is_http t"
  using generate_emits[of is_http s u c] by (auto elim: emitsE)

end

lemma map_err_json_body_no_panic [simp]: "map_err_outcome f (json_body E de b) \<noteq> Panic"
  using json_body_no_panic[of E de b] by (cases "json_body E de b") auto

lemma claude_answer_no_panic: "claude_answer E r \<noteq> Panic"
  by (auto simp: claude_answer_def and_then_eq_Panic split: http_result.split)

lemma llama_answer_no_panic: "llama_answer E r \<noteq> Panic"
  by (auto simp: llama_answer_def and_then_eq_Panic split: http_result.split)

lemma worker_llm_answer_no_panic: "worker_llm_answer E r \<noteq> Panic"
  by (auto simp: worker_llm_answer_def and_then_eq_Panic split: http_result.split)

interpretation agent_llm: llm_provider "llm_generate E p"
proof
  show "\<exists>r out. llm_generate E p s u c h = (out, h @ [Http r]) \<and> out \<noteq> Panic" for s u c h
    using claude_answer_no_panic llama_answer_no_panic
    by (cases p) (auto simp: claude_generate_def llama_generate_def bind_def lift_outcome_def call_runs)
qed

interpretation worker_llm: llm_provider "worker_llm_generate E s"
proof
  show "\<exists>r out. worker_llm_generate E s sys u c h = (out, h @ [Http r]) \<and> out \<noteq> Panic" for sys u c h
    using worker_llm_answer_no_panic
    by (auto simp: worker_llm_generate_def bind_def lift_outcome_def call_runs)
qed

end
