(* ===== verification/Graph_Relationship.thy ===== *)
theory Graph_Relationship
  imports Graph_Models
begin

text \<open>
  \<open>graph/services/relationship.rs\<close> and \<open>graph/services/search.rs\<close>: relationships between
  nodes, the text search and the two entrances of the vector search.
\<close>

subsection \<open>Relationships\<close>

definition create_relationship_query :: "env \<Rightarrow> create_relationship_request \<Rightarrow> query" where
  "create_relationship_query E request =
     (let properties = (case crr_properties request of Some p \<Rightarrow> p | None \<Rightarrow> []);
          set_clauses = set_clauses_of ''r'' properties
      in \<lparr>q_text =
            (if set_clauses = [] then text_lines
     [[],
      ''            MATCH (source), (target)'',
      ''            WHERE elementId(source) = $sourceId AND elementId(target) = $targetId'',
      ''            MERGE (source)-[r:'' @ crr_type request @ '']->(target)'',
      ''            RETURN elementId(r) AS elementId'',
      ''            '']
             else text_lines
     [[],
      ''            MATCH (source), (target)'',
      ''            WHERE elementId(source) = $sourceId AND elementId(target) = $targetId'',
      ''            MERGE (source)-[r:'' @ crr_type request @ '']->(target)'',
      ''            SET '' @ join '', '' set_clauses,
      ''            RETURN elementId(r) AS elementId'',
      ''            '']),
          q_params = [(''sourceId'', BStr (crr_source_id request)), (''targetId'', BStr (crr_target_id request))] @
            bolt_params E properties\<rparr>)"

definition create_relationship ::
  "env \<Rightarrow> create_relationship_request \<Rightarrow> (service_error, create_relationship_result) action" where
  "create_relationship E request =
     run_returning_first E (create_relationship_query E request)
       (\<lambda>row. \<lparr>rres_element_id = string_or_default row ''elementId'', rres_type = crr_type request,
               rres_source_id = crr_source_id request, rres_target_id = crr_target_id request\<rparr>)
       (DatabaseError ''Failed to get element ID after relationship creation'')"

definition update_relationship_query ::
  "env \<Rightarrow> string \<Rightarrow> string \<Rightarrow> json hash_map option \<Rightarrow> query" where
  "update_relationship_query E target_id relationship_type properties =
     (let props = (case properties of Some p \<Rightarrow> p | None \<Rightarrow> []);
          set_clauses = set_clauses_of ''r'' props
      in \<lparr>q_text =
            (if relationship_type \<noteq> []
             then (if set_clauses = []
                   then text_lines
     [[],
      ''                MATCH (source)-[r]->(target)'',
      ''                WHERE elementId(r) = $targetId'',
      ''                CREATE (source)-[newR:'' @ relationship_type @ '']->(target)'',
      ''                DELETE r'',
      ''                RETURN newR AS r'',
      ''                '']
                   else text_lines
     [[],
      ''                MATCH (source)-[r]->(target)'',
      ''                WHERE elementId(r) = $targetId'',
      ''                CREATE (source)-[newR:'' @ relationship_type @ '']->(target)'',
      ''                SET '' @ replace_str ''r.'' ''newR.'' (join '', '' set_clauses),
      ''                DELETE r'',
      ''                RETURN newR AS r'',
      ''                ''])
             else (if set_clauses = []
                   then text_lines
     [[],
      ''            MATCH ()-[r]->()'',
      ''            WHERE elementId(r) = $targetId'',
      ''            RETURN r'',
      ''            '']
                   else text_lines
     [[],
      ''                MATCH ()-[r]->()'',
      ''                WHERE elementId(r) = $targetId'',
      ''                SET '' @ join '', '' set_clauses,
      ''                RETURN r'',
      ''                ''])),
          q_params = (''targetId'', BStr target_id) # bolt_params E props\<rparr>)"

definition update_relationship ::
  "env \<Rightarrow> string \<Rightarrow> string \<Rightarrow> json hash_map option \<Rightarrow> (service_error, json list) action" where
  "update_relationship E target_id relationship_type properties =
     run_collecting E (update_relationship_query E target_id relationship_type properties)
       (\<lambda>row. value_or (JObj []) row ''r'')"

definition delete_relationship_query :: "string \<Rightarrow> query" where
  "delete_relationship_query element_id =
     \<lparr>q_text = text_lines
     [[],
      ''        MATCH ()-[r]->()'',
      ''        WHERE elementId(r) = $relId'',
      ''        DELETE r'',
      ''        RETURN count(r) AS deleted'',
      ''    ''],
      q_params = [(''relId'', BStr element_id)]\<rparr>"

definition delete_relationship :: "env \<Rightarrow> string \<Rightarrow> (service_error, int) action" where
  "delete_relationship E element_id =
     on_result (graph_execute E (delete_relationship_query element_id))
       (\<lambda>result. ret (case first_row result of
           Some row \<Rightarrow> (case col_i64 row ''deleted'' of Some deleted \<Rightarrow> deleted | None \<Rightarrow> 0)
         | None \<Rightarrow> 0))
       (\<lambda>e. fail (db_error e))"

subsection \<open>Search\<close>

definition search_nodes_query :: "string \<Rightarrow> string list option \<Rightarrow> int \<Rightarrow> query" where
  "search_nodes_query query_text labels limit =
     (let label_filter =
            (case labels of
               Some labels_vec \<Rightarrow> ''('' @ join '' OR '' (map (\<lambda>l. ''n:`'' @ l @ ''`'') labels_vec) @ '')''
             | None \<Rightarrow> ''(n:Knowledge OR n:Skill OR n:Trait OR n:Milestone)'')
      in \<lparr>q_text = text_lines
     [[],
      ''        MATCH (n)'',
      ''        WHERE '' @ label_filter @ '' AND toLower(n.name) CONTAINS toLower($query)'',
      ''        RETURN {'',
      ''            elementId: elementId(n),'',
      ''            labels: labels(n),'',
      ''            props: properties(n)'',
      ''        } AS node'',
      ''        ORDER BY n.name'',
      ''        LIMIT $limit'',
      ''        ''],
          q_params = [(''query'', BStr query_text), (''limit'', BInt limit)]\<rparr>)"

definition search_nodes ::
  "env \<Rightarrow> string \<Rightarrow> string list option \<Rightarrow> int \<Rightarrow> (service_error, json list) action" where
  "search_nodes E query_text labels limit =
     run_collecting E (search_nodes_query query_text labels limit) (\<lambda>row. value_or (JObj []) row ''node'')"

definition similar_node_json :: "similar_node \<Rightarrow> json" where
  \<comment> \<open>the derived \<open>Serialize\<close> of \<open>SimilarNodeResult\<close>\<close>
  "similar_node_json n =
     jobj [(''name'', JStr (sn_name n)), (''description'', json_opt JStr (sn_description n)),
           (''id'', JStr (sn_id n)), (''score'', f64_json (sn_score n))]"

definition service_find_similar_nodes ::
  "env \<Rightarrow> string option \<Rightarrow> f64 list option \<Rightarrow> int option \<Rightarrow> (service_error, json) action" where
  "service_find_similar_nodes E node_id embedding limit =
     (let has_node_id = node_id \<noteq> None;
          has_embedding = (case embedding of Some e \<Rightarrow> e \<noteq> [] | None \<Rightarrow> False)
      in if (\<not> has_node_id \<and> \<not> has_embedding) \<or> (has_node_id \<and> has_embedding)
         then fail (ValidationError ''Exactly one of 'nodeId' or 'embedding' must be provided'')
         else on_result
                (find_similar_nodes E
                   \<lparr>fs_node_id = node_id, fs_embedding = embedding, fs_text = None, fs_label = None,
                    fs_limit = limit\<rparr>)
                (\<lambda>result. ret (JArr (map similar_node_json result)))
                (\<lambda>e. fail (DatabaseError (''Error finding similar nodes: '' @ e))))"

subsection \<open>What the operations send\<close>

lemma emits_create_relationship [prog_rules]:
  "P (DbExecute (create_relationship_query E request)) \<Longrightarrow> emits P (create_relationship E request)"
  unfolding create_relationship_def by (intro prog_rules)

lemma no_panic_relationship_operations [prog_rules]:
  "no_panic (create_relationship E request)"
  "no_panic (update_relationship E target_id relationship_type properties)"
  "no_panic (delete_relationship E element_id)"
  "no_panic (search_nodes E query_text labels limit)"
  "no_panic (service_find_similar_nodes E node_id embedding limit_opt)"
  unfolding create_relationship_def update_relationship_def delete_relationship_def search_nodes_def
    service_find_similar_nodes_def Let_def
  by (auto intro!: prog_rules)

lemma create_relationship_Ok:
  "create_relationship E request h = (Ok res, h') \<Longrightarrow>
     h' = h @ [DbExecute (create_relationship_query E request)] \<and>
     rres_type res = crr_type request \<and> rres_source_id res = crr_source_id request \<and>
     rres_target_id res = crr_target_id request"
  by (auto simp: create_relationship_def run_returning_first_Ok)

lemma create_relationship_snd [simp]:
  "snd (create_relationship E request h) = h @ [DbExecute (create_relationship_query E request)]"
  by (simp add: create_relationship_def)

text \<open>The vector search of the services accepts a request exactly when one of the two keys is there.\<close>

lemma service_find_similar_rejects:
  "(\<exists>h' e. service_find_similar_nodes E node_id embedding limit h = (Err (ValidationError e), h')) \<longleftrightarrow>
     (node_id \<noteq> None \<longleftrightarrow> (\<exists>e. embedding = Some e \<and> e \<noteq> []))"
  by (auto simp: service_find_similar_nodes_def Let_def fail_def on_result_def ret_def
      split: option.splits prod.splits outcome.splits)

end
