(* ===== verification/Sqs.thy ===== *)
theory Sqs
  imports Llm
begin

text \<open>
  \<open>common/sqs.rs\<close>: the jobs that the API queues (the image of a domain, one node of a domain),
  their JSON bodies, and sending them. The SQS client is not under src/: \<open>send_message\<close> stands
  for it. The AWS region only configures that client and is left out.
\<close>

definition seconds_text :: "nat option \<Rightarrow> string" where
  \<comment> \<open>the text of the seconds since the epoch, \<open>"0"\<close> for a clock before it\<close>
  "seconds_text t = (case t of Some ns \<Rightarrow> nat_text (ns div 1000000000) | None \<Rightarrow> ''0'')"

subsection \<open>Images\<close>

record image_gen_job =
  ig_domain_name :: string
  ig_element_id :: string
  ig_prompt :: string
  ig_s3_key :: string
  ig_created_at :: string

definition ImageGenJob_new ::
  "env \<Rightarrow> string \<Rightarrow> string \<Rightarrow> string \<Rightarrow> string \<Rightarrow> ('e, image_gen_job) action" where
  "ImageGenJob_new E domain_name element_id prompt s3_key =
     bind (read_clock E) (\<lambda>now.
     ret \<lparr>ig_domain_name = domain_name, ig_element_id = element_id, ig_prompt = prompt,
          ig_s3_key = s3_key, ig_created_at = seconds_text now\<rparr>)"

definition image_job_json :: "image_gen_job \<Rightarrow> json" where
  "image_job_json j =
     JObj [(''domain_name'', JStr (ig_domain_name j)), (''element_id'', JStr (ig_element_id j)),
           (''prompt'', JStr (ig_prompt j)), (''s3_key'', JStr (ig_s3_key j)),
           (''created_at'', JStr (ig_created_at j))]"

definition is_queue_configured :: "env \<Rightarrow> bool" where
  "is_queue_configured E = (env_var E ''IMAGE_GEN_QUEUE_URL'' \<noteq> None)"

definition queue_image_generation :: "env \<Rightarrow> image_gen_job \<Rightarrow> (string, unit) action" where
  "queue_image_generation E job =
     bind (lift_outcome (ok_or ''IMAGE_GEN_QUEUE_URL environment variable not set''
             (env_var E ''IMAGE_GEN_QUEUE_URL''))) (\<lambda>queue_url.
     map_err (\<lambda>e. ''Failed to send message to SQS: '' @ e)
       (send_message E queue_url (json_print E (image_job_json job))))"

subsection \<open>Nodes\<close>

datatype node_type = KnowledgeT | SkillT | TraitT | MilestoneT

fun node_type_tag :: "node_type \<Rightarrow> string" where
  \<comment> \<open>\<open>#[serde(rename_all = "snake_case")]\<close>\<close>
  "node_type_tag KnowledgeT = ''knowledge''"
| "node_type_tag SkillT = ''skill''"
| "node_type_tag TraitT = ''trait''"
| "node_type_tag MilestoneT = ''milestone''"

record domain_level_info =
  dli_level :: nat
  dli_name :: string
  dli_element_id :: string

record node_generation_job =
  job_id :: string
  job_generation_id :: string
  job_sequence_number :: nat
  job_total_nodes :: nat
  job_node_type :: node_type
  job_node_name :: string
  job_domain_name :: string
  job_domain_description :: "string option"
  job_domain_element_id :: string
  job_domain_levels :: "domain_level_info list"
  job_suggested_level :: "nat option"
  job_created_at :: string
  job_retry_count :: nat

definition job_identifier :: "nat option \<Rightarrow> nat \<Rightarrow> string" where
  "job_identifier timestamp sequence_number =
     ''job-'' @ nat_text (case timestamp of Some ns \<Rightarrow> ns | None \<Rightarrow> 0) @ ''-'' @ nat_text sequence_number"

definition NodeGenerationJob_new ::
  "env \<Rightarrow> string \<Rightarrow> nat \<Rightarrow> nat \<Rightarrow> node_type \<Rightarrow> string \<Rightarrow> string \<Rightarrow> string option \<Rightarrow> string \<Rightarrow>
     domain_level_info list \<Rightarrow> nat option \<Rightarrow> ('e, node_generation_job) action" where
  "NodeGenerationJob_new E generation_id sequence_number total_nodes node_type node_name domain_name
     domain_description domain_element_id domain_levels suggested_level =
     bind (read_clock E) (\<lambda>timestamp.
     bind (read_clock E) (\<lambda>now.
     ret \<lparr>job_id = job_identifier timestamp sequence_number,
          job_generation_id = generation_id, job_sequence_number = sequence_number,
          job_total_nodes = total_nodes, job_node_type = node_type, job_node_name = node_name,
          job_domain_name = domain_name, job_domain_description = domain_description,
          job_domain_element_id = domain_element_id, job_domain_levels = domain_levels,
          job_suggested_level = suggested_level, job_created_at = seconds_text now,
          job_retry_count = 0\<rparr>))"

definition level_info_json :: "domain_level_info \<Rightarrow> json" where
  "level_info_json l =
     JObj [(''level'', json_nat (dli_level l)), (''name'', JStr (dli_name l)),
           (''element_id'', JStr (dli_element_id l))]"

definition node_job_json :: "node_generation_job \<Rightarrow> json" where
  \<comment> \<open>the derived \<open>Serialize\<close>: every field in declaration order, \<open>None\<close> as \<open>null\<close>\<close>
  "node_job_json j =
     JObj [(''job_id'', JStr (job_id j)),
           (''generation_id'', JStr (job_generation_id j)),
           (''sequence_number'', json_nat (job_sequence_number j)),
           (''total_nodes'', json_nat (job_total_nodes j)),
           (''node_type'', JStr (node_type_tag (job_node_type j))),
           (''node_name'', JStr (job_node_name j)),
           (''domain_name'', JStr (job_domain_name j)),
           (''domain_description'', json_opt JStr (job_domain_description j)),
           (''domain_element_id'', JStr (job_domain_element_id j)),
           (''domain_levels'', JArr (map level_info_json (job_domain_levels j))),
           (''suggested_level'', json_opt json_nat (job_suggested_level j)),
           (''created_at'', JStr (job_created_at j)),
           (''retry_count'', json_nat (job_retry_count j))]"

definition is_node_queue_configured :: "env \<Rightarrow> bool" where
  "is_node_queue_configured E = (env_var E ''DOMAIN_NODE_QUEUE_URL'' \<noteq> None)"

definition queue_node_generation :: "env \<Rightarrow> node_generation_job \<Rightarrow> (string, unit) action" where
  "queue_node_generation E job =
     bind (lift_outcome (ok_or ''DOMAIN_NODE_QUEUE_URL environment variable not set''
             (env_var E ''DOMAIN_NODE_QUEUE_URL''))) (\<lambda>queue_url.
     map_err (\<lambda>e. ''Failed to send message to SQS: '' @ e)
       (send_message E queue_url (json_print E (node_job_json job))))"

subsection \<open>Facts\<close>

lemma emits_queue [prog_rules]:
  "(\<And>url b. P (SqsSend url b)) \<Longrightarrow> emits P (queue_image_generation E ij)"
  "(\<And>url b. P (SqsSend url b)) \<Longrightarrow> emits P (queue_node_generation E nj)"
  "P ReadClock \<Longrightarrow> emits P (ImageGenJob_new E n i p k)"
  "P ReadClock \<Longrightarrow> emits P (NodeGenerationJob_new E g s t ty nm dn dd de dl sl)"
  unfolding queue_image_generation_def queue_node_generation_def ImageGenJob_new_def
    NodeGenerationJob_new_def
  by (auto intro!: prog_rules)

lemma no_panic_queue [prog_rules]:
  "no_panic (queue_image_generation E ij)"
  "no_panic (queue_node_generation E nj)"
  "no_panic (ImageGenJob_new E n i p k)"
  "no_panic (NodeGenerationJob_new E g s t ty nm dn dd de dl sl)"
  unfolding queue_image_generation_def queue_node_generation_def ImageGenJob_new_def
    NodeGenerationJob_new_def
  by (auto intro!: prog_rules)

lemma never_fails_new_job [prog_rules]:
  "never_fails (ImageGenJob_new E n i p k)"
  "never_fails (NodeGenerationJob_new E g s t ty nm dn dd de dl sl)"
  unfolding ImageGenJob_new_def NodeGenerationJob_new_def by (intro prog_rules)+

text \<open>Two jobs of one batch that were made at the same instant still have different ids.\<close>

lemma job_identifier_inj: "job_identifier t m = job_identifier t n \<longleftrightarrow> m = n"
  by (simp add: job_identifier_def nat_text_inj)

end
