(* ===== verification/Steps_Common.thy ===== *)
theory Steps_Common
  imports Prompts Graph_Node Graph_Relationship Sqs
begin

text \<open>
  \<open>agent/steps/mod.rs\<close>: reading the answers of the LLM, the decision by score, and the interface
  \<open>AgentStep\<close> that the orchestrator relies on; then the parts that several steps write out the
  same way up to a label or a prompt.

  A step changes the context it is given, and the orchestrator reads that context also after a
  failure. The error of a step is therefore the message together with the context at that point.
\<close>

subsection \<open>Answers of the LLM\<close>

definition preview :: "string \<Rightarrow> ('e, string) outcome" where
  \<comment> \<open>\<open>if trimmed.len() > 200 { &trimmed[..200] } else { trimmed }\<close>\<close>
  "preview s = (if length s > 200 then slice s 0 200 else Ok s)"

definition parse_concept_list :: "env \<Rightarrow> string \<Rightarrow> (string, string list) outcome" where
  "parse_concept_list E response =
     (let trimmed = trim response
      in case find_char CHR ''['' trimmed of
           None \<Rightarrow>
             and_then (preview trimmed) (\<lambda>p. Err (''No JSON array found in response. Preview: '' @ p))
         | Some start \<Rightarrow>
         (case rfind_char CHR '']'' trimmed of
           None \<Rightarrow> and_then (preview trimmed) (\<lambda>p. Err (''No closing bracket found. Preview: '' @ p))
         | Some end \<Rightarrow>
             (if end \<le> start then Err ''Invalid JSON array structure''
              else and_then (slice trimmed start (end + 1)) (\<lambda>json_str.
                   map_err_outcome
                     (\<lambda>e. ''Failed to parse JSON array: '' @ e @ ''. Content: '' @ json_str)
                     (from_str E (de_vec de_string) json_str)))))"

definition object_text_guarded :: "string \<Rightarrow> string \<Rightarrow> string \<Rightarrow> string \<Rightarrow> (string, string) outcome" where
  \<comment> \<open>from the first brace to the last one, with the check \<open>end <= start\<close>\<close>
  "object_text_guarded no_open no_close invalid response =
     (let trimmed = trim response
      in and_then (ok_or no_open (find_char CHR ''{'' trimmed)) (\<lambda>start.
         and_then (ok_or no_close (rfind_char CHR ''}'' trimmed)) (\<lambda>end.
         if end \<le> start then Err invalid else slice trimmed start (end + 1))))"

definition object_text :: "string \<Rightarrow> string \<Rightarrow> string \<Rightarrow> (string, string) outcome" where
  \<comment> \<open>the same without the check\<close>
  "object_text no_open no_close response =
     (let trimmed = trim response
      in and_then (ok_or no_open (find_char CHR ''{'' trimmed)) (\<lambda>start.
         and_then (ok_or no_close (rfind_char CHR ''}'' trimmed)) (\<lambda>end.
         slice trimmed start (end + 1))))"

definition parse_failed :: "(string, json) outcome \<Rightarrow> (string, json) outcome" where
  "parse_failed = map_err_outcome (\<lambda>e. ''Failed to parse JSON: '' @ e)"

definition non_null_text :: "string option \<Rightarrow> string option" where
  \<comment> \<open>\<open>.filter(|s| !s.is_empty() && *s != "null")\<close>\<close>
  "non_null_text s =
     (case s of Some t \<Rightarrow> if t \<noteq> [] \<and> t \<noteq> ''null'' then Some t else None | None \<Rightarrow> None)"

definition parse_verification_response ::
  "env \<Rightarrow> string \<Rightarrow> string \<Rightarrow> (string, verified_concept) outcome" where
  "parse_verification_response E response concept =
     and_then (object_text_guarded ''No JSON object found in response'' ''No closing brace found''
                 ''Invalid JSON object structure'' response) (\<lambda>json_str.
     and_then (parse_failed (parse_value E json_str)) (\<lambda>parsed.
     and_then (ok_or ''Missing 'decision' field'' (jstr_field parsed ''decision'')) (\<lambda>decision.
     let existing_node = non_null_text (jstr_field parsed ''existing_node_name'');
         suggested_target = non_null_text (jstr_field parsed ''suggested_target'')
     in if decision = ''use_existing'' then
          and_then (ok_or ''Missing existing_node_name for use_existing'' existing_node) (\<lambda>node_name.
          Ok (vc_use_existing concept node_name))
        else if decision = ''create_new'' then Ok (vc_create_new concept)
        else if decision = ''create_and_generalize'' then
          and_then (ok_or ''Missing target for create_and_generalize (need existing_node_name or suggested_target)''
                      (case suggested_target of Some t \<Rightarrow> Some t | None \<Rightarrow> existing_node)) (\<lambda>target_name.
          Ok (vc_create_and_generalize concept [] target_name False))
        else Err (''Unknown decision: '' @ decision))))"

definition SIMILARITY_THRESHOLD_LOW :: f64 where "SIMILARITY_THRESHOLD_LOW = f64_0_70"

definition SIMILARITY_THRESHOLD_HIGH :: f64 where "SIMILARITY_THRESHOLD_HIGH = f64_0_95"

definition determine_action_by_score :: "string \<Rightarrow> similar_node list \<Rightarrow> verified_concept option" where
  "determine_action_by_score concept similar_nodes =
     (case similar_nodes of
        [] \<Rightarrow> Some (vc_create_new concept)
      | best # _ \<Rightarrow>
          (if f64_lt (sn_score best) SIMILARITY_THRESHOLD_LOW then Some (vc_create_new concept)
           else if f64_ge (sn_score best) SIMILARITY_THRESHOLD_HIGH
           then Some (vc_use_existing concept (sn_id best))
           else None))"

subsection \<open>Shared parts of the steps\<close>

definition text_of :: "string option \<Rightarrow> string" where
  \<comment> \<open>\<open>unwrap_or_default()\<close>\<close>
  "text_of s = (case s of Some t \<Rightarrow> t | None \<Rightarrow> [])"

definition gen_config :: "nat \<Rightarrow> f64 \<Rightarrow> generation_config" where
  "gen_config max_tokens temperature =
     \<lparr>gc_max_tokens = Some max_tokens, gc_temperature = Some temperature, gc_stop_sequences = None\<rparr>"

definition ask_llm ::
  "env \<Rightarrow> provider \<Rightarrow> string \<Rightarrow> string \<Rightarrow> generation_config \<Rightarrow> (string, string) action" where
  \<comment> \<open>\<open>llm.generate(...).await.map_err(|e| format!("LLM error: {:?}", e))\<close>\<close>
  "ask_llm E llm system prompt config =
     map_err (\<lambda>e. ''LLM error: '' @ llm_error_debug E e) (llm_generate E llm system prompt config)"

definition search_text ::
  "env \<Rightarrow> string \<Rightarrow> string \<Rightarrow> int \<Rightarrow> (string, similar_node list) action" where
  "search_text E label text limit =
     map_err (\<lambda>e. ''Similarity search failed: '' @ e)
       (find_similar_nodes E (default_similar_request
          \<lparr>fs_text := Some text, fs_label := Some label, fs_limit := Some limit\<rparr>))"

definition similarity_pass ::
  "env \<Rightarrow> string \<Rightarrow> string list \<Rightarrow> (string, (string \<times> similar_node list) list) action" where
  \<comment> \<open>\<open>pass2_similarity_search\<close> of the three steps that have one\<close>
  "similarity_pass E label concepts =
     batch (\<lambda>concept. bind (search_text E label concept 3) (\<lambda>similar. ret (concept, similar))) concepts"

definition resolve_target ::
  "env \<Rightarrow> string \<Rightarrow> string \<Rightarrow> similar_node list \<Rightarrow> verified_concept \<Rightarrow> (string, verified_concept) action" where
  \<comment> \<open>the block that follows the answer of the LLM in \<open>pass3_verify_matches\<close>\<close>
  "resolve_target E label concept similar_nodes decision =
     (case vc_action decision of
        CreateAndGeneralize _ target_name _ \<Rightarrow>
          (case find (\<lambda>n. sn_name n = target_name) similar_nodes of
             Some node \<Rightarrow> ret (vc_create_and_generalize concept (sn_id node) target_name False)
           | None \<Rightarrow>
               bind (search_text E label target_name 1) (\<lambda>search_results.
               ret (case search_results of
                      found # _ \<Rightarrow>
                        (if f64_ge (sn_score found) f64_0_95 \<or> sn_name found = target_name
                         then vc_create_and_generalize concept (sn_id found) target_name False
                         else vc_create_and_generalize concept [] target_name True)
                    | [] \<Rightarrow> vc_create_and_generalize concept [] target_name True)))
      | _ \<Rightarrow> ret decision)"

definition missing_targets :: "verified_concept list \<Rightarrow> (nat \<times> string) list" where
  "missing_targets verified =
     List.map_filter (\<lambda>(idx, concept). case vc_action concept of
         CreateAndGeneralize _ name True \<Rightarrow> Some (idx, name) | _ \<Rightarrow> None) (enumerate 0 verified)"

definition is_use_existing :: "concept_action \<Rightarrow> bool" where
  "is_use_existing a = (case a of UseExisting _ \<Rightarrow> True | _ \<Rightarrow> False)"

definition concepts_to_generate :: "verified_concept list \<Rightarrow> (string \<times> string option) list" where
  "concepts_to_generate verified =
     map (\<lambda>c. (vc_name c, case vc_action c of CreateAndGeneralize _ name _ \<Rightarrow> Some name | _ \<Rightarrow> None))
       (filter (\<lambda>c. \<not> is_use_existing (vc_action c)) verified)"

definition string_props :: "(string \<times> string) list \<Rightarrow> json hash_map" where
  "string_props = map (\<lambda>(k, v). (k, JStr v))"

definition create_step_node ::
  "env \<Rightarrow> string \<Rightarrow> json hash_map \<Rightarrow> (string, create_node_result) action" where
  \<comment> \<open>\<open>services::create_node(&graph, request, false).await.map_err(|e| e.to_string())\<close>\<close>
  "create_step_node E label props =
     map_err (service_error_text E)
       (create_node E \<lparr>cnr_labels = [label], cnr_properties = props\<rparr> False)"

definition str_field_or :: "json \<Rightarrow> string \<Rightarrow> string \<Rightarrow> string" where
  \<comment> \<open>\<open>parsed.get(k).and_then(|v| v.as_str()).unwrap_or(d)\<close>\<close>
  "str_field_or parsed k d = (case jstr_field parsed k of Some s \<Rightarrow> s | None \<Rightarrow> d)"

definition relationship :: "string \<Rightarrow> string \<Rightarrow> string \<Rightarrow> create_relationship_request" where
  "relationship source_id target_id relationship_type =
     \<lparr>crr_source_id = source_id, crr_target_id = target_id, crr_type = relationship_type,
      crr_properties = None\<rparr>"

definition generalize_one ::
  "env \<Rightarrow> string \<Rightarrow> created_node list \<Rightarrow> agent_context \<Rightarrow> verified_concept \<Rightarrow>
     (string \<times> agent_context, agent_context) action" where
  \<comment> \<open>the body of the loop of \<open>pass7_create_generalization_relationships\<close>\<close>
  "generalize_one E node_type created context concept =
     (case vc_action concept of
        CreateAndGeneralize generalizes_to_id generalizes_to_name _ \<Rightarrow>
          (case find (\<lambda>n. cn_name n = vc_name concept) created of
             None \<Rightarrow> fail (''Node not found: '' @ vc_name concept, context)
           | Some source \<Rightarrow>
               on_result (create_relationship E
                   (relationship (cn_element_id source) generalizes_to_id ''GENERALIZES_TO''))
                 (\<lambda>_. ret (add_generalization context
                    \<lparr>gl_specific_id = cn_element_id source, gl_specific_name = cn_name source,
                     gl_general_id = generalizes_to_id, gl_general_name = generalizes_to_name,
                     gl_node_type = node_type\<rparr>))
                 (\<lambda>_. ret context))
      | _ \<Rightarrow> ret context)"

definition generalize_pass ::
  "env \<Rightarrow> string \<Rightarrow> verified_concept list \<Rightarrow> created_node list \<Rightarrow> agent_context \<Rightarrow>
     (string \<times> agent_context, agent_context) action" where
  \<comment> \<open>\<open>pass7_create_generalization_relationships\<close> of the two steps that have it\<close>
  "generalize_pass E node_type verified created context =
     fold_prog (generalize_one E node_type created) context verified"

definition keeping :: "agent_context \<Rightarrow> (string, 'a) action \<Rightarrow> (string \<times> agent_context, 'a) action" where
  \<comment> \<open>\<open>?\<close> on a call that does not change the context\<close>
  "keeping context m = map_err (\<lambda>e. (e, context)) m"

lemma keeping_Ok [simp]: "keeping c m h = (Ok x, h') \<longleftrightarrow> m h = (Ok x, h')"
  by (simp add: keeping_def map_err_eq_Ok)

definition announce_nodes ::
  "agent_type \<Rightarrow> string \<Rightarrow> (created_node \<Rightarrow> bool) \<Rightarrow> (agent_context \<Rightarrow> created_node \<Rightarrow> agent_context) \<Rightarrow>
     created_node list \<Rightarrow> agent_context \<Rightarrow> ('e, agent_context) action" where
  \<comment> \<open>the loop that sends \<open>NodeCreated\<close> and adds the node to the context\<close>
  "announce_nodes a label reused add nodes context =
     fold_prog (\<lambda>context node.
        bind (emit_event (NodeCreated a (cn_name node) label (reused node))) (\<lambda>_.
        ret (add context node))) context nodes"

definition progress :: "agent_type \<Rightarrow> string \<Rightarrow> ('e, unit) action" where
  "progress a message = emit_event (StepProgress a message)"

subsection \<open>Reading the answers\<close>

lemma object_text_guarded_safe: "well_encoded response \<Longrightarrow> object_text_guarded a b c response \<noteq> Panic"
  by (auto simp: object_text_guarded_def Let_def and_then_eq_Panic slice_between)

text \<open>Without the check, the answer of an LLM can bring the task down: exactly when its last closing
  brace stands before its first opening brace, with something between the two.\<close>

lemma object_text_panics_iff:
  assumes "well_encoded response"
  shows "object_text a b response = Panic \<longleftrightarrow>
    (\<exists>i j. find_char CHR ''{'' (trim response) = Some i \<and>
           rfind_char CHR ''}'' (trim response) = Some j \<and> j + 1 < i)"
  using assms
  by (auto simp: object_text_def Let_def and_then_eq_Panic slice_between not_le split: if_splits)

definition crossed_braces :: "string \<Rightarrow> bool" where
  "crossed_braces response \<longleftrightarrow>
     (\<exists>i j. find_char CHR ''{'' (trim response) = Some i \<and>
            rfind_char CHR ''}'' (trim response) = Some j \<and> j + 1 < i)"

lemma object_text_crossed: "well_encoded response \<Longrightarrow> object_text a b response = Panic \<longleftrightarrow> crossed_braces response"
  by (simp only: object_text_panics_iff crossed_braces_def)

lemma object_text_eq_guarded:
  assumes "find_char CHR ''{'' (trim response) = Some i"
    and "rfind_char CHR ''}'' (trim response) = Some j" and "i < j"
  shows "object_text a b response = object_text_guarded a b c response"
  using assms by (simp add: object_text_def object_text_guarded_def)

lemma parse_failed_no_panic [simp]: "parse_failed (parse_value E s) \<noteq> Panic"
  by (auto simp: parse_failed_def parse_value_def sum_outcome_def split: sum.split)

lemma parse_verification_safe:
  "well_encoded response \<Longrightarrow> parse_verification_response E response concept \<noteq> Panic"
  by (auto simp: parse_verification_response_def and_then_eq_Panic object_text_guarded_safe Let_def
      split: if_splits)

lemma parse_verification_name:
  "parse_verification_response E response concept = Ok d \<Longrightarrow> vc_name d = concept"
  by (auto simp: parse_verification_response_def and_then_eq_Ok Let_def vc_defs split: if_splits)

text \<open>\<open>use_existing\<close> carries the name that the LLM gave, where the action holds an element id.\<close>

lemma parse_verification_use_existing:
  assumes "object_text_guarded ''No JSON object found in response'' ''No closing brace found''
             ''Invalid JSON object structure'' response = Ok s"
    and "parse_value E s = Ok v" and "jstr_field v ''decision'' = Some ''use_existing''"
    and "jstr_field v ''existing_node_name'' = Some name" and "name \<noteq> []" and "name \<noteq> ''null''"
  shows "parse_verification_response E response concept = Ok (vc_use_existing concept name)"
  using assms by (simp add: parse_verification_response_def parse_failed_def non_null_text_def)

lemma concept_list_panic_iff:
  assumes "well_encoded response"
  shows "parse_concept_list E response = Panic \<longleftrightarrow>
     (CHR ''['' \<notin> set (trim response) \<or> CHR '']'' \<notin> set (trim response)) \<and>
     200 < length (trim response) \<and> \<not> char_boundary (trim response) 200"
proof -
  have pre: "and_then (preview s) (\<lambda>p. Err (f p)) = (Panic :: (string, string list) outcome) \<longleftrightarrow>
      200 < length s \<and> \<not> char_boundary s 200" for s :: string and f :: "string \<Rightarrow> string"
  proof -
    have "char_boundary s 0" by (simp add: char_boundary_def)
    then show ?thesis by (auto simp: preview_def slice_def)
  qed
  have conv: "map_err_outcome g (from_str E de t) \<noteq> Panic" for g :: "string \<Rightarrow> string" and t and de :: "json \<Rightarrow> string list option"
    using from_str_no_panic[of E de t] by (cases "from_str E de t") auto
  show ?thesis
  proof (cases "find_char CHR ''['' (trim response)")
    case None
    then have mem: "CHR ''['' \<notin> set (trim response)" by simp
    show ?thesis
      unfolding parse_concept_list_def Let_def None option.case using pre mem by simp
  next
    case (Some i)
    then have mem: "CHR ''['' \<in> set (trim response)" by (metis find_char_None option.distinct(1))
    show ?thesis
    proof (cases "rfind_char CHR '']'' (trim response)")
      case None
      then have "CHR '']'' \<notin> set (trim response)" by simp
      then show ?thesis
        unfolding parse_concept_list_def Let_def Some None option.case using pre by simp
    next
      case j: (Some j)
      then have "CHR '']'' \<in> set (trim response)" by (metis rfind_char_None option.distinct(1))
      then show ?thesis using Some j mem assms conv
        by (simp add: parse_concept_list_def Let_def slice_between)
    qed
  qed
qed

subsection \<open>Decisions\<close>

lemma determine_action_None_iff:
  "determine_action_by_score concept ns = None \<longleftrightarrow>
     (\<exists>n rest. ns = n # rest \<and> \<not> f64_lt (sn_score n) SIMILARITY_THRESHOLD_LOW \<and>
        \<not> f64_ge (sn_score n) SIMILARITY_THRESHOLD_HIGH)"
  by (auto simp: determine_action_by_score_def split: list.split)

lemma determine_action_name:
  "determine_action_by_score concept ns = Some d \<Longrightarrow> vc_name d = concept"
  by (auto simp: determine_action_by_score_def vc_defs split: list.splits if_splits)

lemma resolve_target_name:
  assumes "vc_name decision = concept"
  shows "returns (resolve_target E label concept ns decision) (\<lambda>d. vc_name d = concept)"
proof -
  have "returns (resolve_target E label concept ns decision) (\<lambda>d. vc_name d = concept)"
    if "vc_action decision = CreateAndGeneralize g n b" for g n b
    using that assms
    by (cases "find (\<lambda>x. sn_name x = n) ns")
      (auto simp: resolve_target_def returns_ret vc_defs intro!: returns_bindI split: list.split)
  then show ?thesis
    using assms by (cases "vc_action decision") (auto simp: resolve_target_def returns_ret)
qed

text \<open>A resolved target is either found, or without id and marked for creation.\<close>

definition target_resolved :: "concept_action \<Rightarrow> bool" where
  "target_resolved a = (case a of CreateAndGeneralize gid _ needs \<Rightarrow> needs \<longrightarrow> gid = [] | _ \<Rightarrow> True)"

lemma resolve_target_resolved:
  assumes "\<And>g n b. vc_action decision = CreateAndGeneralize g n b \<Longrightarrow> \<not> b"
  shows "returns (resolve_target E label concept ns decision) (\<lambda>d. target_resolved (vc_action d))"
proof -
  have "returns (resolve_target E label concept ns decision) (\<lambda>d. target_resolved (vc_action d))"
    if "vc_action decision = CreateAndGeneralize g n b" for g n b
    using that
    by (cases "find (\<lambda>x. sn_name x = n) ns")
      (auto simp: resolve_target_def returns_ret vc_defs target_resolved_def intro!: returns_bindI
        split: list.split)
  then show ?thesis
    by (cases "vc_action decision") (auto simp: resolve_target_def returns_ret target_resolved_def)
qed

lemma length_concepts_to_generate:
  "length (concepts_to_generate verified) = length (filter (\<lambda>c. \<not> is_use_existing (vc_action c)) verified)"
  by (simp add: concepts_to_generate_def)

subsection \<open>Events\<close>

text \<open>The events a step may send: about itself, and never one of the orchestrator's.\<close>

fun step_event :: "agent_type \<Rightarrow> sse_event \<Rightarrow> bool" where
  "step_event a (StepProgress b m) = (b = a)"
| "step_event a (SimilarityCheck b c n s) = (b = a)"
| "step_event a (VerificationResult b c d g) = (b = a)"
| "step_event a (NodeCreated b n l r) = (b = a)"
| "step_event a _ = False"

fun own_effect :: "agent_type \<Rightarrow> effect \<Rightarrow> bool" where
  "own_effect a (Emit ev) = step_event a ev"
| "own_effect a _ = True"

definition silent :: "('e, 'a) action \<Rightarrow> bool" where
  "silent m = emits (\<lambda>f. \<not> is_emit f) m"

lemma silent_own: "silent m \<Longrightarrow> emits (own_effect a) m"
  unfolding silent_def
proof (erule emits_mono)
  show "\<not> is_emit f \<Longrightarrow> own_effect a f" for f by (cases f) auto
qed

lemma silent_services:
  "silent (find_similar_nodes E r)"
  "silent (llm_generate E p s u c)"
  "silent (create_node E cnr chk)"
  "silent (create_relationship E crr)"
  "silent (queue_image_generation E ij)"
  "silent (ImageGenJob_new E n i pr k)"
  unfolding silent_def
proof -
  show "emits (\<lambda>f. \<not> is_emit f) (find_similar_nodes E r)"
  proof (rule emits_mono [OF emits_find_similar_nodes(1)])
    show "search_effect f \<Longrightarrow> \<not> is_emit f" for f by (cases f) auto
  qed
  show "emits (\<lambda>f. \<not> is_emit f) (llm_generate E p s u c)" by (rule agent_llm.generate_emits) simp
  show "emits (\<lambda>f. \<not> is_emit f) (create_node E cnr chk)" by (rule emits_create_node) simp_all
qed (auto intro!: prog_rules)

lemma emits_shared_parts [prog_rules]:
  "emits (own_effect a) (ask_llm E p s u c)"
  "emits (own_effect a) (search_text E label t l)"
  "emits (own_effect a) (similarity_pass E label concepts)"
  "emits (own_effect a) (resolve_target E label concept ns d)"
  "emits (own_effect a) (create_step_node E label props)"
  "emits (own_effect a) (create_relationship E crr)"
  "emits (own_effect a) (queue_image_generation E ij)"
  "emits (own_effect a) (ImageGenJob_new E n i pr k)"
proof -
  note [prog_rules] = silent_own [OF silent_services(1)] silent_own [OF silent_services(2)]
    silent_own [OF silent_services(3)] silent_own [OF silent_services(4)]
  show [prog_rules]: "emits (own_effect a) (search_text E label t l)" for t l
    unfolding search_text_def by (intro prog_rules)
  show "emits (own_effect a) (ask_llm E p s u c)"
    unfolding ask_llm_def by (intro prog_rules)
  show "emits (own_effect a) (similarity_pass E label concepts)"
    unfolding similarity_pass_def by (intro prog_rules)
  show "emits (own_effect a) (resolve_target E label concept ns d)"
    unfolding resolve_target_def
    by (auto intro!: prog_rules split: concept_action.split option.split)
  show "emits (own_effect a) (create_step_node E label props)"
    unfolding create_step_node_def by (intro prog_rules)
qed (rule silent_own, rule silent_services)+

lemma progress_run: "progress a m h = (Ok (), h @ [Emit (StepProgress a m)])"
  by (simp add: progress_def call_runs)

lemma emits_step_parts [prog_rules]:
  "emits (own_effect a) (progress a m)"
  "emits (own_effect a) (generalize_pass E ty verified created context)"
  "emits (own_effect a) (announce_nodes a label reused add nodes context)"
  "emits (own_effect a) m' \<Longrightarrow> emits (own_effect a) (keeping c m')"
  unfolding progress_def generalize_pass_def generalize_one_def announce_nodes_def keeping_def
  by (auto intro!: prog_rules split: concept_action.split option.split)

lemma never_fails_progress [prog_rules]: "never_fails (progress a m)"
  unfolding progress_def by (intro prog_rules)

lemma never_fails_announce_nodes [prog_rules]:
  "never_fails (announce_nodes a label reused add nodes context)"
  unfolding announce_nodes_def by (intro prog_rules)

subsection \<open>The context grows\<close>

definition grows_from :: "agent_context \<Rightarrow> (string \<times> agent_context, agent_context) action \<Rightarrow> bool" where
  "grows_from c m = ends m (context_grows c) (\<lambda>(e, c'). context_grows c c')"

lemma ends_keeping: "context_grows c c' \<Longrightarrow> ends (keeping c' m) (\<lambda>_. True) (\<lambda>(e, c''). context_grows c c'')"
  unfolding keeping_def by (rule ends_map_err) simp

lemma ends_progress: "ends (progress a m) (\<lambda>_. True) R"
  by (intro never_fails_ends prog_rules)

lemma ends_emit: "ends (emit_event ev) (\<lambda>_. True) R"
  by (intro never_fails_ends prog_rules)

lemma ends_announce_nodes:
  assumes "context_grows c c'" and "\<And>x n. context_grows x (add x n)"
  shows "ends (announce_nodes a label reused add nodes c') (context_grows c) R"
  unfolding announce_nodes_def
proof (rule ends_fold_prog)
  show "context_grows c c'" by (rule assms)
  show "ends (bind (emit_event (NodeCreated a (cn_name n) label (reused n))) (\<lambda>_. ret (add x n)))
          (context_grows c) R" if "context_grows c x" for x n
    using context_grows_trans[OF that assms(2)]
    by (auto simp: ends_def bind_def call_runs ret_def)
qed

lemma ends_generalize_one:
  assumes "context_grows c x"
  shows "ends (generalize_one E ty created x v) (context_grows c) (\<lambda>(e, c''). context_grows c c'')"
proof -
  have "context_grows c (add_generalization x l)" for l
    using context_grows_trans[OF assms] by blast
  then show ?thesis
    unfolding generalize_one_def using assms
    by (auto intro!: ends_on_result [where P = "\<lambda>_. True" and S = "\<lambda>_. True"]
        split: concept_action.split option.split)
qed

lemma ends_generalize_pass:
  "context_grows c c' \<Longrightarrow>
   ends (generalize_pass E ty verified created c') (context_grows c) (\<lambda>(e, c''). context_grows c c'')"
  unfolding generalize_pass_def by (rule ends_fold_prog) (auto intro: ends_generalize_one)

subsection \<open>The interface\<close>

text \<open>
  \<open>trait AgentStep\<close>: what the orchestrator relies on. A step only adds to the context, also when
  it fails half way, and only sends events of its own.
\<close>

locale agent_step =
  fixes agent :: agent_type
    and execute :: "agent_context \<Rightarrow> (string \<times> agent_context, agent_context) action"
  assumes grows: "grows_from c (execute c)"
    and own_events: "emits (own_effect agent) (execute c)"
begin

lemma success_grows: "execute c h = (Ok c', h') \<Longrightarrow> context_grows c c'"
  using grows[of c] by (auto simp: grows_from_def ends_def)

lemma failure_grows: "execute c h = (Err (e, c'), h') \<Longrightarrow> context_grows c c'"
  using grows[of c] unfolding grows_from_def ends_def by fast

lemma appends: "execute c h = (out, h') \<Longrightarrow> \<exists>u. h' = h @ u \<and> list_all (own_effect agent) u"
  using own_events[of c] by (auto elim: emitsE)

end

end
