(* ===== verification/Domain_Architect.thy ===== *)
theory Domain_Architect
  imports Steps_Common
begin

text \<open>
  \<open>steps/domain_architect.rs\<close>: the first step. It creates the \<open>Domain\<close> node, queues the image
  of the domain (a failure there is only logged), and creates the five \<open>Domain_Level\<close> nodes with
  their \<open>HAS_DOMAIN_LEVEL\<close> relationships.
\<close>

definition sanitized_name :: "env \<Rightarrow> string \<Rightarrow> string" where
  "sanitized_name E domain_name =
     concat (filter (\<lambda>c. is_alphanumeric E c \<or> c = ''_'')
       (str_chars (replace_char CHR '' '' ''_'' (to_lowercase E domain_name))))"

definition avatar_prompt :: "string \<Rightarrow> string" where
  "avatar_prompt domain_name =
     ''A beautiful, artistic icon representing the domain of '' @ [CHR 0x27] @ domain_name @ [CHR 0x27] @
     ''. Clean, modern design suitable for an app avatar. '' @
     ''Minimalist style with vibrant colors on a simple background. '' @
     ''No text or words.''"

definition queue_avatar_generation :: "env \<Rightarrow> string \<Rightarrow> string \<Rightarrow> ('e, unit) action" where
  "queue_avatar_generation E domain_name element_id =
     (if \<not> is_queue_configured E then ret ()
      else bind (ImageGenJob_new E domain_name element_id (avatar_prompt domain_name)
                   (''domains/'' @ sanitized_name E domain_name @ ''/avatar.png'')) (\<lambda>job.
           on_result (queue_image_generation E job)
             (\<lambda>_. progress DomainArchitect ''Domain avatar queued for generation'')
             (\<lambda>e. ret ())))"

record level_info =
  li_level :: int
  li_name :: string
  li_description :: string
  li_total_points_required :: int

definition get_level_structure :: "string \<Rightarrow> level_info list" where
  "get_level_structure domain_name =
     [\<lparr>li_level = 1, li_name = domain_name @ '' Novice'',
       li_description = ''Beginning your journey in '' @ domain_name, li_total_points_required = 100\<rparr>,
      \<lparr>li_level = 2, li_name = domain_name @ '' Developing'',
       li_description = ''Building foundational skills in '' @ domain_name, li_total_points_required = 200\<rparr>,
      \<lparr>li_level = 3, li_name = domain_name @ '' Competent'',
       li_description = ''Demonstrating solid competence in '' @ domain_name, li_total_points_required = 400\<rparr>,
      \<lparr>li_level = 4, li_name = domain_name @ '' Advanced'',
       li_description = ''Achieving advanced mastery in '' @ domain_name, li_total_points_required = 700\<rparr>,
      \<lparr>li_level = 5, li_name = domain_name @ '' Master'',
       li_description = ''Expert-level mastery of '' @ domain_name, li_total_points_required = 1000\<rparr>]"

definition level_props :: "level_info \<Rightarrow> json hash_map" where
  "level_props level_info =
     [(''name'', JStr (li_name level_info)), (''description'', JStr (li_description level_info)),
      (''level'', json_int (li_level level_info)),
      (''total_points_required'', json_int (li_total_points_required level_info))]"

definition architect_level ::
  "env \<Rightarrow> string \<Rightarrow> agent_context \<Rightarrow> level_info \<Rightarrow> (string \<times> agent_context, agent_context) action" where
  \<comment> \<open>one iteration of the loop over the levels\<close>
  "architect_level E domain_id context level_info =
     bind (keeping context (create_step_node E ''Domain_Level'' (level_props level_info))) (\<lambda>level_result.
     bind (keeping context (map_err (service_error_text E) (create_relationship E
             (relationship domain_id (nres_element_id level_result) ''HAS_DOMAIN_LEVEL'')))) (\<lambda>_.
     (let level_node = CreatedNode_new (li_name level_info) (nres_element_id level_result) ''Domain_Level''
      in bind (emit_event (NodeCreated DomainArchitect (cn_name level_node) ''Domain_Level'' False)) (\<lambda>_.
         ret (add_domain_level context level_node)))))"

definition architect_execute ::
  "env \<Rightarrow> agent_context \<Rightarrow> (string \<times> agent_context, agent_context) action" where
  "architect_execute E context =
     (let domain_name = ctx_domain_name context;
          description = text_of (ctx_description context)
      in bind (progress DomainArchitect ''Creating domain node...'') (\<lambda>_.
         bind (keeping context (create_step_node E ''Domain''
                 (string_props [(''name'', domain_name), (''description'', description)]))) (\<lambda>domain_result.
         let domain_node = CreatedNode_new domain_name (nres_element_id domain_result) ''Domain''
         in bind (emit_event (NodeCreated DomainArchitect (cn_name domain_node) ''Domain'' False)) (\<lambda>_.
            bind (queue_avatar_generation E domain_name (nres_element_id domain_result)) (\<lambda>_.
            let context = set_domain context domain_node;
                levels = get_level_structure domain_name
            in bind (progress DomainArchitect
                       (''Creating '' @ nat_text (length levels) @ '' domain levels...'')) (\<lambda>_.
               fold_prog (architect_level E (nres_element_id domain_result)) context levels))))))"

subsection \<open>The step satisfies the interface\<close>

lemma emits_avatar [prog_rules]:
  "emits (own_effect DomainArchitect) (queue_avatar_generation E n i)"
  unfolding queue_avatar_generation_def by (intro prog_rules)

lemma emits_architect: "emits (own_effect DomainArchitect) (architect_execute E c)"
  unfolding architect_execute_def architect_level_def Let_def
  by (intro prog_rules) simp_all

lemma ends_avatar: "ends (queue_avatar_generation E n i) (\<lambda>_. True) R"
  unfolding queue_avatar_generation_def by (intro never_fails_ends prog_rules)

lemma ends_architect_level:
  assumes "context_grows c x"
  shows "ends (architect_level E d x l) (context_grows c) (\<lambda>(e, c'). context_grows c c')"
proof -
  have "context_grows c (add_domain_level x n)" for n
    using assms context_grows_trans by blast
  then show ?thesis
    unfolding architect_level_def Let_def
    by (auto intro!: ends_bind [where P = "\<lambda>_. True"] ends_keeping ends_emit assms)
qed

lemma architect_grows: "grows_from c (architect_execute E c)"
  unfolding grows_from_def architect_execute_def Let_def
  by (auto intro!: ends_bind [where P = "\<lambda>_. True"] ends_keeping ends_emit ends_progress ends_avatar
      ends_fold_prog ends_architect_level)

interpretation architect_step: agent_step DomainArchitect "architect_execute E"
  by unfold_locales (rule architect_grows, rule emits_architect)

subsection \<open>The structure of a new domain\<close>

lemma level_structure_points:
  "map li_level (get_level_structure d) = [1, 2, 3, 4, 5]"
  "sorted_wrt (<) (map li_total_points_required (get_level_structure d))"
  by (simp_all add: get_level_structure_def)

definition level_nodes_of :: "level_info list \<Rightarrow> created_node list \<Rightarrow> bool" where
  \<comment> \<open>one new \<open>Domain_Level\<close> node for every level, in order\<close>
  "level_nodes_of levels ns \<longleftrightarrow>
     list_all2 (\<lambda>l n. cn_name n = li_name l \<and> cn_label n = ''Domain_Level'' \<and> \<not> cn_was_reused n) levels ns"

lemma architect_level_Ok:
  "architect_level E d c l h = (Ok c', h') \<Longrightarrow>
     \<exists>i. c' = add_domain_level c (CreatedNode_new (li_name l) i ''Domain_Level'')"
  by (auto simp: architect_level_def prog_Ok_iff Let_def)

lemma architect_levels_Ok:
  "fold_prog (architect_level E d) c ls h = (Ok c', h') \<Longrightarrow>
     \<exists>ns. level_nodes_of ls ns \<and>
       c' = c\<lparr>ctx_graph := (ctx_graph c)\<lparr>reg_domain_levels := reg_domain_levels (ctx_graph c) @ ns\<rparr>\<rparr>"
proof (induction ls arbitrary: c h)
  case (Cons l ls)
  then obtain c1 h1 where 1: "architect_level E d c l h = (Ok c1, h1)"
    and 2: "fold_prog (architect_level E d) c1 ls h1 = (Ok c', h')"
    by (auto simp: bind_eq_Ok)
  obtain i where c1: "c1 = add_domain_level c (CreatedNode_new (li_name l) i ''Domain_Level'')"
    using architect_level_Ok[OF 1] by blast
  obtain ns where "level_nodes_of ls ns"
    "c' = c1\<lparr>ctx_graph := (ctx_graph c1)\<lparr>reg_domain_levels := reg_domain_levels (ctx_graph c1) @ ns\<rparr>\<rparr>"
    using Cons.IH[OF 2] by blast
  with c1 show ?case
    by (intro exI[of _ "CreatedNode_new (li_name l) i ''Domain_Level'' # ns"])
      (simp add: level_nodes_of_def add_domain_level_def CreatedNode_new_def)
qed (simp add: ret_def level_nodes_of_def)

lemma architect_builds_five_levels:
  assumes "architect_execute E c h = (Ok c', h')"
  shows "\<exists>i ns. level_nodes_of (get_level_structure (ctx_domain_name c)) ns \<and> length ns = 5 \<and>
     reg_domain (ctx_graph c') = Some (CreatedNode_new (ctx_domain_name c) i ''Domain'') \<and>
     ctx_domain_element_id c' = Some i \<and>
     reg_domain_levels (ctx_graph c') = reg_domain_levels (ctx_graph c) @ ns"
proof -
  obtain i h1 where "fold_prog (architect_level E i)
      (set_domain c (CreatedNode_new (ctx_domain_name c) i ''Domain''))
      (get_level_structure (ctx_domain_name c)) h1 = (Ok c', h')"
    using assms by (auto simp: architect_execute_def Let_def prog_Ok_iff)
  from architect_levels_Ok[OF this] obtain ns where
    ns: "level_nodes_of (get_level_structure (ctx_domain_name c)) ns"
    and c': "c' = set_domain c (CreatedNode_new (ctx_domain_name c) i ''Domain'')
       \<lparr>ctx_graph := (ctx_graph (set_domain c (CreatedNode_new (ctx_domain_name c) i ''Domain'')))
         \<lparr>reg_domain_levels := reg_domain_levels (ctx_graph
            (set_domain c (CreatedNode_new (ctx_domain_name c) i ''Domain''))) @ ns\<rparr>\<rparr>"
    by blast
  have "length ns = 5"
    using ns list_all2_lengthD unfolding level_nodes_of_def
    by (fastforce simp: get_level_structure_def)
  with ns c' show ?thesis
    by (intro exI[of _ i] exI[of _ ns]) (simp add: set_domain_def CreatedNode_new_def)
qed

end
