(* ===== verification/Concept_Passes.thy ===== *)
theory Concept_Passes
  imports Steps_Common
begin

text \<open>
  Passes 4 to 6 of the knowledge step and of the skill step. The two files write them out with the
  same text up to a label, two prompts, a system prompt, the parser of the properties and the
  properties of the node; a \<open>concept_kind\<close> is that choice. The two steps instantiate it.
\<close>

record 'p concept_kind =
  ck_label :: string
  ck_system :: string
  ck_generic_prompt :: "string \<Rightarrow> string"
  ck_prompt :: "string \<Rightarrow> string \<Rightarrow> string option \<Rightarrow> string"
  ck_parse :: "string \<Rightarrow> string \<Rightarrow> (string, 'p) outcome"
  ck_props :: "'p \<Rightarrow> json hash_map"
  ck_name :: "'p \<Rightarrow> string"
  ck_missing :: string

definition target_properties ::
  "env \<Rightarrow> provider \<Rightarrow> 'p concept_kind \<Rightarrow> nat \<times> string \<Rightarrow> (string, nat \<times> string \<times> 'p) action" where
  \<comment> \<open>one future of pass 4\<close>
  "target_properties E llm k t =
     bind (ask_llm E llm (ck_system k) (ck_generic_prompt k (snd t)) (gen_config 2048 f32_0_3)) (\<lambda>response.
     bind (lift_outcome (ck_parse k response (snd t))) (\<lambda>props.
     ret (fst t, snd t, props)))"

definition create_target ::
  "env \<Rightarrow> 'p concept_kind \<Rightarrow> verified_concept list \<times> created_node list \<Rightarrow> nat \<times> string \<times> 'p \<Rightarrow>
     (string, verified_concept list \<times> created_node list) action" where
  \<comment> \<open>the body of the loop of pass 4; the index comes from the list itself\<close>
  "create_target E k s t =
     (case s of (verified, created_targets) \<Rightarrow>
      case t of (idx, target_name, props) \<Rightarrow>
        bind (create_step_node E (ck_label k) (ck_props k props)) (\<lambda>result.
        ret (verified[idx := (verified ! idx)
               \<lparr>vc_action := CreateAndGeneralize (nres_element_id result) target_name False\<rparr>],
             created_targets @ [CreatedNode_new target_name (nres_element_id result) (ck_label k)])))"

definition target_pass ::
  "env \<Rightarrow> provider \<Rightarrow> 'p concept_kind \<Rightarrow> verified_concept list \<Rightarrow>
     (string, verified_concept list \<times> created_node list) action" where
  "target_pass E llm k verified =
     (let targets_to_create = missing_targets verified
      in if targets_to_create = [] then ret (verified, [])
         else bind (batch (target_properties E llm k) targets_to_create) (\<lambda>properties.
              fold_prog (create_target E k) (verified, []) properties))"

definition property_pass ::
  "env \<Rightarrow> provider \<Rightarrow> 'p concept_kind \<Rightarrow> string \<Rightarrow> verified_concept list \<Rightarrow> (string, 'p list) action" where
  "property_pass E llm k domain_name verified =
     (let concepts = concepts_to_generate verified
      in if concepts = [] then ret []
         else batch (\<lambda>c.
                bind (ask_llm E llm (ck_system k) (ck_prompt k domain_name (fst c) (snd c))
                        (gen_config 2048 f32_0_3)) (\<lambda>response.
                lift_outcome (ck_parse k response (fst c)))) concepts)"

definition create_concept_node ::
  "env \<Rightarrow> 'p concept_kind \<Rightarrow> created_node list \<times> 'p list \<Rightarrow> verified_concept \<Rightarrow>
     (string, created_node list \<times> 'p list) action" where
  \<comment> \<open>the body of the loop of pass 6; the second component is what \<open>props_iter\<close> has left\<close>
  "create_concept_node E k s concept =
     (case s of (created, props_iter) \<Rightarrow>
      case vc_action concept of
        UseExisting element_id \<Rightarrow>
          ret (created @ [CreatedNode_reused (vc_name concept) element_id (ck_label k)], props_iter)
      | _ \<Rightarrow>
          (case props_iter of
             [] \<Rightarrow> fail (ck_missing k)
           | props # rest \<Rightarrow>
               bind (create_step_node E (ck_label k) (ck_props k props)) (\<lambda>result.
               ret (created @ [CreatedNode_new (ck_name k props) (nres_element_id result) (ck_label k)],
                    rest))))"

definition node_pass ::
  "env \<Rightarrow> 'p concept_kind \<Rightarrow> verified_concept list \<Rightarrow> 'p list \<Rightarrow> (string, created_node list) action" where
  "node_pass E k verified properties =
     bind (fold_prog (create_concept_node E k) ([], properties) verified) (\<lambda>(created, _). ret created)"

subsection \<open>Events\<close>

lemma emits_concept_passes [prog_rules]:
  "emits (own_effect a) (target_pass E llm k verified)"
  "emits (own_effect a) (property_pass E llm k domain verified)"
  "emits (own_effect a) (node_pass E k verified properties)"
  unfolding target_pass_def property_pass_def node_pass_def target_properties_def create_target_def
    create_concept_node_def Let_def
  by (auto intro!: prog_rules split: concept_action.split list.split)

lemma ends_target_announcement:
  "ends (if b then bind (progress a m) (\<lambda>_. bind (keeping c p) (\<lambda>(verified, targets).
            bind (announce_nodes a label r add targets c) (\<lambda>context. ret (verified, context))))
         else ret (vs, c))
     (\<lambda>(verified, c'). context_grows c c') (\<lambda>(e, c'). context_grows c c')"
  if "\<And>x n. context_grows x (add x n)"
proof -
  have "ends (announce_nodes a label r add targets c) (context_grows c) (\<lambda>(e, c'). context_grows c c')"
    for targets by (rule ends_announce_nodes) (auto simp: that)
  then show ?thesis
    by (auto intro!: ends_bind [where P = "\<lambda>_. True"] ends_bind [where P = "context_grows c"]
        ends_keeping ends_progress)
qed

subsection \<open>Lists of the passes\<close>

lemma collect_results_length: "collect_results rs = Ok xs \<Longrightarrow> length xs = length rs"
  by (auto simp: collect_results_Ok_iff)

lemma run_all_length: "run_all f xs h = (Ok rs, h') \<Longrightarrow> length rs = length xs"
proof (induction xs arbitrary: h rs)
  case (Cons x xs)
  then show ?case
    by (cases "f x h"; cases "fst (f x h)") (auto simp: bind_eq_Ok ret_eq_Ok)
qed (simp add: ret_def)

lemma batch_length: "batch f xs h = (Ok ys, h') \<Longrightarrow> length ys = length xs"
  by (auto simp: batch_def bind_eq_Ok lift_outcome_eq_Ok dest!: run_all_length collect_results_length)

lemma property_pass_length:
  "property_pass E llm k d verified h = (Ok ps, h') \<Longrightarrow>
     length ps = length (filter (\<lambda>c. \<not> is_use_existing (vc_action c)) verified)"
  by (auto simp: property_pass_def Let_def ret_eq_Ok length_concepts_to_generate [symmetric]
      dest!: batch_length split: if_splits)

text \<open>Pass 4 keeps the concepts and their order, and marks every target as created.\<close>

lemma create_target_Ok:
  "create_target E k (vs, ts) (i, n, p) h = (Ok (vs', ts'), h') \<Longrightarrow>
     \<exists>gid. vs' = vs[i := (vs ! i)\<lparr>vc_action := CreateAndGeneralize gid n False\<rparr>] \<and>
       ts' = ts @ [CreatedNode_new n gid (ck_label k)]"
  by (auto simp: create_target_def prog_Ok_iff)

lemma update_names: "map vc_name (vs[i := (vs ! i)\<lparr>vc_action := a\<rparr>]) = map vc_name vs"
  by (cases "i < length vs") (auto simp: map_update list_update_beyond list_update_same_conv)

lemma create_targets_Ok:
  "fold_prog (create_target E k) (vs, ts) ps h = (Ok (vs', ts'), h') \<Longrightarrow>
     map vc_name vs' = map vc_name vs \<and>
     map cn_name ts' = map cn_name ts @ map (\<lambda>(i, n, p). n) ps \<and>
     length ts' = length ts + length ps"
proof (induction ps arbitrary: vs ts h)
  case (Cons p ps)
  obtain i n q where p: "p = (i, n, q)" by (cases p)
  from Cons.prems obtain vs1 ts1 h1 where
    1: "create_target E k (vs, ts) (i, n, q) h = (Ok (vs1, ts1), h1)" and
    2: "fold_prog (create_target E k) (vs1, ts1) ps h1 = (Ok (vs', ts'), h')"
    by (auto simp: p bind_eq_Ok)
  from create_target_Ok[OF 1] Cons.IH[OF 2] show ?case
    by (auto simp: p update_names CreatedNode_new_def)
qed (simp add: ret_def)

lemma target_pass_Ok:
  "target_pass E llm k vs h = (Ok (vs', ts), h') \<Longrightarrow> map vc_name vs' = map vc_name vs"
  by (auto simp: target_pass_def Let_def prog_Ok_iff split: if_splits dest: create_targets_Ok)

subsection \<open>One node for every concept\<close>

text \<open>The node that pass 6 records for a concept: the existing node, or a new one.\<close>

definition node_for :: "string \<Rightarrow> verified_concept \<Rightarrow> created_node \<Rightarrow> bool" where
  "node_for label v n \<longleftrightarrow> cn_label n = label \<and>
     (case vc_action v of
        UseExisting i \<Rightarrow> n = CreatedNode_reused (vc_name v) i label
      | _ \<Rightarrow> \<not> cn_was_reused n)"

lemma create_concept_node_Ok:
  assumes "create_concept_node E k (cs, ps) v h = (Ok (cs', ps'), h')"
  shows "\<exists>n. cs' = cs @ [n] \<and> node_for (ck_label k) v n \<and>
     length ps = length ps' + (if is_use_existing (vc_action v) then 0 else 1)"
  using assms
  by (cases "vc_action v"; cases ps)
    (auto simp: create_concept_node_def is_use_existing_def prog_Ok_iff node_for_def
      CreatedNode_reused_def CreatedNode_new_def)

lemma fold_concept_nodes_Ok:
  "fold_prog (create_concept_node E k) (cs, ps) vs h = (Ok (cs', ps'), h') \<Longrightarrow>
     \<exists>ns. cs' = cs @ ns \<and> list_all2 (node_for (ck_label k)) vs ns"
proof (induction vs arbitrary: cs ps h)
  case (Cons v vs)
  then obtain cs1 ps1 h1 where 1: "create_concept_node E k (cs, ps) v h = (Ok (cs1, ps1), h1)"
    and 2: "fold_prog (create_concept_node E k) (cs1, ps1) vs h1 = (Ok (cs', ps'), h')"
    by (auto simp: bind_eq_Ok)
  obtain n where "cs1 = cs @ [n]" "node_for (ck_label k) v n"
    using create_concept_node_Ok[OF 1] by blast
  moreover obtain ns where "cs' = cs1 @ ns" "list_all2 (node_for (ck_label k)) vs ns"
    using Cons.IH[OF 2] by blast
  ultimately show ?case by (intro exI[of _ "n # ns"]) simp
qed (simp add: ret_def)

lemma node_pass_Ok:
  "node_pass E k vs ps h = (Ok ns, h') \<Longrightarrow> list_all2 (node_for (ck_label k)) vs ns"
  by (auto simp: node_pass_def prog_Ok_iff dest!: fold_concept_nodes_Ok)

text \<open>With as many properties as concepts to create, the loop never runs out of them: an error of
  pass 6 is an error of the database or of the embedding service.\<close>

lemma fold_concept_nodes_no_missing:
  "length ps \<ge> length (filter (\<lambda>c. \<not> is_use_existing (vc_action c)) vs) \<Longrightarrow>
   fold_prog (create_concept_node E k) (cs, ps) vs h = (Err e, h') \<Longrightarrow>
   \<exists>p h1 h2. create_step_node E (ck_label k) (ck_props k p) h1 = (Err e, h2)"
proof (induction vs arbitrary: cs ps h)
  case (Cons v vs)
  show ?case
  proof (cases "create_concept_node E k (cs, ps) v h")
    case (Pair r h1)
    show ?thesis
    proof (cases r)
      case (Ok s)
      obtain cs1 ps1 where s: "s = (cs1, ps1)" by (cases s)
      with Pair Ok have 1: "create_concept_node E k (cs, ps) v h = (Ok (cs1, ps1), h1)" by simp
      have "fold_prog (create_concept_node E k) (cs1, ps1) vs h1 = (Err e, h')"
        using Cons.prems(2) 1 by (simp add: bind_def)
      moreover have "length ps1 \<ge> length (filter (\<lambda>c. \<not> is_use_existing (vc_action c)) vs)"
        using create_concept_node_Ok[OF 1] Cons.prems(1) by (auto split: if_splits)
      ultimately show ?thesis using Cons.IH by blast
    next
      case (Err d)
      with Cons.prems(2) Pair have "d = e" by (simp add: bind_def)
      with Pair Err Cons.prems(1) show ?thesis
        by (cases "vc_action v"; cases ps)
          (auto simp: create_concept_node_def is_use_existing_def ret_def bind_eq_Err)
    next
      case Panic
      with Cons.prems(2) Pair show ?thesis by (simp add: bind_def)
    qed
  qed
qed (simp add: ret_def)

lemma node_pass_no_missing:
  assumes "property_pass E llm k d vs h0 = (Ok ps, h)" and "node_pass E k vs ps h = (Err e, h')"
  shows "\<exists>p h1 h2. create_step_node E (ck_label k) (ck_props k p) h1 = (Err e, h2)"
proof -
  have "fold_prog (create_concept_node E k) ([], ps) vs h = (Err e, h')"
    using assms(2) by (auto simp: node_pass_def bind_eq_Err ret_def)
  with property_pass_length[OF assms(1)] show ?thesis
    using fold_concept_nodes_no_missing[of vs ps E k "[]" h e h'] by simp
qed

text \<open>A batch of tagged answers keeps the order of its inputs.\<close>

lemma run_all_tagged:
  fixes f :: "'x \<Rightarrow> ('f, 'e, 'a) prog"
  assumes tag: "\<And>x h y h'. f x h = (Ok y, h') \<Longrightarrow> g y = x"
  shows "(run_all f xs h :: ('d, ('e, 'a) outcome list) outcome \<times> 'f list) = (Ok rs, h') \<Longrightarrow>
    rs = map Ok ys \<Longrightarrow> map g ys = xs"
proof (induction xs arbitrary: h rs ys)
  case (Cons x xs)
  obtain r h1 where fx: "f x h = (r, h1)" by (cases "f x h")
  have "\<exists>rs'. rs = r # rs' \<and>
      (run_all f xs h1 :: ('d, ('e, 'a) outcome list) outcome \<times> 'f list) = (Ok rs', h')"
    using Cons.prems(1) fx by (cases r) (auto simp: bind_eq_Ok ret_eq_Ok)
  then obtain rs' where rs: "rs = r # rs'"
    and rest: "(run_all f xs h1 :: ('d, ('e, 'a) outcome list) outcome \<times> 'f list) = (Ok rs', h')"
    by blast
  with Cons.prems(2) obtain y ys' where "ys = y # ys'" "r = Ok y" "rs' = map Ok ys'"
    by (cases ys) auto
  with Cons.IH[OF rest] tag fx show ?case by auto
qed (simp add: ret_def)

lemma batch_tagged:
  fixes f :: "'x \<Rightarrow> ('f, 'e, 'a) prog"
  assumes "\<And>x h y h'. f x h = (Ok y, h') \<Longrightarrow> g y = x" and "batch f xs h = (Ok ys, h')"
  shows "map g ys = xs"
proof -
  have "\<exists>rs. (run_all f xs h :: ('e, ('e, 'a) outcome list) outcome \<times> 'f list) = (Ok rs, h') \<and>
      rs = map Ok ys"
    using assms(2) by (auto simp: batch_def bind_eq_Ok lift_outcome_eq_Ok collect_results_Ok_iff)
  then show ?thesis using run_all_tagged [of f g] assms(1) by blast
qed

lemma similarity_pass_concepts:
  "similarity_pass E label concepts h = (Ok rs, h') \<Longrightarrow> map fst rs = concepts"
  unfolding similarity_pass_def by (rule batch_tagged) (auto simp: prog_Ok_iff)

lemma fold_snoc_names:
  assumes "\<And>vs x h vs' h'. f vs x h = (Ok vs', h') \<Longrightarrow> \<exists>v. vs' = vs @ [v] \<and> vc_name v = fst x"
  shows "fold_prog f vs xs h = (Ok vs', h') \<Longrightarrow> map vc_name vs' = map vc_name vs @ map fst xs"
proof (induction xs arbitrary: vs h)
  case (Cons x xs)
  then obtain vs1 h1 where 1: "f vs x h = (Ok vs1, h1)" and 2: "fold_prog f vs1 xs h1 = (Ok vs', h')"
    by (auto simp: bind_eq_Ok)
  from assms[OF 1] Cons.IH[OF 2] show ?case by auto
qed (simp add: ret_def)

lemma announce_nodes_Ok:
  assumes "announce_nodes a label r add nodes c h = (Ok c', h')"
  shows "c' = foldl add c nodes"
  using assms
  by (induction nodes arbitrary: c h) (auto simp: announce_nodes_def prog_Ok_iff)

text \<open>Pass 7 looks a node up under the name of the concept, but a new node carries the name that the
  LLM gave with its properties. The first concept to generalise whose name no node carries stops the step,
  after its nodes have been created.\<close>

lemma create_concept_node_names:
  assumes "create_concept_node E k (cs, ps) v h = (Ok (cs', ps'), h')"
  shows "map cn_name (filter (\<lambda>n. \<not> cn_was_reused n) cs') @ map (ck_name k) ps' =
    map cn_name (filter (\<lambda>n. \<not> cn_was_reused n) cs) @ map (ck_name k) ps"
  using assms
  by (cases "vc_action v"; cases ps)
    (auto simp: create_concept_node_def prog_Ok_iff CreatedNode_reused_def CreatedNode_new_def)

lemma node_pass_names:
  assumes "node_pass E k vs ps h = (Ok created, h')"
  shows "prefix (map cn_name (filter (\<lambda>n. \<not> cn_was_reused n) created)) (map (ck_name k) ps)"
proof -
  have all: "map cn_name (filter (\<lambda>n. \<not> cn_was_reused n) cs') @ map (ck_name k) ps' =
      map cn_name (filter (\<lambda>n. \<not> cn_was_reused n) cs) @ map (ck_name k) ps"
    if "fold_prog (create_concept_node E k) (cs, ps) vs h = (Ok (cs', ps'), h')" for cs ps cs' ps' h h'
    using that
  proof (induction vs arbitrary: cs ps h)
    case (Cons v vs)
    then obtain cs1 ps1 h1 where 1: "create_concept_node E k (cs, ps) v h = (Ok (cs1, ps1), h1)"
      and 2: "fold_prog (create_concept_node E k) (cs1, ps1) vs h1 = (Ok (cs', ps'), h')"
      by (auto simp: bind_eq_Ok)
    show ?case using Cons.IH [OF 2] create_concept_node_names [OF 1] by simp
  qed (simp add: ret_def)
  obtain ps' h1 where "fold_prog (create_concept_node E k) ([], ps) vs h = (Ok (created, ps'), h1)"
    using assms by (auto simp: node_pass_def prog_Ok_iff)
  from all [OF this] have "map (ck_name k) ps =
      map cn_name (filter (\<lambda>n. \<not> cn_was_reused n) created) @ map (ck_name k) ps'"
    by simp
  then show ?thesis by (rule prefixI)
qed

definition is_generalizing :: "concept_action \<Rightarrow> bool" where
  "is_generalizing a = (case a of CreateAndGeneralize _ _ _ \<Rightarrow> True | _ \<Rightarrow> False)"

lemma is_generalizing_simps [simp]:
  "is_generalizing (CreateAndGeneralize i n b)" "\<not> is_generalizing CreateNew" "\<not> is_generalizing (UseExisting i)"
  by (simp_all add: is_generalizing_def)

definition first_unnamed :: "created_node list \<Rightarrow> verified_concept list \<Rightarrow> verified_concept option" where
  \<comment> \<open>the first concept to generalise whose name none of the nodes carries\<close>
  "first_unnamed created vs =
     find (\<lambda>v. is_generalizing (vc_action v) \<and> vc_name v \<notin> cn_name ` set created) vs"

lemma generalize_pass_outcome:
  "\<exists>c' h'. generalize_pass E ty vs created c h =
     (case first_unnamed created vs of
        None \<Rightarrow> (Ok c', h') | Some v \<Rightarrow> (Err (''Node not found: '' @ vc_name v, c'), h'))"
proof (induction vs arbitrary: c h)
  case Nil
  then show ?case by (simp add: generalize_pass_def first_unnamed_def ret_def)
next
  case (Cons v vs)
  show ?case
  proof (cases "first_unnamed created [v]")
    case (Some w)
    then have w: "w = v" "is_generalizing (vc_action v)" and none: "find (\<lambda>n. cn_name n = vc_name v) created = None"
      by (auto simp: first_unnamed_def find_None_iff image_iff split: if_splits)
    have "first_unnamed created (v # vs) = Some v"
      using Some w by (simp add: first_unnamed_def split: if_splits)
    moreover have "generalize_one E ty created c v h = (Err (''Node not found: '' @ vc_name v, c), h)"
      using w(2) none by (cases "vc_action v") (simp_all add: generalize_one_def fail_def)
    ultimately show ?thesis by (simp add: generalize_pass_def bind_def)
  next
    case None
    then have named: "is_generalizing (vc_action v) \<Longrightarrow> \<exists>n. find (\<lambda>n. cn_name n = vc_name v) created = Some n"
      by (auto simp: first_unnamed_def find_None_iff simp flip: not_None_eq split: if_splits)
    obtain c1 h1 where "generalize_one E ty created c v h = (Ok c1, h1)"
    proof -
      have "never_fails (generalize_one E ty created c v)"
        using named
        by (cases "vc_action v") (auto simp: generalize_one_def intro!: prog_rules)
      then show thesis using that unfolding never_fails_iff by blast
    qed
    moreover have "first_unnamed created (v # vs) = first_unnamed created vs"
      using None by (auto simp: first_unnamed_def split: if_splits)
    ultimately show ?thesis using Cons.IH [of c1 h1] by (simp add: generalize_pass_def bind_def)
  qed
qed

definition generalization_of ::
  "string \<Rightarrow> created_node list \<Rightarrow> verified_concept list \<Rightarrow> generalization_link \<Rightarrow> bool" where
  \<comment> \<open>the link goes from a node of the list to the target of a decision\<close>
  "generalization_of ty created vs l \<longleftrightarrow>
     gl_node_type l = ty \<and>
     (\<exists>n\<in>set created. gl_specific_id l = cn_element_id n \<and> gl_specific_name l = cn_name n) \<and>
     (\<exists>v\<in>set vs. \<exists>b. vc_action v = CreateAndGeneralize (gl_general_id l) (gl_general_name l) b)"

lemma generalize_one_Ok:
  assumes "generalize_one E ty created c v h = (Ok c', h')"
  shows "c' = c \<or> (\<exists>l. generalization_of ty created [v] l \<and> c' = add_generalization c l)"
proof (cases "vc_action v")
  case (CreateAndGeneralize gid gname b)
  show ?thesis
  proof (cases "find (\<lambda>n. cn_name n = vc_name v) created")
    case (Some source)
    let ?l = "\<lparr>gl_specific_id = cn_element_id source, gl_specific_name = cn_name source,
      gl_general_id = gid, gl_general_name = gname, gl_node_type = ty\<rparr>"
    have "c' = c \<or> c' = add_generalization c ?l"
      using assms CreateAndGeneralize Some by (auto simp: generalize_one_def prog_Ok_iff)
    moreover have "generalization_of ty created [v] ?l"
      using CreateAndGeneralize find_SomeD[OF Some] by (auto simp: generalization_of_def)
    ultimately show ?thesis by blast
  qed (use assms CreateAndGeneralize in \<open>simp add: generalize_one_def fail_def\<close>)
qed (use assms in \<open>simp_all add: generalize_one_def ret_def\<close>)

lemma generalize_pass_Ok:
  assumes "generalize_pass E ty vs created c h = (Ok c', h')"
  shows "\<exists>ls. c' = foldl add_generalization c ls \<and> list_all (generalization_of ty created vs) ls"
  using assms unfolding generalize_pass_def
proof (induction vs arbitrary: c h)
  case Nil
  then show ?case by (intro exI[of _ "[]"]) (simp add: ret_def)
next
  case (Cons v vs)
  from Cons.prems obtain c1 h1 where 1: "generalize_one E ty created c v h = (Ok c1, h1)"
    and 2: "fold_prog (generalize_one E ty created) c1 vs h1 = (Ok c', h')"
    by (auto simp: bind_eq_Ok)
  from Cons.IH[OF 2] obtain ls where c': "c' = foldl add_generalization c1 ls"
    and ls: "list_all (generalization_of ty created vs) ls" by blast
  have wider: "list_all (generalization_of ty created (v # vs)) ls"
    using ls by (auto simp: list_all_iff generalization_of_def)
  from generalize_one_Ok[OF 1] show ?case
  proof
    assume "c1 = c"
    with c' wider show ?thesis by blast
  next
    assume "\<exists>l. generalization_of ty created [v] l \<and> c1 = add_generalization c l"
    then obtain l where "generalization_of ty created (v # vs) l" "c1 = add_generalization c l"
      by (auto simp: generalization_of_def)
    with c' wider show ?thesis by (intro exI[of _ "l # ls"]) simp
  qed
qed

lemma foldl_add_generalization:
  "ctx_graph (foldl add_generalization c ls) =
     (ctx_graph c)\<lparr>reg_generalizations := reg_generalizations (ctx_graph c) @ ls\<rparr>"
  by (induction ls arbitrary: c) (simp_all add: add_generalization_def reg_add_generalization_def)

end
