(* ===== verification/Knowledge_Generator.thy ===== *)
theory Knowledge_Generator
  imports Concept_Passes
begin

text \<open>
  \<open>steps/knowledge_generator.rs\<close>: the concepts of the domain from the LLM (pass 1), similar nodes
  of the graph (pass 2), what to do with each concept (pass 3), missing generalisation targets
  (pass 4), properties (pass 5), nodes (pass 6) and \<open>GENERALIZES_TO\<close> relationships (pass 7).
\<close>

record knowledge_properties =
  kp_name :: string
  kp_description :: string
  kp_how_to_learn :: string
  kp_remember_level :: string
  kp_understand_level :: string
  kp_apply_level :: string
  kp_analyze_level :: string
  kp_evaluate_level :: string
  kp_create_level :: string

definition parse_knowledge_properties ::
  "env \<Rightarrow> string \<Rightarrow> string \<Rightarrow> (string, knowledge_properties) outcome" where
  "parse_knowledge_properties E response concept_name =
     and_then (object_text_guarded ''No JSON object found'' ''No closing brace found''
                 ''Invalid JSON structure'' response) (\<lambda>json_str.
     and_then (parse_failed (parse_value E json_str)) (\<lambda>parsed.
     Ok \<lparr>kp_name = str_field_or parsed ''name'' concept_name,
         kp_description = str_field_or parsed ''description'' [],
         kp_how_to_learn = str_field_or parsed ''how_to_learn'' [],
         kp_remember_level = str_field_or parsed ''remember_level'' [],
         kp_understand_level = str_field_or parsed ''understand_level'' [],
         kp_apply_level = str_field_or parsed ''apply_level'' [],
         kp_analyze_level = str_field_or parsed ''analyze_level'' [],
         kp_evaluate_level = str_field_or parsed ''evaluate_level'' [],
         kp_create_level = str_field_or parsed ''create_level'' []\<rparr>))"

definition knowledge_props :: "knowledge_properties \<Rightarrow> json hash_map" where
  "knowledge_props p = string_props
     [(''name'', kp_name p), (''description'', kp_description p),
      (''how_to_learn'', kp_how_to_learn p), (''remember_level'', kp_remember_level p),
      (''understand_level'', kp_understand_level p), (''apply_level'', kp_apply_level p),
      (''analyze_level'', kp_analyze_level p), (''evaluate_level'', kp_evaluate_level p),
      (''create_level'', kp_create_level p)]"

definition knowledge_kind :: "env \<Rightarrow> knowledge_properties concept_kind" where
  "knowledge_kind E =
     \<lparr>ck_label = ''Knowledge'', ck_system = knowledge_expert,
      ck_generic_prompt = generic_knowledge_properties, ck_prompt = knowledge_properties_prompt,
      ck_parse = parse_knowledge_properties E, ck_props = knowledge_props, ck_name = kp_name,
      ck_missing = ''Missing properties for concept''\<rparr>"

definition knowledge_pass1 :: "env \<Rightarrow> provider \<Rightarrow> agent_context \<Rightarrow> (string, string list) action" where
  "knowledge_pass1 E llm context =
     (let description = text_of (ctx_description context);
          prompt = knowledge_concepts (ctx_domain_name context) description
      in bind (ask_llm E llm knowledge_expert prompt (gen_config 16384 f32_0_3)) (\<lambda>response.
         lift_outcome (parse_concept_list E response)))"

definition knowledge_pass2 ::
  "env \<Rightarrow> string list \<Rightarrow> (string, (string \<times> similar_node list) list) action" where
  "knowledge_pass2 E concepts = similarity_pass E ''Knowledge'' concepts"

fun decision_text :: "concept_action \<Rightarrow> string" where
  "decision_text CreateNew = ''create_new''"
| "decision_text (UseExisting _) = ''use_existing''"
| "decision_text (CreateAndGeneralize _ _ _) = ''create_and_generalize''"

fun generalizes_text :: "concept_action \<Rightarrow> string option" where
  "generalizes_text (CreateAndGeneralize _ name needs_creation) =
     Some (name @ (if needs_creation then '' (new)'' else []))"
| "generalizes_text _ = None"

definition knowledge_verify ::
  "env \<Rightarrow> provider \<Rightarrow> agent_context \<Rightarrow> string \<Rightarrow> similar_node list \<Rightarrow> (string, verified_concept) action" where
  \<comment> \<open>the branch that needs the LLM, up to the resolved decision\<close>
  "knowledge_verify E llm context concept similar_nodes =
     bind (ask_llm E llm knowledge_expert
             (verify_similar_knowledge concept (ctx_domain_name context) similar_nodes)
             (gen_config 512 f32_0_2)) (\<lambda>response.
     bind (lift_outcome (parse_verification_response E response concept)) (\<lambda>decision.
     resolve_target E ''Knowledge'' concept similar_nodes decision))"

definition knowledge_decide ::
  "env \<Rightarrow> provider \<Rightarrow> agent_context \<Rightarrow> verified_concept list \<Rightarrow> string \<times> similar_node list \<Rightarrow>
     (string, verified_concept list) action" where
  \<comment> \<open>one iteration of the loop of pass 3\<close>
  "knowledge_decide E llm context verified item =
     (case item of (concept, similar_nodes) \<Rightarrow>
        bind (emit_event (SimilarityCheck KnowledgeGenerator concept (length similar_nodes)
                (map_option sn_score (first_of similar_nodes)))) (\<lambda>_.
        case determine_action_by_score concept similar_nodes of
          Some decision \<Rightarrow>
            bind (emit_event (VerificationResult KnowledgeGenerator concept
                    (decision_text (vc_action decision)) None)) (\<lambda>_.
            ret (verified @ [decision]))
        | None \<Rightarrow>
            bind (knowledge_verify E llm context concept similar_nodes) (\<lambda>decision.
            bind (emit_event (VerificationResult KnowledgeGenerator concept
                    (decision_text (vc_action decision)) (generalizes_text (vc_action decision)))) (\<lambda>_.
            ret (verified @ [decision])))))"

definition knowledge_pass3 ::
  "env \<Rightarrow> provider \<Rightarrow> agent_context \<Rightarrow> (string \<times> similar_node list) list \<Rightarrow>
     (string, verified_concept list) action" where
  "knowledge_pass3 E llm context similarity_results =
     fold_prog (knowledge_decide E llm context) [] similarity_results"

definition knowledge_pass4 ::
  "env \<Rightarrow> provider \<Rightarrow> verified_concept list \<Rightarrow>
     (string, verified_concept list \<times> created_node list) action" where
  "knowledge_pass4 E llm verified = target_pass E llm (knowledge_kind E) verified"

definition knowledge_pass5 ::
  "env \<Rightarrow> provider \<Rightarrow> agent_context \<Rightarrow> verified_concept list \<Rightarrow>
     (string, knowledge_properties list) action" where
  "knowledge_pass5 E llm context verified =
     property_pass E llm (knowledge_kind E) (ctx_domain_name context) verified"

definition knowledge_pass6 ::
  "env \<Rightarrow> verified_concept list \<Rightarrow> knowledge_properties list \<Rightarrow> (string, created_node list) action" where
  "knowledge_pass6 E verified properties = node_pass E (knowledge_kind E) verified properties"

definition knowledge_pass7 ::
  "env \<Rightarrow> verified_concept list \<Rightarrow> created_node list \<Rightarrow> agent_context \<Rightarrow>
     (string \<times> agent_context, agent_context) action" where
  "knowledge_pass7 E verified created context = generalize_pass E ''Knowledge'' verified created context"

definition knowledge_targets ::
  "env \<Rightarrow> provider \<Rightarrow> agent_context \<Rightarrow> verified_concept list \<Rightarrow>
     (string \<times> agent_context, verified_concept list \<times> agent_context) action" where
  \<comment> \<open>the block \<open>if targets_to_create > 0 { ... }\<close> of \<open>execute\<close>\<close>
  "knowledge_targets E llm context verified =
     (let targets_to_create = length (missing_targets verified)
      in if targets_to_create > 0 then
           bind (progress KnowledgeGenerator (''Creating '' @ nat_text targets_to_create @
                   '' missing generalization targets...'')) (\<lambda>_.
           bind (keeping context (knowledge_pass4 E llm verified)) (\<lambda>(verified, created_targets).
           bind (announce_nodes KnowledgeGenerator ''Knowledge'' (\<lambda>n. False) add_knowledge
                   created_targets context) (\<lambda>context.
           ret (verified, context))))
         else ret (verified, context))"

definition knowledge_execute ::
  "env \<Rightarrow> provider \<Rightarrow> agent_context \<Rightarrow> (string \<times> agent_context, agent_context) action" where
  "knowledge_execute E llm context =
     bind (progress KnowledgeGenerator ''Identifying knowledge concepts...'') (\<lambda>_.
     bind (keeping context (knowledge_pass1 E llm context)) (\<lambda>concepts.
     bind (progress KnowledgeGenerator
             (''Found '' @ nat_text (length concepts) @ '' knowledge concepts'')) (\<lambda>_.
     bind (progress KnowledgeGenerator ''Searching for similar existing nodes...'') (\<lambda>_.
     bind (keeping context (knowledge_pass2 E concepts)) (\<lambda>similarity_results.
     bind (progress KnowledgeGenerator ''Verifying node matches...'') (\<lambda>_.
     bind (keeping context (knowledge_pass3 E llm context similarity_results)) (\<lambda>verified.
     bind (knowledge_targets E llm context verified) (\<lambda>(verified, context).
     bind (progress KnowledgeGenerator ''Generating knowledge properties...'') (\<lambda>_.
     bind (keeping context (knowledge_pass5 E llm context verified)) (\<lambda>properties.
     bind (progress KnowledgeGenerator ''Creating nodes in database...'') (\<lambda>_.
     bind (keeping context (knowledge_pass6 E verified properties)) (\<lambda>created.
     bind (knowledge_pass7 E verified created context) (\<lambda>context.
     announce_nodes KnowledgeGenerator ''Knowledge'' cn_was_reused add_knowledge created context)))))))))))))"

subsection \<open>The step satisfies the interface\<close>

lemma emits_knowledge: "emits (own_effect KnowledgeGenerator) (knowledge_execute E llm c)"
  unfolding knowledge_execute_def knowledge_targets_def knowledge_pass1_def knowledge_pass2_def knowledge_pass3_def
    knowledge_pass4_def knowledge_pass5_def knowledge_pass6_def knowledge_pass7_def
    knowledge_decide_def knowledge_verify_def Let_def case_prod_beta
  by (intro prog_rules allI impI | simp split: option.split | (auto intro!: prog_rules; fail))+

lemma knowledge_grows: "grows_from c (knowledge_execute E llm c)"
  unfolding grows_from_def knowledge_execute_def
  by (auto intro!: ends_bind [where P = "\<lambda>_. True"] ends_bind [where P = "context_grows c"]
      ends_bind [where P = "\<lambda>(verified, c'). context_grows c c'"]
      ends_keeping ends_progress ends_generalize_pass ends_announce_nodes ends_target_announcement
      simp: Let_def knowledge_pass7_def knowledge_targets_def)

interpretation knowledge_step: agent_step KnowledgeGenerator "knowledge_execute E llm"
  by unfold_locales (rule knowledge_grows, rule emits_knowledge)

subsection \<open>One node for every concept\<close>

lemma knowledge_verify_name:
  "knowledge_verify E llm c concept ns h = (Ok v, h') \<Longrightarrow> vc_name v = concept"
  by (auto simp: knowledge_verify_def prog_Ok_iff dest!: parse_verification_name
      returnsD[OF resolve_target_name, rotated])

lemma knowledge_decide_Ok:
  "knowledge_decide E llm c vs x h = (Ok vs', h') \<Longrightarrow> \<exists>v. vs' = vs @ [v] \<and> vc_name v = fst x"
  by (auto simp: knowledge_decide_def prog_Ok_iff split: prod.splits option.splits
      dest: determine_action_name knowledge_verify_name)

lemma knowledge_pass3_names:
  "knowledge_pass3 E llm c results h = (Ok vs, h') \<Longrightarrow> map vc_name vs = map fst results"
  unfolding knowledge_pass3_def
  using fold_snoc_names[of "knowledge_decide E llm c" "[]" results h vs h'] knowledge_decide_Ok
  by auto

lemma foldl_add_knowledge:
  "reg_knowledge (ctx_graph (foldl add_knowledge c ns)) = reg_knowledge (ctx_graph c) @ ns"
  by (induction ns arbitrary: c) (simp_all add: add_knowledge_def)

lemma knowledge_targets_Ok:
  "knowledge_targets E llm c vs h = (Ok (vs', c'), h') \<Longrightarrow> map vc_name vs' = map vc_name vs \<and>
     (\<exists>targets. reg_knowledge (ctx_graph c') = reg_knowledge (ctx_graph c) @ targets)"
  by (auto simp: knowledge_targets_def Let_def prog_Ok_iff keeping_def knowledge_pass4_def
      foldl_add_knowledge split: if_splits prod.splits dest!: target_pass_Ok announce_nodes_Ok)

lemma knowledge_execute_Ok:
  assumes "knowledge_execute E llm c h = (Ok c', h')"
  obtains concepts results vs targets created h1 h2 h3 h4 where
    "knowledge_pass1 E llm c (h @ [Emit (StepProgress KnowledgeGenerator ''Identifying knowledge concepts...'')]) = (Ok concepts, h1)"
    "knowledge_pass2 E concepts h2 = (Ok results, h3)"
    "map fst results = concepts"
    "map vc_name vs = concepts"
    "list_all2 (node_for ''Knowledge'') vs created"
    "reg_knowledge (ctx_graph c') = reg_knowledge (ctx_graph c) @ targets @ created"
  using assms unfolding knowledge_execute_def case_prod_beta
proof (elim bind_OkE)
  fix u h1 concepts h2 h4 results h5 h6 vs0 h7 vc h8 props h11 created h12 c2 h13
  assume p0: "progress KnowledgeGenerator ''Identifying knowledge concepts...'' h = (Ok u, h1)"
    and p1: "keeping c (knowledge_pass1 E llm c) h1 = (Ok concepts, h2)"
    and p2: "keeping c (knowledge_pass2 E concepts) h4 = (Ok results, h5)"
    and p3: "keeping c (knowledge_pass3 E llm c results) h6 = (Ok vs0, h7)"
    and p4: "knowledge_targets E llm c vs0 h7 = (Ok vc, h8)"
    and p6: "keeping (snd vc) (knowledge_pass6 E (fst vc) props) h11 = (Ok created, h12)"
    and p7: "knowledge_pass7 E (fst vc) created (snd vc) h12 = (Ok c2, h13)"
    and p8: "announce_nodes KnowledgeGenerator ''Knowledge'' cn_was_reused add_knowledge created c2 h13 =
      (Ok c', h')"
  obtain vs c1 where vc: "vc = (vs, c1)" by (cases vc)
  have results: "map fst results = concepts"
    using p2 similarity_pass_concepts by (simp add: knowledge_pass2_def)
  with p3 knowledge_pass3_names have names: "map vc_name vs0 = concepts" by auto
  from p4 vc knowledge_targets_Ok names obtain targets where t: "map vc_name vs = concepts"
    "reg_knowledge (ctx_graph c1) = reg_knowledge (ctx_graph c) @ targets" by metis
  have created: "list_all2 (node_for ''Knowledge'') vs created"
    using p6 vc node_pass_Ok[of E "knowledge_kind E"] by (auto simp: knowledge_pass6_def knowledge_kind_def)
  have c2: "reg_knowledge (ctx_graph c2) = reg_knowledge (ctx_graph c1)"
    using p7 vc by (auto simp: knowledge_pass7_def foldl_add_generalization dest!: generalize_pass_Ok)
  have "reg_knowledge (ctx_graph c') = reg_knowledge (ctx_graph c) @ targets @ created"
    using announce_nodes_Ok[OF p8] by (simp add: foldl_add_knowledge c2 t)
  with p0 p1 p2 results t(1) created show thesis by (intro that) (simp_all add: progress_run)
qed

text \<open>The parser of the properties checks the range first and never brings the task down.\<close>

lemma parse_knowledge_properties_safe:
  "well_encoded response \<Longrightarrow> parse_knowledge_properties E response concept \<noteq> Panic"
  using parse_failed_no_panic object_text_guarded_safe
  by (fastforce simp: parse_knowledge_properties_def and_then_eq_Panic)

end
