(* ===== verification/Skill_Generator.thy ===== *)
theory Skill_Generator
  imports Concept_Passes
begin

text \<open>
  \<open>steps/skill_generator.rs\<close>: the seven passes for skills. It differs from the knowledge step in
  the prompts (the concepts are asked for with the knowledge the domain already has), in the
  properties, in the parser (the range of the JSON object is not checked) and in the events (no
  \<open>VerificationResult\<close>).
\<close>

record skill_properties =
  sp_name :: string
  sp_description :: string
  sp_how_to_develop :: string
  sp_novice_level :: string
  sp_advanced_beginner_level :: string
  sp_competent_level :: string
  sp_proficient_level :: string
  sp_expert_level :: string

definition parse_skill_properties ::
  "env \<Rightarrow> string \<Rightarrow> string \<Rightarrow> (string, skill_properties) outcome" where
  "parse_skill_properties E response concept_name =
     and_then (object_text ''No JSON object found'' ''No closing brace found'' response) (\<lambda>json_str.
     and_then (parse_failed (parse_value E json_str)) (\<lambda>parsed.
     Ok \<lparr>sp_name = str_field_or parsed ''name'' concept_name,
         sp_description = str_field_or parsed ''description'' [],
         sp_how_to_develop = str_field_or parsed ''how_to_develop'' [],
         sp_novice_level = str_field_or parsed ''novice_level'' [],
         sp_advanced_beginner_level = str_field_or parsed ''advanced_beginner_level'' [],
         sp_competent_level = str_field_or parsed ''competent_level'' [],
         sp_proficient_level = str_field_or parsed ''proficient_level'' [],
         sp_expert_level = str_field_or parsed ''expert_level'' []\<rparr>))"

definition skill_props :: "skill_properties \<Rightarrow> json hash_map" where
  "skill_props p = string_props
     [(''name'', sp_name p), (''description'', sp_description p),
      (''how_to_develop'', sp_how_to_develop p), (''novice_level'', sp_novice_level p),
      (''advanced_beginner_level'', sp_advanced_beginner_level p),
      (''competent_level'', sp_competent_level p), (''proficient_level'', sp_proficient_level p),
      (''expert_level'', sp_expert_level p)]"

definition skill_kind :: "env \<Rightarrow> skill_properties concept_kind" where
  "skill_kind E =
     \<lparr>ck_label = ''Skill'', ck_system = skill_expert,
      ck_generic_prompt = generic_skill_properties, ck_prompt = skill_properties_prompt,
      ck_parse = parse_skill_properties E, ck_props = skill_props, ck_name = sp_name,
      ck_missing = ''Missing properties''\<rparr>"

definition skill_pass1 :: "env \<Rightarrow> provider \<Rightarrow> agent_context \<Rightarrow> (string, string list) action" where
  "skill_pass1 E llm context =
     (let description = text_of (ctx_description context);
          existing_knowledge = map cn_name (reg_knowledge (ctx_graph context));
          prompt = skill_concepts (ctx_domain_name context) description existing_knowledge
      in bind (ask_llm E llm skill_expert prompt (gen_config 16384 f32_0_3)) (\<lambda>response.
         lift_outcome (parse_concept_list E response)))"

definition skill_pass2 ::
  "env \<Rightarrow> string list \<Rightarrow> (string, (string \<times> similar_node list) list) action" where
  "skill_pass2 E concepts = similarity_pass E ''Skill'' concepts"

definition skill_verify ::
  "env \<Rightarrow> provider \<Rightarrow> agent_context \<Rightarrow> string \<Rightarrow> similar_node list \<Rightarrow> (string, verified_concept) action" where
  "skill_verify E llm context concept similar_nodes =
     bind (ask_llm E llm skill_expert
             (verify_similar_skill concept (ctx_domain_name context) similar_nodes)
             (gen_config 512 f32_0_2)) (\<lambda>response.
     bind (lift_outcome (parse_verification_response E response concept)) (\<lambda>decision.
     resolve_target E ''Skill'' concept similar_nodes decision))"

definition skill_decide ::
  "env \<Rightarrow> provider \<Rightarrow> agent_context \<Rightarrow> verified_concept list \<Rightarrow> string \<times> similar_node list \<Rightarrow>
     (string, verified_concept list) action" where
  "skill_decide E llm context verified item =
     (case item of (concept, similar_nodes) \<Rightarrow>
        bind (emit_event (SimilarityCheck SkillGenerator concept (length similar_nodes)
                (map_option sn_score (first_of similar_nodes)))) (\<lambda>_.
        case determine_action_by_score concept similar_nodes of
          Some decision \<Rightarrow> ret (verified @ [decision])
        | None \<Rightarrow>
            bind (skill_verify E llm context concept similar_nodes) (\<lambda>decision.
            ret (verified @ [decision]))))"

definition skill_pass3 ::
  "env \<Rightarrow> provider \<Rightarrow> agent_context \<Rightarrow> (string \<times> similar_node list) list \<Rightarrow>
     (string, verified_concept list) action" where
  "skill_pass3 E llm context similarity_results =
     fold_prog (skill_decide E llm context) [] similarity_results"

definition skill_pass4 ::
  "env \<Rightarrow> provider \<Rightarrow> verified_concept list \<Rightarrow>
     (string, verified_concept list \<times> created_node list) action" where
  "skill_pass4 E llm verified = target_pass E llm (skill_kind E) verified"

definition skill_pass5 ::
  "env \<Rightarrow> provider \<Rightarrow> agent_context \<Rightarrow> verified_concept list \<Rightarrow> (string, skill_properties list) action" where
  "skill_pass5 E llm context verified =
     property_pass E llm (skill_kind E) (ctx_domain_name context) verified"

definition skill_pass6 ::
  "env \<Rightarrow> verified_concept list \<Rightarrow> skill_properties list \<Rightarrow> (string, created_node list) action" where
  "skill_pass6 E verified properties = node_pass E (skill_kind E) verified properties"

definition skill_pass7 ::
  "env \<Rightarrow> verified_concept list \<Rightarrow> created_node list \<Rightarrow> agent_context \<Rightarrow>
     (string \<times> agent_context, agent_context) action" where
  "skill_pass7 E verified created context = generalize_pass E ''Skill'' verified created context"

definition skill_targets ::
  "env \<Rightarrow> provider \<Rightarrow> agent_context \<Rightarrow> verified_concept list \<Rightarrow>
     (string \<times> agent_context, verified_concept list \<times> agent_context) action" where
  \<comment> \<open>the block \<open>if targets_to_create > 0 { ... }\<close> of \<open>execute\<close>\<close>
  "skill_targets E llm context verified =
     (let targets_to_create = length (missing_targets verified)
      in if targets_to_create > 0 then
           bind (progress SkillGenerator (''Creating '' @ nat_text targets_to_create @
                   '' missing generalization targets...'')) (\<lambda>_.
           bind (keeping context (skill_pass4 E llm verified)) (\<lambda>(verified, created_targets).
           bind (announce_nodes SkillGenerator ''Skill'' (\<lambda>n. False) add_skill
                   created_targets context) (\<lambda>context.
           ret (verified, context))))
         else ret (verified, context))"

definition skill_execute ::
  "env \<Rightarrow> provider \<Rightarrow> agent_context \<Rightarrow> (string \<times> agent_context, agent_context) action" where
  "skill_execute E llm context =
     bind (progress SkillGenerator ''Identifying skill concepts...'') (\<lambda>_.
     bind (keeping context (skill_pass1 E llm context)) (\<lambda>concepts.
     bind (progress SkillGenerator
             (''Found '' @ nat_text (length concepts) @ '' skill concepts'')) (\<lambda>_.
     bind (progress SkillGenerator ''Searching for similar existing nodes...'') (\<lambda>_.
     bind (keeping context (skill_pass2 E concepts)) (\<lambda>similarity_results.
     bind (progress SkillGenerator ''Verifying node matches...'') (\<lambda>_.
     bind (keeping context (skill_pass3 E llm context similarity_results)) (\<lambda>verified.
     bind (skill_targets E llm context verified) (\<lambda>(verified, context).
     bind (progress SkillGenerator ''Generating skill properties...'') (\<lambda>_.
     bind (keeping context (skill_pass5 E llm context verified)) (\<lambda>properties.
     bind (progress SkillGenerator ''Creating nodes in database...'') (\<lambda>_.
     bind (keeping context (skill_pass6 E verified properties)) (\<lambda>created.
     bind (skill_pass7 E verified created context) (\<lambda>context.
     announce_nodes SkillGenerator ''Skill'' cn_was_reused add_skill created context)))))))))))))"

subsection \<open>The step satisfies the interface\<close>

lemma emits_skill: "emits (own_effect SkillGenerator) (skill_execute E llm c)"
  unfolding skill_execute_def skill_targets_def skill_pass1_def skill_pass2_def skill_pass3_def
    skill_pass4_def skill_pass5_def skill_pass6_def skill_pass7_def
    skill_decide_def skill_verify_def Let_def case_prod_beta
  by (intro prog_rules allI impI | simp split: option.split | (auto intro!: prog_rules; fail))+

lemma skill_grows: "grows_from c (skill_execute E llm c)"
  unfolding grows_from_def skill_execute_def
  by (auto intro!: ends_bind [where P = "\<lambda>_. True"] ends_bind [where P = "context_grows c"]
      ends_bind [where P = "\<lambda>(verified, c'). context_grows c c'"]
      ends_keeping ends_progress ends_generalize_pass ends_announce_nodes ends_target_announcement
      simp: Let_def skill_pass7_def skill_targets_def)

interpretation skill_step: agent_step SkillGenerator "skill_execute E llm"
  by unfold_locales (rule skill_grows, rule emits_skill)

subsection \<open>One node for every concept\<close>

lemma skill_verify_name: "skill_verify E llm c concept ns h = (Ok v, h') \<Longrightarrow> vc_name v = concept"
  by (auto simp: skill_verify_def prog_Ok_iff dest!: parse_verification_name
      returnsD[OF resolve_target_name, rotated])

lemma skill_decide_Ok:
  "skill_decide E llm c vs x h = (Ok vs', h') \<Longrightarrow> \<exists>v. vs' = vs @ [v] \<and> vc_name v = fst x"
  by (auto simp: skill_decide_def prog_Ok_iff split: prod.splits option.splits
      dest: determine_action_name skill_verify_name)

lemma skill_pass3_names:
  "skill_pass3 E llm c results h = (Ok vs, h') \<Longrightarrow> map vc_name vs = map fst results"
  unfolding skill_pass3_def
  using fold_snoc_names[of "skill_decide E llm c" "[]" results h vs h'] skill_decide_Ok
  by auto

lemma foldl_add_skill:
  "reg_skills (ctx_graph (foldl add_skill c ns)) = reg_skills (ctx_graph c) @ ns"
  by (induction ns arbitrary: c) (simp_all add: add_skill_def)

lemma skill_targets_Ok:
  "skill_targets E llm c vs h = (Ok (vs', c'), h') \<Longrightarrow> map vc_name vs' = map vc_name vs \<and>
     (\<exists>targets. reg_skills (ctx_graph c') = reg_skills (ctx_graph c) @ targets)"
  by (auto simp: skill_targets_def Let_def prog_Ok_iff keeping_def skill_pass4_def
      foldl_add_skill split: if_splits prod.splits dest!: target_pass_Ok announce_nodes_Ok)

lemma skill_execute_Ok:
  assumes "skill_execute E llm c h = (Ok c', h')"
  obtains concepts results vs targets created h1 h2 h3 h4 where
    "skill_pass1 E llm c (h @ [Emit (StepProgress SkillGenerator ''Identifying skill concepts...'')]) = (Ok concepts, h1)"
    "skill_pass2 E concepts h2 = (Ok results, h3)"
    "map fst results = concepts"
    "map vc_name vs = concepts"
    "list_all2 (node_for ''Skill'') vs created"
    "reg_skills (ctx_graph c') = reg_skills (ctx_graph c) @ targets @ created"
  using assms unfolding skill_execute_def case_prod_beta
proof (elim bind_OkE)
  fix u h1 concepts h2 h4 results h5 h6 vs0 h7 vc h8 props h11 created h12 c2 h13
  assume p0: "progress SkillGenerator ''Identifying skill concepts...'' h = (Ok u, h1)"
    and p1: "keeping c (skill_pass1 E llm c) h1 = (Ok concepts, h2)"
    and p2: "keeping c (skill_pass2 E concepts) h4 = (Ok results, h5)"
    and p3: "keeping c (skill_pass3 E llm c results) h6 = (Ok vs0, h7)"
    and p4: "skill_targets E llm c vs0 h7 = (Ok vc, h8)"
    and p6: "keeping (snd vc) (skill_pass6 E (fst vc) props) h11 = (Ok created, h12)"
    and p7: "skill_pass7 E (fst vc) created (snd vc) h12 = (Ok c2, h13)"
    and p8: "announce_nodes SkillGenerator ''Skill'' cn_was_reused add_skill created c2 h13 =
      (Ok c', h')"
  obtain vs c1 where vc: "vc = (vs, c1)" by (cases vc)
  have results: "map fst results = concepts"
    using p2 similarity_pass_concepts by (simp add: skill_pass2_def)
  with p3 skill_pass3_names have names: "map vc_name vs0 = concepts" by auto
  from p4 vc skill_targets_Ok names obtain targets where t: "map vc_name vs = concepts"
    "reg_skills (ctx_graph c1) = reg_skills (ctx_graph c) @ targets" by metis
  have created: "list_all2 (node_for ''Skill'') vs created"
    using p6 vc node_pass_Ok[of E "skill_kind E"] by (auto simp: skill_pass6_def skill_kind_def)
  have c2: "reg_skills (ctx_graph c2) = reg_skills (ctx_graph c1)"
    using p7 vc by (auto simp: skill_pass7_def foldl_add_generalization dest!: generalize_pass_Ok)
  have "reg_skills (ctx_graph c') = reg_skills (ctx_graph c) @ targets @ created"
    using announce_nodes_Ok[OF p8] by (simp add: foldl_add_skill c2 t)
  with p0 p1 p2 results t(1) created show thesis by (intro that) (simp_all add: progress_run)
qed

text \<open>The parser of the properties brings the task down on an answer that the parser of the
  knowledge step rejects with an error.\<close>

lemma parse_skill_properties_panics_iff:
  assumes "well_encoded response"
  shows "parse_skill_properties E response concept = Panic \<longleftrightarrow>
    (\<exists>i j. find_char CHR ''{'' (trim response) = Some i \<and>
           rfind_char CHR ''}'' (trim response) = Some j \<and> j + 1 < i)"
  using object_text_panics_iff[OF assms] parse_failed_no_panic
  by (auto simp: parse_skill_properties_def and_then_eq_Panic)

lemma parse_skill_properties_crossed:
  "well_encoded response \<Longrightarrow>
     parse_skill_properties E response concept = Panic \<longleftrightarrow> crossed_braces response"
  by (simp only: parse_skill_properties_panics_iff crossed_braces_def)

end
