(* ===== verification/Trait_Generator.thy ===== *)
theory Trait_Generator
  imports Concept_Passes
begin

text \<open>
  \<open>steps/trait_generator.rs\<close>: traits are shared between the domains, so this step prefers to reuse:
  lower thresholds, and a decision of the LLM that falls back to the best match. There are no
  generalisations.
\<close>

record trait_properties =
  tp_name :: string
  tp_description :: string
  tp_measurement_criteria :: string

definition trait_pass1 :: "env \<Rightarrow> provider \<Rightarrow> agent_context \<Rightarrow> (string, string list) action" where
  "trait_pass1 E llm context =
     (let description = text_of (ctx_description context);
          prompt = trait_concepts (ctx_domain_name context) description
      in bind (ask_llm E llm trait_analyst prompt (gen_config 16384 f32_0_3)) (\<lambda>response.
         lift_outcome (parse_concept_list E response)))"

definition trait_pass2 ::
  "env \<Rightarrow> string list \<Rightarrow> (string, (string \<times> similar_node list) list) action" where
  "trait_pass2 E concepts = similarity_pass E ''Trait'' concepts"

definition best_match :: "similar_node list \<Rightarrow> ('e, similar_node) outcome" where
  \<comment> \<open>\<open>similar_nodes[0]\<close>\<close>
  "best_match ns = (case ns of [] \<Rightarrow> Panic | n # _ \<Rightarrow> Ok n)"

definition parse_trait_verification ::
  "env \<Rightarrow> string \<Rightarrow> string \<Rightarrow> similar_node list \<Rightarrow> (string, verified_concept) outcome" where
  "parse_trait_verification E response concept similar_nodes =
     and_then (object_text ''No JSON object found'' ''No closing brace found'' response) (\<lambda>json_str.
     and_then (parse_failed (parse_value E json_str)) (\<lambda>parsed.
     and_then (ok_or ''Missing decision field'' (jstr_field parsed ''decision'')) (\<lambda>decision.
     if decision = ''use_existing'' then
       (case non_null_text (jstr_field parsed ''existing_node_name'') of
          Some name \<Rightarrow>
            (case find (\<lambda>n. sn_name n = name) similar_nodes of
               Some n \<Rightarrow> Ok (vc_use_existing concept (sn_id n))
             | None \<Rightarrow> and_then (best_match similar_nodes) (\<lambda>n. Ok (vc_use_existing concept (sn_id n))))
        | None \<Rightarrow> and_then (best_match similar_nodes) (\<lambda>n. Ok (vc_use_existing concept (sn_id n))))
     else Ok (vc_create_new concept))))"

definition trait_decide ::
  "env \<Rightarrow> provider \<Rightarrow> agent_context \<Rightarrow> verified_concept list \<Rightarrow> string \<times> similar_node list \<Rightarrow>
     (string, verified_concept list) action" where
  \<comment> \<open>one iteration of the loop of pass 3\<close>
  "trait_decide E llm context verified item =
     (case item of (concept, similar_nodes) \<Rightarrow>
        bind (emit_event (SimilarityCheck TraitGenerator concept (length similar_nodes)
                (map_option sn_score (first_of similar_nodes)))) (\<lambda>_.
        bind (case similar_nodes of
                [] \<Rightarrow> ret (vc_create_new concept)
              | best # _ \<Rightarrow>
                  (if f64_lt (sn_score best) f64_0_65 then ret (vc_create_new concept)
                   else if f64_ge (sn_score best) f64_0_85
                   then ret (vc_use_existing concept (sn_id best))
                   else bind (ask_llm E llm trait_analyst
                                (verify_similar_trait concept (ctx_domain_name context) similar_nodes)
                                (gen_config 512 f32_0_2)) (\<lambda>response.
                        lift_outcome (parse_trait_verification E response concept similar_nodes))))
             (\<lambda>decision.
        ret (verified @ [decision]))))"

definition trait_pass3 ::
  "env \<Rightarrow> provider \<Rightarrow> agent_context \<Rightarrow> (string \<times> similar_node list) list \<Rightarrow>
     (string, verified_concept list) action" where
  "trait_pass3 E llm context similarity_results =
     fold_prog (trait_decide E llm context) [] similarity_results"

definition parse_trait_properties ::
  "env \<Rightarrow> string \<Rightarrow> string \<Rightarrow> (string, trait_properties) outcome" where
  "parse_trait_properties E response concept_name =
     and_then (object_text ''No JSON object found'' ''No closing brace found'' response) (\<lambda>json_str.
     and_then (parse_failed (parse_value E json_str)) (\<lambda>parsed.
     Ok \<lparr>tp_name = str_field_or parsed ''name'' concept_name,
         tp_description = str_field_or parsed ''description'' [],
         tp_measurement_criteria = str_field_or parsed ''measurement_criteria'' []\<rparr>))"

definition trait_pass4 ::
  "env \<Rightarrow> provider \<Rightarrow> verified_concept list \<Rightarrow> (string, trait_properties list) action" where
  "trait_pass4 E llm verified =
     (let concepts = map vc_name (filter (\<lambda>c. \<not> is_use_existing (vc_action c)) verified)
      in if concepts = [] then ret []
         else batch (\<lambda>concept_name.
                bind (ask_llm E llm trait_analyst (trait_properties_prompt concept_name)
                        (gen_config 1024 f32_0_3)) (\<lambda>response.
                lift_outcome (parse_trait_properties E response concept_name))) concepts)"

definition trait_props :: "trait_properties \<Rightarrow> json hash_map" where
  "trait_props p = string_props
     [(''name'', tp_name p), (''description'', tp_description p),
      (''measurement_criteria'', tp_measurement_criteria p)]"

definition create_trait ::
  "env \<Rightarrow> created_node list \<times> trait_properties list \<Rightarrow> verified_concept \<Rightarrow>
     (string, created_node list \<times> trait_properties list) action" where
  \<comment> \<open>one iteration of the loop of pass 5\<close>
  "create_trait E s concept =
     (case s of (created, props_iter) \<Rightarrow>
      case vc_action concept of
        UseExisting element_id \<Rightarrow>
          ret (created @ [CreatedNode_reused (vc_name concept) element_id ''Trait''], props_iter)
      | CreateNew \<Rightarrow>
          (case props_iter of
             [] \<Rightarrow> fail ''Missing properties''
           | props # rest \<Rightarrow>
               bind (create_step_node E ''Trait'' (trait_props props)) (\<lambda>result.
               ret (created @ [CreatedNode_new (tp_name props) (nres_element_id result) ''Trait''], rest)))
      | CreateAndGeneralize _ _ _ \<Rightarrow> ret (created, props_iter))"

definition trait_pass5 ::
  "env \<Rightarrow> verified_concept list \<Rightarrow> trait_properties list \<Rightarrow> (string, created_node list) action" where
  "trait_pass5 E verified properties =
     bind (fold_prog (create_trait E) ([], properties) verified) (\<lambda>(created, _). ret created)"

definition trait_execute ::
  "env \<Rightarrow> provider \<Rightarrow> agent_context \<Rightarrow> (string \<times> agent_context, agent_context) action" where
  "trait_execute E llm context =
     bind (progress TraitGenerator ''Identifying relevant traits...'') (\<lambda>_.
     bind (keeping context (trait_pass1 E llm context)) (\<lambda>concepts.
     bind (progress TraitGenerator
             (''Found '' @ nat_text (length concepts) @ '' trait concepts'')) (\<lambda>_.
     bind (keeping context (trait_pass2 E concepts)) (\<lambda>similarity_results.
     bind (keeping context (trait_pass3 E llm context similarity_results)) (\<lambda>verified.
     bind (keeping context (trait_pass4 E llm verified)) (\<lambda>properties.
     bind (keeping context (trait_pass5 E verified properties)) (\<lambda>created.
     announce_nodes TraitGenerator ''Trait'' cn_was_reused add_trait created context)))))))"

subsection \<open>The step satisfies the interface\<close>

lemma emits_trait: "emits (own_effect TraitGenerator) (trait_execute E llm c)"
  unfolding trait_execute_def trait_pass1_def trait_pass2_def trait_pass3_def trait_pass4_def
    trait_pass5_def trait_decide_def create_trait_def Let_def case_prod_beta
  by (intro prog_rules allI impI | simp split: list.split concept_action.split |
      (auto intro!: prog_rules; fail))+

lemma trait_grows: "grows_from c (trait_execute E llm c)"
  unfolding grows_from_def trait_execute_def
  by (auto intro!: ends_bind [where P = "\<lambda>_. True"] ends_keeping ends_progress ends_announce_nodes)

interpretation trait_step: agent_step TraitGenerator "trait_execute E llm"
  by unfold_locales (rule trait_grows, rule emits_trait)

subsection \<open>Reuse\<close>

text \<open>A decision of this step reuses the id of one of the nodes that were found, or creates.\<close>

definition reuses_found :: "similar_node list \<Rightarrow> verified_concept \<Rightarrow> bool" where
  "reuses_found ns v \<longleftrightarrow> (vc_action v = CreateNew \<or> (\<exists>n\<in>set ns. vc_action v = UseExisting (sn_id n)))"

lemma parse_trait_verification_reuses:
  "parse_trait_verification E response concept ns = Ok v \<Longrightarrow> reuses_found ns v \<and> vc_name v = concept"
  by (auto simp: parse_trait_verification_def and_then_eq_Ok vc_defs reuses_found_def best_match_def
      split: if_splits option.splits list.splits dest!: find_SomeD)

lemma parse_trait_verification_panics_iff:
  assumes "well_encoded response" and "ns \<noteq> []"
  shows "parse_trait_verification E response concept ns = Panic \<longleftrightarrow>
    (\<exists>i j. find_char CHR ''{'' (trim response) = Some i \<and>
           rfind_char CHR ''}'' (trim response) = Some j \<and> j + 1 < i)"
  using object_text_panics_iff[OF assms(1)] parse_failed_no_panic assms(2)
  by (auto simp: parse_trait_verification_def and_then_eq_Panic best_match_def
      split: if_splits option.splits list.splits)

lemma trait_decide_Ok:
  assumes "trait_decide E llm c vs x h = (Ok vs', h')"
  shows "\<exists>v. vs' = vs @ [v] \<and> vc_name v = fst x \<and> reuses_found (snd x) v"
  using assms
  by (auto simp: trait_decide_def prog_Ok_iff split: prod.splits list.splits if_splits
      dest!: parse_trait_verification_reuses) (auto simp: vc_defs reuses_found_def)

lemma trait_pass3_Ok:
  "trait_pass3 E llm c results h = (Ok vs, h') \<Longrightarrow>
     list_all2 (\<lambda>x v. vc_name v = fst x \<and> reuses_found (snd x) v) results vs"
proof -
  have "fold_prog (trait_decide E llm c) us rs h = (Ok vs, h') \<Longrightarrow>
      \<exists>ws. vs = us @ ws \<and> list_all2 (\<lambda>x v. vc_name v = fst x \<and> reuses_found (snd x) v) rs ws"
    for us rs h
  proof (induction rs arbitrary: us h)
    case (Cons r rs)
    then obtain us1 h1 where 1: "trait_decide E llm c us r h = (Ok us1, h1)"
      and 2: "fold_prog (trait_decide E llm c) us1 rs h1 = (Ok vs, h')"
      by (auto simp: bind_eq_Ok)
    from trait_decide_Ok[OF 1] obtain v where "us1 = us @ [v]"
      "vc_name v = fst r" "reuses_found (snd r) v" by blast
    moreover from Cons.IH[OF 2] obtain ws where "vs = us1 @ ws"
      "list_all2 (\<lambda>x v. vc_name v = fst x \<and> reuses_found (snd x) v) rs ws" by blast
    ultimately show ?case by (intro exI[of _ "v # ws"]) simp
  qed (simp add: ret_def)
  from this[of "[]" results h] show "trait_pass3 E llm c results h = (Ok vs, h') \<Longrightarrow>
     list_all2 (\<lambda>x v. vc_name v = fst x \<and> reuses_found (snd x) v) results vs"
    by (auto simp: trait_pass3_def)
qed

lemma foldl_add_trait:
  "reg_traits (ctx_graph (foldl add_trait c ns)) = reg_traits (ctx_graph c) @ ns"
  by (induction ns arbitrary: c) (simp_all add: add_trait_def)

text \<open>Every concept becomes one node: a new one, or the node that the search found for it.\<close>

lemma create_trait_Ok:
  assumes "create_trait E (cs, ps) v h = (Ok (cs', ps'), h')" and "reuses_found ns v"
  shows "\<exists>n. cs' = cs @ [n] \<and> node_for ''Trait'' v n"
  using assms
  by (auto simp: create_trait_def reuses_found_def prog_Ok_iff node_for_def CreatedNode_reused_def
      CreatedNode_new_def split: list.splits)

lemma trait_nodes_Ok:
  "fold_prog (create_trait E) (cs, ps) vs h = (Ok (cs', ps'), h') \<Longrightarrow>
   \<forall>v\<in>set vs. \<exists>ns. reuses_found ns v \<Longrightarrow>
   \<exists>new. cs' = cs @ new \<and> list_all2 (node_for ''Trait'') vs new"
proof (induction vs arbitrary: cs ps h)
  case (Cons v vs)
  from Cons.prems(1) obtain cs1 ps1 h1 where 1: "create_trait E (cs, ps) v h = (Ok (cs1, ps1), h1)"
    and 2: "fold_prog (create_trait E) (cs1, ps1) vs h1 = (Ok (cs', ps'), h')"
    by (auto simp: bind_eq_Ok)
  from Cons.prems(2) create_trait_Ok[OF 1] obtain n where n: "cs1 = cs @ [n]" "node_for ''Trait'' v n"
    by auto
  from Cons.IH[OF 2] Cons.prems(2) obtain new where "cs' = cs1 @ new"
    "list_all2 (node_for ''Trait'') vs new" by auto
  with n show ?case by (intro exI[of _ "n # new"]) simp
qed (simp add: ret_def)

definition trait_node_for :: "string \<times> similar_node list \<Rightarrow> created_node \<Rightarrow> bool" where
  \<comment> \<open>the node that a concept becomes, given what the search found for it\<close>
  "trait_node_for result n \<longleftrightarrow> cn_label n = ''Trait'' \<and>
     (cn_was_reused n \<longrightarrow> cn_name n = fst result \<and> (\<exists>s\<in>set (snd result). cn_element_id n = sn_id s))"

lemma trait_node_forI:
  "vc_name v = fst x \<Longrightarrow> reuses_found (snd x) v \<Longrightarrow> node_for ''Trait'' v n \<Longrightarrow> trait_node_for x n"
  by (auto simp: trait_node_for_def node_for_def reuses_found_def CreatedNode_reused_def)

lemma trait_execute_Ok:
  assumes "trait_execute E llm c h = (Ok c', h')"
  obtains concepts results created h1 h2 h3 where
    "trait_pass1 E llm c (h @ [Emit (StepProgress TraitGenerator ''Identifying relevant traits...'')]) = (Ok concepts, h1)"
    "trait_pass2 E concepts h2 = (Ok results, h3)"
    "map fst results = concepts"
    "list_all2 trait_node_for results created"
    "reg_traits (ctx_graph c') = reg_traits (ctx_graph c) @ created"
  using assms unfolding trait_execute_def
proof (elim bind_OkE)
  fix u h1 concepts h2 h3 results h4 vs h5 ps h6 h7 created h8
  assume p0: "progress TraitGenerator ''Identifying relevant traits...'' h = (Ok u, h1)"
    and p1: "keeping c (trait_pass1 E llm c) h1 = (Ok concepts, h2)"
    and p2: "keeping c (trait_pass2 E concepts) h3 = (Ok results, h4)"
    and p3: "keeping c (trait_pass3 E llm c results) h4 = (Ok vs, h5)"
    and p5: "keeping c (trait_pass5 E vs ps) h7 = (Ok created, h8)"
    and p6: "announce_nodes TraitGenerator ''Trait'' cn_was_reused add_trait created c h8 = (Ok c', h')"
  have results: "map fst results = concepts"
    using p2 similarity_pass_concepts by (simp add: trait_pass2_def)
  have vs: "list_all2 (\<lambda>x v. vc_name v = fst x \<and> reuses_found (snd x) v) results vs"
    using p3 trait_pass3_Ok by simp
  then have "\<forall>v\<in>set vs. \<exists>ns. reuses_found ns v" by (induction rule: list_all2_induct) auto
  with p5 have "list_all2 (node_for ''Trait'') vs created"
    using trait_nodes_Ok[of E "[]" ps vs] by (auto simp: trait_pass5_def bind_eq_Ok ret_eq_Ok)
  with vs have "list_all2 trait_node_for results created"
    by (rule list_all2_trans [rotated]) (blast intro: trait_node_forI)
  moreover have "reg_traits (ctx_graph c') = reg_traits (ctx_graph c) @ created"
    using announce_nodes_Ok[OF p6] by (simp add: foldl_add_trait)
  ultimately show thesis using p0 p1 p2 results by (intro that) (simp_all add: progress_run)
qed

lemma parse_trait_verification_crossed:
  "well_encoded response \<Longrightarrow> ns \<noteq> [] \<Longrightarrow>
     parse_trait_verification E response concept ns = Panic \<longleftrightarrow> crossed_braces response"
  using parse_trait_verification_panics_iff by (simp add: crossed_braces_def)

lemma parse_trait_properties_crossed:
  "well_encoded response \<Longrightarrow>
     parse_trait_properties E response concept = Panic \<longleftrightarrow> crossed_braces response"
  using object_text_crossed parse_failed_no_panic
  by (fastforce simp: parse_trait_properties_def and_then_eq_Panic)

end
