(* ===== verification/Milestone_Generator.thy ===== *)
theory Milestone_Generator
  imports Concept_Passes
begin

text \<open>
  \<open>steps/milestone_generator.rs\<close>: milestones belong to one domain, so every concept becomes a new
  node; nothing is searched for and nothing is reused.
\<close>

record milestone_properties =
  mp_name :: string
  mp_description :: string
  mp_how_to_achieve :: string

definition milestone_context :: "agent_context \<Rightarrow> string" where
  \<comment> \<open>\<open>context_str\<close>\<close>
  "milestone_context context =
     (let names = (\<lambda>ns. join '', '' (map cn_name ns)); g = ctx_graph context
      in text_lines
           [''Existing components:'',
            ''- Knowledge: '' @ names (reg_knowledge g),
            ''- Skills: '' @ names (reg_skills g),
            ''- Traits: '' @ names (reg_traits g)])"

definition milestone_conceptualize ::
  "env \<Rightarrow> provider \<Rightarrow> agent_context \<Rightarrow> (string, string list) action" where
  "milestone_conceptualize E llm context =
     (let description = text_of (ctx_description context);
          prompt = milestone_concepts (ctx_domain_name context) description (milestone_context context)
      in bind (ask_llm E llm milestone_designer prompt (gen_config 16384 f32_0_3)) (\<lambda>response.
         lift_outcome (parse_concept_list E response)))"

definition parse_milestone_properties ::
  "env \<Rightarrow> string \<Rightarrow> string \<Rightarrow> (string, milestone_properties) outcome" where
  "parse_milestone_properties E response concept_name =
     and_then (object_text ''No JSON object found'' ''No closing brace found'' response) (\<lambda>json_str.
     and_then (parse_failed (parse_value E json_str)) (\<lambda>parsed.
     Ok \<lparr>mp_name = str_field_or parsed ''name'' concept_name,
         mp_description = str_field_or parsed ''description'' [],
         mp_how_to_achieve = str_field_or parsed ''how_to_achieve'' []\<rparr>))"

definition milestone_generate_properties ::
  "env \<Rightarrow> provider \<Rightarrow> agent_context \<Rightarrow> string list \<Rightarrow> (string, milestone_properties list) action" where
  "milestone_generate_properties E llm context concepts =
     (if concepts = [] then ret []
      else batch (\<lambda>concept.
             bind (ask_llm E llm milestone_designer
                     (milestone_properties_prompt (ctx_domain_name context) concept None)
                     (gen_config 1024 f32_0_3)) (\<lambda>response.
             lift_outcome (parse_milestone_properties E response concept))) concepts)"

definition milestone_props :: "milestone_properties \<Rightarrow> json hash_map" where
  "milestone_props p = string_props
     [(''name'', mp_name p), (''description'', mp_description p),
      (''how_to_achieve'', mp_how_to_achieve p)]"

definition create_milestone ::
  "env \<Rightarrow> created_node list \<Rightarrow> milestone_properties \<Rightarrow> (string, created_node list) action" where
  "create_milestone E created props =
     bind (create_step_node E ''Milestone'' (milestone_props props)) (\<lambda>result.
     ret (created @ [CreatedNode_new (mp_name props) (nres_element_id result) ''Milestone'']))"

definition milestone_create_nodes ::
  "env \<Rightarrow> milestone_properties list \<Rightarrow> (string, created_node list) action" where
  "milestone_create_nodes E properties = fold_prog (create_milestone E) [] properties"

definition milestone_execute ::
  "env \<Rightarrow> provider \<Rightarrow> agent_context \<Rightarrow> (string \<times> agent_context, agent_context) action" where
  "milestone_execute E llm context =
     bind (progress MilestoneGenerator ''Identifying milestone achievements...'') (\<lambda>_.
     bind (keeping context (milestone_conceptualize E llm context)) (\<lambda>concepts.
     bind (progress MilestoneGenerator
             (''Found '' @ nat_text (length concepts) @ '' milestone concepts'')) (\<lambda>_.
     bind (keeping context (milestone_generate_properties E llm context concepts)) (\<lambda>properties.
     bind (keeping context (milestone_create_nodes E properties)) (\<lambda>created.
     announce_nodes MilestoneGenerator ''Milestone'' cn_was_reused add_milestone created context)))))"

subsection \<open>The step satisfies the interface\<close>

lemma emits_milestone: "emits (own_effect MilestoneGenerator) (milestone_execute E llm c)"
  unfolding milestone_execute_def milestone_conceptualize_def milestone_generate_properties_def
    milestone_create_nodes_def create_milestone_def Let_def
  by (intro prog_rules)

lemma milestone_grows: "grows_from c (milestone_execute E llm c)"
  unfolding grows_from_def milestone_execute_def
  by (auto intro!: ends_bind [where P = "\<lambda>_. True"] ends_keeping ends_progress ends_announce_nodes)

interpretation milestone_step: agent_step MilestoneGenerator "milestone_execute E llm"
  by unfold_locales (rule milestone_grows, rule emits_milestone)

subsection \<open>Every concept becomes a new node\<close>

lemma fold_create_milestone:
  "fold_prog (create_milestone E) cs ps h = (Ok cs', h') \<Longrightarrow>
     \<exists>ns. cs' = cs @ ns \<and>
       list_all2 (\<lambda>p n. cn_name n = mp_name p \<and> cn_label n = ''Milestone'' \<and> \<not> cn_was_reused n) ps ns"
proof (induction ps arbitrary: cs h)
  case (Cons p ps)
  then obtain cs1 h1 where 1: "create_milestone E cs p h = (Ok cs1, h1)"
    and 2: "fold_prog (create_milestone E) cs1 ps h1 = (Ok cs', h')"
    by (auto simp: bind_eq_Ok)
  from 1 obtain i where "cs1 = cs @ [CreatedNode_new (mp_name p) i ''Milestone'']"
    by (auto simp: create_milestone_def prog_Ok_iff)
  moreover from Cons.IH[OF 2] obtain ns where "cs' = cs1 @ ns"
    "list_all2 (\<lambda>p n. cn_name n = mp_name p \<and> cn_label n = ''Milestone'' \<and> \<not> cn_was_reused n) ps ns"
    by blast
  ultimately show ?case
    by (intro exI[of _ "CreatedNode_new (mp_name p) i ''Milestone'' # ns"])
      (simp add: CreatedNode_new_def)
qed (simp add: ret_def)

lemma foldl_add_milestone:
  "reg_milestones (ctx_graph (foldl add_milestone c ns)) = reg_milestones (ctx_graph c) @ ns"
  by (induction ns arbitrary: c) (simp_all add: add_milestone_def)

lemma milestone_execute_Ok:
  assumes "milestone_execute E llm c h = (Ok c', h')"
  obtains concepts created h1 where
    "milestone_conceptualize E llm c
       (h @ [Emit (StepProgress MilestoneGenerator ''Identifying milestone achievements...'')]) =
       (Ok concepts, h1)"
    "length created = length concepts"
    "\<forall>n\<in>set created. cn_label n = ''Milestone'' \<and> \<not> cn_was_reused n"
    "reg_milestones (ctx_graph c') = reg_milestones (ctx_graph c) @ created"
  using assms unfolding milestone_execute_def
proof (elim bind_OkE)
  fix u h1 concepts h2 h3 props h4 created h5
  assume p0: "progress MilestoneGenerator ''Identifying milestone achievements...'' h = (Ok u, h1)"
    and p1: "keeping c (milestone_conceptualize E llm c) h1 = (Ok concepts, h2)"
    and p2: "keeping c (milestone_generate_properties E llm c concepts) h3 = (Ok props, h4)"
    and p3: "keeping c (milestone_create_nodes E props) h4 = (Ok created, h5)"
    and p4: "announce_nodes MilestoneGenerator ''Milestone'' cn_was_reused add_milestone created c h5 =
      (Ok c', h')"
  have "length props = length concepts"
    using p2 batch_length by (auto simp: milestone_generate_properties_def ret_def split: if_splits)
  moreover obtain ns where "created = ns" and ns:
    "list_all2 (\<lambda>p n. cn_name n = mp_name p \<and> cn_label n = ''Milestone'' \<and> \<not> cn_was_reused n) props ns"
    using p3 fold_create_milestone[of E "[]"] by (auto simp: milestone_create_nodes_def)
  ultimately show thesis
    using p0 p1 announce_nodes_Ok[OF p4] ns
    by (intro that[of concepts h2 created])
      (auto simp: progress_run foldl_add_milestone list_all2_conv_all_nth in_set_conv_nth)
qed

lemma parse_milestone_properties_crossed:
  "well_encoded response \<Longrightarrow>
     parse_milestone_properties E response concept = Panic \<longleftrightarrow> crossed_braces response"
  using object_text_crossed parse_failed_no_panic
  by (fastforce simp: parse_milestone_properties_def and_then_eq_Panic)

end
