(* ===== verification/Level_Distributor.thy ===== *)
theory Level_Distributor
  imports Steps_Common
begin

text \<open>
  \<open>steps/level_distributor.rs\<close>: the LLM assigns every component to a level, one component type at a
  time, and the step creates the \<open>REQUIRES_*\<close> relationships from the levels.

  \<open>level - 1\<close> and its conversion to \<open>usize\<close> are those of a 64-bit release build: they wrap.
\<close>

subsection \<open>Components of the registry\<close>

definition component_nodes :: "registry \<Rightarrow> string \<Rightarrow> created_node list" where
  "component_nodes g component_type =
     (if component_type = ''Knowledge'' then reg_knowledge g
      else if component_type = ''Skill'' then reg_skills g
      else if component_type = ''Trait'' then reg_traits g
      else if component_type = ''Milestone'' then reg_milestones g
      else [])"

definition find_element_id :: "registry \<Rightarrow> string \<Rightarrow> string \<Rightarrow> string option" where
  "find_element_id g name node_type =
     map_option cn_element_id (find (\<lambda>n. cn_name n = name) (component_nodes g node_type))"

definition requires_type :: "string \<Rightarrow> string option" where
  "requires_type component_type =
     (if component_type = ''Knowledge'' then Some ''REQUIRES_KNOWLEDGE''
      else if component_type = ''Skill'' then Some ''REQUIRES_SKILL''
      else if component_type = ''Trait'' then Some ''REQUIRES_TRAIT''
      else if component_type = ''Milestone'' then Some ''REQUIRES_MILESTONE''
      else None)"

definition node_lines :: "created_node list \<Rightarrow> string" where
  "node_lines ns =
     concat (map (\<lambda>n. ''- '' @ cn_name n @ '' (ID: '' @ cn_element_id n @ '')'' @ nl) ns)"

subsection \<open>The step\<close>

record level_assignment_rec =
  la_level_id :: string
  la_component_id :: string
  la_component_name :: string
  la_component_type :: string
  la_proficiency :: "string option"

definition distributor_context :: "agent_context \<Rightarrow> string \<Rightarrow> string" where
  \<comment> \<open>\<open>build_context_for_type\<close>\<close>
  "distributor_context context component_type =
     ''Domain: '' @ ctx_domain_name context @ nl @ nl @
     ''Domain Levels:'' @ nl @ node_lines (reg_domain_levels (ctx_graph context)) @
     nl @ component_type @ '' Nodes to assign:'' @ nl @
     node_lines (component_nodes (ctx_graph context) component_type)"

definition level_suffix :: "int \<Rightarrow> string" where
  "level_suffix level =
     (if level = 1 then ''Novice'' else if level = 2 then ''Developing''
      else if level = 3 then ''Competent'' else if level = 4 then ''Advanced''
      else if level = 5 then ''Master'' else [])"

definition level_index :: "int \<Rightarrow> nat" where
  \<comment> \<open>\<open>(level - 1) as usize\<close>\<close>
  "level_index level = nat ((level - 1) mod 2 ^ 64)"

definition find_level :: "created_node list \<Rightarrow> int \<Rightarrow> string option" where
  "find_level levels level =
     map_option cn_element_id
       (case find (\<lambda>l. contains_str ('' '' @ level_suffix level) (cn_name l)) levels of
          Some l \<Rightarrow> Some l
        | None \<Rightarrow> get_at levels (level_index level))"

definition parse_assignment ::
  "registry \<Rightarrow> string \<Rightarrow> json \<Rightarrow> (string, level_assignment_rec option) outcome" where
  \<comment> \<open>one iteration of the loop; \<open>None\<close> is \<open>continue\<close>\<close>
  "parse_assignment g component_type assignment =
     and_then (ok_or ''Missing component name'' (jstr_field assignment ''component'')) (\<lambda>component_name.
     and_then (ok_or ''Missing level'' (Option.bind (jget assignment ''level'') as_i64)) (\<lambda>level.
     let proficiency = jstr_field assignment ''proficiency''
     in case find_element_id g component_name component_type of
          None \<Rightarrow> Ok None
        | Some component_id \<Rightarrow>
        (case find_level (reg_domain_levels g) level of
          None \<Rightarrow> Ok None
        | Some level_id \<Rightarrow>
            Ok (Some \<lparr>la_level_id = level_id, la_component_id = component_id,
                     la_component_name = component_name, la_component_type = component_type,
                     la_proficiency = proficiency\<rparr>))))"

primrec collect_present :: "('e, 'a option) outcome list \<Rightarrow> ('e, 'a list) outcome" where
  \<comment> \<open>a loop that pushes, continues or returns an error\<close>
  "collect_present [] = Ok []"
| "collect_present (r # rs) =
     and_then r (\<lambda>x. and_then (collect_present rs) (\<lambda>xs.
       Ok (case x of Some y \<Rightarrow> y # xs | None \<Rightarrow> xs)))"

definition parse_level_assignments ::
  "env \<Rightarrow> string \<Rightarrow> agent_context \<Rightarrow> string \<Rightarrow> (string, level_assignment_rec list) outcome" where
  "parse_level_assignments E response context component_type =
     and_then (object_text ''No JSON object found'' ''No closing brace found'' response) (\<lambda>json_str.
     and_then (parse_failed (parse_value E json_str)) (\<lambda>parsed.
     and_then (ok_or ''Missing level_assignments array''
                 (Option.bind (jget parsed ''level_assignments'') as_array)) (\<lambda>assignments.
     collect_present (map (parse_assignment (ctx_graph context) component_type) assignments))))"

definition analyze_level_assignments_for_type ::
  "env \<Rightarrow> provider \<Rightarrow> agent_context \<Rightarrow> string \<Rightarrow> (string, level_assignment_rec list) action" where
  "analyze_level_assignments_for_type E llm context component_type =
     (let prompt = level_assignment (ctx_domain_name context) (distributor_context context component_type)
      in bind (ask_llm E llm relationship_architect prompt (gen_config 16384 f32_0_3)) (\<lambda>response.
         lift_outcome (parse_level_assignments E response context component_type)))"

definition analyze_level_assignments ::
  "env \<Rightarrow> provider \<Rightarrow> agent_context \<Rightarrow> (string, level_assignment_rec list) action" where
  "analyze_level_assignments E llm context =
     fold_prog (\<lambda>all_assignments component_type.
        bind (progress LevelDistributor (''Assigning '' @ component_type @ '' nodes to levels...'')) (\<lambda>_.
        bind (analyze_level_assignments_for_type E llm context component_type) (\<lambda>assignments.
        ret (all_assignments @ assignments))))
     [] [''Knowledge'', ''Skill'', ''Trait'', ''Milestone'']"

definition requirement_props :: "level_assignment_rec \<Rightarrow> json hash_map" where
  "requirement_props a =
     (case la_proficiency a of
        None \<Rightarrow> []
      | Some prof \<Rightarrow>
          (if la_component_type a = ''Knowledge'' then [(''bloom_level'', JStr prof)]
           else if la_component_type a = ''Skill'' then [(''dreyfus_level'', JStr prof)]
           else if la_component_type a = ''Trait'' then
             (case parse_i64 prof of Some score \<Rightarrow> [(''min_score'', json_int score)] | None \<Rightarrow> [])
           else []))"

definition requirement_request :: "string \<Rightarrow> level_assignment_rec \<Rightarrow> create_relationship_request" where
  "requirement_request rel_type a =
     \<lparr>crr_source_id = la_level_id a, crr_target_id = la_component_id a, crr_type = rel_type,
      crr_properties = (if requirement_props a = [] then None else Some (requirement_props a))\<rparr>"

definition create_level_relationship ::
  "env \<Rightarrow> nat \<times> agent_context \<Rightarrow> level_assignment_rec \<Rightarrow>
     (string \<times> agent_context, nat \<times> agent_context) action" where
  \<comment> \<open>one iteration of \<open>create_level_relationships\<close>\<close>
  "create_level_relationship E s a =
     (case s of (count, context) \<Rightarrow>
      case requires_type (la_component_type a) of
        None \<Rightarrow> ret (count, context)
      | Some rel_type \<Rightarrow>
          on_result (create_relationship E (requirement_request rel_type a))
            (\<lambda>_. ret (count + 1, add_level_requirement context
               \<lparr>lr_level_id = la_level_id a, lr_component_id = la_component_id a,
                lr_component_name = la_component_name a, lr_component_type = la_component_type a,
                lr_proficiency = la_proficiency a\<rparr>))
            (\<lambda>_. ret (count, context)))"

definition create_level_relationships ::
  "env \<Rightarrow> level_assignment_rec list \<Rightarrow> agent_context \<Rightarrow>
     (string \<times> agent_context, nat \<times> agent_context) action" where
  "create_level_relationships E assignments context =
     fold_prog (create_level_relationship E) (0, context) assignments"

definition distributor_execute ::
  "env \<Rightarrow> provider \<Rightarrow> agent_context \<Rightarrow> (string \<times> agent_context, agent_context) action" where
  "distributor_execute E llm context =
     bind (keeping context (analyze_level_assignments E llm context)) (\<lambda>level_assignments.
     bind (progress LevelDistributor
             (''Identified '' @ nat_text (length level_assignments) @ '' level assignments'')) (\<lambda>_.
     bind (progress LevelDistributor ''Creating level relationships in database...'') (\<lambda>_.
     bind (create_level_relationships E level_assignments context) (\<lambda>(count, context).
     bind (progress LevelDistributor
             (''Created '' @ nat_text count @ '' level relationships'')) (\<lambda>_.
     ret context)))))"

subsection \<open>The step satisfies the interface\<close>

lemma emits_distributor: "emits (own_effect LevelDistributor) (distributor_execute E llm c)"
  unfolding distributor_execute_def analyze_level_assignments_def
    analyze_level_assignments_for_type_def create_level_relationships_def
    create_level_relationship_def Let_def case_prod_beta
  by (intro prog_rules allI impI | simp split: option.split | (auto intro!: prog_rules; fail))+

lemma ends_level_relationships:
  "ends (create_level_relationships E as c) (\<lambda>(n, c'). context_grows c c') R"
  unfolding create_level_relationships_def
proof (rule ends_fold_prog)
  fix s :: "nat \<times> agent_context" and a assume "case s of (n, x) \<Rightarrow> context_grows c x"
  then obtain n x where s: "s = (n, x)" "context_grows c x" by (cases s) auto
  have "context_grows c (add_level_requirement x r)" for r
    using s context_grows_trans by blast
  with s show "ends (create_level_relationship E s a) (\<lambda>(n, c'). context_grows c c') R"
    unfolding create_level_relationship_def
    by (auto intro!: ends_on_result [where P = "\<lambda>_. True" and S = "\<lambda>_. True"] split: option.split)
qed simp

lemma distributor_grows: "grows_from c (distributor_execute E llm c)"
  unfolding grows_from_def distributor_execute_def
  by (auto intro!: ends_bind [where P = "\<lambda>_. True"]
      ends_bind [where P = "\<lambda>(n, c'). context_grows c c'"] ends_level_relationships
      ends_keeping ends_progress)

interpretation distributor_step: agent_step LevelDistributor "distributor_execute E llm"
  by unfold_locales (rule distributor_grows, rule emits_distributor)

subsection \<open>Assignments only name nodes of the registry\<close>

definition in_registry :: "registry \<Rightarrow> level_assignment_rec \<Rightarrow> bool" where
  "in_registry g a \<longleftrightarrow>
     la_level_id a \<in> cn_element_id ` set (reg_domain_levels g) \<and>
     (\<exists>n\<in>set (component_nodes g (la_component_type a)).
        cn_name n = la_component_name a \<and> cn_element_id n = la_component_id a)"

lemma find_element_id_Some:
  "find_element_id g name ty = Some i \<Longrightarrow>
     \<exists>n\<in>set (component_nodes g ty). cn_name n = name \<and> cn_element_id n = i"
  by (auto simp: find_element_id_def dest!: find_SomeD)

lemma find_level_mem: "find_level levels k = Some i \<Longrightarrow> i \<in> cn_element_id ` set levels"
  by (auto simp: find_level_def get_at_def split: option.splits if_splits dest!: find_SomeD)

lemma collect_present_mem:
  "collect_present rs = Ok xs \<Longrightarrow> x \<in> set xs \<Longrightarrow> Ok (Some x) \<in> set rs"
  by (induction rs arbitrary: xs) (auto simp: and_then_eq_Ok split: option.splits)

lemma parse_assignment_in_registry:
  assumes "parse_assignment g ty a = Ok (Some x)"
  shows "in_registry g x \<and> la_component_type x = ty"
proof -
  obtain name level where "jstr_field a ''component'' = Some name"
    "Option.bind (jget a ''level'') as_i64 = Some level"
    using assms by (auto simp: parse_assignment_def and_then_eq_Ok)
  with assms obtain ci li where "find_element_id g name ty = Some ci"
    "find_level (reg_domain_levels g) level = Some li"
    "x = \<lparr>la_level_id = li, la_component_id = ci, la_component_name = name,
      la_component_type = ty, la_proficiency = jstr_field a ''proficiency''\<rparr>"
    by (cases "find_element_id g name ty"; cases "find_level (reg_domain_levels g) level")
      (auto simp: parse_assignment_def)
  then show ?thesis
    using find_element_id_Some[of g name ty ci] find_level_mem[of _ level li]
    by (simp add: in_registry_def)
qed

lemma parse_level_assignments_in_registry:
  "parse_level_assignments E response c ty = Ok as \<Longrightarrow> list_all (in_registry (ctx_graph c)) as"
  by (auto simp: parse_level_assignments_def and_then_eq_Ok list_all_iff
      dest!: collect_present_mem parse_assignment_in_registry [OF sym])

lemma returns_analyze_type:
  "returns (analyze_level_assignments_for_type E llm c ty) (list_all (in_registry (ctx_graph c)))"
  unfolding analyze_level_assignments_for_type_def Let_def
  by (rule returns_bindI) (auto dest: parse_level_assignments_in_registry)

lemma returns_analyze_levels:
  "returns (analyze_level_assignments E llm c) (list_all (in_registry (ctx_graph c)))"
  unfolding analyze_level_assignments_def
proof (rule returns_fold_prog)
  fix s ty assume s: "list_all (in_registry (ctx_graph c)) s"
  show "returns (bind (progress LevelDistributor (''Assigning '' @ ty @ '' nodes to levels...''))
      (\<lambda>_. bind (analyze_level_assignments_for_type E llm c ty) (\<lambda>xs. ret (s @ xs))))
      (list_all (in_registry (ctx_graph c)))"
    by (rule returns_bindI, rule returns_bind [OF returns_analyze_type])
      (simp add: returns_ret s)
qed simp

subsection \<open>What the step leaves behind\<close>

definition level_link_ok :: "registry \<Rightarrow> level_requirement \<Rightarrow> bool" where
  "level_link_ok g r \<longleftrightarrow>
     lr_level_id r \<in> cn_element_id ` set (reg_domain_levels g) \<and>
     (\<exists>n\<in>set (component_nodes g (lr_component_type r)).
        cn_name n = lr_component_name r \<and> cn_element_id n = lr_component_id r)"

lemma create_level_relationship_Ok:
  assumes "create_level_relationship E (n, c) a h = (Ok (n', c'), h')" and "in_registry g a"
  shows "\<exists>rs. n' = n + length rs \<and> list_all (level_link_ok g) rs \<and> c' = foldl add_level_requirement c rs"
proof (cases "requires_type (la_component_type a)")
  case None
  with assms(1) show ?thesis
    by (intro exI[of _ "[]"]) (simp add: create_level_relationship_def ret_def)
next
  case (Some rt)
  let ?r = "\<lparr>lr_level_id = la_level_id a, lr_component_id = la_component_id a,
    lr_component_name = la_component_name a, lr_component_type = la_component_type a,
    lr_proficiency = la_proficiency a\<rparr>"
  have "(n' = n \<and> c' = c) \<or> (n' = n + 1 \<and> c' = add_level_requirement c ?r)"
    using assms(1) Some by (auto simp: create_level_relationship_def prog_Ok_iff)
  moreover have "level_link_ok g ?r"
    using assms(2) by (simp add: in_registry_def level_link_ok_def)
  ultimately show ?thesis
    by (elim disjE) (auto intro: exI[of _ "[]"] exI[of _ "[?r]"])
qed

lemma create_level_relationships_Ok:
  "list_all (in_registry g) as \<Longrightarrow>
   fold_prog (create_level_relationship E) (n, c) as h = (Ok (n', c'), h') \<Longrightarrow>
     \<exists>rs. n' = n + length rs \<and> list_all (level_link_ok g) rs \<and> c' = foldl add_level_requirement c rs"
proof (induction as arbitrary: n c h)
  case Nil
  then show ?case by (intro exI[of _ "[]"]) (simp add: ret_def)
next
  case (Cons a as)
  from Cons.prems(2) obtain s1 h1 where "create_level_relationship E (n, c) a h = (Ok s1, h1)"
    "fold_prog (create_level_relationship E) s1 as h1 = (Ok (n', c'), h')"
    unfolding fold_prog.simps by (rule bind_OkE)
  then obtain n1 c1 where 1: "create_level_relationship E (n, c) a h = (Ok (n1, c1), h1)"
    and 2: "fold_prog (create_level_relationship E) (n1, c1) as h1 = (Ok (n', c'), h')"
    by (cases s1) auto
  from Cons.prems(1) create_level_relationship_Ok[OF 1, of g] obtain rs where
    "n1 = n + length rs" "list_all (level_link_ok g) rs" "c1 = foldl add_level_requirement c rs" by auto
  moreover from Cons.prems(1) Cons.IH[OF _ 2] obtain qs where
    "n' = n1 + length qs" "list_all (level_link_ok g) qs" "c' = foldl add_level_requirement c1 qs" by auto
  ultimately show ?case by (intro exI[of _ "rs @ qs"]) simp
qed

lemma foldl_add_level_requirement:
  "ctx_graph (foldl add_level_requirement c rs) =
     (ctx_graph c)\<lparr>reg_level_requirements := reg_level_requirements (ctx_graph c) @ rs\<rparr>"
  by (induction rs arbitrary: c) (simp_all add: add_level_requirement_def reg_add_level_requirement_def)

lemma distributor_execute_Ok:
  assumes "distributor_execute E llm c h = (Ok c', h')"
  shows "\<exists>rs. list_all (level_link_ok (ctx_graph c)) rs \<and>
     ctx_graph c' = (ctx_graph c)\<lparr>reg_level_requirements := reg_level_requirements (ctx_graph c) @ rs\<rparr>"
  using assms unfolding distributor_execute_def case_prod_beta
proof (elim bind_OkE)
  fix as h1 h2 s h3 u h4
  assume 1: "keeping c (analyze_level_assignments E llm c) h = (Ok as, h1)"
    and 2: "create_level_relationships E as c h2 = (Ok s, h3)"
    and 3: "ret (snd s) h4 = (Ok c', h')"
  have "list_all (in_registry (ctx_graph c)) as"
    using 1 returnsD[OF returns_analyze_levels] by simp
  from create_level_relationships_Ok[OF this, of E 0 c h2 "fst s" "snd s" h3] 2
  obtain rs where "list_all (level_link_ok (ctx_graph c)) rs" "snd s = foldl add_level_requirement c rs"
    by (auto simp: create_level_relationships_def)
  moreover from 3 have "c' = snd s" by (simp add: ret_def)
  ultimately have "ctx_graph c' = ctx_graph (foldl add_level_requirement c rs)"
    and "list_all (level_link_ok (ctx_graph c)) rs" by simp_all
  then show ?thesis unfolding foldl_add_level_requirement by blast
qed

subsection \<open>Which level a number means\<close>

text \<open>A level is looked up by the suffix of its name. The suffix starts with the only blank of the
  text after the name of the domain, so it can only be found there or in the name itself.\<close>

lemma prefix_before_space: "CHR '' '' \<notin> set s \<Longrightarrow> prefix s (ys @ CHR '' '' # t) \<Longrightarrow> prefix s ys"
proof (induction s arbitrary: ys)
  case (Cons a s)
  show ?case
  proof (cases ys)
    case Nil
    with Cons.prems show ?thesis by simp
  next
    case y: (Cons y zs)
    with Cons.prems Cons.IH[of zs] show ?thesis by simp
  qed
qed simp

lemma prefix_space:
  assumes "prefix (CHR '' '' # s) (x @ CHR '' '' # t)" and "CHR '' '' \<notin> set s" and "x \<noteq> []"
  shows "prefix (CHR '' '' # s) x"
proof (cases x)
  case (Cons y ys)
  then show ?thesis using assms(1) prefix_before_space[OF assms(2), of ys t] by auto
qed (use assms(3) in simp)

lemma contains_suffix:
  assumes "CHR '' '' \<notin> set s" and "CHR '' '' \<notin> set t" and "s \<noteq> []"
  shows "contains_str (CHR '' '' # s) (d @ CHR '' '' # t) \<longleftrightarrow>
     contains_str (CHR '' '' # s) d \<or> prefix s t"
proof (induction d)
  case Nil
  have "\<not> contains_str (CHR '' '' # s) t"
    using assms(2) unfolding contains_str_iff by (auto simp: sublist_def)
  with assms show ?case by simp
next
  case (Cons c d)
  have "prefix (CHR '' '' # s) (c # d @ CHR '' '' # t) \<longleftrightarrow> prefix (CHR '' '' # s) (c # d)"
    using prefix_space[of s "c # d" t] assms(1) by (auto intro: prefix_order.trans)
  with Cons show ?case by simp
qed

definition level_suffixes :: "string list" where
  "level_suffixes = [''Novice'', ''Developing'', ''Competent'', ''Advanced'', ''Master'']"

lemma level_suffix_nth:
  "1 \<le> k \<Longrightarrow> k \<le> 5 \<Longrightarrow> level_suffix k = level_suffixes ! nat (k - 1)"
proof -
  assume "1 \<le> k" "k \<le> 5"
  then have "k = 1 \<or> k = 2 \<or> k = 3 \<or> k = 4 \<or> k = 5" by presburger
  then show ?thesis by (elim disjE) (simp_all add: level_suffix_def level_suffixes_def)
qed

text \<open>The levels the first step creates are found by their numbers, provided that the name of the
  domain does not contain the suffix itself.\<close>

lemma find_level_correct:
  assumes k: "1 \<le> k" "k \<le> 5"
    and names: "map cn_name levels = map (\<lambda>s. d @ '' '' @ s) level_suffixes"
    and d: "\<not> contains_str ('' '' @ level_suffix k) d"
  shows "find_level levels k = Some (cn_element_id (levels ! nat (k - 1)))"
proof -
  have len: "length levels = 5"
    using arg_cong[OF names, of length] by (simp add: level_suffixes_def)
  have nm: "cn_name (levels ! i) = d @ '' '' @ (level_suffixes ! i)" if "i < 5" for i
  proof -
    have "map cn_name levels ! i = map (\<lambda>s. d @ '' '' @ s) level_suffixes ! i" by (simp add: names)
    then show ?thesis using that len by (simp add: level_suffixes_def del: list.map)
  qed
  have hit: "contains_str ('' '' @ level_suffix k) (cn_name (levels ! i)) \<longleftrightarrow> i = nat (k - 1)" if "i < 5" for i
  proof -
    have "i = 0 \<or> i = 1 \<or> i = 2 \<or> i = 3 \<or> i = 4" using that by presburger
    moreover have "k = 1 \<or> k = 2 \<or> k = 3 \<or> k = 4 \<or> k = 5" using k by presburger
    ultimately show ?thesis
      using d nm[OF that]
      by (elim disjE) (simp_all add: level_suffix_def level_suffixes_def contains_suffix)
  qed
  have kl: "nat (k - 1) < 5" using k by simp
  have "find (\<lambda>l. contains_str ('' '' @ level_suffix k) (cn_name l)) levels = Some (levels ! nat (k - 1))"
    unfolding find_Some_iff using hit len kl by (intro exI[of _ "nat (k - 1)"]) auto
  then show ?thesis by (simp add: find_level_def)
qed

text \<open>A domain whose own name contains the suffix sends the number to the first level.\<close>

lemma find_level_clash:
  assumes "contains_str ('' '' @ level_suffix k) (cn_name l)"
  shows "find_level (l # levels) k = Some (cn_element_id l)"
  using assms by (simp add: find_level_def)

text \<open>A number outside 1 to 5 has the empty suffix; every name with a blank matches it, so the
  lookup by index that was meant for it is never reached and the first level is taken.\<close>

lemma contains_space: "contains_str '' '' s \<longleftrightarrow> CHR '' '' \<in> set s"
  by (induction s) auto

lemma find_level_out_of_range:
  assumes "k < 1 \<or> 5 < k" and "CHR '' '' \<in> set (cn_name l)"
  shows "find_level (l # levels) k = Some (cn_element_id l)"
proof -
  have "level_suffix k = []" using assms(1) by (auto simp: level_suffix_def)
  then show ?thesis using assms(2) by (simp add: find_level_def contains_space)
qed

lemma parse_assignment_no_panic: "parse_assignment g ty a \<noteq> Panic"
  by (auto simp: parse_assignment_def and_then_eq_Panic Let_def split: option.splits)

lemma collect_present_no_panic: "Panic \<notin> set rs \<Longrightarrow> collect_present rs \<noteq> Panic"
  by (induction rs) (auto simp: and_then_eq_Panic)

lemma parse_level_assignments_crossed:
  assumes "well_encoded response"
  shows "parse_level_assignments E response c ty = Panic \<longleftrightarrow> crossed_braces response"
proof -
  have "collect_present (map (parse_assignment (ctx_graph c) ty) as) \<noteq> Panic" for as
    using parse_assignment_no_panic [symmetric] by (intro collect_present_no_panic) auto
  with object_text_crossed [OF assms] parse_failed_no_panic show ?thesis
    by (fastforce simp: parse_level_assignments_def and_then_eq_Panic)
qed

lemma find_level_out_of_range_first:
  assumes "k < 1 \<or> 5 < k"
    and names: "map cn_name levels = map (\<lambda>s. d @ '' '' @ s) level_suffixes"
  shows "find_level levels k = Some (cn_element_id (hd levels))"
proof -
  obtain l rest where l: "levels = l # rest" "cn_name l = d @ '' '' @ ''Novice''"
    using names by (cases levels) (auto simp: level_suffixes_def)
  then show ?thesis using find_level_out_of_range [OF assms(1), of l rest] by simp
qed

end
