(* ===== verification/Prerequisite_Mapper.thy ===== *)
theory Prerequisite_Mapper
  imports Level_Distributor
begin

text \<open>
  \<open>steps/prerequisite_mapper.rs\<close>: the LLM names the prerequisites of the skills and of the
  milestones, and the step creates the \<open>REQUIRES_*\<close> relationships between the components.
\<close>

record prerequisite_relationship =
  pr_source_id :: string
  pr_source_name :: string
  pr_target_id :: string
  pr_target_name :: string
  pr_relationship_type :: string

definition name_lines :: "created_node list \<Rightarrow> string" where
  "name_lines ns = concat (map (\<lambda>n. ''- '' @ cn_name n @ nl) ns)"

definition mapper_context :: "agent_context \<Rightarrow> string \<Rightarrow> string" where
  \<comment> \<open>\<open>build_context_for_type\<close>\<close>
  "mapper_context context source_type =
     (let g = ctx_graph context
      in ''Domain: '' @ ctx_domain_name context @ nl @ nl @
         source_type @ '' Nodes (find prerequisites for these):'' @ nl @
         node_lines (component_nodes g source_type) @
         nl @ ''Available Knowledge Nodes:'' @ nl @ name_lines (reg_knowledge g) @
         nl @ ''Available Skill Nodes:'' @ nl @ name_lines (reg_skills g) @
         nl @ ''Available Trait Nodes:'' @ nl @ name_lines (reg_traits g) @
         nl @ ''Available Milestone Nodes:'' @ nl @ name_lines (reg_milestones g))"

definition mapper_find_element_id :: "registry \<Rightarrow> string \<Rightarrow> string \<Rightarrow> string option" where
  \<comment> \<open>this step's own \<open>find_element_id\<close>\<close>
  "mapper_find_element_id g name node_type =
     (let find_in = (\<lambda>nodes. map_option cn_element_id (find (\<lambda>n. cn_name n = name) nodes))
      in if node_type = ''Knowledge'' then find_in (reg_knowledge g)
         else if node_type = ''Skill'' then find_in (reg_skills g)
         else if node_type = ''Trait'' then find_in (reg_traits g)
         else if node_type = ''Milestone'' then find_in (reg_milestones g)
         else None)"

lemma mapper_find_element_id [simp]: "mapper_find_element_id = find_element_id"
  by (rule ext)+ (simp add: mapper_find_element_id_def find_element_id_def component_nodes_def)

definition parse_required ::
  "registry \<Rightarrow> string \<Rightarrow> string \<Rightarrow> json \<Rightarrow> prerequisite_relationship option" where
  \<comment> \<open>one iteration of the inner loop; \<open>None\<close> is \<open>continue\<close>\<close>
  "parse_required g source_id component_name req =
     (let req_name = str_field_or req ''name'' [];
          req_type = str_field_or req ''type'' []
      in case mapper_find_element_id g req_name req_type of
           None \<Rightarrow> None
         | Some target_id \<Rightarrow>
             map_option (\<lambda>rel_type.
               \<lparr>pr_source_id = source_id, pr_source_name = component_name, pr_target_id = target_id,
                pr_target_name = req_name, pr_relationship_type = rel_type\<rparr>) (requires_type req_type))"

definition parse_prerequisite ::
  "registry \<Rightarrow> string \<Rightarrow> json \<Rightarrow> (string, prerequisite_relationship list) outcome" where
  \<comment> \<open>one iteration of the outer loop\<close>
  "parse_prerequisite g source_type prereq =
     and_then (ok_or ''Missing component name'' (jstr_field prereq ''component'')) (\<lambda>component_name.
     Ok (case mapper_find_element_id g component_name source_type of
           None \<Rightarrow> []
         | Some source_id \<Rightarrow>
             (let requires = (case Option.bind (jget prereq ''requires'') as_array of
                                Some r \<Rightarrow> r | None \<Rightarrow> [])
              in List.map_filter (parse_required g source_id component_name) requires)))"

definition parse_prerequisites ::
  "env \<Rightarrow> string \<Rightarrow> agent_context \<Rightarrow> string \<Rightarrow> (string, prerequisite_relationship list) outcome" where
  "parse_prerequisites E response context source_type =
     and_then (object_text ''No JSON object found'' ''No closing brace found'' response) (\<lambda>json_str.
     and_then (parse_failed (parse_value E json_str)) (\<lambda>parsed.
     and_then (ok_or ''Missing prerequisites array''
                 (Option.bind (jget parsed ''prerequisites'') as_array)) (\<lambda>prerequisites.
     and_then (collect_results (map (parse_prerequisite (ctx_graph context) source_type) prerequisites))
       (\<lambda>relationships. Ok (concat relationships)))))"

definition analyze_prerequisites_for_type ::
  "env \<Rightarrow> provider \<Rightarrow> agent_context \<Rightarrow> string \<Rightarrow> (string, prerequisite_relationship list) action" where
  "analyze_prerequisites_for_type E llm context source_type =
     (let prompt = prerequisite_analysis (ctx_domain_name context) (mapper_context context source_type)
      in bind (ask_llm E llm relationship_architect prompt (gen_config 16384 f32_0_3)) (\<lambda>response.
         lift_outcome (parse_prerequisites E response context source_type)))"

definition analyze_prerequisites ::
  "env \<Rightarrow> provider \<Rightarrow> agent_context \<Rightarrow> (string, prerequisite_relationship list) action" where
  "analyze_prerequisites E llm context =
     fold_prog (\<lambda>all_prerequisites source_type.
        bind (progress PrerequisiteMapper (''Analyzing '' @ source_type @ '' prerequisites...'')) (\<lambda>_.
        bind (analyze_prerequisites_for_type E llm context source_type) (\<lambda>prerequisites.
        ret (all_prerequisites @ prerequisites))))
     [] [''Skill'', ''Milestone'']"

definition create_prerequisite_relationship ::
  "env \<Rightarrow> nat \<times> agent_context \<Rightarrow> prerequisite_relationship \<Rightarrow>
     (string \<times> agent_context, nat \<times> agent_context) action" where
  "create_prerequisite_relationship E s prereq =
     (case s of (count, context) \<Rightarrow>
        on_result (create_relationship E
            (relationship (pr_source_id prereq) (pr_target_id prereq) (pr_relationship_type prereq)))
          (\<lambda>_. ret (count + 1, add_prerequisite context
             \<lparr>pl_source_id = pr_source_id prereq, pl_source_name = pr_source_name prereq,
              pl_target_id = pr_target_id prereq, pl_target_name = pr_target_name prereq,
              pl_relationship_type = pr_relationship_type prereq\<rparr>))
          (\<lambda>_. ret (count, context)))"

definition create_prerequisite_relationships ::
  "env \<Rightarrow> prerequisite_relationship list \<Rightarrow> agent_context \<Rightarrow>
     (string \<times> agent_context, nat \<times> agent_context) action" where
  "create_prerequisite_relationships E prerequisites context =
     fold_prog (create_prerequisite_relationship E) (0, context) prerequisites"

definition mapper_execute ::
  "env \<Rightarrow> provider \<Rightarrow> agent_context \<Rightarrow> (string \<times> agent_context, agent_context) action" where
  "mapper_execute E llm context =
     bind (keeping context (analyze_prerequisites E llm context)) (\<lambda>prerequisites.
     bind (progress PrerequisiteMapper
             (''Identified '' @ nat_text (length prerequisites) @ '' prerequisite relationships'')) (\<lambda>_.
     bind (progress PrerequisiteMapper ''Creating prerequisite relationships in database...'') (\<lambda>_.
     bind (create_prerequisite_relationships E prerequisites context) (\<lambda>(count, context).
     bind (progress PrerequisiteMapper
             (''Created '' @ nat_text count @ '' prerequisite relationships'')) (\<lambda>_.
     ret context)))))"

subsection \<open>The step satisfies the interface\<close>

lemma emits_mapper: "emits (own_effect PrerequisiteMapper) (mapper_execute E llm c)"
  unfolding mapper_execute_def analyze_prerequisites_def analyze_prerequisites_for_type_def
    create_prerequisite_relationships_def create_prerequisite_relationship_def Let_def case_prod_beta
  by (intro prog_rules)

lemma ends_prerequisite_relationships:
  "ends (create_prerequisite_relationships E ps c) (\<lambda>(n, c'). context_grows c c') R"
  unfolding create_prerequisite_relationships_def
proof (rule ends_fold_prog)
  fix s :: "nat \<times> agent_context" and p assume "case s of (n, x) \<Rightarrow> context_grows c x"
  then obtain n x where s: "s = (n, x)" "context_grows c x" by (cases s) auto
  have "context_grows c (add_prerequisite x r)" for r
    using s context_grows_trans by blast
  with s show "ends (create_prerequisite_relationship E s p) (\<lambda>(n, c'). context_grows c c') R"
    unfolding create_prerequisite_relationship_def
    by (auto intro!: ends_on_result [where P = "\<lambda>_. True" and S = "\<lambda>_. True"])
qed simp

lemma mapper_grows: "grows_from c (mapper_execute E llm c)"
  unfolding grows_from_def mapper_execute_def
  by (auto intro!: ends_bind [where P = "\<lambda>_. True"]
      ends_bind [where P = "\<lambda>(n, c'). context_grows c c'"] ends_prerequisite_relationships
      ends_keeping ends_progress)

interpretation mapper_step: agent_step PrerequisiteMapper "mapper_execute E llm"
  by unfold_locales (rule mapper_grows, rule emits_mapper)

subsection \<open>Prerequisites join nodes of the registry\<close>

definition prerequisite_ok :: "registry \<Rightarrow> prerequisite_relationship \<Rightarrow> bool" where
  "prerequisite_ok g p \<longleftrightarrow>
     (\<exists>source_type\<in>{''Skill'', ''Milestone''}. \<exists>n\<in>set (component_nodes g source_type).
        cn_name n = pr_source_name p \<and> cn_element_id n = pr_source_id p) \<and>
     (\<exists>target_type. requires_type target_type = Some (pr_relationship_type p) \<and>
        (\<exists>n\<in>set (component_nodes g target_type).
           cn_name n = pr_target_name p \<and> cn_element_id n = pr_target_id p))"

lemma parse_required_ok:
  assumes "parse_required g i name req = Some p" and "ty \<in> {''Skill'', ''Milestone''}"
    and "find_element_id g name ty = Some i"
  shows "prerequisite_ok g p"
proof -
  let ?n = "str_field_or req ''name'' []" and ?t = "str_field_or req ''type'' []"
  obtain j rt where j: "find_element_id g ?n ?t = Some j" "requires_type ?t = Some rt"
    "p = \<lparr>pr_source_id = i, pr_source_name = name, pr_target_id = j, pr_target_name = ?n,
          pr_relationship_type = rt\<rparr>"
    using assms(1) by (auto simp: parse_required_def Let_def split: option.splits)
  with find_element_id_Some[OF assms(3)] find_element_id_Some[OF j(1)] assms(2) show ?thesis
    by (auto simp: prerequisite_ok_def)
qed

lemma parse_prerequisite_ok:
  assumes "parse_prerequisite g ty a = Ok ps" and "ty \<in> {''Skill'', ''Milestone''}"
  shows "list_all (prerequisite_ok g) ps"
proof -
  obtain name where n: "jstr_field a ''component'' = Some name"
    using assms(1) by (auto simp: parse_prerequisite_def and_then_eq_Ok)
  show ?thesis
  proof (cases "find_element_id g name ty")
    case None
    then show ?thesis using assms(1) n by (simp add: parse_prerequisite_def)
  next
    case (Some i)
    then show ?thesis
      using assms n parse_required_ok[OF _ assms(2) Some]
      by (auto simp: parse_prerequisite_def Let_def list_all_iff List.map_filter_def)
  qed
qed

lemma parse_prerequisites_ok:
  assumes "parse_prerequisites E response c ty = Ok ps" and "ty \<in> {''Skill'', ''Milestone''}"
  shows "list_all (prerequisite_ok (ctx_graph c)) ps"
proof -
  obtain xs rs where "map (parse_prerequisite (ctx_graph c) ty) xs = map Ok rs" "ps = concat rs"
    using assms(1) by (auto simp: parse_prerequisites_def and_then_eq_Ok collect_results_Ok_iff)
  moreover have "list_all (prerequisite_ok (ctx_graph c)) r" if "r \<in> set rs" for r
  proof -
    have "Ok r \<in> set (map (parse_prerequisite (ctx_graph c) ty) xs)"
      using calculation(1) that by simp
    then show ?thesis using parse_prerequisite_ok[OF _ assms(2)] by fastforce
  qed
  ultimately show ?thesis by (auto simp: list_all_iff)
qed

lemma returns_analyze_prerequisites:
  "returns (analyze_prerequisites E llm c) (list_all (prerequisite_ok (ctx_graph c)))"
  unfolding analyze_prerequisites_def
proof (rule returns_fold_prog)
  fix s ty
  assume ty: "ty \<in> set [''Skill'', ''Milestone'']" and s: "list_all (prerequisite_ok (ctx_graph c)) s"
  have r: "returns (analyze_prerequisites_for_type E llm c ty) (list_all (prerequisite_ok (ctx_graph c)))"
    unfolding analyze_prerequisites_for_type_def Let_def
    using ty by (intro returns_bindI) (auto dest: parse_prerequisites_ok)
  show "returns (bind (progress PrerequisiteMapper (''Analyzing '' @ ty @ '' prerequisites...''))
      (\<lambda>_. bind (analyze_prerequisites_for_type E llm c ty) (\<lambda>xs. ret (s @ xs))))
      (list_all (prerequisite_ok (ctx_graph c)))"
    by (rule returns_bindI, rule returns_bind [OF r]) (simp add: returns_ret s)
qed simp

definition prerequisite_link_ok :: "registry \<Rightarrow> prerequisite_link \<Rightarrow> bool" where
  "prerequisite_link_ok g l \<longleftrightarrow>
     (\<exists>p. prerequisite_ok g p \<and> pl_source_id l = pr_source_id p \<and> pl_source_name l = pr_source_name p \<and>
        pl_target_id l = pr_target_id p \<and> pl_target_name l = pr_target_name p \<and>
        pl_relationship_type l = pr_relationship_type p)"

lemma create_prerequisites_Ok:
  "list_all (prerequisite_ok g) ps \<Longrightarrow>
   fold_prog (create_prerequisite_relationship E) (n, c) ps h = (Ok (n', c'), h') \<Longrightarrow>
     \<exists>ls. n' = n + length ls \<and> list_all (prerequisite_link_ok g) ls \<and> c' = foldl add_prerequisite c ls"
proof (induction ps arbitrary: n c h)
  case Nil
  then show ?case by (intro exI[of _ "[]"]) (simp add: ret_def)
next
  case (Cons p ps)
  from Cons.prems(2) obtain s1 h1 where s1: "create_prerequisite_relationship E (n, c) p h = (Ok s1, h1)"
    and "fold_prog (create_prerequisite_relationship E) s1 ps h1 = (Ok (n', c'), h')"
    unfolding fold_prog.simps by (rule bind_OkE)
  then obtain n1 c1 where 2: "fold_prog (create_prerequisite_relationship E) (n1, c1) ps h1 = (Ok (n', c'), h')"
    and s: "s1 = (n1, c1)" by (cases s1) auto
  let ?l = "\<lparr>pl_source_id = pr_source_id p, pl_source_name = pr_source_name p,
    pl_target_id = pr_target_id p, pl_target_name = pr_target_name p,
    pl_relationship_type = pr_relationship_type p\<rparr>"
  have "(n1 = n \<and> c1 = c) \<or> (n1 = n + 1 \<and> c1 = add_prerequisite c ?l)"
    using s1 s by (auto simp: create_prerequisite_relationship_def prog_Ok_iff)
  moreover have "prerequisite_link_ok g ?l"
    using Cons.prems(1) by (auto simp: prerequisite_link_ok_def)
  ultimately obtain rs where "n1 = n + length rs" "list_all (prerequisite_link_ok g) rs"
    "c1 = foldl add_prerequisite c rs"
    by (elim disjE) (auto intro: that[of "[]"] that[of "[?l]"])
  moreover from Cons.prems(1) Cons.IH[OF _ 2] obtain qs where
    "n' = n1 + length qs" "list_all (prerequisite_link_ok g) qs" "c' = foldl add_prerequisite c1 qs" by auto
  ultimately show ?case by (intro exI[of _ "rs @ qs"]) simp
qed

lemma foldl_add_prerequisite:
  "ctx_graph (foldl add_prerequisite c ls) =
     (ctx_graph c)\<lparr>reg_prerequisites := reg_prerequisites (ctx_graph c) @ ls\<rparr>"
  by (induction ls arbitrary: c) (simp_all add: add_prerequisite_def reg_add_prerequisite_def)

lemma mapper_execute_Ok:
  assumes "mapper_execute E llm c h = (Ok c', h')"
  shows "\<exists>ls. list_all (prerequisite_link_ok (ctx_graph c)) ls \<and>
     ctx_graph c' = (ctx_graph c)\<lparr>reg_prerequisites := reg_prerequisites (ctx_graph c) @ ls\<rparr>"
  using assms unfolding mapper_execute_def case_prod_beta
proof (elim bind_OkE)
  fix ps h1 h2 s h3 h4
  assume 1: "keeping c (analyze_prerequisites E llm c) h = (Ok ps, h1)"
    and 2: "create_prerequisite_relationships E ps c h2 = (Ok s, h3)"
    and 3: "ret (snd s) h4 = (Ok c', h')"
  have "list_all (prerequisite_ok (ctx_graph c)) ps"
    using 1 returnsD[OF returns_analyze_prerequisites] by simp
  from create_prerequisites_Ok[OF this, of E 0 c h2 "fst s" "snd s" h3] 2
  obtain ls where ls: "list_all (prerequisite_link_ok (ctx_graph c)) ls" "snd s = foldl add_prerequisite c ls"
    by (auto simp: create_prerequisite_relationships_def)
  moreover from 3 have "c' = snd s" by (simp add: ret_def)
  ultimately have "ctx_graph c' = ctx_graph (foldl add_prerequisite c ls)" by simp
  with ls(1) show ?thesis unfolding foldl_add_prerequisite by blast
qed

lemma parse_prerequisite_no_panic: "parse_prerequisite g ty a \<noteq> Panic"
  by (simp add: parse_prerequisite_def and_then_eq_Panic)

lemma parse_prerequisites_crossed:
  assumes "well_encoded response"
  shows "parse_prerequisites E response c ty = Panic \<longleftrightarrow> crossed_braces response"
proof -
  have "collect_results (map (parse_prerequisite (ctx_graph c) ty) as) \<noteq> Panic" for as
    by (induction as) (simp_all add: and_then_eq_Panic parse_prerequisite_no_panic)
  with object_text_crossed [OF assms] parse_failed_no_panic show ?thesis
    by (fastforce simp: parse_prerequisites_def and_then_eq_Panic)
qed

end
