(* ===== verification/Orchestrator.thy ===== *)
theory Orchestrator
  imports Domain_Architect Knowledge_Generator Skill_Generator Trait_Generator Milestone_Generator
    Prerequisite_Mapper
begin

text \<open>
  \<open>agent/orchestrator.rs\<close>: the generation of a domain. It refuses a name that is close to an
  existing domain, then runs the seven steps in order, with the SSE events around each of them,
  and stops at the first one that fails. What it needs of a step is the interface \<open>agent_step\<close>.
\<close>

subsection \<open>The workflow\<close>

definition DOMAIN_SIMILARITY_THRESHOLD :: f64 where "DOMAIN_SIMILARITY_THRESHOLD = f64_0_85"

definition AgentOrchestrator_new :: "env \<Rightarrow> provider_type \<Rightarrow> (string, provider) outcome" where
  \<comment> \<open>the orchestrator is its LLM provider; the graph and the channel are the environment\<close>
  "AgentOrchestrator_new E provider_type =
     map_err_outcome (\<lambda>e. ''Failed to create LLM provider: '' @ llm_error_debug E e)
       (create_provider E provider_type)"

definition check_domain_exists :: "env \<Rightarrow> string \<Rightarrow> (string, string option) action" where
  "check_domain_exists E domain_name =
     bind (search_text E ''Domain'' domain_name 1) (\<lambda>similar.
     ret (case similar of
            [] \<Rightarrow> None
          | s # _ \<Rightarrow> if f64_ge (sn_score s) DOMAIN_SIMILARITY_THRESHOLD then Some (sn_name s) else None))"

definition created_and_reused :: "created_node list \<Rightarrow> nat \<times> nat" where
  "created_and_reused nodes =
     (length (filter (\<lambda>n. \<not> cn_was_reused n) nodes), length (filter cn_was_reused nodes))"

fun count_agent_nodes :: "agent_type \<Rightarrow> agent_context \<Rightarrow> nat \<times> nat" where
  "count_agent_nodes DomainArchitect c =
     (length (reg_domain_levels (ctx_graph c)) + (if reg_domain (ctx_graph c) \<noteq> None then 1 else 0), 0)"
| "count_agent_nodes KnowledgeGenerator c = created_and_reused (reg_knowledge (ctx_graph c))"
| "count_agent_nodes SkillGenerator c = created_and_reused (reg_skills (ctx_graph c))"
| "count_agent_nodes TraitGenerator c = created_and_reused (reg_traits (ctx_graph c))"
| "count_agent_nodes MilestoneGenerator c = created_and_reused (reg_milestones (ctx_graph c))"
| "count_agent_nodes LevelDistributor c = (0, 0)"
| "count_agent_nodes PrerequisiteMapper c = (0, 0)"

fun update_stats :: "domain_statistics \<Rightarrow> agent_type \<Rightarrow> agent_context \<Rightarrow> domain_statistics" where
  "update_stats s DomainArchitect c =
     s\<lparr>domain_levels_created := length (reg_domain_levels (ctx_graph c))\<rparr>"
| "update_stats s KnowledgeGenerator c =
     s\<lparr>knowledge_created := fst (created_and_reused (reg_knowledge (ctx_graph c)))\<rparr>"
| "update_stats s SkillGenerator c =
     s\<lparr>skills_created := fst (created_and_reused (reg_skills (ctx_graph c)))\<rparr>"
| "update_stats s TraitGenerator c =
     s\<lparr>traits_created := fst (created_and_reused (reg_traits (ctx_graph c)))\<rparr>"
| "update_stats s MilestoneGenerator c =
     s\<lparr>milestones_created := fst (created_and_reused (reg_milestones (ctx_graph c)))\<rparr>"
| "update_stats s LevelDistributor c = s"
| "update_stats s PrerequisiteMapper c = s"

type_synonym step = "agent_context \<Rightarrow> (string \<times> agent_context, agent_context) action"

definition agent_steps :: "env \<Rightarrow> provider \<Rightarrow> (agent_type \<times> step) list" where
  \<comment> \<open>the vector \<open>agents\<close>\<close>
  "agent_steps E llm =
     [(DomainArchitect, architect_execute E),
      (KnowledgeGenerator, knowledge_execute E llm),
      (SkillGenerator, skill_execute E llm),
      (TraitGenerator, trait_execute E llm),
      (MilestoneGenerator, milestone_execute E llm),
      (LevelDistributor, distributor_execute E llm),
      (PrerequisiteMapper, mapper_execute E llm)]"

definition run_agent ::
  "domain_statistics \<times> agent_context \<Rightarrow> nat \<times> agent_type \<times> step \<Rightarrow>
     (string, domain_statistics \<times> agent_context) action" where
  \<comment> \<open>one iteration of the loop over the agents\<close>
  "run_agent s a =
     (case s of (stats, context) \<Rightarrow>
      case a of (idx, agent, execute) \<Rightarrow>
        bind (emit_event (AgentStarted agent (idx + 1) (display_name agent))) (\<lambda>_.
        on_result (execute context)
          (\<lambda>context.
             let stats = update_stats stats agent context;
                 (created, reused) = count_agent_nodes agent context
             in bind (emit_event (AgentCompleted agent created reused)) (\<lambda>_. ret (stats, context)))
          (\<lambda>(e, context).
             bind (emit_event (AgentFailed agent e)) (\<lambda>_.
             bind (emit_event (Failed e (Some agent) (Some (ctx_graph context)))) (\<lambda>_.
             fail e)))))"

record domain_generation_result =
  dgr_domain_name :: string
  dgr_domain_element_id :: string
  dgr_domain_graph :: registry
  dgr_statistics :: domain_statistics

definition elapsed_ms :: "nat \<Rightarrow> nat \<Rightarrow> nat" where
  \<comment> \<open>\<open>start_time.elapsed().as_millis() as u64\<close>\<close>
  "elapsed_ms start now = (now - start) mod 2 ^ 64"

definition generate_domain ::
  "env \<Rightarrow> provider \<Rightarrow> string \<Rightarrow> string option \<Rightarrow> (string, domain_generation_result) action" where
  "generate_domain E llm domain_name description =
     bind (read_instant E) (\<lambda>start_time.
     bind (check_domain_exists E domain_name) (\<lambda>existing.
     case existing of
       Some existing_domain \<Rightarrow>
         bind (emit_event (DomainExists domain_name existing_domain)) (\<lambda>_.
         fail (''A similar domain '' @ [CHR 0x27] @ existing_domain @ [CHR 0x27] @
               '' already exists. Please choose a different name.''))
     | None \<Rightarrow>
         bind (emit_event (Started domain_name 7)) (\<lambda>_.
         bind (fold_prog run_agent (default_statistics, AgentContext_new domain_name description)
                 (enumerate 0 (agent_steps E llm))) (\<lambda>(stats, context).
         bind (read_instant E) (\<lambda>now.
         let stats = stats\<lparr>generation_time_ms := elapsed_ms start_time now,
                           nodes_reused := count_reused (ctx_graph context)\<rparr>
         in bind (emit_event (Completed domain_name stats)) (\<lambda>_.
            ret \<lparr>dgr_domain_name = domain_name,
                 dgr_domain_element_id = text_of (ctx_domain_element_id context),
                 dgr_domain_graph = ctx_graph context, dgr_statistics = stats\<rparr>))))))"

subsection \<open>One step, as the orchestrator runs it\<close>

context agent_step
begin

lemma run_agent_trace:
  assumes "run_agent (stats, c) (idx, agent, execute) h = (out, h')"
  shows "\<exists>u. list_all (own_effect agent) u \<and>
    (case out of
       Ok s' \<Rightarrow> context_grows c (snd s') \<and> fst s' = update_stats stats agent (snd s') \<and>
         h' = h @ Emit (AgentStarted agent (idx + 1) (display_name agent)) # u @
           [Emit (AgentCompleted agent (fst (count_agent_nodes agent (snd s')))
                    (snd (count_agent_nodes agent (snd s'))))]
     | Err e \<Rightarrow> (\<exists>c'. context_grows c c' \<and>
         h' = h @ Emit (AgentStarted agent (idx + 1) (display_name agent)) # u @
           [Emit (AgentFailed agent e), Emit (Failed e (Some agent) (Some (ctx_graph c')))])
     | Panic \<Rightarrow> h' = h @ Emit (AgentStarted agent (idx + 1) (display_name agent)) # u)"
proof -
  let ?h = "h @ [Emit (AgentStarted agent (idx + 1) (display_name agent))]"
  obtain r h1 where ex: "execute c ?h = (r, h1)" by (cases "execute c ?h")
  obtain u where u: "h1 = ?h @ u" "list_all (own_effect agent) u" using appends[OF ex] by blast
  show ?thesis
  proof (cases r)
    case (Ok c')
    then show ?thesis
      using assms ex u success_grows
      by (auto simp: run_agent_def bind_def on_result_def call_runs ret_def Let_def split: prod.splits)
  next
    case (Err d)
    obtain e c' where d: "d = (e, c')" by (cases d)
    with ex Err have "context_grows c c'" using failure_grows by blast
    with d show ?thesis
      using assms ex u Err
      by (intro exI[of _ u]) (auto simp: run_agent_def bind_def on_result_def call_runs fail_def Let_def)
  next
    case Panic
    then show ?thesis
      using assms ex u by (auto simp: run_agent_def bind_def on_result_def call_runs)
  qed
qed

end

subsection \<open>The events of a generation\<close>

text \<open>What the client sees of the workflow itself, without the progress of the single steps.\<close>

datatype lifecycle =
    LStarted
  | LDomainExists
  | LAgentStarted agent_type nat
  | LAgentCompleted agent_type
  | LAgentFailed agent_type
  | LCompleted
  | LFailed "agent_type option"

fun lifecycle_event :: "sse_event \<Rightarrow> lifecycle option" where
  "lifecycle_event (Started n t) = Some LStarted"
| "lifecycle_event (DomainExists n d) = Some LDomainExists"
| "lifecycle_event (AgentStarted a i n) = Some (LAgentStarted a i)"
| "lifecycle_event (AgentCompleted a c r) = Some (LAgentCompleted a)"
| "lifecycle_event (AgentFailed a e) = Some (LAgentFailed a)"
| "lifecycle_event (Completed n s) = Some LCompleted"
| "lifecycle_event (Failed e a g) = Some (LFailed a)"
| "lifecycle_event _ = None"

definition lifecycle_of :: "effect list \<Rightarrow> lifecycle list" where
  "lifecycle_of h = List.map_filter (\<lambda>f. Option.bind (event_of f) lifecycle_event) h"

lemma lifecycle_append [simp]: "lifecycle_of (u @ v) = lifecycle_of u @ lifecycle_of v"
  by (induction u) (auto simp: lifecycle_of_def List.map_filter_simps split: option.split)

lemma lifecycle_Nil [simp]: "lifecycle_of [] = []"
  by (simp add: lifecycle_of_def List.map_filter_simps)

lemma lifecycle_Cons:
  "lifecycle_of (f # u) =
     (case Option.bind (event_of f) lifecycle_event of None \<Rightarrow> [] | Some l \<Rightarrow> [l]) @ lifecycle_of u"
  by (auto simp: lifecycle_of_def List.map_filter_simps split: option.split)

lemma own_effect_no_lifecycle: "own_effect a f \<Longrightarrow> Option.bind (event_of f) lifecycle_event = None"
proof (cases f)
  case (Emit ev)
  then show "own_effect a f \<Longrightarrow> ?thesis" by (cases ev) (auto simp: event_of_def)
qed (auto simp: event_of_def)

lemma lifecycle_own [simp]: "list_all (own_effect a) u \<Longrightarrow> lifecycle_of u = []"
  by (induction u) (auto simp: lifecycle_Cons own_effect_no_lifecycle)

lemma lifecycle_Emit [simp]:
  "lifecycle_of (Emit ev # u) = (case lifecycle_event ev of None \<Rightarrow> [] | Some l \<Rightarrow> [l]) @ lifecycle_of u"
  by (simp add: lifecycle_Cons event_of_def)

fun agents_done :: "nat \<Rightarrow> agent_type list \<Rightarrow> lifecycle list" where
  \<comment> \<open>the events of steps that have all succeeded, the first of them with the given index\<close>
  "agents_done i [] = []"
| "agents_done i (a # as) = LAgentStarted a (i + 1) # LAgentCompleted a # agents_done (i + 1) as"

definition agents_stopped :: "nat \<Rightarrow> agent_type list \<Rightarrow> nat \<Rightarrow> lifecycle list \<Rightarrow> lifecycle list" where
  \<comment> \<open>the events when the step at position \<open>k\<close> of the list ends with \<open>tail\<close>\<close>
  "agents_stopped i as k tail =
     agents_done i (take k as) @ LAgentStarted (as ! k) (i + k + 1) # tail"

lemma agents_stopped_Cons:
  "agents_stopped i (a # as) (Suc k) tail =
     LAgentStarted a (i + 1) # LAgentCompleted a # agents_stopped (i + 1) as k tail"
  by (simp add: agents_stopped_def)

lemma fold_run_agent_trace:
  assumes "list_all (\<lambda>(a, ex). agent_step a ex) steps"
    and "fold_prog run_agent (stats, c) (enumerate i steps) h = (out, h')"
  shows "\<exists>u. h' = h @ u \<and>
    (case out of
       Ok s' \<Rightarrow> context_grows c (snd s') \<and> lifecycle_of u = agents_done i (map fst steps)
     | Err e \<Rightarrow> (\<exists>k a. k < length steps \<and> a = map fst steps ! k \<and>
          lifecycle_of u = agents_stopped i (map fst steps) k [LAgentFailed a, LFailed (Some a)])
     | Panic \<Rightarrow> (\<exists>k<length steps. lifecycle_of u = agents_stopped i (map fst steps) k []))"
  using assms
proof (induction steps arbitrary: i stats c h)
  case Nil
  then show ?case by (auto simp: ret_def)
next
  case (Cons st steps)
  obtain a ex where st: "st = (a, ex)" by (cases st)
  have step: "agent_step a ex" using Cons.prems(1) st by simp
  obtain r h1 where r: "run_agent (stats, c) (i, a, ex) h = (r, h1)"
    by (cases "run_agent (stats, c) (i, a, ex) h")
  from agent_step.run_agent_trace[OF step r] obtain u where u: "list_all (own_effect a) u" and
    r_cases: "case r of
       Ok s' \<Rightarrow> context_grows c (snd s') \<and> fst s' = update_stats stats a (snd s') \<and>
         h1 = h @ Emit (AgentStarted a (i + 1) (display_name a)) # u @
           [Emit (AgentCompleted a (fst (count_agent_nodes a (snd s')))
                    (snd (count_agent_nodes a (snd s'))))]
     | Err e \<Rightarrow> (\<exists>c'. context_grows c c' \<and>
         h1 = h @ Emit (AgentStarted a (i + 1) (display_name a)) # u @
           [Emit (AgentFailed a e), Emit (Failed e (Some a) (Some (ctx_graph c')))])
     | Panic \<Rightarrow> h1 = h @ Emit (AgentStarted a (i + 1) (display_name a)) # u" by blast
  show ?case
  proof (cases r)
    case (Ok s)
    obtain stats1 c1 where s: "s = (stats1, c1)" by (cases s)
    have rest: "fold_prog run_agent (stats1, c1) (enumerate (Suc i) steps) h1 = (out, h')"
      using Cons.prems(2) st r Ok s by (simp add: bind_def)
    from Cons.IH[OF _ rest] Cons.prems(1) obtain w where w: "h' = h1 @ w" and
      w_cases: "case out of
       Ok s' \<Rightarrow> context_grows c1 (snd s') \<and> lifecycle_of w = agents_done (Suc i) (map fst steps)
     | Err e \<Rightarrow> (\<exists>k a. k < length steps \<and> a = map fst steps ! k \<and>
          lifecycle_of w = agents_stopped (Suc i) (map fst steps) k [LAgentFailed a, LFailed (Some a)])
     | Panic \<Rightarrow> (\<exists>k<length steps. lifecycle_of w = agents_stopped (Suc i) (map fst steps) k [])"
      by auto
    let ?v = "Emit (AgentStarted a (i + 1) (display_name a)) # u @
           [Emit (AgentCompleted a (fst (count_agent_nodes a c1)) (snd (count_agent_nodes a c1)))] @ w"
    have v: "h' = h @ ?v" "lifecycle_of ?v = LAgentStarted a (i + 1) # LAgentCompleted a # lifecycle_of w"
      and c1: "context_grows c c1"
      using r_cases Ok s w u by simp_all
    show ?thesis
      using v w_cases c1 context_grows_trans st
      by (intro exI[of _ ?v]) (cases out; fastforce simp: agents_stopped_Cons)
  next
    case (Err e)
    then have "out = Err e" "h' = h1" using Cons.prems(2) st r by (simp_all add: bind_def)
    then show ?thesis
      using r_cases Err u st by (auto simp: agents_stopped_def intro!: exI[of _ "0 :: nat"])
  next
    case Panic
    then have "out = Panic" "h' = h1" using Cons.prems(2) st r by (simp_all add: bind_def)
    then show ?thesis
      using r_cases Panic u st by (auto simp: agents_stopped_def intro!: exI[of _ "0 :: nat"])
  qed
qed

subsection \<open>The whole workflow\<close>

lemma agent_steps_sound: "list_all (\<lambda>(a, ex). agent_step a ex) (agent_steps E llm)"
  by (simp add: agent_steps_def architect_step.agent_step_axioms knowledge_step.agent_step_axioms
      skill_step.agent_step_axioms trait_step.agent_step_axioms milestone_step.agent_step_axioms
      distributor_step.agent_step_axioms mapper_step.agent_step_axioms)

lemma agent_steps_agents: "map fst (agent_steps E llm) = all_agents"
  by (simp add: agent_steps_def all_agents_def)

lemma length_agent_steps [simp]: "length (agent_steps E llm) = 7"
  by (simp add: agent_steps_def)

lemma check_domain_exists_effects: "emits search_effect (check_domain_exists E name)"
  unfolding check_domain_exists_def search_text_def
  by (intro prog_rules emits_find_similar_nodes)

lemma no_panic_check_domain_exists [prog_rules]: "no_panic (check_domain_exists E name)"
  unfolding check_domain_exists_def search_text_def by (intro prog_rules)

lemma lifecycle_search: "list_all search_effect u \<Longrightarrow> lifecycle_of u = []"
proof (induction u)
  case (Cons f u)
  then show ?case by (cases f) (simp_all add: lifecycle_Cons event_of_def)
qed simp

definition generation_trace :: "lifecycle list \<Rightarrow> ('e, 'a) outcome \<Rightarrow> bool" where
  \<comment> \<open>nothing but an error of the search; the refusal; all seven steps in order; or the steps up to
     the one that fails, and nothing after it\<close>
  "generation_trace t out \<longleftrightarrow>
     (t = [] \<and> (\<exists>e. out = Err e)) \<or>
     (t = [LDomainExists] \<and> (\<exists>e. out = Err e)) \<or>
     (t = LStarted # agents_done 0 all_agents @ [LCompleted] \<and> is_ok out) \<or>
     (\<exists>k<7. t = LStarted # agents_stopped 0 all_agents k
          [LAgentFailed (all_agents ! k), LFailed (Some (all_agents ! k))] \<and> (\<exists>e. out = Err e)) \<or>
     (\<exists>k<7. t = LStarted # agents_stopped 0 all_agents k [] \<and> out = Panic)"

lemma generate_domain_trace:
  assumes "generate_domain E llm name desc h = (out, h')"
  shows "\<exists>u. h' = h @ u \<and> generation_trace (lifecycle_of u) out"
proof -
  let ?h0 = "h @ [ReadInstant]"
  have inst: "lifecycle_of [ReadInstant] = []" by (simp add: lifecycle_Cons event_of_def)
  obtain r h1 where ch: "check_domain_exists E name ?h0 = (r, h1)"
    by (cases "check_domain_exists E name ?h0")
  from emitsE[OF check_domain_exists_effects ch] obtain u where u: "h1 = ?h0 @ u" "lifecycle_of u = []"
    by (metis lifecycle_search)
  show ?thesis
  proof (cases r)
    case (Err e)
    then show ?thesis
      using assms ch u inst
      by (intro exI[of _ "[ReadInstant] @ u"])
        (auto simp: generate_domain_def bind_def call_runs generation_trace_def lifecycle_Cons event_of_def)
  next
    case Panic
    then show ?thesis using ch no_panic_check_domain_exists[of E name] by (auto simp: no_panic_iff)
  next
    case (Ok ex)
    show ?thesis
    proof (cases ex)
      case (Some d)
      then show ?thesis
        using assms ch u Ok inst
        by (intro exI[of _ "[ReadInstant] @ u @ [Emit (DomainExists name d)]"])
          (auto simp: generate_domain_def bind_def call_runs generation_trace_def fail_def
            lifecycle_Cons event_of_def)
    next
      case None
      let ?s0 = "(default_statistics, AgentContext_new name desc)"
      let ?h2 = "h1 @ [Emit (Started name 7)]"
      obtain r2 h3 where run: "fold_prog run_agent ?s0 (enumerate 0 (agent_steps E llm)) ?h2 = (r2, h3)"
        by (cases "fold_prog run_agent ?s0 (enumerate 0 (agent_steps E llm)) ?h2")
      from fold_run_agent_trace[OF agent_steps_sound run] obtain w where w: "h3 = ?h2 @ w" and
        wc: "case r2 of
           Ok s' \<Rightarrow> lifecycle_of w = agents_done 0 all_agents
         | Err e \<Rightarrow> (\<exists>k<7. lifecycle_of w = agents_stopped 0 all_agents k
              [LAgentFailed (all_agents ! k), LFailed (Some (all_agents ! k))])
         | Panic \<Rightarrow> (\<exists>k<7. lifecycle_of w = agents_stopped 0 all_agents k [])"
        by (cases r2) (auto simp: agent_steps_agents)
      let ?pre = "[ReadInstant] @ u @ [Emit (Started name 7)] @ w"
      have pre: "h3 = h @ ?pre" "lifecycle_of ?pre = LStarted # lifecycle_of w"
        using w u inst by (simp_all add: lifecycle_Cons[of ReadInstant] event_of_def)
      show ?thesis
      proof (cases r2)
        case ok2: (Ok s)
        obtain stats c where "s = (stats, c)" by (cases s)
        with assms ch Ok None run ok2 obtain st where "is_ok out"
          "h' = h3 @ [ReadInstant, Emit (Completed name st)]"
          by (auto simp: generate_domain_def bind_def call_runs Let_def ret_def)
        with pre wc ok2 show ?thesis
          by (intro exI[of _ "?pre @ [ReadInstant, Emit (Completed name st)]"])
            (simp add: generation_trace_def lifecycle_Cons[of ReadInstant] event_of_def)
      next
        case (Err e)
        with assms ch Ok None run have "out = Err e" "h' = h3"
          by (auto simp: generate_domain_def bind_def call_runs)
        with pre wc Err show ?thesis
          by (intro exI[of _ ?pre]) (auto simp: generation_trace_def)
      next
        case Panic
        with assms ch Ok None run have "out = Panic" "h' = h3"
          by (auto simp: generate_domain_def bind_def call_runs)
        with pre wc Panic show ?thesis
          by (intro exI[of _ ?pre]) (auto simp: generation_trace_def)
      qed
    qed
  qed
qed

lemma generate_domain_refused:
  assumes "check_domain_exists E name (h @ [ReadInstant]) = (Ok (Some d), h1)"
  shows "\<exists>e u. generate_domain E llm name desc h = (Err e, h @ [ReadInstant] @ u @ [Emit (DomainExists name d)]) \<and>
     list_all search_effect u"
proof -
  from emitsE[OF check_domain_exists_effects assms] obtain u where
    "h1 = (h @ [ReadInstant]) @ u" "list_all search_effect u" by blast
  with assms show ?thesis
    by (intro exI[of _ u] exI) (auto simp: generate_domain_def bind_def call_runs fail_def)
qed

lemma check_domain_exists_refuses_iff:
  assumes "search_text E ''Domain'' name 1 h = (Ok similar, h')"
  shows "(\<exists>d. check_domain_exists E name h = (Ok (Some d), h')) \<longleftrightarrow>
     (\<exists>s rest. similar = s # rest \<and> f64_ge (sn_score s) DOMAIN_SIMILARITY_THRESHOLD)"
  using assms by (auto simp: check_domain_exists_def bind_def ret_def split: list.splits)

subsection \<open>What a successful generation has built\<close>

lemma update_stats_keeps:
  "a \<noteq> DomainArchitect \<Longrightarrow> domain_levels_created (update_stats s a c) = domain_levels_created s"
  "relationships_created (update_stats s a c) = relationships_created s"
  by (cases a; simp)+

lemma run_agent_stats:
  "run_agent (stats, c) (i, a, ex) h = (Ok (stats', c'), h') \<Longrightarrow> stats' = update_stats stats a c'"
  by (auto simp: run_agent_def prog_Ok_iff Let_def case_prod_beta)

lemma fold_run_agent_keeps:
  fixes f :: "domain_statistics \<Rightarrow> 'a"
  assumes keep: "\<And>s a c. P a \<Longrightarrow> f (update_stats s a c) = f s"
  shows "list_all (\<lambda>(a, ex). P a) steps \<Longrightarrow>
   fold_prog run_agent (stats, c) (enumerate i steps) h = (Ok (stats', c'), h') \<Longrightarrow> f stats' = f stats"
proof (induction steps arbitrary: i stats c h)
  case (Cons st steps)
  obtain a ex where st: "st = (a, ex)" by (cases st)
  with Cons.prems(2) obtain s1 h1 where 1: "run_agent (stats, c) (i, a, ex) h = (Ok s1, h1)"
    and 2: "fold_prog run_agent s1 (enumerate (Suc i) steps) h1 = (Ok (stats', c'), h')"
    by (auto simp: bind_eq_Ok)
  obtain stats1 c1 where s1: "s1 = (stats1, c1)" by (cases s1)
  have "f stats' = f stats1"
    using Cons.IH[OF _ 2[unfolded s1]] Cons.prems(1) by simp
  then show ?case
    using run_agent_stats[OF 1[unfolded s1]] Cons.prems(1) st by (simp add: keep)
qed (simp add: ret_def)

lemma generate_domain_Ok:
  assumes "generate_domain E llm name desc h = (Ok r, h')"
  shows "dgr_domain_name r = name \<and>
    domain_levels_created (dgr_statistics r) = 5 \<and>
    relationships_created (dgr_statistics r) = 0 \<and>
    nodes_reused (dgr_statistics r) = count_reused (dgr_domain_graph r) \<and>
    (\<exists>ns. level_nodes_of (get_level_structure name) ns \<and> prefix ns (reg_domain_levels (dgr_domain_graph r)))"
proof -
  let ?c0 = "AgentContext_new name desc"
  from assms obtain stats c h1 h2 where
    run: "fold_prog run_agent (default_statistics, ?c0) (enumerate 0 (agent_steps E llm)) h1 = (Ok (stats, c), h2)"
    and r: "dgr_domain_name r = name" "dgr_domain_graph r = ctx_graph c"
      "domain_levels_created (dgr_statistics r) = domain_levels_created stats"
      "relationships_created (dgr_statistics r) = relationships_created stats"
      "nodes_reused (dgr_statistics r) = count_reused (ctx_graph c)"
    by (auto simp: generate_domain_def prog_Ok_iff Let_def split: option.splits)
  obtain rest where steps: "agent_steps E llm = (DomainArchitect, architect_execute E) # rest"
    and rest: "list_all (\<lambda>(a, ex). a \<noteq> DomainArchitect) rest" "list_all (\<lambda>(a, ex). agent_step a ex) rest"
    using agent_steps_sound[of E llm] by (simp add: agent_steps_def)
  from run steps obtain s1 h3 where
    1: "run_agent (default_statistics, ?c0) (0, DomainArchitect, architect_execute E) h1 = (Ok s1, h3)" and
    2: "fold_prog run_agent s1 (enumerate 1 rest) h3 = (Ok (stats, c), h2)"
    by (auto simp: bind_eq_Ok)
  obtain stats1 c1 where s1: "s1 = (stats1, c1)" by (cases s1)
  from 1 s1 obtain h4 h5 where "architect_execute E ?c0 h4 = (Ok c1, h5)"
    by (auto simp: run_agent_def prog_Ok_iff Let_def split: prod.splits)
  from architect_builds_five_levels[OF this] obtain ns where
    ns: "level_nodes_of (get_level_structure name) ns" "length ns = 5" "reg_domain_levels (ctx_graph c1) = ns"
    by (auto simp: AgentContext_new_def empty_registry_def)
  from fold_run_agent_trace[OF rest(2) 2[unfolded s1]] have "context_grows c1 c" by auto
  then have "prefix ns (reg_domain_levels (ctx_graph c))"
    using ns by (simp add: context_grows_def registry_grows_def)
  moreover have "domain_levels_created stats = 5"
    using fold_run_agent_keeps[OF update_stats_keeps(1) rest(1) 2[unfolded s1]]
      run_agent_stats[OF 1[unfolded s1]] ns by simp
  moreover have "relationships_created stats = 0"
    using fold_run_agent_keeps[where P = "\<lambda>_. True" and f = relationships_created, OF update_stats_keeps(2) _ run]
    by (simp add: default_statistics_def list_all_iff)
  ultimately show ?thesis using r ns by auto
qed

end
