(* ===== verification/Graph_Handlers.thy ===== *)
theory Graph_Handlers
  imports Graph_Relationship Graph_Domain
begin

text \<open>
  \<open>graph/handlers.rs\<close>: the HTTP handlers of the graph (which service each one calls, and which
  status and body every result becomes) and the wrappers for internal use; \<open>error/mod.rs\<close>: the
  unified error with its HTTP response and the conversion from the errors of the services.

  A handler takes the request that axum has extracted. Its error is a status
  (\<open>StatusCode\<close>) or a status with a JSON body (\<open>(StatusCode, Json<Value>)\<close>).
\<close>

definition HTTP_OK :: nat where "HTTP_OK = 200"
definition BAD_REQUEST :: nat where "BAD_REQUEST = 400"
definition UNAUTHORIZED :: nat where "UNAUTHORIZED = 401"
definition FORBIDDEN :: nat where "FORBIDDEN = 403"
definition NOT_FOUND :: nat where "NOT_FOUND = 404"
definition NOT_ACCEPTABLE :: nat where "NOT_ACCEPTABLE = 406"
definition CONFLICT :: nat where "CONFLICT = 409"
definition INTERNAL_SERVER_ERROR :: nat where "INTERNAL_SERVER_ERROR = 500"
definition BAD_GATEWAY :: nat where "BAD_GATEWAY = 502"

lemmas status_defs = HTTP_OK_def BAD_REQUEST_def UNAUTHORIZED_def FORBIDDEN_def NOT_FOUND_def
  NOT_ACCEPTABLE_def CONFLICT_def INTERNAL_SERVER_ERROR_def BAD_GATEWAY_def

type_synonym api_error = "nat \<times> json"

definition internal_error :: api_error where
  "internal_error = (INTERNAL_SERVER_ERROR, jobj [(''error'', JStr ''internal server error'')])"

definition str_array :: "string list \<Rightarrow> json" where
  "str_array xs = JArr (map JStr xs)"

definition parse_labels :: "string option \<Rightarrow> string list option" where
  \<comment> \<open>\<open>labels_str.split(',').map(|s| s.trim())\<close>\<close>
  "parse_labels = map_option (\<lambda>labels_str. map trim (split_char CHR 0x2C labels_str))"

subsection \<open>Nodes\<close>

definition get_nodes_handler ::
  "env \<Rightarrow> string option \<Rightarrow> string option \<Rightarrow> int option \<Rightarrow> (nat, json) action" where
  "get_nodes_handler E labels properties depth =
     (let d = (case depth of Some x \<Rightarrow> x | None \<Rightarrow> 1)
      in bind (case properties of
                 None \<Rightarrow> ret None
               | Some properties_str \<Rightarrow>
                   lift_outcome (case from_str E as_object properties_str of
                       Ok props \<Rightarrow> Ok (Some props)
                     | _ \<Rightarrow> Err BAD_REQUEST)) (\<lambda>props.
         map_err (\<lambda>e. INTERNAL_SERVER_ERROR)
           (get_nodes_with_relationships E (parse_labels labels) props d)))"

definition node_json :: "node_with_relationships \<Rightarrow> json" where
  "node_json n = jobj [(''node'', nwr_node n), (''relationships'', nwr_relationships n),
                       (''affiliatedNodes'', nwr_affiliated_nodes n)]"

definition get_node_by_search_term_handler ::
  "env \<Rightarrow> string \<Rightarrow> int option \<Rightarrow> (nat, json) action" where
  "get_node_by_search_term_handler E search_term depth =
     (let d = (case depth of Some x \<Rightarrow> x | None \<Rightarrow> 1)
      in on_result (get_nodes_by_search_term E search_term d)
           (\<lambda>nodes. ret (JArr (map node_json nodes)))
           (\<lambda>e. fail INTERNAL_SERVER_ERROR))"

definition create_node_handler :: "env \<Rightarrow> create_node_request \<Rightarrow> (api_error, json) action" where
  "create_node_handler E request =
     on_result (create_node E request True)
       (\<lambda>result. ret (JArr [jobj
          [(''elementId'', JStr (nres_element_id result)), (''labels'', str_array (nres_labels result)),
           (''props'', jobj [(''name'', JStr (nres_name result))])]]))
       (\<lambda>e. case e of
          SimilarNodeExists score details \<Rightarrow>
            fail (CONFLICT, jobj [(''error'', JStr ''similar node already exists''),
                                  (''details'', JStr details), (''score'', f64_json score)])
        | EmbeddingFailed m \<Rightarrow>
            fail (INTERNAL_SERVER_ERROR,
                  jobj [(''error'', JStr (''failed to generate embedding: '' @ m))])
        | _ \<Rightarrow> fail internal_error)"

definition create_relationship_handler ::
  "env \<Rightarrow> create_relationship_request \<Rightarrow> (api_error, json) action" where
  "create_relationship_handler E request =
     on_result (create_relationship E request)
       (\<lambda>result. ret (JArr [jobj
          [(''elementId'', JStr (rres_element_id result)), (''type'', JStr (rres_type result)),
           (''startElementId'', JStr (rres_source_id result)),
           (''endElementId'', JStr (rres_target_id result))]]))
       (\<lambda>e. fail internal_error)"

definition invalid_body :: "string \<Rightarrow> api_error" where
  "invalid_body e =
     (BAD_REQUEST, jobj [(''error'', JStr ''invalid request body''), (''details'', JStr e)])"

definition update_node_handler :: "env \<Rightarrow> update_node_request \<Rightarrow> (api_error, json) action" where
  "update_node_handler E request =
     on_result (update_node E (unr_target_id request) (unr_labels request) (unr_properties request))
       (\<lambda>nodes. ret (JArr nodes))
       (\<lambda>e. case e of ValidationError m \<Rightarrow> fail (invalid_body m) | _ \<Rightarrow> fail internal_error)"

definition update_relationship_handler ::
  "env \<Rightarrow> update_relationship_request \<Rightarrow> (api_error, json) action" where
  "update_relationship_handler E request =
     on_result
       (update_relationship E (urr_target_id request) (urr_type request) (urr_properties request))
       (\<lambda>relationships. ret (JArr relationships))
       (\<lambda>e. fail internal_error)"

definition get_similar_nodes_handler ::
  "env \<Rightarrow> find_similar_request \<Rightarrow> (api_error, json) action" where
  "get_similar_nodes_handler E request =
     on_result
       (service_find_similar_nodes E (fs_node_id request) (fs_embedding request) (fs_limit request))
       ret
       (\<lambda>e. case e of ValidationError m \<Rightarrow> fail (invalid_body m) | _ \<Rightarrow> fail internal_error)"

definition delete_relationship_handler :: "env \<Rightarrow> string \<Rightarrow> (api_error, json) action" where
  "delete_relationship_handler E relationship_element_id =
     on_result (delete_relationship E relationship_element_id)
       (\<lambda>deleted. ret (jobj [(''deleted'', json_int deleted)]))
       (\<lambda>e. fail internal_error)"

definition search_nodes_handler ::
  "env \<Rightarrow> string \<Rightarrow> string option \<Rightarrow> int option \<Rightarrow> (nat, json) action" where
  "search_nodes_handler E query_text labels limit =
     (let l = (case limit of Some x \<Rightarrow> x | None \<Rightarrow> 20)
      in on_result (search_nodes E query_text (parse_labels labels) l)
           (\<lambda>nodes. ret (jobj [(''nodes'', JArr nodes)]))
           (\<lambda>e. fail INTERNAL_SERVER_ERROR))"

subsection \<open>Domains\<close>

definition get_domain_handler :: "env \<Rightarrow> string \<Rightarrow> (nat, json) action" where
  "get_domain_handler E name =
     on_result (get_domain E name)
       (\<lambda>r. case r of Some domain_data \<Rightarrow> ret domain_data | None \<Rightarrow> fail NOT_FOUND)
       (\<lambda>e. fail INTERNAL_SERVER_ERROR)"

definition validate_domain_name_handler :: "env \<Rightarrow> string \<Rightarrow> (nat, json) action" where
  "validate_domain_name_handler E name =
     on_result (validate_domain_name E name)
       (\<lambda>v. if dnv_available v then ret (jobj [(''available'', JBool True)])
            else ret (jobj [(''available'', JBool False),
                   (''existingDomainElementId'', json_opt JStr (dnv_existing_domain_element_id v))]))
       (\<lambda>e. fail INTERNAL_SERVER_ERROR)"

definition created_node_json :: "created_node_info \<Rightarrow> json" where
  "created_node_json n = jobj [(''elementId'', JStr (cni_element_id n)), (''name'', JStr (cni_name n)),
                               (''labels'', str_array (cni_labels n))]"

definition create_domain_handler :: "env \<Rightarrow> create_domain_request \<Rightarrow> (api_error, json) action" where
  "create_domain_handler E request =
     on_result (create_domain E request)
       (\<lambda>result. ret (jobj
          [(''success'', JBool (cdres_success result)),
           (''domain'', jobj [(''elementId'', JStr (cdres_domain_element_id result)),
                              (''name'', JStr (cdres_domain_name result))]),
           (''createdNodes'', JArr (map created_node_json (cdres_created_nodes result)))]))
       (\<lambda>e. case e of
          ValidationError m \<Rightarrow> fail (BAD_REQUEST, jobj [(''error'', JStr m)])
        | _ \<Rightarrow> fail internal_error)"

definition update_domain_handler :: "env \<Rightarrow> update_domain_request \<Rightarrow> (api_error, json) action" where
  "update_domain_handler E request =
     on_result (update_domain E request)
       (\<lambda>result. ret (jobj
          [(''success'', JBool (udres_success result)),
           (''domain'', jobj [(''elementId'', JStr (udres_domain_element_id result)),
                              (''name'', JStr (udres_domain_name result))]),
           (''createdNodes'', JArr (map created_node_json (udres_created_nodes result))),
           (''affectedUserProgressCount'', json_int (udres_affected_user_progress_count result))]))
       (\<lambda>e. case e of
          ValidationError m \<Rightarrow> fail (BAD_REQUEST, jobj [(''error'', JStr m)])
        | NotFound m \<Rightarrow> fail (NOT_FOUND, jobj [(''error'', JStr m)])
        | _ \<Rightarrow> fail internal_error)"

subsection \<open>Internal wrappers\<close>

definition create_node_internal :: "env \<Rightarrow> create_node_request \<Rightarrow> (string, create_node_result) action" where
  "create_node_internal E request = map_err (service_error_text E) (create_node E request False)"

definition create_relationship_internal ::
  "env \<Rightarrow> create_relationship_request \<Rightarrow> (string, create_relationship_result) action" where
  "create_relationship_internal E request =
     map_err (service_error_text E) (create_relationship E request)"

definition find_node_by_name_internal ::
  "env \<Rightarrow> string \<Rightarrow> string option \<Rightarrow> (string, string option) action" where
  "find_node_by_name_internal E name label =
     map_err (service_error_text E) (find_node_by_name E name label)"

subsection \<open>The unified error\<close>

datatype app_error =
    AppValidationError string
  | AppUnauthorized string
  | AppForbidden string
  | AppNotFound string
  | AppSimilarNodeExists f64 string
  | AppAlreadyExists string
  | AppEmbeddingFailed string
  | AppStorageFailed string
  | AppImageGenerationFailed string
  | AppLlmFailed string
  | AppDatabaseError string
  | AppInternalError string

fun app_error_text :: "app_error \<Rightarrow> string" where
  "app_error_text (AppValidationError msg) = ''Validation error: '' @ msg"
| "app_error_text (AppUnauthorized msg) = ''Unauthorized: '' @ msg"
| "app_error_text (AppForbidden msg) = ''Forbidden: '' @ msg"
| "app_error_text (AppNotFound msg) = ''Not found: '' @ msg"
| "app_error_text (AppSimilarNodeExists score details) =
     ''Similar node exists (score: '' @ f64_text_2 score @ ''): '' @ details"
| "app_error_text (AppAlreadyExists msg) = ''Already exists: '' @ msg"
| "app_error_text (AppEmbeddingFailed msg) = ''Embedding service failed: '' @ msg"
| "app_error_text (AppStorageFailed msg) = ''Storage service failed: '' @ msg"
| "app_error_text (AppImageGenerationFailed msg) = ''Image generation failed: '' @ msg"
| "app_error_text (AppLlmFailed msg) = ''LLM service failed: '' @ msg"
| "app_error_text (AppDatabaseError msg) = ''Database error: '' @ msg"
| "app_error_text (AppInternalError msg) = ''Internal error: '' @ msg"

record api_error_response =
  aer_error :: string
  aer_details :: "string option"
  aer_code :: "string option"

definition api_error_json :: "api_error_response \<Rightarrow> json" where
  \<comment> \<open>\<open>details\<close> and \<open>code\<close> are skipped when they are \<open>None\<close>\<close>
  "api_error_json r =
     jobj ([(''error'', JStr (aer_error r))] @
           (case aer_details r of Some d \<Rightarrow> [(''details'', JStr d)] | None \<Rightarrow> []) @
           (case aer_code r of Some c \<Rightarrow> [(''code'', JStr c)] | None \<Rightarrow> []))"

fun app_error_parts :: "app_error \<Rightarrow> nat \<times> string \<times> string \<times> string" where
  \<comment> \<open>status, error, details and code\<close>
  "app_error_parts (AppValidationError msg) =
     (BAD_REQUEST, ''Validation failed'', msg, ''VALIDATION_ERROR'')"
| "app_error_parts (AppUnauthorized msg) = (UNAUTHORIZED, ''Unauthorized'', msg, ''UNAUTHORIZED'')"
| "app_error_parts (AppForbidden msg) = (FORBIDDEN, ''Forbidden'', msg, ''FORBIDDEN'')"
| "app_error_parts (AppNotFound msg) = (NOT_FOUND, ''Resource not found'', msg, ''NOT_FOUND'')"
| "app_error_parts (AppSimilarNodeExists score details) =
     (CONFLICT, ''Similar node exists (score: '' @ f64_text_2 score @ '')'', details,
      ''SIMILAR_NODE_EXISTS'')"
| "app_error_parts (AppAlreadyExists msg) =
     (CONFLICT, ''Resource already exists'', msg, ''ALREADY_EXISTS'')"
| "app_error_parts (AppEmbeddingFailed msg) =
     (BAD_GATEWAY, ''Embedding service unavailable'', msg, ''EMBEDDING_FAILED'')"
| "app_error_parts (AppStorageFailed msg) =
     (BAD_GATEWAY, ''Storage service unavailable'', msg, ''STORAGE_FAILED'')"
| "app_error_parts (AppImageGenerationFailed msg) =
     (BAD_GATEWAY, ''Image generation service unavailable'', msg, ''IMAGE_GEN_FAILED'')"
| "app_error_parts (AppLlmFailed msg) =
     (BAD_GATEWAY, ''LLM service unavailable'', msg, ''LLM_FAILED'')"
| "app_error_parts (AppDatabaseError msg) =
     (INTERNAL_SERVER_ERROR, ''Database error'', msg, ''DATABASE_ERROR'')"
| "app_error_parts (AppInternalError msg) =
     (INTERNAL_SERVER_ERROR, ''Internal server error'', msg, ''INTERNAL_ERROR'')"

definition app_error_response :: "app_error \<Rightarrow> nat \<times> json" where
  "app_error_response e =
     (case app_error_parts e of (status, error, details, code) \<Rightarrow>
        (status, api_error_json \<lparr>aer_error = error, aer_details = Some details, aer_code = Some code\<rparr>))"

fun app_error_of_service :: "service_error \<Rightarrow> app_error" where
  "app_error_of_service (DatabaseError msg) = AppDatabaseError msg"
| "app_error_of_service (EmbeddingFailed msg) = AppEmbeddingFailed msg"
| "app_error_of_service (SimilarNodeExists score details) = AppSimilarNodeExists score details"
| "app_error_of_service (NotFound msg) = AppNotFound msg"
| "app_error_of_service (ValidationError msg) = AppValidationError msg"

text \<open>The code of a response tells the errors apart: it names the constructor.\<close>

lemma app_error_code_is_client_error:
  "fst (app_error_response e) < 500 \<longleftrightarrow>
     (case e of AppValidationError m \<Rightarrow> True | AppUnauthorized m \<Rightarrow> True | AppForbidden m \<Rightarrow> True
      | AppNotFound m \<Rightarrow> True | AppSimilarNodeExists s d \<Rightarrow> True | AppAlreadyExists m \<Rightarrow> True | _ \<Rightarrow> False)"
  by (cases e) (simp_all add: app_error_response_def status_defs)

lemma no_panic_graph_handlers [prog_rules]:
  "no_panic (get_nodes_handler E labels props depth)"
  "no_panic (get_node_by_search_term_handler E term depth)"
  "no_panic (create_node_handler E cnr)"
  "no_panic (create_relationship_handler E crr)"
  "no_panic (update_node_handler E unr)"
  "no_panic (update_relationship_handler E urr)"
  "no_panic (get_similar_nodes_handler E fsr)"
  "no_panic (delete_relationship_handler E rid)"
  "no_panic (search_nodes_handler E term labels limit)"
  "no_panic (get_domain_handler E name)"
  "no_panic (validate_domain_name_handler E name)"
  "no_panic (create_domain_handler E cdr)"
  "no_panic (update_domain_handler E udr)"
  unfolding get_nodes_handler_def get_node_by_search_term_handler_def create_node_handler_def
    create_relationship_handler_def update_node_handler_def update_relationship_handler_def
    get_similar_nodes_handler_def delete_relationship_handler_def search_nodes_handler_def
    get_domain_handler_def validate_domain_name_handler_def create_domain_handler_def
    update_domain_handler_def Let_def
  by (auto intro!: prog_rules split: option.split service_error.split outcome.split)

end
