(* ===== verification/Sse_Events.thy ===== *)
theory Sse_Events
  imports Orchestrator Graph_Handlers
begin

text \<open>
  The JSON of the events of a generation (\<open>agent/models.rs\<close>, the derived \<open>Serialize\<close>), the
  summary of a registry, and the handler \<open>generate_domain_sse\<close> of \<open>agent/handlers.rs\<close>, which
  starts a generation and streams its events.

  \<open>serde\<close> writes the fields in declaration order; the tag of an event comes first. The text of a
  failed validation comes from the crate \<open>validator\<close>, which is not under src/: it is the argument
  \<open>validation_text\<close>.
\<close>

subsection \<open>JSON of the models\<close>

fun agent_tag :: "agent_type \<Rightarrow> string" where
  "agent_tag DomainArchitect = ''domain_architect''"
| "agent_tag KnowledgeGenerator = ''knowledge_generator''"
| "agent_tag SkillGenerator = ''skill_generator''"
| "agent_tag TraitGenerator = ''trait_generator''"
| "agent_tag MilestoneGenerator = ''milestone_generator''"
| "agent_tag LevelDistributor = ''level_distributor''"
| "agent_tag PrerequisiteMapper = ''prerequisite_mapper''"

definition agent_json :: "agent_type \<Rightarrow> json" where
  "agent_json a = JStr (agent_tag a)"

definition statistics_json :: "domain_statistics \<Rightarrow> json" where
  "statistics_json s =
     JObj [(''domainLevelsCreated'', json_nat (domain_levels_created s)),
           (''knowledgeCreated'', json_nat (knowledge_created s)),
           (''skillsCreated'', json_nat (skills_created s)),
           (''traitsCreated'', json_nat (traits_created s)),
           (''milestonesCreated'', json_nat (milestones_created s)),
           (''relationshipsCreated'', json_nat (relationships_created s)),
           (''nodesReused'', json_nat (nodes_reused s)),
           (''generationTimeMs'', json_nat (generation_time_ms s))]"

definition registry_node_json :: "created_node \<Rightarrow> json" where
  "registry_node_json n =
     JObj [(''name'', JStr (cn_name n)), (''element_id'', JStr (cn_element_id n)),
           (''label'', JStr (cn_label n)), (''was_reused'', JBool (cn_was_reused n))]"

definition level_requirement_json :: "level_requirement \<Rightarrow> json" where
  "level_requirement_json r =
     JObj [(''level_id'', JStr (lr_level_id r)), (''component_id'', JStr (lr_component_id r)),
           (''component_name'', JStr (lr_component_name r)),
           (''component_type'', JStr (lr_component_type r)),
           (''proficiency'', json_opt JStr (lr_proficiency r))]"

definition generalization_json :: "generalization_link \<Rightarrow> json" where
  "generalization_json l =
     JObj [(''specific_id'', JStr (gl_specific_id l)), (''specific_name'', JStr (gl_specific_name l)),
           (''general_id'', JStr (gl_general_id l)), (''general_name'', JStr (gl_general_name l)),
           (''node_type'', JStr (gl_node_type l))]"

definition prerequisite_json :: "prerequisite_link \<Rightarrow> json" where
  "prerequisite_json l =
     JObj [(''source_id'', JStr (pl_source_id l)), (''source_name'', JStr (pl_source_name l)),
           (''target_id'', JStr (pl_target_id l)), (''target_name'', JStr (pl_target_name l)),
           (''relationship_type'', JStr (pl_relationship_type l))]"

definition registry_json :: "registry \<Rightarrow> json" where
  "registry_json r =
     JObj [(''domain'', json_opt registry_node_json (reg_domain r)),
           (''domain_levels'', JArr (map registry_node_json (reg_domain_levels r))),
           (''knowledge'', JArr (map registry_node_json (reg_knowledge r))),
           (''skills'', JArr (map registry_node_json (reg_skills r))),
           (''traits'', JArr (map registry_node_json (reg_traits r))),
           (''milestones'', JArr (map registry_node_json (reg_milestones r))),
           (''levelRequirements'', JArr (map level_requirement_json (reg_level_requirements r))),
           (''generalizations'', JArr (map generalization_json (reg_generalizations r))),
           (''prerequisites'', JArr (map prerequisite_json (reg_prerequisites r)))]"

definition generation_result_json :: "domain_generation_result \<Rightarrow> json" where
  "generation_result_json r =
     JObj [(''domainName'', JStr (dgr_domain_name r)),
           (''domainElementId'', JStr (dgr_domain_element_id r)),
           (''domainGraph'', registry_json (dgr_domain_graph r)),
           (''statistics'', statistics_json (dgr_statistics r))]"

definition debug_strings :: "env \<Rightarrow> string list \<Rightarrow> string" where
  \<comment> \<open>\<open>{:?}\<close> of a vector of strings\<close>
  "debug_strings E names = ''['' @ join '', '' (map (debug_str E) names) @ '']''"

definition summary_for_llm :: "env \<Rightarrow> registry \<Rightarrow> string" where
  "summary_for_llm E r =
     ''Created nodes:'' @ nl @
     ''- Domain Levels: '' @ debug_strings E (map cn_name (reg_domain_levels r)) @ nl @
     ''- Knowledge: '' @ debug_strings E (map cn_name (reg_knowledge r)) @ nl @
     ''- Skills: '' @ debug_strings E (map cn_name (reg_skills r)) @ nl @
     ''- Traits: '' @ debug_strings E (map cn_name (reg_traits r)) @ nl @
     ''- Milestones: '' @ debug_strings E (map cn_name (reg_milestones r))"

fun event_type :: "sse_event \<Rightarrow> string" where
  "event_type (Started n k) = ''started''"
| "event_type (DomainExists r e) = ''domain_exists''"
| "event_type (AgentStarted a k n) = ''agent_started''"
| "event_type (StepProgress a m) = ''step_progress''"
| "event_type (SimilarityCheck a c n s) = ''similarity_check''"
| "event_type (VerificationResult a c d g) = ''verification_result''"
| "event_type (NodeCreated a n l r) = ''node_created''"
| "event_type (AgentCompleted a c r) = ''agent_completed''"
| "event_type (AgentFailed a e) = ''agent_failed''"
| "event_type (Completed n s) = ''completed''"
| "event_type (Failed e a r) = ''failed''"

fun event_fields :: "sse_event \<Rightarrow> (string \<times> json) list" where
  "event_fields (Started domain_name total_agents) =
     [(''domainName'', JStr domain_name), (''totalAgents'', json_nat total_agents)]"
| "event_fields (DomainExists requested_name existing_domain) =
     [(''requestedName'', JStr requested_name), (''existingDomain'', JStr existing_domain)]"
| "event_fields (AgentStarted agent agent_number agent_name) =
     [(''agent'', agent_json agent), (''agentNumber'', json_nat agent_number),
      (''agentName'', JStr agent_name)]"
| "event_fields (StepProgress agent message) =
     [(''agent'', agent_json agent), (''message'', JStr message)]"
| "event_fields (SimilarityCheck agent concept similar_found top_score) =
     [(''agent'', agent_json agent), (''concept'', JStr concept),
      (''similarFound'', json_nat similar_found), (''topScore'', json_opt f64_json top_score)]"
| "event_fields (VerificationResult agent concept decision generalizes_to) =
     [(''agent'', agent_json agent), (''concept'', JStr concept), (''decision'', JStr decision),
      (''generalizesTo'', json_opt JStr generalizes_to)]"
| "event_fields (NodeCreated agent node_name label was_reused) =
     [(''agent'', agent_json agent), (''nodeName'', JStr node_name), (''label'', JStr label),
      (''wasReused'', JBool was_reused)]"
| "event_fields (AgentCompleted agent created reused) =
     [(''agent'', agent_json agent), (''nodesCreated'', json_nat created),
      (''nodesReused'', json_nat reused)]"
| "event_fields (AgentFailed agent err) = [(''agent'', agent_json agent), (''error'', JStr err)]"
| "event_fields (Completed domain_name stats) =
     [(''domainName'', JStr domain_name), (''statistics'', statistics_json stats)]"
| "event_fields (Failed err last_agent nodes) =
     [(''error'', JStr err), (''lastAgent'', json_opt agent_json last_agent),
      (''nodesCreatedBeforeFailure'', json_opt registry_json nodes)]"

definition sse_event_json :: "sse_event \<Rightarrow> json" where
  "sse_event_json ev = JObj ((''type'', JStr (event_type ev)) # event_fields ev)"

subsection \<open>The handler\<close>

record generate_domain_request =
  gdr_domain_name :: string
  gdr_description :: "string option"

definition request_valid :: "generate_domain_request \<Rightarrow> bool" where
  \<comment> \<open>lengths in characters\<close>
  "request_valid r \<longleftrightarrow>
     1 \<le> char_count (gdr_domain_name r) \<and> char_count (gdr_domain_name r) \<le> 100 \<and>
     (case gdr_description r of None \<Rightarrow> True | Some d \<Rightarrow> char_count d \<le> 500)"

definition error_details :: "string \<Rightarrow> string \<Rightarrow> json" where
  "error_details err details = jobj [(''error'', JStr err), (''details'', JStr details)]"

definition spawn :: "('x, 'a) action \<Rightarrow> ('e, unit) action" where
  \<comment> \<open>\<open>tokio::spawn\<close> of a task whose result is only logged; a panic ends the task alone\<close>
  "spawn m = (\<lambda>h. (Ok (), snd (m h)))"

definition generate_domain_sse ::
  "env \<Rightarrow> (generate_domain_request \<Rightarrow> string) \<Rightarrow> generate_domain_request \<Rightarrow> (api_error, unit) action" where
  "generate_domain_sse E validation_text request =
     (if \<not> request_valid request
      then fail (BAD_REQUEST, error_details ''Validation failed'' (validation_text request))
      else (case AgentOrchestrator_new E Claude of
              Err e \<Rightarrow> fail (INTERNAL_SERVER_ERROR,
                error_details ''Failed to initialize agent orchestrator'' e)
            | Panic \<Rightarrow> lift_outcome Panic
            | Ok orchestrator \<Rightarrow>
                spawn (generate_domain E orchestrator (gdr_domain_name request) (gdr_description request))))"

definition create_sse_stream :: "env \<Rightarrow> sse_event list \<Rightarrow> string list" where
  \<comment> \<open>the data of the events; writing them as JSON does not fail\<close>
  "create_sse_stream E evs = map (\<lambda>event. json_print E (sse_event_json event)) evs"

subsection \<open>Facts\<close>

lemma event_type_tag: "jget (sse_event_json ev) ''type'' = Some (JStr (event_type ev))"
  by (simp add: sse_event_json_def)

lemma event_fields_keys_distinct: "distinct (map fst ((''type'', JStr (event_type ev)) # event_fields ev))"
  by (cases ev) simp_all

lemma agent_tag_inj: "agent_tag a = agent_tag b \<longleftrightarrow> a = b"
  by (cases a; cases b) simp_all

lemma create_provider_no_panic [simp]: "create_provider E t \<noteq> Panic"
  by (cases t) (auto simp: create_provider_def LlamaCppProvider_new_def ClaudeProvider_new_def and_then_eq_Panic
      Let_def split: option.split)

lemma AgentOrchestrator_new_no_panic [simp]: "AgentOrchestrator_new E t \<noteq> Panic"
  using create_provider_no_panic[of E t]
  by (cases "create_provider E t") (auto simp: AgentOrchestrator_new_def)

text \<open>The handler itself does not panic, also when the generation it has started does.\<close>

lemma no_panic_generate_domain_sse: "no_panic (generate_domain_sse E vt r)"
  unfolding no_panic_def
  using AgentOrchestrator_new_no_panic[of E Claude]
  by (auto simp: generate_domain_sse_def fail_def spawn_def lift_outcome_def split: outcome.splits)

text \<open>The terminal events of a stream: what tells the client how the generation has ended.\<close>

definition terminal :: "lifecycle \<Rightarrow> bool" where
  "terminal l \<longleftrightarrow> (case l of LCompleted \<Rightarrow> True | LFailed a \<Rightarrow> True | LDomainExists \<Rightarrow> True | _ \<Rightarrow> False)"

lemma agents_done_not_terminal: "l \<in> set (agents_done i as) \<Longrightarrow> \<not> terminal l"
  by (induction i as rule: agents_done.induct) (auto simp: terminal_def)

lemma generate_domain_sse_runs:
  assumes "request_valid r" and "AgentOrchestrator_new E Claude = Ok llm"
    and "generate_domain E llm (gdr_domain_name r) (gdr_description r) h = (out, h')"
  shows "generate_domain_sse E vt r h = (Ok (), h')"
  using assms by (simp add: generate_domain_sse_def spawn_def)

lemma sse_panic_no_terminal:
  assumes "generate_domain E llm name desc h = (Panic, h')"
  shows "\<exists>u. h' = h @ u \<and> (\<forall>l \<in> set (lifecycle_of u). \<not> terminal l) \<and> LStarted \<in> set (lifecycle_of u)"
proof -
  from generate_domain_trace[OF assms] obtain u k where u: "h' = h @ u"
    "lifecycle_of u = LStarted # agents_stopped 0 all_agents k []"
    by (auto simp: generation_trace_def)
  then show ?thesis
    by (intro exI[of _ u])
      (auto simp: agents_stopped_def terminal_def dest!: agents_done_not_terminal)
qed

text \<open>The stream ends without a terminal event exactly when the task panics or when the search for a
  similar domain fails, which is before the first event.\<close>

lemma generate_domain_search_fails:
  assumes "check_domain_exists E name (h @ [ReadInstant]) = (Err e, h1)"
  shows "\<exists>u. generate_domain E llm name desc h = (Err e, h @ u) \<and> lifecycle_of u = []"
proof -
  from emitsE [OF check_domain_exists_effects assms] obtain w where
    "h1 = (h @ [ReadInstant]) @ w" "list_all search_effect w" by blast
  with assms show ?thesis
    by (intro exI [of _ "ReadInstant # w"])
      (simp add: generate_domain_def bind_def call_runs lifecycle_Cons event_of_def lifecycle_search)
qed

lemma generate_domain_starts:
  assumes "check_domain_exists E name (h @ [ReadInstant]) = (Ok None, h1)"
  shows "\<exists>u. snd (generate_domain E llm name desc h) = h @ u \<and> LStarted \<in> set (lifecycle_of u)"
proof -
  from emitsE [OF check_domain_exists_effects assms] obtain w where
    w: "h1 = (h @ [ReadInstant]) @ w" "list_all search_effect w" by blast
  let ?s0 = "(default_statistics, AgentContext_new name desc)" and ?h2 = "h1 @ [Emit (Started name 7)]"
  obtain out h3 where run: "fold_prog run_agent ?s0 (enumerate 0 (agent_steps E llm)) ?h2 = (out, h3)"
    by (cases "fold_prog run_agent ?s0 (enumerate 0 (agent_steps E llm)) ?h2")
  from fold_run_agent_trace [OF agent_steps_sound run] obtain v where v: "h3 = ?h2 @ v" by blast
  have "\<exists>z. snd (generate_domain E llm name desc h) = h3 @ z"
    using assms run
    by (cases out) (auto simp: generate_domain_def bind_def call_runs Let_def ret_def split: prod.split)
  then obtain z where "snd (generate_domain E llm name desc h) = h3 @ z" ..
  with v w show ?thesis
    by (intro exI [of _ "ReadInstant # w @ [Emit (Started name 7)] @ v @ z"])
      (simp add: lifecycle_Cons [of ReadInstant])
qed

lemma trace_terminal:
  assumes "generation_trace t out" and "LStarted \<in> set t"
  shows "(\<exists>l \<in> set t. terminal l) \<longleftrightarrow> out \<noteq> Panic"
proof -
  have "l \<in> set (agents_stopped i as k []) \<Longrightarrow> \<not> terminal l" for l i as k
    using agents_done_not_terminal by (auto simp: agents_stopped_def terminal_def)
  moreover have "LFailed a \<in> set (agents_stopped i as k [x, LFailed a])" for a x i as k
    by (simp add: agents_stopped_def)
  moreover have "terminal (LFailed a)" "terminal LCompleted" "\<not> terminal LStarted" for a
    by (simp_all add: terminal_def)
  ultimately show ?thesis
    using assms unfolding generation_trace_def by (elim disjE) (fastforce simp: is_ok_iff)+
qed

lemma generate_domain_terminal:
  "\<exists>u. snd (generate_domain E llm name desc h) = h @ u \<and>
     ((\<exists>l \<in> set (lifecycle_of u). terminal l) \<longleftrightarrow>
        fst (generate_domain E llm name desc h) \<noteq> Panic \<and>
        is_ok (fst (check_domain_exists E name (h @ [ReadInstant]))))"
proof -
  obtain r h1 where ch: "check_domain_exists E name (h @ [ReadInstant]) = (r, h1)"
    by (cases "check_domain_exists E name (h @ [ReadInstant])")
  obtain out h' where run: "generate_domain E llm name desc h = (out, h')"
    by (cases "generate_domain E llm name desc h")
  show ?thesis
  proof (cases r)
    case (Err e)
    with ch have "check_domain_exists E name (h @ [ReadInstant]) = (Err e, h1)" by simp
    from generate_domain_search_fails [OF this, of llm desc] ch Err show ?thesis by auto
  next
    case Panic
    then show ?thesis using ch no_panic_check_domain_exists [of E name] by (auto simp: no_panic_iff)
  next
    case (Ok ex)
    show ?thesis
    proof (cases ex)
      case (Some d)
      with ch Ok have "check_domain_exists E name (h @ [ReadInstant]) = (Ok (Some d), h1)" by simp
      from generate_domain_refused [OF this, of llm desc] obtain e u where
        g: "generate_domain E llm name desc h = (Err e, h @ [ReadInstant] @ u @ [Emit (DomainExists name d)])"
        by blast
      have "LDomainExists \<in> set (lifecycle_of ([ReadInstant] @ u @ [Emit (DomainExists name d)]))"
        by (simp add: lifecycle_Cons [of ReadInstant])
      moreover have "terminal LDomainExists" by (simp add: terminal_def)
      ultimately show ?thesis using g ch Ok by (intro exI conjI) (auto intro!: exI)
    next
      case None
      with ch Ok have "check_domain_exists E name (h @ [ReadInstant]) = (Ok None, h1)" by simp
      from generate_domain_starts [OF this, of llm desc] run obtain u where
        u: "h' = h @ u" "LStarted \<in> set (lifecycle_of u)" by auto
      from generate_domain_trace [OF run] u(1) have "generation_trace (lifecycle_of u) out" by auto
      from trace_terminal [OF this u(2)] show ?thesis using run u ch Ok by auto
    qed
  qed
qed

end
