(* ===== verification/Fenced_Json.thy ===== *)
theory Fenced_Json
  imports Rust_Text
begin

text \<open>
  \<open>extract_json\<close>, the same function in \<open>agent/handlers.rs\<close> of the API and in
  \<open>processors/common.rs\<close> of the worker: the answer of an LLM without the Markdown fence around it.
\<close>

definition fence :: string where "fence = ''```''"
definition json_fence :: string where "json_fence = ''```json''"

definition extract_json :: "string \<Rightarrow> string" where
  "extract_json response =
     (let trimmed = trim response
      in if starts_with trimmed ''```json''
         then trim (trim_end_matches (trim_start_matches trimmed ''```json'') ''```'')
         else if starts_with trimmed ''```''
         then trim (trim_end_matches (trim_start_matches trimmed ''```'') ''```'')
         else trimmed)"

text \<open>What comes out is a piece of the answer, so that nothing is made up.\<close>

lemma strip_all_sublist: "sublist (strip_all ps s) s"
  by (simp add: strip_all_suffix suffix_imp_sublist)

lemma trim_start_matches_sublist: "sublist (trim_start_matches s p) s"
  by (simp add: trim_start_matches_def strip_all_sublist)

lemma trim_end_matches_sublist: "sublist (trim_end_matches s p) s"
proof -
  have "suffix (strip_all [rev p] (rev s)) (rev s)" by (rule strip_all_suffix)
  then have "prefix (trim_end_matches s p) s"
    by (metis rev_rev_ident suffix_to_prefix trim_end_matches_def)
  then show ?thesis by (rule prefix_imp_sublist)
qed

lemma extract_json_sublist: "sublist (extract_json response) response"
proof -
  have "sublist (trim (trim_end_matches (trim_start_matches (trim response) p) q)) response" for p q
    using trim_sublist trim_end_matches_sublist trim_start_matches_sublist
    by (metis sublist_order.order.trans)
  then show ?thesis
    using trim_sublist by (auto simp: extract_json_def Let_def)
qed

lemma well_encoded_extract_json: "well_encoded response \<Longrightarrow> well_encoded (extract_json response)"
  by (rule well_encoded_sublist [OF extract_json_sublist])

text \<open>A JSON object survives, with a fence or without one.\<close>

lemma trim_id:
  assumes "s \<noteq> []" and "\<forall>w \<in> set ws_chars. \<not> prefix w s" and "\<forall>w \<in> set ws_chars. \<not> suffix w s"
  shows "trim s = s"
proof -
  have "trim_start s = s"
    unfolding trim_start_def by (rule strip_all_id) (use assms in auto)
  moreover have "strip_all (map rev ws_chars) (rev s) = rev s"
    by (rule strip_all_id) (use assms in \<open>auto simp: suffix_to_prefix\<close>)
  ultimately show ?thesis by (simp add: trim_def trim_end_def)
qed

definition braced :: "string \<Rightarrow> bool" where
  "braced s \<longleftrightarrow> (\<exists>t. s = CHR ''{'' # t @ [CHR ''}''])"

lemma prefix_Cons_char: "prefix w (c # s) \<Longrightarrow> w \<noteq> [] \<Longrightarrow> hd w = c"
  by (cases w) auto

lemma suffix_snoc_char: "suffix w (s @ [c]) \<Longrightarrow> w \<noteq> [] \<Longrightarrow> last w = c"
  by (metis last_appendR last_snoc suffix_def)

lemma ws_hd_last: "w \<in> set ws_chars \<Longrightarrow> w \<noteq> [] \<and> hd w \<noteq> CHR ''{'' \<and> last w \<noteq> CHR ''}'' \<and>
    hd w \<noteq> CHR ''`'' \<and> last w \<noteq> CHR ''`''"
  by (auto simp: ws_chars_def)

lemma trim_braced: "braced s \<Longrightarrow> trim s = s"
proof -
  assume "braced s"
  then obtain t where t: "s = CHR ''{'' # t @ [CHR ''}'']" by (auto simp: braced_def)
  have "\<not> prefix w s \<and> \<not> suffix w s" if "w \<in> set ws_chars" for w
    using ws_hd_last[OF that] prefix_Cons_char[of w] suffix_snoc_char[of w "CHR ''{'' # t"] t by auto
  then show ?thesis using t by (intro trim_id) auto
qed

lemma extract_json_bare: "braced s \<Longrightarrow> extract_json s = s"
proof -
  assume s: "braced s"
  then have "\<not> starts_with s ''```json''" "\<not> starts_with s ''```''"
    by (auto simp: braced_def starts_with_def)
  then show ?thesis by (simp add: extract_json_def trim_braced[OF s])
qed

lemma strip_all_one:
  assumes "p \<noteq> []" and "\<not> prefix p s"
  shows "strip_all [p] (p @ s) = s"
  using assms strip_all_id[of "[p]" s] by (simp add: strip_all.simps[of "[p]" "p @ s"])

lemma trim_newlines:
  assumes "braced s"
  shows "trim (nl @ s @ nl) = s"
proof -
  obtain t where t: "s = CHR ''{'' # t @ [CHR ''}'']" using assms by (auto simp: braced_def)
  have find1: "find (\<lambda>p. p \<noteq> [] \<and> prefix p (nl @ s @ nl)) ws_chars = Some [CHR 0x0A]"
    by (simp add: ws_chars_def nl_def)
  have np: "\<not> prefix w (s @ nl)" if "w \<in> set ws_chars" for w
    using ws_hd_last[OF that] prefix_Cons_char[of w] t by auto
  have a: "trim_start (nl @ s @ nl) = s @ nl"
    unfolding trim_start_def
    by (simp only: strip_all.simps[of ws_chars "nl @ s @ nl"] find1 option.case)
      (simp add: nl_def, rule strip_all_id, use np in \<open>auto simp: nl_def\<close>)
  have find2: "find (\<lambda>p. p \<noteq> [] \<and> prefix p (rev (s @ nl))) (map rev ws_chars) = Some [CHR 0x0A]"
    by (simp add: ws_chars_def nl_def)
  have ns: "\<not> prefix (rev w) (rev s)" if "w \<in> set ws_chars" for w
    using ws_hd_last[OF that] prefix_Cons_char[of "rev w"] t by (auto simp: hd_rev)
  have "strip_all (map rev ws_chars) (rev (s @ nl)) = rev s"
    by (simp only: strip_all.simps[of "map rev ws_chars" "rev (s @ nl)"] find2 option.case)
      (simp add: nl_def, rule strip_all_id, use ns in auto)
  then show ?thesis using a by (simp add: trim_def trim_end_def)
qed

lemma extract_json_fenced:
  assumes "braced s"
  shows "extract_json (json_fence @ nl @ s @ nl @ fence) = s"
proof -
  obtain t where t: "s = CHR ''{'' # t @ [CHR ''}'']" using assms by (auto simp: braced_def)
  let ?r = "json_fence @ nl @ s @ nl @ fence"
  have tr: "trim ?r = ?r"
  proof (rule trim_id)
    show "\<forall>w\<in>set ws_chars. \<not> prefix w ?r"
      using ws_hd_last prefix_Cons_char by (fastforce simp: json_fence_def)
    show "\<forall>w\<in>set ws_chars. \<not> suffix w ?r"
      using ws_hd_last suffix_snoc_char[of _ "json_fence @ nl @ s @ nl @ ''``''" "CHR ''`''"]
      by (fastforce simp: fence_def)
  qed (simp add: json_fence_def)
  have "trim_start_matches ?r ''```json'' = nl @ s @ nl @ fence"
    using strip_all_one[of "''```json''" "nl @ s @ nl @ fence"]
    by (simp add: trim_start_matches_def json_fence_def nl_def)
  moreover have "trim_end_matches (nl @ s @ nl @ fence) ''```'' = nl @ s @ nl"
  proof -
    have "\<not> prefix ''```'' (rev (nl @ s @ nl))" by (simp add: nl_def)
    then show ?thesis
      using strip_all_one[of "''```''" "rev (nl @ s @ nl)"]
      by (simp add: trim_end_matches_def fence_def)
  qed
  ultimately show ?thesis
    using tr trim_newlines[OF assms]
    by (simp add: extract_json_def starts_with_def json_fence_def)
qed

end
