(* ===== verification/Agent_Handlers.thy ===== *)
theory Agent_Handlers
  imports Sse_Events Fenced_Json
begin

text \<open>
  \<open>generate_domain_async\<close> and what it needs, from \<open>agent/handlers.rs\<close>: create the domain and
  its levels, ask the LLM for all the nodes of the domain at once, and queue one job per node.
\<close>

subsection \<open>The domain and its levels\<close>

definition async_levels :: "(nat \<times> string \<times> nat) list" where
  "async_levels =
     [(1, ''Novice'', 100), (2, ''Developing'', 200), (3, ''Competent'', 400), (4, ''Advanced'', 700),
      (5, ''Master'', 1000)]"

definition async_create_node ::
  "env \<Rightarrow> string \<Rightarrow> json hash_map \<Rightarrow> (string, create_node_result) action" where
  \<comment> \<open>\<open>services::create_node(graph, request, false).await?\<close>\<close>
  "async_create_node E label props =
     map_err (service_error_text E)
       (create_node E \<lparr>cnr_labels = [label], cnr_properties = props\<rparr> False)"

definition async_level ::
  "env \<Rightarrow> string \<Rightarrow> string \<Rightarrow> domain_level_info list \<Rightarrow> nat \<times> string \<times> nat \<Rightarrow>
     (string, domain_level_info list) action" where
  \<comment> \<open>one iteration of the loop over the levels\<close>
  "async_level E domain_name domain_id domain_levels l =
     (case l of (level, stage, points) \<Rightarrow>
        let level_name = domain_name @ '' '' @ stage
        in bind (async_create_node E ''Domain_Level''
                   [(''name'', JStr level_name), (''description'', JStr (stage @ '' level in '' @ domain_name)),
                    (''level'', json_nat level), (''total_points_required'', json_nat points)])
             (\<lambda>level_result.
           bind (map_err (service_error_text E) (create_relationship E
                   (relationship domain_id (nres_element_id level_result) ''HAS_DOMAIN_LEVEL''))) (\<lambda>_.
           ret (domain_levels @
             [\<lparr>dli_level = level, dli_name = level_name, dli_element_id = nres_element_id level_result\<rparr>]))))"

definition create_domain_and_levels ::
  "env \<Rightarrow> string \<Rightarrow> string option \<Rightarrow> (string, string \<times> domain_level_info list) action" where
  "create_domain_and_levels E domain_name description =
     bind (async_create_node E ''Domain''
             (string_props [(''name'', domain_name), (''description'', text_of description)])) (\<lambda>domain_result.
     bind (fold_prog (async_level E domain_name (nres_element_id domain_result)) [] async_levels)
       (\<lambda>domain_levels. ret (nres_element_id domain_result, domain_levels)))"

subsection \<open>The nodes of the domain\<close>

record conceptualized_node =
  con_name :: string
  con_suggested_level :: "nat option"

record conceptualized_domain =
  con_knowledge :: "conceptualized_node list"
  con_skills :: "conceptualized_node list"
  con_traits :: "conceptualized_node list"
  con_milestones :: "conceptualized_node list"

definition de_concept_item :: "json \<Rightarrow> conceptualized_node option" where
  "de_concept_item v =
     Option.bind (de_field ''name'' de_string v) (\<lambda>name.
     Option.bind (de_option ''level'' (de_unsigned 8) v) (\<lambda>level.
     Some \<lparr>con_name = name, con_suggested_level = level\<rparr>))"

definition de_concepts_response :: "json \<Rightarrow> conceptualized_domain option" where
  "de_concepts_response v =
     Option.bind (de_field ''knowledge'' (de_vec de_concept_item) v) (\<lambda>knowledge.
     Option.bind (de_field ''skills'' (de_vec de_concept_item) v) (\<lambda>skills.
     Option.bind (de_field ''traits'' (de_vec de_concept_item) v) (\<lambda>traits.
     Option.bind (de_field ''milestones'' (de_vec de_concept_item) v) (\<lambda>milestones.
     Some \<lparr>con_knowledge = knowledge, con_skills = skills, con_traits = traits,
           con_milestones = milestones\<rparr>))))"

definition conceptualize_system_prompt :: string where
  "conceptualize_system_prompt =
     text_lines
     [''You are an expert at designing learning domains for a personal development knowledge graph.'',
      ''Given a domain name and optional description, generate a comprehensive list of:'',
      ''1. Knowledge concepts (things to learn)'',
      ''2. Skills (abilities to develop)'',
      ''3. Traits (characteristics to cultivate)'',
      ''4. Milestones (achievements to reach)'',
      [],
      ''For each item, provide a suggested level (1-5) where:'',
      ''1 = Novice, 2 = Developing, 3 = Competent, 4 = Advanced, 5 = Master'',
      [],
      ''Respond with a JSON object:'',
      ''{'',
      ''  \"knowledge\": [{\"name\": \"...\", \"level\": 1-5}, ...],'',
      ''  \"skills\": [{\"name\": \"...\", \"level\": 1-5}, ...],'',
      ''  \"traits\": [{\"name\": \"...\", \"level\": 1-5}, ...],'',
      ''  \"milestones\": [{\"name\": \"...\", \"level\": 1-5}, ...]'',
      ''}'',
      [],
      ''Guidelines:'',
      ''- Generate 5-10 items per category'',
      ''- Prefix domain-specific items with the domain name'',
      ''- Items should be atomic (no \"and\" combinations)'',
      ''- Distribute items across all 5 levels'',
      [],
      ''IMPORTANT: Only respond with valid JSON, no other text.'']"

definition conceptualize_all_nodes ::
  "env \<Rightarrow> string \<Rightarrow> string option \<Rightarrow> (string, conceptualized_domain) action" where
  "conceptualize_all_nodes E domain_name description =
     bind (lift_outcome (map_err_outcome (\<lambda>e. ''LLM not configured: '' @ llm_error_text e)
             (create_provider E Claude))) (\<lambda>provider.
     let description_context = (case description of Some d \<Rightarrow> nl @ ''Description: '' @ d | None \<Rightarrow> []);
         user_prompt = ''Generate all nodes for the domain: '' @ domain_name @ description_context
     in bind (map_err (\<lambda>e. ''LLM generation failed: '' @ llm_error_text e)
                (llm_generate E provider conceptualize_system_prompt user_prompt
                   (gen_config 4096 f32_0_7))) (\<lambda>response.
        lift_outcome (map_err_outcome
          (\<lambda>e. ''Failed to parse concepts: '' @ e @ ''. Response: '' @ response)
          (from_str E de_concepts_response (extract_json response)))))"

subsection \<open>Queueing\<close>

definition add_u32 :: "nat \<Rightarrow> nat \<Rightarrow> nat" where
  "add_u32 m n = (m + n) mod 2 ^ 32"

record generation_target =
  \<comment> \<open>what the jobs of one generation have in common\<close>
  gt_generation_id :: string
  gt_total_nodes :: nat
  gt_domain_name :: string
  gt_description :: "string option"
  gt_domain_element_id :: string
  gt_domain_levels :: "domain_level_info list"

definition queue_concept ::
  "env \<Rightarrow> generation_target \<Rightarrow> node_type \<Rightarrow> nat \<Rightarrow> conceptualized_node \<Rightarrow> ('e, nat) action" where
  \<comment> \<open>one iteration of a loop that queues jobs; the state is \<open>sequence\<close>\<close>
  "queue_concept E t ty sequence concept =
     bind (NodeGenerationJob_new E (gt_generation_id t) sequence (gt_total_nodes t) ty
             (con_name concept) (gt_domain_name t) (gt_description t) (gt_domain_element_id t)
             (gt_domain_levels t) (con_suggested_level concept)) (\<lambda>job.
     on_result (queue_node_generation E job)
       (\<lambda>_. ret (add_u32 sequence 1)) (\<lambda>e. ret (add_u32 sequence 1)))"

definition queue_concepts ::
  "env \<Rightarrow> generation_target \<Rightarrow> node_type \<Rightarrow> conceptualized_node list \<Rightarrow> nat \<Rightarrow> ('e, nat) action" where
  "queue_concepts E t ty concepts sequence = fold_prog (queue_concept E t ty) sequence concepts"

definition queue_all ::
  "env \<Rightarrow> generation_target \<Rightarrow> conceptualized_domain \<Rightarrow> ('e, nat) action" where
  \<comment> \<open>the four loops, one after the other\<close>
  "queue_all E t concepts =
     bind (queue_concepts E t KnowledgeT (con_knowledge concepts) 0) (\<lambda>sequence.
     bind (queue_concepts E t SkillT (con_skills concepts) sequence) (\<lambda>sequence.
     bind (queue_concepts E t TraitT (con_traits concepts) sequence) (\<lambda>sequence.
     queue_concepts E t MilestoneT (con_milestones concepts) sequence)))"

definition count_concepts :: "conceptualized_domain \<Rightarrow> nat" where
  \<comment> \<open>\<open>as u32\<close>\<close>
  "count_concepts c =
     (length (con_knowledge c) + length (con_skills c) + length (con_traits c) +
      length (con_milestones c)) mod 2 ^ 32"

definition generation_identifier :: "nat option \<Rightarrow> string \<Rightarrow> string" where
  "generation_identifier now domain_name =
     ''gen-'' @ nat_text (case now of Some ns \<Rightarrow> ns | None \<Rightarrow> 0) @ ''-'' @
     concat (take 10 (str_chars domain_name))"

definition queue_domain_avatar :: "env \<Rightarrow> string \<Rightarrow> string \<Rightarrow> ('e, unit) action" where
  "queue_domain_avatar E domain_name domain_element_id =
     (if is_queue_configured E
      then bind (ImageGenJob_new E domain_name domain_element_id (avatar_prompt domain_name)
                   (''domains/'' @ sanitized_name E domain_name @ ''/avatar.png'')) (\<lambda>job.
           on_result (queue_image_generation E job) (\<lambda>_. ret ()) (\<lambda>e. ret ()))
      else ret ())"

record async_generation_response =
  agr_generation_id :: string
  agr_domain_element_id :: string
  agr_domain_name :: string
  agr_total_nodes :: nat
  agr_message :: string

definition async_failure :: "string \<Rightarrow> string \<Rightarrow> api_error" where
  "async_failure err details = (INTERNAL_SERVER_ERROR, error_details err details)"

definition SERVICE_UNAVAILABLE :: nat where "SERVICE_UNAVAILABLE = 503"

definition generate_domain_async ::
  "env \<Rightarrow> (generate_domain_request \<Rightarrow> string) \<Rightarrow> generate_domain_request \<Rightarrow>
     (api_error, async_generation_response) action" where
  "generate_domain_async E validation_text request =
     (if \<not> request_valid request
      then fail (BAD_REQUEST, error_details ''Validation failed'' (validation_text request))
      else if \<not> is_node_queue_configured E
      then fail (SERVICE_UNAVAILABLE, error_details ''Domain node queue not configured''
                   ''DOMAIN_NODE_QUEUE_URL environment variable not set'')
      else
        bind (read_clock E) (\<lambda>now.
        let domain_name = gdr_domain_name request;
            generation_id = generation_identifier now domain_name
        in bind (map_err (async_failure ''Failed to create domain'')
                   (create_domain_and_levels E domain_name (gdr_description request)))
             (\<lambda>(domain_element_id, domain_levels).
           bind (queue_domain_avatar E domain_name domain_element_id) (\<lambda>_.
           bind (map_err (async_failure ''Failed to conceptualize nodes'')
                   (conceptualize_all_nodes E domain_name (gdr_description request))) (\<lambda>concepts.
           let total_nodes = count_concepts concepts
           in bind (queue_all E
                      \<lparr>gt_generation_id = generation_id, gt_total_nodes = total_nodes,
                       gt_domain_name = domain_name, gt_description = gdr_description request,
                       gt_domain_element_id = domain_element_id, gt_domain_levels = domain_levels\<rparr>
                      concepts) (\<lambda>sequence.
              ret \<lparr>agr_generation_id = generation_id, agr_domain_element_id = domain_element_id,
                   agr_domain_name = domain_name, agr_total_nodes = total_nodes,
                   agr_message = ''Domain created. '' @ nat_text total_nodes @
                     '' nodes queued for generation.''\<rparr>))))))"

subsection \<open>The levels\<close>

lemma async_level_Ok:
  assumes "async_level E name did ls (n, stage, points) h = (Ok ls', h')"
  shows "\<exists>i. ls' = ls @ [\<lparr>dli_level = n, dli_name = name @ '' '' @ stage, dli_element_id = i\<rparr>]"
  using assms by (auto simp: async_level_def bind_eq_Ok ret_eq_Ok Let_def)

lemma fold_async_levels:
  "fold_prog (async_level E name did) ls lv h = (Ok ls', h') \<Longrightarrow>
   \<exists>new. ls' = ls @ new \<and> map dli_level new = map fst lv \<and>
     map dli_name new = map (\<lambda>(n, stage, p). name @ '' '' @ stage) lv"
proof (induction lv arbitrary: ls h)
  case (Cons l lv)
  obtain n s p where l: "l = (n, s, p)" by (cases l)
  with Cons.prems obtain ls1 h1 where 1: "async_level E name did ls (n, s, p) h = (Ok ls1, h1)"
    and 2: "fold_prog (async_level E name did) ls1 lv h1 = (Ok ls', h')"
    by (auto simp: bind_eq_Ok)
  from async_level_Ok[OF 1] Cons.IH[OF 2] l show ?case by fastforce
qed (simp add: ret_def)

lemma create_domain_and_levels_Ok:
  assumes "create_domain_and_levels E name desc h = (Ok (did, ls), h')"
  shows "map dli_level ls = [1, 2, 3, 4, 5] \<and>
    map dli_name ls = map (\<lambda>s. name @ '' '' @ s)
      [''Novice'', ''Developing'', ''Competent'', ''Advanced'', ''Master'']"
proof -
  from assms obtain d h1 where "fold_prog (async_level E name d) [] async_levels h1 = (Ok ls, h')"
    by (auto simp: create_domain_and_levels_def bind_eq_Ok ret_eq_Ok)
  from fold_async_levels[OF this] show ?thesis by (auto simp: async_levels_def)
qed

subsection \<open>The jobs\<close>

definition sent_to :: "string \<Rightarrow> effect list \<Rightarrow> string list" where
  \<comment> \<open>the bodies of the messages sent to a queue\<close>
  "sent_to url h = List.map_filter
     (\<lambda>f. case f of SqsSend u b \<Rightarrow> if u = url then Some b else None | _ \<Rightarrow> None) h"

lemma sent_to_simps [simp]:
  "sent_to url [] = []"
  "sent_to url (SqsSend u b # h) = (if u = url then b # sent_to url h else sent_to url h)"
  "sent_to url (ReadClock # h) = sent_to url h"
  by (simp_all add: sent_to_def map_filter_simps)

lemma sent_to_append [simp]: "sent_to url (h @ h') = sent_to url h @ sent_to url h'"
  by (simp add: sent_to_def List.map_filter_def)

definition job_for ::
  "generation_target \<Rightarrow> (node_type \<times> conceptualized_node) \<Rightarrow> nat \<Rightarrow> node_generation_job \<Rightarrow> bool" where
  \<comment> \<open>the job of a concept: its identifier and its time stamp are those of the clock\<close>
  "job_for t c sequence j \<longleftrightarrow>
     job_generation_id j = gt_generation_id t \<and> job_sequence_number j = sequence \<and>
     job_total_nodes j = gt_total_nodes t \<and> job_node_type j = fst c \<and>
     job_node_name j = con_name (snd c) \<and> job_suggested_level j = con_suggested_level (snd c) \<and>
     job_domain_name j = gt_domain_name t \<and> job_domain_description j = gt_description t \<and>
     job_domain_element_id j = gt_domain_element_id t \<and> job_domain_levels j = gt_domain_levels t \<and>
     job_retry_count j = 0 \<and> (\<exists>ns. job_id j = job_identifier ns sequence)"

definition jobs_for ::
  "generation_target \<Rightarrow> (node_type \<times> conceptualized_node) list \<Rightarrow> nat \<Rightarrow> node_generation_job list \<Rightarrow> bool" where
  "jobs_for t cs n js \<longleftrightarrow> list_all2 (\<lambda>(i, c) j. job_for t c i j) (enumerate n cs) js"

lemma queue_concept_runs:
  fixes h :: "effect list"
  assumes "env_var E ''DOMAIN_NODE_QUEUE_URL'' = Some url"
  shows "\<exists>u j. queue_concept E t ty n c h = (Ok (add_u32 n 1) :: ('e, nat) outcome, h @ u) \<and>
    sent_to url u = [json_print E (node_job_json j)] \<and> job_for t (ty, c) n j"
proof -
  let ?j = "\<lparr>job_id = job_identifier (unix_nanos E h) n,
          job_generation_id = gt_generation_id t, job_sequence_number = n,
          job_total_nodes = gt_total_nodes t, job_node_type = ty, job_node_name = con_name c,
          job_domain_name = gt_domain_name t, job_domain_description = gt_description t,
          job_domain_element_id = gt_domain_element_id t, job_domain_levels = gt_domain_levels t,
          job_suggested_level = con_suggested_level c,
          job_created_at = seconds_text (unix_nanos E (h @ [ReadClock])), job_retry_count = 0\<rparr>"
  let ?u = "[ReadClock, ReadClock, SqsSend url (json_print E (node_job_json ?j))]"
  have "queue_concept E t ty n c h = (Ok (add_u32 n 1) :: ('e, nat) outcome, h @ ?u)"
    using assms
    by (simp add: queue_concept_def NodeGenerationJob_new_def bind_def call_runs ret_def
        on_result_def queue_node_generation_def map_err_def lift_outcome_def split: option.split)
  moreover have "job_for t (ty, c) n ?j" by (auto simp: job_for_def)
  ultimately show ?thesis by (intro exI[of _ ?u] exI[of _ ?j]) simp
qed

lemma queue_concepts_run:
  fixes h :: "effect list"
  assumes "env_var E ''DOMAIN_NODE_QUEUE_URL'' = Some url" and "n + length cs < 2 ^ 32"
  shows "\<exists>u js. queue_concepts E t ty cs n h = (Ok (n + length cs) :: ('e, nat) outcome, h @ u) \<and>
    sent_to url u = map (\<lambda>j. json_print E (node_job_json j)) js \<and> jobs_for t (map (Pair ty) cs) n js"
  using assms(2)
proof (induction cs arbitrary: n h)
  case Nil
  then show ?case by (intro exI[of _ "[]"]) (simp add: queue_concepts_def ret_def jobs_for_def)
next
  case (Cons c cs)
  from queue_concept_runs[OF assms(1), of t ty n c h, where 'e = 'e] obtain u j where
    1: "queue_concept E t ty n c h = (Ok (add_u32 n 1) :: ('e, nat) outcome, h @ u)"
    and u: "sent_to url u = [json_print E (node_job_json j)]" "job_for t (ty, c) n j" by blast
  have n: "add_u32 n 1 = Suc n" using Cons.prems by (simp add: add_u32_def)
  have "Suc n + length cs < 2 ^ 32" using Cons.prems by simp
  from Cons.IH[OF this, of "h @ u"] obtain w js where
    2: "queue_concepts E t ty cs (Suc n) (h @ u) = (Ok (Suc n + length cs) :: ('e, nat) outcome, (h @ u) @ w)"
    and w: "sent_to url w = map (\<lambda>j. json_print E (node_job_json j)) js"
      "jobs_for t (map (Pair ty) cs) (Suc n) js" by blast
  have "queue_concepts E t ty (c # cs) n h = (Ok (n + length (c # cs)) :: ('e, nat) outcome, h @ u @ w)"
    using 1 2 n by (simp add: queue_concepts_def bind_def)
  then show ?case
    using u w by (intro exI[of _ "u @ w"] exI[of _ "j # js"]) (simp add: jobs_for_def)
qed

lemma jobs_for_append:
  "jobs_for t cs n js \<Longrightarrow> jobs_for t ds (n + length cs) ks \<Longrightarrow> jobs_for t (cs @ ds) n (js @ ks)"
  unfolding jobs_for_def by (simp add: enumerate_append_eq list_all2_appendI)

definition all_concepts :: "conceptualized_domain \<Rightarrow> (node_type \<times> conceptualized_node) list" where
  "all_concepts c =
     map (Pair KnowledgeT) (con_knowledge c) @ map (Pair SkillT) (con_skills c) @
     map (Pair TraitT) (con_traits c) @ map (Pair MilestoneT) (con_milestones c)"

lemma queue_all_runs:
  fixes h :: "effect list"
  assumes url: "env_var E ''DOMAIN_NODE_QUEUE_URL'' = Some url" and bound: "length (all_concepts c) < 2 ^ 32"
  shows "\<exists>u js. queue_all E t c h = (Ok (length (all_concepts c)) :: ('e, nat) outcome, h @ u) \<and>
    sent_to url u = map (\<lambda>j. json_print E (node_job_json j)) js \<and> jobs_for t (all_concepts c) 0 js"
proof -
  let ?p = "map (\<lambda>j. json_print E (node_job_json j))"
  let ?n1 = "length (con_knowledge c)" and ?n2 = "length (con_skills c)" and ?n3 = "length (con_traits c)"
    and ?n4 = "length (con_milestones c)"
  have b: "0 + ?n1 < 2 ^ 32" "?n1 + ?n2 < 2 ^ 32" "(?n1 + ?n2) + ?n3 < 2 ^ 32"
    "(?n1 + ?n2 + ?n3) + ?n4 < 2 ^ 32"
    using bound by (simp_all add: all_concepts_def)
  from queue_concepts_run[OF url b(1), where 'e = 'e, of t KnowledgeT h] obtain u1 j1 where
    1: "queue_concepts E t KnowledgeT (con_knowledge c) 0 h = (Ok (0 + ?n1) :: ('e, nat) outcome, h @ u1)"
      "sent_to url u1 = ?p j1" "jobs_for t (map (Pair KnowledgeT) (con_knowledge c)) 0 j1" by blast
  from queue_concepts_run[OF url b(2), where 'e = 'e, of t SkillT "h @ u1"] obtain u2 j2 where
    2: "queue_concepts E t SkillT (con_skills c) ?n1 (h @ u1) = (Ok (?n1 + ?n2) :: ('e, nat) outcome, (h @ u1) @ u2)"
      "sent_to url u2 = ?p j2" "jobs_for t (map (Pair SkillT) (con_skills c)) ?n1 j2" by blast
  from queue_concepts_run[OF url b(3), where 'e = 'e, of t TraitT "(h @ u1) @ u2"] obtain u3 j3 where
    3: "queue_concepts E t TraitT (con_traits c) (?n1 + ?n2) ((h @ u1) @ u2) =
        (Ok (?n1 + ?n2 + ?n3) :: ('e, nat) outcome, ((h @ u1) @ u2) @ u3)"
      "sent_to url u3 = ?p j3" "jobs_for t (map (Pair TraitT) (con_traits c)) (?n1 + ?n2) j3" by blast
  from queue_concepts_run[OF url b(4), where 'e = 'e, of t MilestoneT "((h @ u1) @ u2) @ u3"]
  obtain u4 j4 where
    4: "queue_concepts E t MilestoneT (con_milestones c) (?n1 + ?n2 + ?n3) (((h @ u1) @ u2) @ u3) =
        (Ok (?n1 + ?n2 + ?n3 + ?n4) :: ('e, nat) outcome, (((h @ u1) @ u2) @ u3) @ u4)"
      "sent_to url u4 = ?p j4" "jobs_for t (map (Pair MilestoneT) (con_milestones c)) (?n1 + ?n2 + ?n3) j4"
    by blast
  have a: "jobs_for t (map (Pair TraitT) (con_traits c) @ map (Pair MilestoneT) (con_milestones c))
      (?n1 + ?n2) (j3 @ j4)"
    by (rule jobs_for_append) (use 3 4 in simp_all)
  have b: "jobs_for t (map (Pair SkillT) (con_skills c) @ map (Pair TraitT) (con_traits c) @
      map (Pair MilestoneT) (con_milestones c)) ?n1 (j2 @ j3 @ j4)"
    by (rule jobs_for_append) (use 2 a in simp_all)
  have "jobs_for t (all_concepts c) 0 (j1 @ j2 @ j3 @ j4)"
    unfolding all_concepts_def by (rule jobs_for_append) (use 1 b in simp_all)
  moreover have "queue_all E t c h = (Ok (length (all_concepts c)) :: ('e, nat) outcome, h @ u1 @ u2 @ u3 @ u4)"
    using 1(1) 2(1) 3(1) 4(1) by (simp add: queue_all_def bind_def all_concepts_def add.assoc)
  ultimately show ?thesis
    using 1(2) 2(2) 3(2) 4(2)
    by (intro exI[of _ "u1 @ u2 @ u3 @ u4"] exI[of _ "j1 @ j2 @ j3 @ j4"]) simp
qed

lemma jobs_for_numbers:
  assumes "jobs_for t cs n js"
  shows "length js = length cs" and "map job_sequence_number js = [n..<n + length cs]"
    and "map job_node_type js = map fst cs" and "map job_node_name js = map (con_name \<circ> snd) cs"
proof -
  have l: "length js = length cs"
    using assms by (auto simp: jobs_for_def dest: list_all2_lengthD)
  have e: "job_for t (cs ! i) (n + i) (js ! i)" if "i < length cs" for i
    using list_all2_nthD2[OF assms[unfolded jobs_for_def], of i] that l
    by (simp add: nth_enumerate_eq)
  show "length js = length cs" by (rule l)
  show "map job_sequence_number js = [n..<n + length cs]"
    "map job_node_type js = map fst cs" "map job_node_name js = map (con_name \<circ> snd) cs"
    using e l by (auto intro!: nth_equalityI simp: job_for_def)
qed

lemma generate_domain_async_Ok:
  assumes ok: "generate_domain_async E vt request h = (Ok r, h')"
    and url: "env_var E ''DOMAIN_NODE_QUEUE_URL'' = Some url"
  shows "\<exists>h1 h1a h2 u concepts levels t js.
    create_domain_and_levels E (gdr_domain_name request) (gdr_description request) (h @ [ReadClock]) =
      (Ok (agr_domain_element_id r, levels), h1) \<and>
    conceptualize_all_nodes E (gdr_domain_name request) (gdr_description request) h1a = (Ok concepts, h2) \<and>
    h' = h2 @ u \<and> agr_total_nodes r = count_concepts concepts \<and>
    gt_total_nodes t = agr_total_nodes r \<and> gt_generation_id t = agr_generation_id r \<and>
    gt_domain_element_id t = agr_domain_element_id r \<and> gt_domain_levels t = levels \<and>
    (length (all_concepts concepts) < 2 ^ 32 \<longrightarrow>
       sent_to url u = map (\<lambda>j. json_print E (node_job_json j)) js \<and>
       jobs_for t (all_concepts concepts) 0 js)"
proof -
  let ?name = "gdr_domain_name request" and ?desc = "gdr_description request"
  let ?gid = "generation_identifier (unix_nanos E h) ?name"
  from ok obtain did levels h1 h1a concepts h2 n where
    1: "create_domain_and_levels E ?name ?desc (h @ [ReadClock]) = (Ok (did, levels), h1)" and
    c: "conceptualize_all_nodes E ?name ?desc h1a = (Ok concepts, h2)" and
    2: "queue_all E \<lparr>gt_generation_id = ?gid, gt_total_nodes = count_concepts concepts,
          gt_domain_name = ?name, gt_description = ?desc, gt_domain_element_id = did,
          gt_domain_levels = levels\<rparr> concepts h2 = (Ok n :: (api_error, nat) outcome, h')" and
    r: "agr_generation_id r = ?gid" "agr_domain_element_id r = did" "agr_total_nodes r = count_concepts concepts"
    by (auto simp: generate_domain_async_def bind_eq_Ok ret_eq_Ok fail_not_Ok map_err_eq_Ok call_runs
        Let_def split: if_splits)
  let ?t = "\<lparr>gt_generation_id = ?gid, gt_total_nodes = count_concepts concepts, gt_domain_name = ?name,
          gt_description = ?desc, gt_domain_element_id = did, gt_domain_levels = levels\<rparr>"
  have "emits (\<lambda>_. True) (queue_all E ?t concepts :: (api_error, nat) action)"
    unfolding queue_all_def queue_concepts_def queue_concept_def by (intro prog_rules) simp_all
  from emitsE[OF this 2] obtain u where u: "h' = h2 @ u" by blast
  show ?thesis
  proof (cases "length (all_concepts concepts) < 2 ^ 32")
    case True
    from queue_all_runs[OF url True, of ?t h2, where 'e = api_error] 2 u obtain js where
      "sent_to url u = map (\<lambda>j. json_print E (node_job_json j)) js" "jobs_for ?t (all_concepts concepts) 0 js"
      by auto
    with 1 c u r show ?thesis
      by (intro exI[of _ h1] exI[of _ h1a] exI[of _ h2] exI[of _ u] exI[of _ concepts] exI[of _ levels]
          exI[of _ ?t] exI[of _ js]) simp
  next
    case False
    with 1 c u r show ?thesis
      by (intro exI[of _ h1] exI[of _ h1a] exI[of _ h2] exI[of _ u] exI[of _ concepts] exI[of _ levels]
          exI[of _ ?t]) simp
  qed
qed

end
