(* ===== verification/Worker_Messages.thy ===== *)
theory Worker_Messages
  imports Sqs
begin

text \<open>
  \<open>messages/node_job.rs\<close> of the worker: the job it receives, which has the shape the API sends
  (\<open>node_generation_job\<close>), how \<open>serde\<close> reads it, and the result of a job. The reading is
  shown to be the inverse of the writing of the API.
\<close>

subsection \<open>Node types\<close>

fun node_type_label :: "node_type \<Rightarrow> string" where
  "node_type_label KnowledgeT = ''Knowledge''"
| "node_type_label SkillT = ''Skill''"
| "node_type_label TraitT = ''Trait''"
| "node_type_label MilestoneT = ''Milestone''"

fun level_relationship :: "node_type \<Rightarrow> string" where
  "level_relationship KnowledgeT = ''REQUIRES_KNOWLEDGE''"
| "level_relationship SkillT = ''REQUIRES_SKILL''"
| "level_relationship TraitT = ''REQUIRES_TRAIT''"
| "level_relationship MilestoneT = ''REQUIRES_MILESTONE''"

subsection \<open>Reading a job\<close>

definition node_type_of_tag :: "string \<Rightarrow> node_type option" where
  "node_type_of_tag s =
     (if s = ''knowledge'' then Some KnowledgeT else if s = ''skill'' then Some SkillT
      else if s = ''trait'' then Some TraitT else if s = ''milestone'' then Some MilestoneT else None)"

definition de_node_type :: "json \<Rightarrow> node_type option" where
  \<comment> \<open>a variant without data: its tag, or an object with the tag and \<open>null\<close>\<close>
  "de_node_type v =
     (case v of JStr s \<Rightarrow> node_type_of_tag s | JObj [(k, JNull)] \<Rightarrow> node_type_of_tag k | _ \<Rightarrow> None)"

definition de_level_info :: "json \<Rightarrow> domain_level_info option" where
  "de_level_info v =
     Option.bind (de_field ''level'' (de_unsigned 8) v) (\<lambda>level.
     Option.bind (de_field ''name'' de_string v) (\<lambda>name.
     Option.bind (de_field ''element_id'' de_string v) (\<lambda>element_id.
     Some \<lparr>dli_level = level, dli_name = name, dli_element_id = element_id\<rparr>)))"

definition de_node_job :: "json \<Rightarrow> node_generation_job option" where
  "de_node_job v =
     Option.bind (de_field ''job_id'' de_string v) (\<lambda>job_id.
     Option.bind (de_field ''generation_id'' de_string v) (\<lambda>generation_id.
     Option.bind (de_field ''sequence_number'' (de_unsigned 32) v) (\<lambda>sequence_number.
     Option.bind (de_field ''total_nodes'' (de_unsigned 32) v) (\<lambda>total_nodes.
     Option.bind (de_field ''node_type'' de_node_type v) (\<lambda>node_type.
     Option.bind (de_field ''node_name'' de_string v) (\<lambda>node_name.
     Option.bind (de_field ''domain_name'' de_string v) (\<lambda>domain_name.
     Option.bind (de_option ''domain_description'' de_string v) (\<lambda>domain_description.
     Option.bind (de_field ''domain_element_id'' de_string v) (\<lambda>domain_element_id.
     Option.bind (de_field ''domain_levels'' (de_vec de_level_info) v) (\<lambda>domain_levels.
     Option.bind (de_option ''suggested_level'' (de_unsigned 8) v) (\<lambda>suggested_level.
     Option.bind (de_field ''created_at'' de_string v) (\<lambda>created_at.
     Option.bind (de_field ''retry_count'' (de_unsigned 32) v) (\<lambda>retry_count.
     Some \<lparr>job_id = job_id, job_generation_id = generation_id,
           job_sequence_number = sequence_number, job_total_nodes = total_nodes,
           job_node_type = node_type, job_node_name = node_name, job_domain_name = domain_name,
           job_domain_description = domain_description, job_domain_element_id = domain_element_id,
           job_domain_levels = domain_levels, job_suggested_level = suggested_level,
           job_created_at = created_at, job_retry_count = retry_count\<rparr>)))))))))))))"

definition worker_job_new ::
  "string \<Rightarrow> string \<Rightarrow> string \<Rightarrow> nat \<Rightarrow> nat \<Rightarrow> node_type \<Rightarrow> string \<Rightarrow> string \<Rightarrow> string option \<Rightarrow>
     string \<Rightarrow> domain_level_info list \<Rightarrow> nat option \<Rightarrow> node_generation_job" where
  \<comment> \<open>the first two arguments are what \<open>uuid\<close> and \<open>chrono\<close> give\<close>
  "worker_job_new uuid now generation_id sequence_number total_nodes node_type node_name domain_name
     domain_description domain_element_id domain_levels suggested_level =
     \<lparr>job_id = uuid, job_generation_id = generation_id, job_sequence_number = sequence_number,
      job_total_nodes = total_nodes, job_node_type = node_type, job_node_name = node_name,
      job_domain_name = domain_name, job_domain_description = domain_description,
      job_domain_element_id = domain_element_id, job_domain_levels = domain_levels,
      job_suggested_level = suggested_level, job_created_at = now, job_retry_count = 0\<rparr>"

definition get_suggested_level_info :: "node_generation_job \<Rightarrow> domain_level_info option" where
  "get_suggested_level_info j =
     Option.bind (job_suggested_level j) (\<lambda>level. find (\<lambda>l. dli_level l = level) (job_domain_levels j))"

subsection \<open>Results\<close>

record node_generation_result =
  res_job_id :: string
  res_element_id :: "string option"
  res_was_reused :: bool
  res_reused_node_id :: "string option"
  res_assigned_level :: "nat option"
  res_prerequisites_created :: nat
  res_error :: "string option"

definition result_success ::
  "string \<Rightarrow> string \<Rightarrow> bool \<Rightarrow> nat option \<Rightarrow> nat \<Rightarrow> node_generation_result" where
  "result_success job element_id was_reused assigned_level prerequisites_created =
     \<lparr>res_job_id = job, res_element_id = Some element_id, res_was_reused = was_reused,
      res_reused_node_id = (if was_reused then Some element_id else None),
      res_assigned_level = assigned_level, res_prerequisites_created = prerequisites_created,
      res_error = None\<rparr>"

definition result_reused :: "string \<Rightarrow> string \<Rightarrow> nat option \<Rightarrow> node_generation_result" where
  "result_reused job existing_node_id assigned_level =
     \<lparr>res_job_id = job, res_element_id = Some existing_node_id, res_was_reused = True,
      res_reused_node_id = Some existing_node_id, res_assigned_level = assigned_level,
      res_prerequisites_created = 0, res_error = None\<rparr>"

definition result_failure :: "string \<Rightarrow> string \<Rightarrow> node_generation_result" where
  "result_failure job error =
     \<lparr>res_job_id = job, res_element_id = None, res_was_reused = False, res_reused_node_id = None,
      res_assigned_level = None, res_prerequisites_created = 0, res_error = Some error\<rparr>"

text \<open>A result names a node or an error, never both, and a reused node is the node it names.\<close>

definition result_consistent :: "node_generation_result \<Rightarrow> bool" where
  "result_consistent r \<longleftrightarrow>
     (res_element_id r = None \<longleftrightarrow> res_error r \<noteq> None) \<and>
     (if res_was_reused r then res_reused_node_id r = res_element_id r \<and> res_error r = None
      else res_reused_node_id r = None)"

lemma result_constructors_consistent:
  "result_consistent (result_success j e b l n)"
  "result_consistent (result_reused j e l)"
  "result_consistent (result_failure j m)"
  by (simp_all add: result_consistent_def result_success_def result_reused_def result_failure_def)

lemma reused_is_success: "result_reused j e l = result_success j e True l 0"
  by (simp add: result_reused_def result_success_def)

subsection \<open>The job that arrives is the job that was sent\<close>

definition level_in_width :: "domain_level_info \<Rightarrow> bool" where
  "level_in_width l = (dli_level l < 2 ^ 8)"

definition job_in_width :: "node_generation_job \<Rightarrow> bool" where
  \<comment> \<open>the fields fit the Rust types \<open>u32\<close> and \<open>u8\<close>\<close>
  "job_in_width j \<longleftrightarrow>
     job_sequence_number j < 2 ^ 32 \<and> job_total_nodes j < 2 ^ 32 \<and> job_retry_count j < 2 ^ 32 \<and>
     (case job_suggested_level j of None \<Rightarrow> True | Some l \<Rightarrow> l < 2 ^ 8) \<and>
     list_all level_in_width (job_domain_levels j)"

lemma de_node_type_tag [simp]: "de_node_type (JStr (node_type_tag t)) = Some t"
  by (cases t) (simp_all add: de_node_type_def node_type_of_tag_def)

lemma de_level_info_json: "level_in_width l \<Longrightarrow> de_level_info (level_info_json l) = Some l"
  by (simp add: de_level_info_def level_info_json_def de_field_def json_nat_def de_unsigned_def
      level_in_width_def)

lemma de_levels_json:
  "list_all level_in_width ls \<Longrightarrow> de_vec de_level_info (JArr (map level_info_json ls)) = Some ls"
  by (induction ls) (auto simp: de_vec_def de_level_info_json)

lemma node_job_fields:
  "jget (node_job_json j) ''job_id'' = Some (JStr (job_id j))"
  "jget (node_job_json j) ''generation_id'' = Some (JStr (job_generation_id j))"
  "jget (node_job_json j) ''sequence_number'' = Some (json_nat (job_sequence_number j))"
  "jget (node_job_json j) ''total_nodes'' = Some (json_nat (job_total_nodes j))"
  "jget (node_job_json j) ''node_type'' = Some (JStr (node_type_tag (job_node_type j)))"
  "jget (node_job_json j) ''node_name'' = Some (JStr (job_node_name j))"
  "jget (node_job_json j) ''domain_name'' = Some (JStr (job_domain_name j))"
  "jget (node_job_json j) ''domain_description'' = Some (json_opt JStr (job_domain_description j))"
  "jget (node_job_json j) ''domain_element_id'' = Some (JStr (job_domain_element_id j))"
  "jget (node_job_json j) ''domain_levels'' = Some (JArr (map level_info_json (job_domain_levels j)))"
  "jget (node_job_json j) ''suggested_level'' = Some (json_opt json_nat (job_suggested_level j))"
  "jget (node_job_json j) ''created_at'' = Some (JStr (job_created_at j))"
  "jget (node_job_json j) ''retry_count'' = Some (json_nat (job_retry_count j))"
  by (simp_all add: node_job_json_def)

lemma de_unsigned_json_nat: "n < 2 ^ w \<Longrightarrow> de_unsigned w (json_nat n) = Some n"
  by (simp add: de_unsigned_def json_nat_def)

lemma de_option_string:
  "jget v k = Some (json_opt JStr x) \<Longrightarrow> de_option k de_string v = Some x"
  by (cases x) (simp_all add: de_option_def json_opt_def)

lemma de_option_unsigned:
  "jget v k = Some (json_opt json_nat x) \<Longrightarrow> (case x of None \<Rightarrow> True | Some n \<Rightarrow> n < 2 ^ w) \<Longrightarrow>
   de_option k (de_unsigned w) v = Some x"
  by (cases x) (simp_all add: de_option_def json_opt_def json_nat_def de_unsigned_def)

lemma node_job_eta:
  "\<lparr>job_id = job_id j, job_generation_id = job_generation_id j,
    job_sequence_number = job_sequence_number j, job_total_nodes = job_total_nodes j,
    job_node_type = job_node_type j, job_node_name = job_node_name j,
    job_domain_name = job_domain_name j, job_domain_description = job_domain_description j,
    job_domain_element_id = job_domain_element_id j, job_domain_levels = job_domain_levels j,
    job_suggested_level = job_suggested_level j, job_created_at = job_created_at j,
    job_retry_count = job_retry_count j\<rparr> = (j :: node_generation_job)"
  by (cases j) (simp only: node_generation_job.simps)

lemma node_job_round_trip:
  assumes "job_in_width j"
  shows "de_node_job (node_job_json j) = Some j"
proof -
  have w: "job_sequence_number j < 2 ^ 32" "job_total_nodes j < 2 ^ 32" "job_retry_count j < 2 ^ 32"
    "case job_suggested_level j of None \<Rightarrow> True | Some l \<Rightarrow> l < 2 ^ 8"
    "list_all level_in_width (job_domain_levels j)"
    using assms unfolding job_in_width_def by blast+
  show ?thesis
    unfolding de_node_job_def de_field_def node_job_fields Option.bind.bind_lunit de_string.simps
      de_node_type_tag de_unsigned_json_nat[OF w(1)] de_unsigned_json_nat[OF w(2)]
      de_unsigned_json_nat[OF w(3)] de_levels_json[OF w(5)]
      de_option_string[OF node_job_fields(8)] de_option_unsigned[OF node_job_fields(11) w(4)]
    by (simp only: node_job_eta)
qed

lemma node_job_json_inj:
  assumes "job_in_width i" and "job_in_width j" and "node_job_json i = node_job_json j"
  shows "i = j"
  by (metis assms node_job_round_trip option.inject)

text \<open>The same when the job has been written and read back as a \<open>Value\<close>.\<close>

lemma sorted_json_leaves [simp]:
  "sorted_json (json_nat n) = json_nat n"
  "sorted_json (json_opt JStr x) = json_opt JStr x"
  "sorted_json (json_opt json_nat y) = json_opt json_nat y"
  by (simp_all add: json_nat_def json_opt_def split: option.split)

lemma de_level_info_sorted:
  "level_in_width l \<Longrightarrow> de_level_info (sorted_json (level_info_json l)) = Some l"
  unfolding de_level_info_def level_info_json_def de_field_def
  by (simp add: jget_sorted_json de_unsigned_json_nat level_in_width_def del: sorted_json.simps(1))

lemma de_levels_sorted:
  "list_all level_in_width ls \<Longrightarrow>
     de_vec de_level_info (JArr (map (\<lambda>l. sorted_json (level_info_json l)) ls)) = Some ls"
  by (induction ls) (auto simp: de_vec_def de_level_info_sorted)

lemma jget_sorted_job:
  "jget (sorted_json (node_job_json j)) k = map_option sorted_json (jget (node_job_json j) k)"
  unfolding node_job_json_def by (simp add: jget_sorted_json del: sorted_json.simps(1))

lemma sorted_job_round_trip:
  assumes "job_in_width j"
  shows "de_node_job (sorted_json (node_job_json j)) = Some j"
proof -
  have w: "job_sequence_number j < 2 ^ 32" "job_total_nodes j < 2 ^ 32" "job_retry_count j < 2 ^ 32"
    "case job_suggested_level j of None \<Rightarrow> True | Some l \<Rightarrow> l < 2 ^ 8"
    "list_all level_in_width (job_domain_levels j)"
    using assms unfolding job_in_width_def by blast+
  let ?v = "sorted_json (node_job_json j)"
  have desc: "de_option ''domain_description'' de_string ?v = Some (job_domain_description j)"
    by (rule de_option_string) (simp add: jget_sorted_job node_job_fields)
  have level: "de_option ''suggested_level'' (de_unsigned 8) ?v = Some (job_suggested_level j)"
    by (rule de_option_unsigned [OF _ w(4)]) (simp add: jget_sorted_job node_job_fields)
  show ?thesis
    unfolding de_node_job_def de_field_def desc level jget_sorted_job node_job_fields
      option.map sorted_json.simps sorted_json_leaves list.map_comp comp_def
      Option.bind.bind_lunit de_string.simps
      de_node_type_tag de_unsigned_json_nat [OF w(1)] de_unsigned_json_nat [OF w(2)]
      de_unsigned_json_nat [OF w(3)] de_levels_sorted [OF w(5)]
    by (simp only: node_job_eta)
qed

lemma queued_job_decodes:
  assumes "job_in_width j"
    and "json_parse E' (json_print E (node_job_json j)) = Inr (sorted_json (node_job_json j))"
  shows "from_str E' de_node_job (json_print E (node_job_json j)) = Ok j"
  using assms sorted_job_round_trip
  by (simp add: from_str_def parse_value_def sum_outcome_def and_then_def ok_or_def)

end
