(* ===== verification/Worker_Common.thy ===== *)
theory Worker_Common
  imports Worker_Messages Fenced_Json
begin

text \<open>
  \<open>processors/common.rs\<close> of the worker and the error type of its \<open>handler.rs\<close>: the decision
  for a concept by similarity and by the LLM, the level of a node, the two relationships that are
  written, and the interface \<open>NodeProcessor\<close>.
\<close>

subsection \<open>Errors\<close>

datatype processing_error =
    PNeo4j string
  | PEmbedding string
  | PLlm string
  | PSimilarity string
  | PConfiguration string
  | PInvalidData string

fun processing_error_text :: "processing_error \<Rightarrow> string" where
  "processing_error_text (PNeo4j m) = ''Neo4j error: '' @ m"
| "processing_error_text (PEmbedding m) = ''Embedding error: '' @ m"
| "processing_error_text (PLlm m) = ''LLM error: '' @ m"
| "processing_error_text (PSimilarity m) = ''Similarity error: '' @ m"
| "processing_error_text (PConfiguration m) = ''Configuration error: '' @ m"
| "processing_error_text (PInvalidData m) = ''Invalid data: '' @ m"

fun is_retryable_error :: "processing_error \<Rightarrow> bool" where
  "is_retryable_error (PNeo4j _) = True"
| "is_retryable_error (PEmbedding _) = True"
| "is_retryable_error (PLlm _) = True"
| "is_retryable_error _ = False"

definition error_of_llm :: "llm_error \<Rightarrow> processing_error" where
  "error_of_llm e = PLlm (llm_error_text e)"

definition error_of_embedding :: "embedding_error \<Rightarrow> processing_error" where
  "error_of_embedding e = PEmbedding (embedding_error_text e)"

definition error_of_similarity :: "similarity_error \<Rightarrow> processing_error" where
  "error_of_similarity e = PSimilarity (similarity_error_text e)"

subsection \<open>Thresholds and decisions\<close>

record similarity_thresholds =
  auto_reuse :: f64
  auto_create :: f64

definition thresholds_standard :: similarity_thresholds where
  "thresholds_standard = \<lparr>auto_reuse = f64_0_95, auto_create = f64_0_70\<rparr>"

definition thresholds_trait_node :: similarity_thresholds where
  "thresholds_trait_node = \<lparr>auto_reuse = f64_0_85, auto_create = f64_0_65\<rparr>"

datatype concept_decision =
    DUseExisting string string  \<comment> \<open>element id and name\<close>
  | DCreateNew
  | DCreateAndGeneralize string string  \<comment> \<open>id and name of the target\<close>

record verification_response =
  vr_decision :: string
  vr_existing_node_name :: "string option"
  vr_suggested_target :: "string option"
  vr_reason :: "string option"

definition de_verification :: "json \<Rightarrow> verification_response option" where
  "de_verification v =
     Option.bind (de_field ''decision'' de_string v) (\<lambda>decision.
     Option.bind (de_option ''existing_node_name'' de_string v) (\<lambda>existing_node_name.
     Option.bind (de_option ''suggested_target'' de_string v) (\<lambda>suggested_target.
     Option.bind (de_option ''reason'' de_string v) (\<lambda>reason.
     Some \<lparr>vr_decision = decision, vr_existing_node_name = existing_node_name,
           vr_suggested_target = suggested_target, vr_reason = reason\<rparr>))))"

definition similar_bullet :: "similar_node \<Rightarrow> string" where
  "similar_bullet n =
     ''- '' @ sn_name n @ '' (score: '' @ f64_text_2 (sn_score n) @ ''): '' @
     (case sn_description n of Some d \<Rightarrow> d | None \<Rightarrow> ''No description'')"

definition verify_system_prompt :: string where
  "verify_system_prompt =
     text_lines
     [''You are an expert at semantic similarity analysis for a knowledge graph.'',
      ''Your task is to determine if a concept should reuse an existing node, create a new node,'',
      ''or create a domain-specific node that generalizes to an existing node.'',
      [],
      ''Respond with a JSON object containing:'',
      ''- \"decision\": one of \"use_existing\", \"create_new\", or \"create_and_generalize\"'',
      ''- \"existing_node_name\": if using existing or generalizing, the name of the existing node'',
      ''- \"reason\": brief explanation'',
      [],
      ''Guidelines:'',
      ''- \"use_existing\": The concept is semantically equivalent to an existing node'',
      ''- \"create_new\": The concept is distinct enough to warrant a new node'',
      ''- \"create_and_generalize\": The concept is domain-specific but has a more general equivalent'',
      ''  (e.g., \"Chess Tactics\" generalizes to \"Tactics\")'',
      [],
      ''IMPORTANT: Only respond with valid JSON, no other text.'']"

definition verify_user_prompt :: "string \<Rightarrow> string \<Rightarrow> string \<Rightarrow> string \<Rightarrow> string" where
  "verify_user_prompt domain_name node_label concept_name similar_list =
     text_lines
     [''Domain: '' @ domain_name,
      node_label @ '' concept: \"'' @ concept_name @ ''\"'',
      [],
      ''Similar existing nodes:'',
      similar_list,
      [],
      ''Should this concept reuse an existing node, be created as new, or generalize to an existing node?'']"

definition worker_gen_config :: "nat \<Rightarrow> f64 \<Rightarrow> worker_config" where
  "worker_gen_config max_tokens temperature = \<lparr>wc_max_tokens = max_tokens, wc_temperature = temperature\<rparr>"

definition worker_extract_json :: "string \<Rightarrow> string" where
  \<comment> \<open>the worker's own \<open>extract_json\<close>\<close>
  "worker_extract_json response =
     (let trimmed = trim response
      in if starts_with trimmed ''```json''
         then trim (trim_end_matches (trim_start_matches trimmed ''```json'') ''```'')
         else if starts_with trimmed ''```''
         then trim (trim_end_matches (trim_start_matches trimmed ''```'') ''```'')
         else trimmed)"

lemma worker_extract_json [simp]: "worker_extract_json = extract_json"
  by (rule ext) (simp add: worker_extract_json_def extract_json_def)

definition verify_with_llm ::
  "env \<Rightarrow> string \<Rightarrow> similar_node list \<Rightarrow> llm_service \<Rightarrow> string \<Rightarrow> string \<Rightarrow>
     (processing_error, verification_response) action" where
  "verify_with_llm E concept_name similar_nodes llm domain_name node_label =
     (let similar_list = join nl (map similar_bullet similar_nodes);
          user_prompt = verify_user_prompt domain_name node_label concept_name similar_list
      in bind (map_err error_of_llm
                 (worker_llm_generate E llm verify_system_prompt user_prompt
                    (worker_gen_config 512 f32_0_3))) (\<lambda>response.
         lift_outcome (map_err_outcome
           (\<lambda>e. PInvalidData (''Failed to parse LLM verification response: '' @ e @
                  ''. Response was: '' @ response))
           (from_str E de_verification (worker_extract_json response)))))"

definition decision_of_verification :: "similar_node list \<Rightarrow> verification_response \<Rightarrow> concept_decision" where
  \<comment> \<open>the \<open>match\<close> on the decision of the LLM\<close>
  "decision_of_verification similar_nodes verification =
     (if vr_decision verification = ''use_existing'' then
        (let existing =
               (case find (\<lambda>n. Some (sn_name n) = vr_existing_node_name verification) similar_nodes of
                  Some n \<Rightarrow> Some n | None \<Rightarrow> first_of similar_nodes)
         in case existing of
              Some node \<Rightarrow> DUseExisting (sn_id node) (sn_name node)
            | None \<Rightarrow> DCreateNew)
      else if vr_decision verification = ''create_and_generalize'' then
        (case (case vr_existing_node_name verification of
                 Some n \<Rightarrow> Some n | None \<Rightarrow> vr_suggested_target verification) of
           Some target_name \<Rightarrow>
             (case find (\<lambda>n. sn_name n = target_name) similar_nodes of
                Some target \<Rightarrow> DCreateAndGeneralize (sn_id target) (sn_name target)
              | None \<Rightarrow> DCreateNew)
         | None \<Rightarrow> DCreateNew)
      else DCreateNew)"

definition top_score :: "similar_node list \<Rightarrow> f64" where
  \<comment> \<open>\<open>similar_nodes.first().map(|n| n.score).unwrap_or(0.0)\<close>\<close>
  "top_score similar_nodes =
     (case first_of similar_nodes of Some n \<Rightarrow> sn_score n | None \<Rightarrow> f64_zero)"

definition auto_match :: "similarity_thresholds \<Rightarrow> similar_node list \<Rightarrow> similar_node option" where
  \<comment> \<open>the match that is reused without asking\<close>
  "auto_match thresholds similar_nodes =
     (case first_of similar_nodes of
        Some top_match \<Rightarrow>
          (if f64_ge (sn_score top_match) (auto_reuse thresholds) then Some top_match else None)
      | None \<Rightarrow> None)"

definition decide_concept_action ::
  "env \<Rightarrow> string \<Rightarrow> similar_node list \<Rightarrow> similarity_thresholds \<Rightarrow> llm_service \<Rightarrow> string \<Rightarrow> string \<Rightarrow>
     (processing_error, concept_decision) action" where
  "decide_concept_action E concept_name similar_nodes thresholds llm domain_name node_label =
     (case auto_match thresholds similar_nodes of
        Some top_match \<Rightarrow> ret (DUseExisting (sn_id top_match) (sn_name top_match))
      | None \<Rightarrow>
          (if f64_lt (top_score similar_nodes) (auto_create thresholds) then ret DCreateNew
           else bind (verify_with_llm E concept_name similar_nodes llm domain_name node_label)
                  (\<lambda>verification. ret (decision_of_verification similar_nodes verification))))"

definition determine_level :: "nat option \<Rightarrow> string \<Rightarrow> domain_level_info list \<Rightarrow> nat" where
  \<comment> \<open>\<open>suggested_level.unwrap_or(3).clamp(1, 5)\<close>\<close>
  "determine_level suggested_level node_name domain_levels =
     max 1 (min 5 (case suggested_level of Some l \<Rightarrow> l | None \<Rightarrow> 3))"

subsection \<open>Writing to the graph\<close>

record worker_node =
  wn_element_id :: string
  wn_name :: string

definition level_requirement_query :: "string \<Rightarrow> string \<Rightarrow> string \<Rightarrow> query" where
  "level_requirement_query level_element_id node_element_id relationship_type =
     \<lparr>q_text = text_lines
     [[],
      ''        MATCH (level) WHERE elementId(level) = $level_id'',
      ''        MATCH (node) WHERE elementId(node) = $node_id'',
      ''        CREATE (level)-[:'' @ relationship_type @ '']->(node)'',
      ''        ''],
      q_params = [(''level_id'', BStr level_element_id), (''node_id'', BStr node_element_id)]\<rparr>"

definition create_level_requirement ::
  "env \<Rightarrow> string \<Rightarrow> string \<Rightarrow> string \<Rightarrow> (processing_error, unit) action" where
  "create_level_requirement E level_element_id node_element_id relationship_type =
     map_err PNeo4j (graph_run E (level_requirement_query level_element_id node_element_id relationship_type))"

definition generalization_query :: "string \<Rightarrow> string \<Rightarrow> query" where
  "generalization_query source_element_id target_element_id =
     \<lparr>q_text = text_lines
     [[],
      ''        MATCH (source) WHERE elementId(source) = $source_id'',
      ''        MATCH (target) WHERE elementId(target) = $target_id'',
      ''        CREATE (source)-[:GENERALIZES_TO]->(target)'',
      ''        ''],
      q_params = [(''source_id'', BStr source_element_id), (''target_id'', BStr target_element_id)]\<rparr>"

definition create_generalization :: "env \<Rightarrow> string \<Rightarrow> string \<Rightarrow> (processing_error, unit) action" where
  "create_generalization E source_element_id target_element_id =
     map_err PNeo4j (graph_run E (generalization_query source_element_id target_element_id))"

subsection \<open>Facts about the decision\<close>

lemma determine_level_range: "1 \<le> determine_level s n ls \<and> determine_level s n ls \<le> 5"
  by (auto simp: determine_level_def)

lemma determine_level_suggestion: "1 \<le> l \<Longrightarrow> l \<le> 5 \<Longrightarrow> determine_level (Some l) n ls = l"
  by (simp add: determine_level_def)

definition from_candidates :: "similar_node list \<Rightarrow> concept_decision \<Rightarrow> bool" where
  \<comment> \<open>a decision only names nodes that the search has found\<close>
  "from_candidates similar_nodes d =
     (case d of
        DUseExisting i n \<Rightarrow> (\<exists>s \<in> set similar_nodes. sn_id s = i \<and> sn_name s = n)
      | DCreateNew \<Rightarrow> True
      | DCreateAndGeneralize i n \<Rightarrow> (\<exists>s \<in> set similar_nodes. sn_id s = i \<and> sn_name s = n))"

lemma verification_from_candidates: "from_candidates ns (decision_of_verification ns v)"
  unfolding decision_of_verification_def Let_def from_candidates_def
  by (auto dest: find_SomeD first_of_Some split: option.splits)

lemma auto_match_Some:
  "auto_match t ns = Some m \<longleftrightarrow> (\<exists>rest. ns = m # rest \<and> f64_ge (sn_score m) (auto_reuse t))"
  by (cases ns) (auto simp: auto_match_def)

lemma decide_from_candidates:
  "returns (decide_concept_action E c ns t llm d l) (from_candidates ns)"
  unfolding decide_concept_action_def
  by (auto simp: returns_ret auto_match_Some verification_from_candidates intro!: returns_bindI
      split: option.split) (auto simp: from_candidates_def)

lemma decide_without_llm:
  assumes "f64_ge (top_score ns) (auto_reuse t) \<and> ns \<noteq> [] \<or> f64_lt (top_score ns) (auto_create t)"
  shows "\<exists>d. decide_concept_action E c ns t llm dn l h = (Ok d, h)"
proof (cases "auto_match t ns")
  case (Some m)
  then show ?thesis by (simp add: decide_concept_action_def ret_def)
next
  case None
  then have "\<not> (f64_ge (top_score ns) (auto_reuse t) \<and> ns \<noteq> [])"
    by (cases ns) (auto simp: auto_match_def top_score_def split: if_splits)
  then show ?thesis using assms None by (auto simp: decide_concept_action_def ret_def)
qed

subsection \<open>The interface\<close>

fun worker_effect :: "effect \<Rightarrow> bool" where
  \<comment> \<open>a processor talks to the HTTP services and to the database only\<close>
  "worker_effect (Http r) = True"
| "worker_effect (DbExecute q) = True"
| "worker_effect (DbRun q) = True"
| "worker_effect _ = False"

lemma search_worker_effect: "search_effect f \<Longrightarrow> worker_effect f"
  by (cases f) auto

definition result_for :: "node_generation_job \<Rightarrow> node_generation_result \<Rightarrow> bool" where
  \<comment> \<open>what a result says of its job\<close>
  "result_for job r \<longleftrightarrow>
     res_job_id r = job_id job \<and> res_element_id r \<noteq> None \<and> res_error r = None \<and>
     result_consistent r \<and>
     res_assigned_level r =
       Some (determine_level (job_suggested_level job) (job_node_name job) (job_domain_levels job))"

text \<open>\<open>trait NodeProcessor\<close>: what the handler relies on.\<close>

locale node_processor =
  fixes process :: "node_generation_job \<Rightarrow> (processing_error, node_generation_result) action"
  assumes effects: "emits worker_effect (process job)"
    and safe: "no_panic (process job)"
    and result: "returns (process job) (result_for job)"
begin

lemma success: "process job h = (Ok r, h') \<Longrightarrow> result_for job r"
  using result by (rule returnsD)

lemma level_in_range:
  "process job h = (Ok r, h') \<Longrightarrow> \<exists>l. res_assigned_level r = Some l \<and> 1 \<le> l \<and> l \<le> 5"
  using success determine_level_range by (fastforce simp: result_for_def)

lemma appends: "process job h = (out, h') \<Longrightarrow> \<exists>u. h' = h @ u \<and> list_all worker_effect u"
  using effects by (auto elim: emitsE)

end

lemma emits_worker_parts [prog_rules]:
  "emits worker_effect (find_similar_by_text E t lb n)"
  "emits worker_effect (worker_generate_embedding E t)"
  "emits worker_effect (worker_llm_generate E llm s u wc)"
  "emits worker_effect (decide_concept_action E c ns th llm dn l)"
  "emits worker_effect (create_level_requirement E le ne ty)"
  "emits worker_effect (create_generalization E se te)"
proof -
  show "emits worker_effect (find_similar_by_text E t lb n)"
    unfolding find_similar_by_text_def
    by (rule emits_mono [OF emits_find_similar_nodes(2)]) (rule search_worker_effect)
  show "emits worker_effect (worker_generate_embedding E t)"
    by (rule emits_generate_embedding) simp
  show [prog_rules]: "emits worker_effect (worker_llm_generate E llm s u wc)" for s u wc
    by (rule worker_llm.generate_emits) simp
  show "emits worker_effect (decide_concept_action E c ns th llm dn l)"
    unfolding decide_concept_action_def verify_with_llm_def Let_def
    by (auto intro!: prog_rules split: option.split)
  show "emits worker_effect (create_level_requirement E le ne ty)"
    "emits worker_effect (create_generalization E se te)"
    unfolding create_level_requirement_def create_generalization_def by (auto intro!: prog_rules)
qed

lemma map_err_from_str_no_panic [simp]: "map_err_outcome f (from_str E de s) \<noteq> Panic"
  using from_str_no_panic[of E de s] by (cases "from_str E de s") auto

lemma no_panic_worker_parts [prog_rules]:
  "no_panic (find_similar_by_text E t lb n)"
  "no_panic (decide_concept_action E c ns th llm dn l)"
  "no_panic (create_level_requirement E le ne ty)"
  "no_panic (create_generalization E se te)"
  unfolding find_similar_by_text_def decide_concept_action_def verify_with_llm_def Let_def
    create_level_requirement_def create_generalization_def
  by (auto intro!: prog_rules worker_llm.generate_no_panic split: option.split)

end
