(* ===== verification/Worker_Processors.thy ===== *)
theory Worker_Processors
  imports Worker_Common
begin

text \<open>
  \<open>processors/knowledge.rs\<close>, \<open>skill.rs\<close>, \<open>trait_proc.rs\<close> and \<open>milestone.rs\<close> of the
  worker. Each processor asks the LLM for the properties of its node, writes the node, and links it
  to a level of the domain. Knowledge and skill nodes may reuse or generalise an existing node,
  trait nodes may reuse one, milestone nodes are always new. All four keep the contract
  \<open>node_processor\<close>.
\<close>

subsection \<open>Shared parts\<close>

definition description_context :: "string option \<Rightarrow> string" where
  "description_context domain_description =
     (case domain_description of Some d \<Rightarrow> nl @ ''Domain description: '' @ d | None \<Rightarrow> [])"

definition ask_properties ::
  "env \<Rightarrow> llm_service \<Rightarrow> string \<Rightarrow> string \<Rightarrow> nat \<Rightarrow> (json \<Rightarrow> 'p option) \<Rightarrow> string \<Rightarrow>
     (processing_error, 'p) action" where
  \<comment> \<open>from the call of the LLM to the parsed properties\<close>
  "ask_properties E llm system_prompt user_prompt max_tokens de what =
     bind (map_err error_of_llm
             (worker_llm_generate E llm system_prompt user_prompt
                (worker_gen_config max_tokens f32_0_7))) (\<lambda>response.
     lift_outcome (map_err_outcome
       (\<lambda>e. PInvalidData (''Failed to parse '' @ what @ '' properties: '' @ e @ ''. Response: '' @ response))
       (from_str E de (worker_extract_json response))))"

definition write_node ::
  "env \<Rightarrow> string \<Rightarrow> string \<Rightarrow> (string \<times> bolt) list \<Rightarrow> (processing_error, worker_node) action" where
  \<comment> \<open>embed the name, run the query of the processor, read the row it returns\<close>
  "write_node E name query_text params =
     bind (map_err error_of_embedding (worker_generate_embedding E name)) (\<lambda>embedding.
     bind (map_err PNeo4j (graph_execute E
             \<lparr>q_text = query_text,
              q_params = params @ [(''embedding'', BList (map BFloat embedding))]\<rparr>)) (\<lambda>result.
     bind (map_err PNeo4j (lift_outcome (next_row result))) (\<lambda>row.
     case row of
       Some r \<Rightarrow> ret \<lparr>wn_element_id = string_or_default r ''element_id'',
                       wn_name = string_or_default r ''name''\<rparr>
     | None \<Rightarrow> fail (PNeo4j ''No result returned''))))"

definition assign_level ::
  "env \<Rightarrow> node_generation_job \<Rightarrow> string \<Rightarrow> string \<Rightarrow> bool \<Rightarrow>
     (processing_error, node_generation_result) action" where
  \<comment> \<open>the last step: link the node to its level, if the job has a level of that number\<close>
  "assign_level E job relationship_type element_id was_reused =
     (let level = determine_level (job_suggested_level job) (job_node_name job) (job_domain_levels job)
      in bind (case find (\<lambda>l. dli_level l = level) (job_domain_levels job) of
                 Some level_info \<Rightarrow>
                   create_level_requirement E (dli_element_id level_info) element_id relationship_type
               | None \<Rightarrow> ret ()) (\<lambda>_.
         ret (result_success (job_id job) element_id was_reused (Some level) 0)))"

definition search_for_job ::
  "env \<Rightarrow> node_generation_job \<Rightarrow> string \<Rightarrow> (processing_error, similar_node list) action" where
  "search_for_job E job label =
     map_err error_of_similarity (find_similar_by_text E (job_node_name job) (Some label) 3)"

subsection \<open>Knowledge\<close>

record worker_knowledge =
  wk_name :: string
  wk_description :: string
  wk_how_to_learn :: string
  wk_remember_level :: string
  wk_understand_level :: string
  wk_apply_level :: string
  wk_analyze_level :: string
  wk_evaluate_level :: string
  wk_create_level :: string

definition de_worker_knowledge :: "json \<Rightarrow> worker_knowledge option" where
  "de_worker_knowledge v =
     Option.bind (de_field ''name'' de_string v) (\<lambda>name.
     Option.bind (de_field ''description'' de_string v) (\<lambda>description.
     Option.bind (de_field ''how_to_learn'' de_string v) (\<lambda>how_to_learn.
     Option.bind (de_field ''remember_level'' de_string v) (\<lambda>remember_level.
     Option.bind (de_field ''understand_level'' de_string v) (\<lambda>understand_level.
     Option.bind (de_field ''apply_level'' de_string v) (\<lambda>apply_level.
     Option.bind (de_field ''analyze_level'' de_string v) (\<lambda>analyze_level.
     Option.bind (de_field ''evaluate_level'' de_string v) (\<lambda>evaluate_level.
     Option.bind (de_field ''create_level'' de_string v) (\<lambda>create_level.
     Some \<lparr>wk_name = name,
           wk_description = description,
           wk_how_to_learn = how_to_learn,
           wk_remember_level = remember_level,
           wk_understand_level = understand_level,
           wk_apply_level = apply_level,
           wk_analyze_level = analyze_level,
           wk_evaluate_level = evaluate_level,
           wk_create_level = create_level\<rparr>)))))))))"

definition worker_knowledge_system_prompt :: string where
  "worker_knowledge_system_prompt =
     text_lines
     [''You are an expert at creating knowledge nodes for a personal development knowledge graph.'',
      ''Generate comprehensive properties for a Knowledge node following Bloom's Taxonomy levels.'',
      [],
      ''Respond with a JSON object containing:'',
      ''- \"name\": the knowledge concept name'',
      ''- \"description\": 1-2 sentence description of this knowledge'',
      ''- \"how_to_learn\": practical guidance on how to learn this knowledge'',
      ''- \"remember_level\": what someone at Remember level can do (recall facts, definitions)'',
      ''- \"understand_level\": what someone at Understand level can do (explain, summarize)'',
      ''- \"apply_level\": what someone at Apply level can do (use knowledge in situations)'',
      ''- \"analyze_level\": what someone at Analyze level can do (break down, compare)'',
      ''- \"evaluate_level\": what someone at Evaluate level can do (judge, critique)'',
      ''- \"create_level\": what someone at Create level can do (design, construct new things)'',
      [],
      ''IMPORTANT: Only respond with valid JSON, no other text.'']"

definition worker_knowledge_properties ::
  "env \<Rightarrow> llm_service \<Rightarrow> string \<Rightarrow> string \<Rightarrow> string option \<Rightarrow> (processing_error, worker_knowledge) action" where
  "worker_knowledge_properties E llm node_name domain_name domain_description =
     ask_properties E llm worker_knowledge_system_prompt
       (''Generate Knowledge node properties for:'' @ nl @ ''Domain: '' @ domain_name @
        description_context domain_description @ nl @ ''Knowledge concept: '' @ node_name)
       2048 de_worker_knowledge ''knowledge''"

definition worker_knowledge_query :: string where
  "worker_knowledge_query =
     text_lines
     [[],
      ''            CREATE (n:Knowledge {'',
      ''                name: $name,'',
      ''                description: $description,'',
      ''                how_to_learn: $how_to_learn,'',
      ''                remember_level: $remember_level,'',
      ''                understand_level: $understand_level,'',
      ''                apply_level: $apply_level,'',
      ''                analyze_level: $analyze_level,'',
      ''                evaluate_level: $evaluate_level,'',
      ''                create_level: $create_level,'',
      ''                embedding: $embedding'',
      ''            })'',
      ''            RETURN elementId(n) as element_id, n.name as name'',
      ''            '']"

definition worker_knowledge_params :: "worker_knowledge \<Rightarrow> (string \<times> bolt) list" where
  "worker_knowledge_params props =
     [(''name'', BStr (wk_name props)),
      (''description'', BStr (wk_description props)),
      (''how_to_learn'', BStr (wk_how_to_learn props)),
      (''remember_level'', BStr (wk_remember_level props)),
      (''understand_level'', BStr (wk_understand_level props)),
      (''apply_level'', BStr (wk_apply_level props)),
      (''analyze_level'', BStr (wk_analyze_level props)),
      (''evaluate_level'', BStr (wk_evaluate_level props)),
      (''create_level'', BStr (wk_create_level props))]"

definition worker_create_knowledge :: "env \<Rightarrow> worker_knowledge \<Rightarrow> (processing_error, worker_node) action" where
  "worker_create_knowledge E props = write_node E (wk_name props) worker_knowledge_query (worker_knowledge_params props)"

definition knowledge_act ::
  "env \<Rightarrow> llm_service \<Rightarrow> node_generation_job \<Rightarrow> concept_decision \<Rightarrow>
     (processing_error, string \<times> bool) action" where
  \<comment> \<open>the \<open>match\<close> on the decision: the node, and whether it was reused\<close>
  "knowledge_act E llm job decision =
     (case decision of
        DUseExisting element_id name \<Rightarrow> ret (element_id, True)
      | DCreateNew \<Rightarrow>
          bind (worker_knowledge_properties E llm (job_node_name job) (job_domain_name job)
                  (job_domain_description job)) (\<lambda>props.
          bind (worker_create_knowledge E props) (\<lambda>created.
          ret (wn_element_id created, False)))
      | DCreateAndGeneralize target_id target_name \<Rightarrow>
          bind (worker_knowledge_properties E llm (job_node_name job) (job_domain_name job)
                  (job_domain_description job)) (\<lambda>props.
          bind (worker_create_knowledge E props) (\<lambda>created.
          bind (create_generalization E (wn_element_id created) target_id) (\<lambda>_.
          ret (wn_element_id created, False)))))"

definition knowledge_process ::
  "env \<Rightarrow> llm_service \<Rightarrow> node_generation_job \<Rightarrow> (processing_error, node_generation_result) action" where
  "knowledge_process E llm job =
     bind (search_for_job E job ''Knowledge'') (\<lambda>similar_nodes.
     bind (decide_concept_action E (job_node_name job) similar_nodes thresholds_standard llm
             (job_domain_name job) ''Knowledge'') (\<lambda>decision.
     bind (knowledge_act E llm job decision) (\<lambda>(element_id, was_reused).
     assign_level E job ''REQUIRES_KNOWLEDGE'' element_id was_reused)))"

subsection \<open>Skill\<close>

record worker_skill =
  ws_name :: string
  ws_description :: string
  ws_how_to_develop :: string
  ws_novice_level :: string
  ws_advanced_beginner_level :: string
  ws_competent_level :: string
  ws_proficient_level :: string
  ws_expert_level :: string

definition de_worker_skill :: "json \<Rightarrow> worker_skill option" where
  "de_worker_skill v =
     Option.bind (de_field ''name'' de_string v) (\<lambda>name.
     Option.bind (de_field ''description'' de_string v) (\<lambda>description.
     Option.bind (de_field ''how_to_develop'' de_string v) (\<lambda>how_to_develop.
     Option.bind (de_field ''novice_level'' de_string v) (\<lambda>novice_level.
     Option.bind (de_field ''advanced_beginner_level'' de_string v) (\<lambda>advanced_beginner_level.
     Option.bind (de_field ''competent_level'' de_string v) (\<lambda>competent_level.
     Option.bind (de_field ''proficient_level'' de_string v) (\<lambda>proficient_level.
     Option.bind (de_field ''expert_level'' de_string v) (\<lambda>expert_level.
     Some \<lparr>ws_name = name,
           ws_description = description,
           ws_how_to_develop = how_to_develop,
           ws_novice_level = novice_level,
           ws_advanced_beginner_level = advanced_beginner_level,
           ws_competent_level = competent_level,
           ws_proficient_level = proficient_level,
           ws_expert_level = expert_level\<rparr>))))))))"

definition worker_skill_system_prompt :: string where
  "worker_skill_system_prompt =
     text_lines
     [''You are an expert at creating skill nodes for a personal development knowledge graph.'',
      ''Generate comprehensive properties for a Skill node following the Dreyfus Model of skill acquisition.'',
      [],
      ''Respond with a JSON object containing:'',
      ''- \"name\": the skill name'',
      ''- \"description\": 1-2 sentence description of this skill'',
      ''- \"how_to_develop\": practical guidance on how to develop this skill'',
      ''- \"novice_level\": what a Novice can do (follows rules rigidly, no context)'',
      ''- \"advanced_beginner_level\": what an Advanced Beginner can do (recognizes aspects, still rule-based)'',
      ''- \"competent_level\": what someone Competent can do (deliberate planning, handles complexity)'',
      ''- \"proficient_level\": what someone Proficient can do (holistic view, knows what's important)'',
      ''- \"expert_level\": what an Expert can do (intuitive, sees what's possible)'',
      [],
      ''IMPORTANT: Only respond with valid JSON, no other text.'']"

definition worker_skill_properties ::
  "env \<Rightarrow> llm_service \<Rightarrow> string \<Rightarrow> string \<Rightarrow> string option \<Rightarrow> (processing_error, worker_skill) action" where
  "worker_skill_properties E llm node_name domain_name domain_description =
     ask_properties E llm worker_skill_system_prompt
       (''Generate Skill node properties for:'' @ nl @ ''Domain: '' @ domain_name @
        description_context domain_description @ nl @ ''Skill: '' @ node_name)
       2048 de_worker_skill ''skill''"

definition worker_skill_query :: string where
  "worker_skill_query =
     text_lines
     [[],
      ''            CREATE (n:Skill {'',
      ''                name: $name,'',
      ''                description: $description,'',
      ''                how_to_develop: $how_to_develop,'',
      ''                novice_level: $novice_level,'',
      ''                advanced_beginner_level: $advanced_beginner_level,'',
      ''                competent_level: $competent_level,'',
      ''                proficient_level: $proficient_level,'',
      ''                expert_level: $expert_level,'',
      ''                embedding: $embedding'',
      ''            })'',
      ''            RETURN elementId(n) as element_id, n.name as name'',
      ''            '']"

definition worker_skill_params :: "worker_skill \<Rightarrow> (string \<times> bolt) list" where
  "worker_skill_params props =
     [(''name'', BStr (ws_name props)),
      (''description'', BStr (ws_description props)),
      (''how_to_develop'', BStr (ws_how_to_develop props)),
      (''novice_level'', BStr (ws_novice_level props)),
      (''advanced_beginner_level'', BStr (ws_advanced_beginner_level props)),
      (''competent_level'', BStr (ws_competent_level props)),
      (''proficient_level'', BStr (ws_proficient_level props)),
      (''expert_level'', BStr (ws_expert_level props))]"

definition worker_create_skill :: "env \<Rightarrow> worker_skill \<Rightarrow> (processing_error, worker_node) action" where
  "worker_create_skill E props = write_node E (ws_name props) worker_skill_query (worker_skill_params props)"

definition skill_act ::
  "env \<Rightarrow> llm_service \<Rightarrow> node_generation_job \<Rightarrow> concept_decision \<Rightarrow>
     (processing_error, string \<times> bool) action" where
  \<comment> \<open>the \<open>match\<close> on the decision: the node, and whether it was reused\<close>
  "skill_act E llm job decision =
     (case decision of
        DUseExisting element_id name \<Rightarrow> ret (element_id, True)
      | DCreateNew \<Rightarrow>
          bind (worker_skill_properties E llm (job_node_name job) (job_domain_name job)
                  (job_domain_description job)) (\<lambda>props.
          bind (worker_create_skill E props) (\<lambda>created.
          ret (wn_element_id created, False)))
      | DCreateAndGeneralize target_id target_name \<Rightarrow>
          bind (worker_skill_properties E llm (job_node_name job) (job_domain_name job)
                  (job_domain_description job)) (\<lambda>props.
          bind (worker_create_skill E props) (\<lambda>created.
          bind (create_generalization E (wn_element_id created) target_id) (\<lambda>_.
          ret (wn_element_id created, False)))))"

definition skill_process ::
  "env \<Rightarrow> llm_service \<Rightarrow> node_generation_job \<Rightarrow> (processing_error, node_generation_result) action" where
  "skill_process E llm job =
     bind (search_for_job E job ''Skill'') (\<lambda>similar_nodes.
     bind (decide_concept_action E (job_node_name job) similar_nodes thresholds_standard llm
             (job_domain_name job) ''Skill'') (\<lambda>decision.
     bind (skill_act E llm job decision) (\<lambda>(element_id, was_reused).
     assign_level E job ''REQUIRES_SKILL'' element_id was_reused)))"

subsection \<open>Trait\<close>

record worker_trait =
  wt_name :: string
  wt_description :: string
  wt_measurement_criteria :: string

definition de_worker_trait :: "json \<Rightarrow> worker_trait option" where
  "de_worker_trait v =
     Option.bind (de_field ''name'' de_string v) (\<lambda>name.
     Option.bind (de_field ''description'' de_string v) (\<lambda>description.
     Option.bind (de_field ''measurement_criteria'' de_string v) (\<lambda>measurement_criteria.
     Some \<lparr>wt_name = name,
           wt_description = description,
           wt_measurement_criteria = measurement_criteria\<rparr>)))"

definition worker_trait_system_prompt :: string where
  "worker_trait_system_prompt =
     text_lines
     [''You are an expert at creating trait nodes for a personal development knowledge graph.'',
      ''Generate properties for a Trait node (personality characteristic or behavioral tendency).'',
      [],
      ''Respond with a JSON object containing:'',
      ''- \"name\": the trait name'',
      ''- \"description\": 1-2 sentence description of this trait'',
      ''- \"measurement_criteria\": how to measure or assess this trait (specific, observable behaviors)'',
      [],
      ''IMPORTANT: Only respond with valid JSON, no other text.'']"

definition worker_trait_properties ::
  "env \<Rightarrow> llm_service \<Rightarrow> string \<Rightarrow> string \<Rightarrow> string option \<Rightarrow> (processing_error, worker_trait) action" where
  "worker_trait_properties E llm node_name domain_name domain_description =
     ask_properties E llm worker_trait_system_prompt
       (''Generate Trait node properties for:'' @ nl @ ''Domain: '' @ domain_name @
        description_context domain_description @ nl @ ''Trait: '' @ node_name)
       1024 de_worker_trait ''trait''"

definition worker_trait_query :: string where
  "worker_trait_query =
     text_lines
     [[],
      ''            CREATE (n:Trait {'',
      ''                name: $name,'',
      ''                description: $description,'',
      ''                measurement_criteria: $measurement_criteria,'',
      ''                embedding: $embedding'',
      ''            })'',
      ''            RETURN elementId(n) as element_id, n.name as name'',
      ''            '']"

definition worker_trait_params :: "worker_trait \<Rightarrow> (string \<times> bolt) list" where
  "worker_trait_params props =
     [(''name'', BStr (wt_name props)),
      (''description'', BStr (wt_description props)),
      (''measurement_criteria'', BStr (wt_measurement_criteria props))]"

definition worker_create_trait :: "env \<Rightarrow> worker_trait \<Rightarrow> (processing_error, worker_node) action" where
  "worker_create_trait E props = write_node E (wt_name props) worker_trait_query (worker_trait_params props)"

definition trait_act ::
  "env \<Rightarrow> llm_service \<Rightarrow> node_generation_job \<Rightarrow> concept_decision \<Rightarrow>
     (processing_error, string \<times> bool) action" where
  \<comment> \<open>the \<open>match\<close> on the decision: the node, and whether it was reused\<close>
  "trait_act E llm job decision =
     (case decision of
        DUseExisting element_id name \<Rightarrow> ret (element_id, True)
      | DCreateNew \<Rightarrow>
          bind (worker_trait_properties E llm (job_node_name job) (job_domain_name job)
                  (job_domain_description job)) (\<lambda>props.
          bind (worker_create_trait E props) (\<lambda>created.
          ret (wn_element_id created, False)))
      | DCreateAndGeneralize target_id target_name \<Rightarrow>
          bind (worker_trait_properties E llm (job_node_name job) (job_domain_name job)
                  (job_domain_description job)) (\<lambda>props.
          bind (worker_create_trait E props) (\<lambda>created.
          ret (wn_element_id created, False))))"

definition trait_process ::
  "env \<Rightarrow> llm_service \<Rightarrow> node_generation_job \<Rightarrow> (processing_error, node_generation_result) action" where
  "trait_process E llm job =
     bind (search_for_job E job ''Trait'') (\<lambda>similar_nodes.
     bind (decide_concept_action E (job_node_name job) similar_nodes thresholds_trait_node llm
             (job_domain_name job) ''Trait'') (\<lambda>decision.
     bind (trait_act E llm job decision) (\<lambda>(element_id, was_reused).
     assign_level E job ''REQUIRES_TRAIT'' element_id was_reused)))"

subsection \<open>Milestone\<close>

record worker_milestone =
  wm_name :: string
  wm_description :: string
  wm_how_to_achieve :: string

definition de_worker_milestone :: "json \<Rightarrow> worker_milestone option" where
  "de_worker_milestone v =
     Option.bind (de_field ''name'' de_string v) (\<lambda>name.
     Option.bind (de_field ''description'' de_string v) (\<lambda>description.
     Option.bind (de_field ''how_to_achieve'' de_string v) (\<lambda>how_to_achieve.
     Some \<lparr>wm_name = name,
           wm_description = description,
           wm_how_to_achieve = how_to_achieve\<rparr>)))"

definition worker_milestone_system_prompt :: string where
  "worker_milestone_system_prompt =
     text_lines
     [''You are an expert at creating milestone nodes for a personal development knowledge graph.'',
      ''Generate properties for a Milestone node (an achievement or accomplishment in the domain).'',
      [],
      ''Respond with a JSON object containing:'',
      ''- \"name\": the milestone name'',
      ''- \"description\": 1-2 sentence description of this milestone achievement'',
      ''- \"how_to_achieve\": practical steps to achieve this milestone'',
      [],
      ''IMPORTANT: Only respond with valid JSON, no other text.'']"

definition worker_milestone_properties ::
  "env \<Rightarrow> llm_service \<Rightarrow> string \<Rightarrow> string \<Rightarrow> string option \<Rightarrow> (processing_error, worker_milestone) action" where
  "worker_milestone_properties E llm node_name domain_name domain_description =
     ask_properties E llm worker_milestone_system_prompt
       (''Generate Milestone node properties for:'' @ nl @ ''Domain: '' @ domain_name @
        description_context domain_description @ nl @ ''Milestone: '' @ node_name)
       1024 de_worker_milestone ''milestone''"

definition worker_milestone_query :: string where
  "worker_milestone_query =
     text_lines
     [[],
      ''            CREATE (n:Milestone {'',
      ''                name: $name,'',
      ''                description: $description,'',
      ''                how_to_achieve: $how_to_achieve,'',
      ''                embedding: $embedding'',
      ''            })'',
      ''            RETURN elementId(n) as element_id, n.name as name'',
      ''            '']"

definition worker_milestone_params :: "worker_milestone \<Rightarrow> (string \<times> bolt) list" where
  "worker_milestone_params props =
     [(''name'', BStr (wm_name props)),
      (''description'', BStr (wm_description props)),
      (''how_to_achieve'', BStr (wm_how_to_achieve props))]"

definition worker_create_milestone :: "env \<Rightarrow> worker_milestone \<Rightarrow> (processing_error, worker_node) action" where
  "worker_create_milestone E props = write_node E (wm_name props) worker_milestone_query (worker_milestone_params props)"

definition milestone_process ::
  "env \<Rightarrow> llm_service \<Rightarrow> node_generation_job \<Rightarrow> (processing_error, node_generation_result) action" where
  "milestone_process E llm job =
     bind (worker_milestone_properties E llm (job_node_name job) (job_domain_name job)
             (job_domain_description job)) (\<lambda>props.
     bind (worker_create_milestone E props) (\<lambda>created.
     assign_level E job ''REQUIRES_MILESTONE'' (wn_element_id created) False))"

subsection \<open>The contract\<close>

lemma emits_processor_parts [prog_rules]:
  "emits worker_effect (ask_properties E llm s u n de w)"
  "emits worker_effect (write_node E nm q ps)"
  "emits worker_effect (assign_level E job ty el b)"
  "emits worker_effect (search_for_job E job lb)"
  unfolding ask_properties_def write_node_def assign_level_def search_for_job_def Let_def
  by (auto intro!: prog_rules split: option.split)

lemma no_panic_processor_parts [prog_rules]:
  "no_panic (ask_properties E llm s u n de w)"
  "no_panic (write_node E nm q ps)"
  "no_panic (assign_level E job ty el b)"
  "no_panic (search_for_job E job lb)"
proof -
  have "next_row s \<noteq> Panic" for s by (auto simp: next_row_def split: list.split sum.split)
  then show "no_panic (write_node E nm q ps)"
    unfolding write_node_def by (auto intro!: prog_rules split: option.split)
qed (auto simp: ask_properties_def assign_level_def search_for_job_def Let_def
    intro!: prog_rules worker_llm.generate_no_panic split: option.split)

lemma assign_level_result: "returns (assign_level E job ty el b) (result_for job)"
  unfolding assign_level_def Let_def
  by (intro returns_bindI)
    (simp add: returns_ret result_for_def result_success_def result_consistent_def)

lemmas processor_defs =
  knowledge_process_def skill_process_def trait_process_def milestone_process_def
  knowledge_act_def skill_act_def trait_act_def
  worker_knowledge_properties_def worker_skill_properties_def worker_trait_properties_def
  worker_milestone_properties_def worker_create_knowledge_def worker_create_skill_def
  worker_create_trait_def worker_create_milestone_def

interpretation knowledge_processor: node_processor "knowledge_process E llm"
proof
  show "emits worker_effect (knowledge_process E llm job)" "no_panic (knowledge_process E llm job)" for job
    unfolding processor_defs case_prod_beta by (auto intro!: prog_rules split: concept_decision.split)
  show "returns (knowledge_process E llm job) (result_for job)" for job
    unfolding knowledge_process_def case_prod_beta by (intro returns_bindI assign_level_result)
qed

interpretation skill_processor: node_processor "skill_process E llm"
proof
  show "emits worker_effect (skill_process E llm job)" "no_panic (skill_process E llm job)" for job
    unfolding processor_defs case_prod_beta by (auto intro!: prog_rules split: concept_decision.split)
  show "returns (skill_process E llm job) (result_for job)" for job
    unfolding skill_process_def case_prod_beta by (intro returns_bindI assign_level_result)
qed

interpretation trait_processor: node_processor "trait_process E llm"
proof
  show "emits worker_effect (trait_process E llm job)" "no_panic (trait_process E llm job)" for job
    unfolding processor_defs case_prod_beta by (auto intro!: prog_rules split: concept_decision.split)
  show "returns (trait_process E llm job) (result_for job)" for job
    unfolding trait_process_def case_prod_beta by (intro returns_bindI assign_level_result)
qed

interpretation milestone_processor: node_processor "milestone_process E llm"
proof
  show "emits worker_effect (milestone_process E llm job)" "no_panic (milestone_process E llm job)" for job
    unfolding processor_defs by (auto intro!: prog_rules)
  show "returns (milestone_process E llm job) (result_for job)" for job
    unfolding milestone_process_def by (intro returns_bindI assign_level_result)
qed

subsection \<open>What the processors write\<close>

text \<open>A reused node costs no node: apart from the link to the level, nothing is written.\<close>

lemma knowledge_reuse_writes_nothing:
  assumes "search_for_job E job ''Knowledge'' h = (Ok (m # rest), h1)"
    and "f64_ge (sn_score m) (auto_reuse thresholds_standard)"
  shows "knowledge_process E llm job h = assign_level E job ''REQUIRES_KNOWLEDGE'' (sn_id m) True h1"
  using assms
  by (simp add: knowledge_process_def bind_def decide_concept_action_def auto_match_def
      knowledge_act_def ret_def)

text \<open>A milestone whose link fails has already been written; its job fails with a retryable error.\<close>

lemma milestone_link_fails_after_create:
  assumes "worker_milestone_properties E llm (job_node_name job) (job_domain_name job)
             (job_domain_description job) h = (Ok props, h1)"
    and "worker_create_milestone E props h1 = (Ok created, h2)"
    and "find (\<lambda>l. dli_level l = determine_level (job_suggested_level job) (job_node_name job)
             (job_domain_levels job)) (job_domain_levels job) = Some info"
    and "db_run E h2 (level_requirement_query (dli_element_id info) (wn_element_id created)
             ''REQUIRES_MILESTONE'') = Some m"
  shows "\<exists>h3. milestone_process E llm job h = (Err (PNeo4j m), h3) \<and> prefix h2 h3"
  using assms
  by (simp add: milestone_process_def bind_def assign_level_def Let_def create_level_requirement_def
      map_err_def call_runs)

lemma write_node_creates:
  assumes "write_node E nm q ps h = (Ok n, h')"
  shows "\<exists>emb u. h' = h @ u @ [DbExecute \<lparr>q_text = q, q_params = ps @ [(''embedding'', BList (map BFloat emb))]\<rparr>] \<and>
           list_all is_http u"
  using assms unfolding write_node_def
proof (elim bind_OkE)
  fix emb h1 s h2 r h3
  assume 1: "map_err error_of_embedding (worker_generate_embedding E nm) h = (Ok emb, h1)"
    and 2: "map_err PNeo4j (graph_execute E \<lparr>q_text = q, q_params = ps @ [(''embedding'', BList (map BFloat emb))]\<rparr>) h1 = (Ok s, h2)"
    and 3: "map_err PNeo4j (lift_outcome (next_row s)) h2 = (Ok r, h3)"
    and 4: "(case r of None \<Rightarrow> fail (PNeo4j ''No result returned'')
             | Some r \<Rightarrow> ret \<lparr>wn_element_id = string_or_default r ''element_id'', wn_name = string_or_default r ''name''\<rparr>) h3 =
            (Ok n, h')"
  have "worker_generate_embedding E nm h = (Ok emb, h1)" using 1 by (simp add: map_err_eq_Ok)
  moreover have "emits is_http (worker_generate_embedding E nm)"
    by (rule emits_generate_embedding) simp
  ultimately obtain u where "h1 = h @ u" "list_all is_http u" by (blast elim: emitsE)
  moreover have "h2 = h1 @ [DbExecute \<lparr>q_text = q, q_params = ps @ [(''embedding'', BList (map BFloat emb))]\<rparr>]"
    using 2 by (simp add: map_err_eq_Ok call_runs)
  moreover have "h3 = h2" "h' = h3"
    using 3 4 by (auto simp: map_err_eq_Ok lift_outcome_eq_Ok ret_eq_Ok fail_not_Ok split: option.splits)
  ultimately show ?thesis by auto
qed

end
