(* ===== verification/Worker_Handler.thy ===== *)
theory Worker_Handler
  imports Worker_Processors
begin

text \<open>
  \<open>handler.rs\<close>, \<open>config.rs\<close> and \<open>main.rs\<close> of the worker: the batch of SQS records that
  one invocation of the Lambda function receives. An invocation that returns \<open>Ok\<close> makes SQS
  delete every message of the batch, one that returns an error makes it deliver all of them again.

  \<open>Graph::new\<close> is not under src/: it is the argument \<open>connect\<close>, which gives the text of the
  error, if any. The Lambda runtime calls \<open>handle_sqs_event\<close>.
\<close>

subsection \<open>Configuration\<close>

record config =
  cfg_neo4j_uri :: string
  cfg_neo4j_user :: string
  cfg_neo4j_password :: string
  cfg_embedding_endpoint :: string
  cfg_llm_endpoint :: "string option"
  cfg_anthropic_api_key :: "string option"
  cfg_queue_url :: string

definition required_var :: "env \<Rightarrow> string \<Rightarrow> (string, string) outcome" where
  \<comment> \<open>\<open>env::var(v).map_err(|_| ConfigError::MissingVar(v))\<close>; the error is the variable\<close>
  "required_var E v = ok_or v (env_var E v)"

definition config_error_text :: "string \<Rightarrow> string" where
  "config_error_text v = ''Missing required environment variable: '' @ v"

definition config_from_env :: "env \<Rightarrow> (string, config) outcome" where
  "config_from_env E =
     and_then (required_var E ''NEO4J_URI'') (\<lambda>uri.
     and_then (required_var E ''NEO4J_USER'') (\<lambda>user.
     and_then (required_var E ''NEO4J_PASSWORD'') (\<lambda>password.
     and_then (required_var E ''EMBEDDING_ENDPOINT'') (\<lambda>embedding_endpoint.
     and_then (required_var E ''QUEUE_URL'') (\<lambda>queue_url.
     Ok \<lparr>cfg_neo4j_uri = uri, cfg_neo4j_user = user, cfg_neo4j_password = password,
         cfg_embedding_endpoint = embedding_endpoint, cfg_llm_endpoint = env_var E ''LLM_ENDPOINT'',
         cfg_anthropic_api_key = env_var E ''ANTHROPIC_API_KEY'', cfg_queue_url = queue_url\<rparr>)))))"

subsection \<open>One job\<close>

definition process_job ::
  "env \<Rightarrow> llm_service option \<Rightarrow> node_generation_job \<Rightarrow> (processing_error, node_generation_result) action" where
  "process_job E llm_service job =
     (case llm_service of
        None \<Rightarrow> fail (PConfiguration ''LLM service not configured (missing ANTHROPIC_API_KEY)'')
      | Some llm \<Rightarrow>
          (case job_node_type job of
             KnowledgeT \<Rightarrow> knowledge_process E llm job
           | SkillT \<Rightarrow> skill_process E llm job
           | TraitT \<Rightarrow> trait_process E llm job
           | MilestoneT \<Rightarrow> milestone_process E llm job))"

definition settle ::
  "(node_generation_job \<Rightarrow> (processing_error, node_generation_result) action) \<Rightarrow>
     node_generation_job \<Rightarrow> (string, unit) action" where
  \<comment> \<open>the \<open>match result\<close>: only a retryable error ends the invocation\<close>
  "settle process job =
     on_result (process job) (\<lambda>gen_result. ret ())
       (\<lambda>e. if is_retryable_error e then fail (''Retryable error: '' @ processing_error_text e) else ret ())"

definition handle_record :: "env \<Rightarrow> llm_service option \<Rightarrow> unit \<Rightarrow> string option \<Rightarrow> (string, unit) action" where
  \<comment> \<open>the body of the loop over the records; a record is the body of its message\<close>
  "handle_record E llm u record_body =
     (case record_body of
        None \<Rightarrow> ret ()
      | Some body \<Rightarrow>
          (case from_str E de_node_job body of
             Ok job \<Rightarrow> settle (process_job E llm) job
           | _ \<Rightarrow> ret ()))"

subsection \<open>The batch\<close>

definition create_graph_connection ::
  "(string \<Rightarrow> string \<Rightarrow> string \<Rightarrow> string option) \<Rightarrow> config \<Rightarrow> (string, unit) outcome" where
  "create_graph_connection connect cfg =
     (case connect (cfg_neo4j_uri cfg) (cfg_neo4j_user cfg) (cfg_neo4j_password cfg) of
        Some e \<Rightarrow> Err (''Failed to connect to Neo4j: '' @ e) | None \<Rightarrow> Ok ())"

definition create_llm_service :: "env \<Rightarrow> config \<Rightarrow> (string, llm_service option) outcome" where
  \<comment> \<open>\<open>config.anthropic_api_key.as_ref().map(|key| LlmService::new(key.clone()))\<close>\<close>
  "create_llm_service E cfg =
     (case cfg_anthropic_api_key cfg of
        None \<Rightarrow> Ok None
      | Some key \<Rightarrow> and_then (LlmService_new E key) (\<lambda>llm. Ok (Some llm)))"

definition handle_sqs_event ::
  "env \<Rightarrow> (string \<Rightarrow> string \<Rightarrow> string \<Rightarrow> string option) \<Rightarrow> string option list \<Rightarrow> config \<Rightarrow>
     (string, unit) action" where
  "handle_sqs_event E connect records cfg =
     (if records = [] then ret ()
      else bind (lift_outcome (create_graph_connection connect cfg)) (\<lambda>_.
           bind (lift_outcome (create_llm_service E cfg)) (\<lambda>llm_service.
           fold_prog (handle_record E llm_service) () records)))"

subsection \<open>The dispatcher is a processor\<close>

interpretation job_processor: node_processor "process_job E llm"
proof
  show "emits worker_effect (process_job E llm job)" for job
    unfolding process_job_def
    by (auto intro!: prog_rules knowledge_processor.effects skill_processor.effects
        trait_processor.effects milestone_processor.effects split: option.split node_type.split)
  show "no_panic (process_job E llm job)" for job
    unfolding process_job_def
    by (auto intro!: prog_rules knowledge_processor.safe skill_processor.safe
        trait_processor.safe milestone_processor.safe split: option.split node_type.split)
  show "returns (process_job E llm job) (result_for job)" for job
    unfolding process_job_def
    by (auto simp: knowledge_processor.result skill_processor.result trait_processor.result
        milestone_processor.result split: option.split node_type.split)
qed

context node_processor
begin

lemma settle_no_panic: "no_panic (settle process job)"
  unfolding settle_def by (intro prog_rules safe)

lemma settle_effects: "emits worker_effect (settle process job)"
  unfolding settle_def by (intro prog_rules effects)

lemma settle_Err_iff:
  "settle process job h = (Err m, h') \<longleftrightarrow>
     (\<exists>e. process job h = (Err e, h') \<and> is_retryable_error e \<and>
          m = ''Retryable error: '' @ processing_error_text e)"
  by (auto simp: settle_def on_result_eq_Err ret_def fail_def)

lemma settle_Ok_iff:
  "settle process job h = (Ok (), h') \<longleftrightarrow>
     (\<exists>r. process job h = (Ok r, h')) \<or> (\<exists>e. process job h = (Err e, h') \<and> \<not> is_retryable_error e)"
  by (auto simp: settle_def on_result_eq_Ok ret_def fail_def)

end

subsection \<open>What an invocation does\<close>

lemma no_panic_handle_record [prog_rules]: "no_panic (handle_record E llm u r)"
  unfolding handle_record_def
  by (auto intro!: prog_rules job_processor.settle_no_panic split: option.split outcome.split)

lemma emits_handle_record [prog_rules]: "emits worker_effect (handle_record E llm u r)"
  unfolding handle_record_def
  by (auto intro!: prog_rules job_processor.settle_effects split: option.split outcome.split)

lemma create_graph_connection_no_panic: "create_graph_connection connect cfg \<noteq> Panic"
  by (simp add: create_graph_connection_def split: option.split)

lemma create_llm_service_cases:
  "create_llm_service E cfg = Panic \<longleftrightarrow> cfg_anthropic_api_key cfg \<noteq> None \<and> client_error E \<noteq> None"
  "create_llm_service E cfg \<noteq> Err e"
  by (auto simp: create_llm_service_def LlmService_new_def split: option.split)

lemma handle_sqs_event_runs:
  assumes "records \<noteq> []" and "create_graph_connection connect cfg = Ok ()"
  shows "handle_sqs_event E connect records cfg h =
    (case create_llm_service E cfg of
       Ok llm \<Rightarrow> fold_prog (handle_record E llm) () records h | Err e \<Rightarrow> (Err e, h) | Panic \<Rightarrow> (Panic, h))"
  using assms by (simp add: handle_sqs_event_def bind_def lift_outcome_def split: outcome.split)

text \<open>The only panic of an invocation: the HTTP client of the LLM service cannot be built.\<close>

lemma handle_sqs_event_Panic_iff:
  assumes "handle_sqs_event E connect records cfg h = (r, h')"
  shows "r = Panic \<longleftrightarrow> records \<noteq> [] \<and> create_graph_connection connect cfg = Ok () \<and>
    cfg_anthropic_api_key cfg \<noteq> None \<and> client_error E \<noteq> None"
proof (cases "records \<noteq> [] \<and> create_graph_connection connect cfg = Ok ()")
  case True
  have "no_panic (fold_prog (handle_record E llm) () records)" for llm by (intro prog_rules)
  then have "fold_prog (handle_record E llm) () records h \<noteq> (Panic, k)" for llm k
    unfolding no_panic_iff by blast
  then show ?thesis
    using assms True create_llm_service_cases [of E cfg]
    by (cases "create_llm_service E cfg") (auto simp: handle_sqs_event_runs)
next
  case False
  then show ?thesis
    using assms create_graph_connection_no_panic [of connect cfg]
    by (cases "create_graph_connection connect cfg")
      (auto simp: handle_sqs_event_def bind_def lift_outcome_def ret_def split: if_splits)
qed

lemma emits_handle_sqs_event: "emits worker_effect (handle_sqs_event E connect records cfg)"
  unfolding handle_sqs_event_def by (intro prog_rules)

text \<open>The records are taken in order, up to the first whose job fails with a retryable error; the
  ones after it are not looked at.\<close>

lemma fold_unit_Err_iff:
  fixes f :: "unit \<Rightarrow> 'x \<Rightarrow> ('f, 'e, unit) prog"
  shows "fold_prog f () xs h = (Err e, h') \<longleftrightarrow>
    (\<exists>pre x post h1. xs = pre @ x # post \<and> fold_prog f () pre h = (Ok (), h1) \<and> f () x h1 = (Err e, h'))"
proof (induction xs arbitrary: h)
  case Nil
  then show ?case by (simp add: ret_def)
next
  case (Cons y xs)
  have "fold_prog f () (y # xs) h = (Err e, h') \<longleftrightarrow>
      f () y h = (Err e, h') \<or> (\<exists>h1. f () y h = (Ok (), h1) \<and> fold_prog f () xs h1 = (Err e, h'))"
    by (simp add: bind_eq_Err)
  also have "\<dots> \<longleftrightarrow> (\<exists>pre x post h1. y # xs = pre @ x # post \<and>
      fold_prog f () pre h = (Ok (), h1) \<and> f () x h1 = (Err e, h'))"
    (is "?L \<longleftrightarrow> ?R")
  proof
    assume ?L
    then show ?R
    proof
      assume "f () y h = (Err e, h')"
      then show ?R by (intro exI[of _ "[]"]) (auto simp: ret_def)
    next
      assume "\<exists>h1. f () y h = (Ok (), h1) \<and> fold_prog f () xs h1 = (Err e, h')"
      then obtain h1 pre x post h2 where "f () y h = (Ok (), h1)" "xs = pre @ x # post"
        "fold_prog f () pre h1 = (Ok (), h2)" "f () x h2 = (Err e, h')"
        using Cons.IH by blast
      then show ?R by (intro exI[of _ "y # pre"]) (auto simp: bind_def)
    qed
  next
    assume ?R
    then obtain pre x post h1 where r: "y # xs = pre @ x # post"
      "fold_prog f () pre h = (Ok (), h1)" "f () x h1 = (Err e, h')" by blast
    show ?L
    proof (cases pre)
      case Nil
      with r show ?thesis by (simp add: ret_def)
    next
      case (Cons z zs)
      with r obtain h2 where "f () y h = (Ok (), h2)" "fold_prog f () zs h2 = (Ok (), h1)" "xs = zs @ x # post"
        by (auto simp: bind_eq_Ok)
      with r Cons.IH show ?thesis by blast
    qed
  qed
  finally show ?case .
qed

lemma handle_record_Err_iff:
  "handle_record E llm u r h = (Err m, h') \<longleftrightarrow>
     (\<exists>body job e. r = Some body \<and> from_str E de_node_job body = Ok job \<and>
        process_job E llm job h = (Err e, h') \<and> is_retryable_error e \<and>
        m = ''Retryable error: '' @ processing_error_text e)"
  by (auto simp: handle_record_def job_processor.settle_Err_iff ret_def
      split: option.splits outcome.splits)

lemma handle_batch_Err_iff:
  assumes "records \<noteq> []" and "create_graph_connection connect cfg = Ok ()"
  shows "handle_sqs_event E connect records cfg h = (Err m, h') \<longleftrightarrow>
    (\<exists>llm done body todo h1 job e. create_llm_service E cfg = Ok llm \<and> records = done @ Some body # todo \<and>
       fold_prog (handle_record E llm) () done h = (Ok (), h1) \<and>
       from_str E de_node_job body = Ok job \<and> process_job E llm job h1 = (Err e, h') \<and>
       is_retryable_error e \<and> m = ''Retryable error: '' @ processing_error_text e)"
proof -
  have "handle_sqs_event E connect records cfg h = (Err m, h') \<longleftrightarrow>
      (\<exists>llm. create_llm_service E cfg = Ok llm \<and> fold_prog (handle_record E llm) () records h = (Err m, h'))"
    using create_llm_service_cases(2) [of E cfg]
    by (cases "create_llm_service E cfg") (simp_all add: handle_sqs_event_runs [OF assms])
  then show ?thesis
    by (auto simp: fold_unit_Err_iff handle_record_Err_iff) blast+
qed

text \<open>A batch is acknowledged exactly when every one of its records was settled, one after the other.\<close>

definition settled ::
  "env \<Rightarrow> llm_service option \<Rightarrow> string option \<Rightarrow> effect list \<Rightarrow> effect list \<Rightarrow> bool" where
  \<comment> \<open>the record took the history from \<open>h1\<close> to \<open>h2\<close>: nothing to do, or a job that ended for good\<close>
  "settled E llm b h1 h2 \<longleftrightarrow>
     (case b of
        None \<Rightarrow> h2 = h1
      | Some body \<Rightarrow>
          (case from_str E de_node_job body of
             Ok job \<Rightarrow>
               (\<exists>r. process_job E llm job h1 = (Ok r, h2)) \<or>
               (\<exists>e. process_job E llm job h1 = (Err e, h2) \<and> \<not> is_retryable_error e)
           | _ \<Rightarrow> h2 = h1))"

lemma handle_record_Ok_iff: "handle_record E llm u b h1 = (Ok (), h2) \<longleftrightarrow> settled E llm b h1 h2"
  by (auto simp: handle_record_def settled_def job_processor.settle_Ok_iff ret_def
      split: option.split outcome.split)

lemma fold_unit_Ok_iff:
  fixes f :: "unit \<Rightarrow> 'x \<Rightarrow> ('f, 'e, unit) prog"
  shows "fold_prog f () xs h = (Ok (), h') \<longleftrightarrow>
    (\<exists>hs. length hs = Suc (length xs) \<and> hs ! 0 = h \<and> last hs = h' \<and>
       (\<forall>i<length xs. f () (xs ! i) (hs ! i) = (Ok (), hs ! Suc i)))"
proof (induction xs arbitrary: h)
  case Nil
  show ?case by (auto simp: ret_def length_Suc_conv intro!: exI [of _ "[h]"])
next
  case (Cons x xs)
  let ?P = "\<lambda>h xs hs. length hs = Suc (length xs) \<and> hs ! 0 = h \<and> last hs = h' \<and>
       (\<forall>i<length xs. f () (xs ! i) (hs ! i) = (Ok (), hs ! Suc i))"
  have nonempty: "(\<exists>hs. R hs) \<longleftrightarrow> (\<exists>k hs. R (k # hs))" if "\<not> R []" for R :: "'f list list \<Rightarrow> bool"
    using that by (metis neq_Nil_conv)
  have step: "?P h (x # xs) (k # hs) \<longleftrightarrow> k = h \<and> f () x h = (Ok (), hs ! 0) \<and> ?P (hs ! 0) xs hs" for k hs
    by (cases hs) (auto simp: nth_Cons' All_less_Suc2)
  have "fold_prog f () (x # xs) h = (Ok (), h') \<longleftrightarrow>
      (\<exists>h1. f () x h = (Ok (), h1) \<and> (\<exists>hs. ?P h1 xs hs))"
    by (simp add: bind_eq_Ok Cons.IH)
  also have "\<dots> \<longleftrightarrow> (\<exists>k hs. ?P h (x # xs) (k # hs))"
    unfolding step by blast
  also have "\<dots> \<longleftrightarrow> (\<exists>hs. ?P h (x # xs) hs)"
    by (rule nonempty [symmetric]) simp
  finally show ?case .
qed

lemma handle_batch_Ok_iff:
  assumes "records \<noteq> []" and "create_graph_connection connect cfg = Ok ()"
  shows "handle_sqs_event E connect records cfg h = (Ok (), h') \<longleftrightarrow>
    (\<exists>llm hs. create_llm_service E cfg = Ok llm \<and> length hs = Suc (length records) \<and>
       hs ! 0 = h \<and> last hs = h' \<and> (\<forall>i<length records. settled E llm (records ! i) (hs ! i) (hs ! Suc i)))"
  by (cases "create_llm_service E cfg")
    (simp_all add: handle_sqs_event_runs [OF assms] fold_unit_Ok_iff handle_record_Ok_iff)

text \<open>Without an API key every job of the batch is dropped, and the batch acknowledged.\<close>

lemma handle_record_without_key: "handle_record E None u r h = (Ok (), h)"
  by (simp add: handle_record_def settle_def process_job_def on_result_def fail_def ret_def
      split: option.split outcome.split)

lemma handle_batch_without_key:
  assumes "create_graph_connection connect cfg = Ok ()" and "cfg_anthropic_api_key cfg = None"
  shows "handle_sqs_event E connect records cfg h = (Ok (), h)"
proof -
  have "fold_prog (handle_record E None) () rs h = (Ok (), h)" for rs
    by (induction rs) (simp_all add: ret_def bind_def handle_record_without_key)
  then show ?thesis
    using assms by (simp add: handle_sqs_event_def create_llm_service_def bind_def lift_outcome_def ret_def)
qed

text \<open>An error of the similarity search is not retried, whatever caused it.\<close>

lemma search_failure_dropped:
  assumes "job_node_type job = KnowledgeT"
    and "search_for_job E job ''Knowledge'' h = (Err e, h')"
  shows "settle (process_job E (Some llm)) job h = (Ok (), h')"
proof -
  obtain s where "e = PSimilarity s"
    using assms(2) by (auto simp: search_for_job_def map_err_eq_Err error_of_similarity_def)
  then show ?thesis
    using assms by (simp add: settle_def process_job_def knowledge_process_def on_result_def bind_def ret_def)
qed

text \<open>The same failure of the embedding endpoint, when a node is written, is retried.\<close>

lemma write_embedding_failure_retryable:
  assumes "worker_generate_embedding E nm h = (Err e, h')"
  shows "\<exists>p. write_node E nm q ps h = (Err p, h') \<and> is_retryable_error p"
  using assms by (simp add: write_node_def bind_def map_err_def error_of_embedding_def)

end
