(* ===== verification/Auth.thy ===== *)
theory Auth
  imports Graph_Handlers
begin

text \<open>
  \<open>domains/auth\<close>: logging in, signing up, the JSON web tokens and the middleware that checks
  them. Hashing (\<open>argon2\<close>) and the tokens themselves (\<open>jsonwebtoken\<close>) are not under src/:
  they are the fields of the record \<open>crypto\<close>, a parameter \<open>C\<close>. The salt is read from the
  random source, the time of a check from the clock.
\<close>

subsection \<open>Models\<close>

record login_request =
  log_username :: string
  log_password :: string

record sign_up_request =
  sup_username :: string
  sup_password :: string
  sup_phone :: string

record jwt_claims =
  claim_sub :: string
  claim_exp :: nat
  claim_iat :: nat
  claim_iss :: string

record crypto =
  pw_hash :: "string \<Rightarrow> string \<Rightarrow> string option"
    \<comment> \<open>the salt's random bytes and the password; \<open>None\<close> is an error\<close>
  pw_verify :: "string \<Rightarrow> string \<Rightarrow> bool option"  \<comment> \<open>the password and the stored hash\<close>
  jwt_encode :: "string \<Rightarrow> jwt_claims \<Rightarrow> string option"  \<comment> \<open>HS256 with this secret\<close>
  jwt_decode :: "nat option \<Rightarrow> string \<Rightarrow> string \<Rightarrow> jwt_claims option"
    \<comment> \<open>the clock, the secret and the token; \<open>None\<close> when a check of HS256's default
      \<open>Validation\<close> fails\<close>
  base64 :: "string \<Rightarrow> string"

definition login_valid :: "login_request \<Rightarrow> bool" where
  "login_valid r \<longleftrightarrow> 1 \<le> char_count (log_username r) \<and> 1 \<le> char_count (log_password r)"

definition sign_up_valid :: "sign_up_request \<Rightarrow> bool" where
  "sign_up_valid r \<longleftrightarrow>
     1 \<le> char_count (sup_username r) \<and> 1 \<le> char_count (sup_password r) \<and> 1 \<le> char_count (sup_phone r)"

subsection \<open>Services\<close>

definition hash_password :: "env \<Rightarrow> crypto \<Rightarrow> string \<Rightarrow> (string, string) action" where
  "hash_password E C password =
     bind (read_random E) (\<lambda>salt.
     lift_outcome (ok_or ''hash'' (pw_hash C salt password)))"

definition verify_password :: "crypto \<Rightarrow> string \<Rightarrow> string \<Rightarrow> bool option" where
  \<comment> \<open>a mismatch is \<open>Some False\<close>, any other error \<open>None\<close>\<close>
  "verify_password C password hash = pw_verify C password hash"

definition jwt_secret :: "env \<Rightarrow> string" where
  "jwt_secret E = (case env_var E ''JWT_SECRET'' of Some s \<Rightarrow> s | None \<Rightarrow> ''your-secret-key'')"

definition claims_for :: "string \<Rightarrow> nat \<Rightarrow> jwt_claims" where
  "claims_for username now =
     \<lparr>claim_sub = username, claim_exp = (now + 24 * 60 * 60) mod 2 ^ 64, claim_iat = now,
      claim_iss = username\<rparr>"

definition generate_token :: "env \<Rightarrow> crypto \<Rightarrow> string \<Rightarrow> (string, string) action" where
  \<comment> \<open>a clock before the epoch panics: \<open>expect("Time went backwards")\<close>\<close>
  "generate_token E C username =
     bind (read_clock E) (\<lambda>t.
     case t of
       None \<Rightarrow> lift_outcome Panic
     | Some ns \<Rightarrow>
         lift_outcome (ok_or ''token''
           (jwt_encode C (jwt_secret E) (claims_for username (ns div 1000000000)))))"

definition generate_random_key :: "env \<Rightarrow> crypto \<Rightarrow> ('e, string) action" where
  "generate_random_key E C = bind (read_random E) (\<lambda>key. ret (base64 C key))"

subsection \<open>Handlers\<close>

definition healthcheck :: json where
  "healthcheck = JStr ''ok''"

definition auth_error :: "nat \<Rightarrow> string \<Rightarrow> api_error" where
  "auth_error status m = (status, JObj [(''error'', JStr m)])"

definition server_error :: api_error where
  "server_error = auth_error INTERNAL_SERVER_ERROR ''internal server error''"

definition auth_rows :: "env \<Rightarrow> query \<Rightarrow> (api_error, row list) action" where
  \<comment> \<open>run a query and collect its rows; every error is a 500\<close>
  "auth_rows E q =
     bind (map_err (\<lambda>e. server_error) (graph_execute E q)) (\<lambda>result.
     lift_outcome (map_err_outcome (\<lambda>e. server_error) (all_rows result)))"

definition token_response :: "string \<Rightarrow> json" where
  "token_response token = JObj [(''token'', JStr token)]"

definition login_query :: "login_request \<Rightarrow> query" where
  "login_query r =
     \<lparr>q_text = ''MATCH (n:Person) WHERE n.username = $username RETURN n.password'',
      q_params = [(''username'', BStr (log_username r))]\<rparr>"

definition issue_token :: "env \<Rightarrow> crypto \<Rightarrow> string \<Rightarrow> (api_error, json) action" where
  \<comment> \<open>the \<open>match generate_token(...)\<close> of both handlers\<close>
  "issue_token E C username =
     bind (map_err (\<lambda>e. server_error) (generate_token E C username)) (\<lambda>token. ret (token_response token))"

definition login_answer ::
  "env \<Rightarrow> crypto \<Rightarrow> login_request \<Rightarrow> row list \<Rightarrow> (api_error, json) action" where
  \<comment> \<open>from the rows on\<close>
  "login_answer E C r rows =
     (case rows of
        [row] \<Rightarrow>
          (case col_string row ''n.password'' of
             None \<Rightarrow> fail server_error
           | Some stored_password \<Rightarrow>
               (case verify_password C (log_password r) stored_password of
                  Some True \<Rightarrow> issue_token E C (log_username r)
                | Some False \<Rightarrow> fail (auth_error UNAUTHORIZED ''invalid username or password'')
                | None \<Rightarrow> fail server_error))
      | _ \<Rightarrow> fail (auth_error UNAUTHORIZED ''Username and password combo not found!''))"

definition login :: "env \<Rightarrow> crypto \<Rightarrow> login_request \<Rightarrow> (api_error, json) action" where
  "login E C r =
     (if \<not> login_valid r then fail (auth_error BAD_REQUEST ''invalid request'')
      else bind (auth_rows E (login_query r)) (login_answer E C r))"

definition existing_person_query :: "sign_up_request \<Rightarrow> query" where
  "existing_person_query r =
     \<lparr>q_text = ''MATCH (n:Person) WHERE n.phone = $phone OR n.username = $username RETURN n'',
      q_params = [(''username'', BStr (sup_username r)), (''phone'', BStr (sup_phone r))]\<rparr>"

definition create_person_query :: "sign_up_request \<Rightarrow> string \<Rightarrow> query" where
  "create_person_query r hashed_password =
     \<lparr>q_text = ''CREATE (p:Person:L3 { username: $username, password: $password, phone: $phone })'',
      q_params = [(''username'', BStr (sup_username r)), (''password'', BStr hashed_password),
                  (''phone'', BStr (sup_phone r))]\<rparr>"

definition signup :: "env \<Rightarrow> crypto \<Rightarrow> sign_up_request \<Rightarrow> (api_error, json) action" where
  "signup E C r =
     (if \<not> sign_up_valid r then fail (auth_error BAD_REQUEST ''invalid request'')
      else bind (auth_rows E (existing_person_query r)) (\<lambda>rows.
        if rows \<noteq> []
        then fail (auth_error NOT_ACCEPTABLE ''Username or phone number already exists!'')
        else bind (map_err (\<lambda>e. server_error) (hash_password E C (sup_password r))) (\<lambda>hashed_password.
             bind (map_err (\<lambda>e. server_error) (graph_run E (create_person_query r hashed_password))) (\<lambda>_.
             issue_token E C (sup_username r)))))"

subsection \<open>The middleware\<close>

definition bearer_token :: "string option \<Rightarrow> string option" where
  \<comment> \<open>the header, if it is there and readable; the part after \<open>Bearer\<close>\<close>
  "bearer_token auth_header =
     Option.bind auth_header (\<lambda>auth.
       if starts_with auth ''Bearer ''
       then Some (case strip_prefix auth ''Bearer '' of Some t \<Rightarrow> t | None \<Rightarrow> [])
       else None)"

definition jwt_auth_middleware ::
  "env \<Rightarrow> crypto \<Rightarrow> string option \<Rightarrow> (api_error, 'a) action \<Rightarrow> (api_error, 'a) action" where
  \<comment> \<open>\<open>next\<close> is the handler behind it; a refusal has no body\<close>
  "jwt_auth_middleware E C auth_header next =
     (case bearer_token auth_header of
        None \<Rightarrow> fail (UNAUTHORIZED, JNull)
      | Some token \<Rightarrow>
          bind (read_clock E) (\<lambda>now.
          case jwt_decode C now (jwt_secret E) token of
            Some token_data \<Rightarrow> next
          | None \<Rightarrow> fail (UNAUTHORIZED, JNull)))"

subsection \<open>Facts\<close>

lemma auth_rows_run:
  "auth_rows E q h = (case db_execute E h q of
      Inl e \<Rightarrow> Err server_error | Inr s \<Rightarrow> map_err_outcome (\<lambda>e. server_error) (all_rows s),
      h @ [DbExecute q])"
  by (auto simp: auth_rows_def bind_def map_err_def call_runs lift_outcome_def sum_outcome_def split: sum.split)

lemma auth_rows_Ok: "auth_rows E q h = (Ok rows, h') \<longleftrightarrow>
    db_execute E h q = Inr (map Inr rows) \<and> h' = h @ [DbExecute q]"
proof -
  have conv: "map_err_outcome f r = Ok x \<longleftrightarrow> r = Ok x" for f :: "string \<Rightarrow> api_error" and r and x :: "row list"
    by (cases r) auto
  show ?thesis by (auto simp: auth_rows_run conv all_rows_Ok_iff split: sum.splits)
qed

text \<open>A login answers with a token only to somebody whose password fits the one stored hash.\<close>

lemma issue_token_Ok:
  "issue_token E C username h = (Ok j, h') \<longleftrightarrow>
     (\<exists>ns token. unix_nanos E h = Some ns \<and> h' = h @ [ReadClock] \<and>
        jwt_encode C (jwt_secret E) (claims_for username (ns div 1000000000)) = Some token \<and>
        j = token_response token)"
  by (auto simp: issue_token_def generate_token_def bind_eq_Ok map_err_eq_Ok lift_outcome_eq_Ok
      ret_eq_Ok call_runs split: option.splits)

lemma login_answer_Ok:
  "login_answer E C r rows h = (Ok j, h') \<longleftrightarrow>
     (\<exists>row stored. rows = [row] \<and> col_string row ''n.password'' = Some stored \<and>
        verify_password C (log_password r) stored = Some True \<and>
        issue_token E C (log_username r) h = (Ok j, h'))"
proof (cases rows)
  case Nil
  then show ?thesis by (simp add: login_answer_def fail_def)
next
  case (Cons row rest)
  show ?thesis
  proof (cases rest)
    case Nil
    with Cons show ?thesis
      by (auto simp: login_answer_def fail_not_Ok split: option.splits bool.splits)
  next
    case (Cons x xs)
    with \<open>rows = row # rest\<close> show ?thesis by (simp add: login_answer_def fail_def)
  qed
qed

lemma login_Ok_iff:
  "login E C r h = (Ok j, h') \<longleftrightarrow>
     login_valid r \<and>
     (\<exists>row stored. db_execute E h (login_query r) = Inr [Inr row] \<and>
        col_string row ''n.password'' = Some stored \<and>
        verify_password C (log_password r) stored = Some True \<and>
        issue_token E C (log_username r) (h @ [DbExecute (login_query r)]) = (Ok j, h'))"
proof (cases "login_valid r")
  case True
  then have "login E C r h = (Ok j, h') \<longleftrightarrow>
      (\<exists>rows. db_execute E h (login_query r) = Inr (map Inr rows) \<and>
         login_answer E C r rows (h @ [DbExecute (login_query r)]) = (Ok j, h'))"
    by (auto simp: login_def bind_eq_Ok auth_rows_Ok)
  moreover have "(\<exists>rows. A = Inr (map Inr rows) \<and> (\<exists>row stored. rows = [row] \<and> B row stored)) \<longleftrightarrow>
      (\<exists>row stored. A = Inr [Inr row] \<and> B row stored)"
    for A :: "string + (string + row) list" and B :: "row \<Rightarrow> string \<Rightarrow> bool"
    by (metis list.simps(8) list.simps(9))
  ultimately show ?thesis using True unfolding login_answer_Ok by (simp add: conj_assoc)
qed (simp add: login_def fail_def)

lemma signup_existing:
  assumes "sign_up_valid r" and "db_execute E h (existing_person_query r) = Inr (map Inr rows)"
    and "rows \<noteq> []"
  shows "signup E C r h =
    (Err (auth_error NOT_ACCEPTABLE ''Username or phone number already exists!''),
     h @ [DbExecute (existing_person_query r)])"
proof -
  have "auth_rows E (existing_person_query r) h = (Ok rows, h @ [DbExecute (existing_person_query r)])"
    using assms(2) by (simp add: auth_rows_Ok)
  then show ?thesis using assms by (simp add: signup_def bind_def fail_def)
qed

lemma signup_Ok:
  assumes "signup E C r h = (Ok j, h')"
  shows "\<exists>hashed. pw_hash C (random_bytes E (h @ [DbExecute (existing_person_query r)])) (sup_password r) = Some hashed \<and>
    db_execute E h (existing_person_query r) = Inr [] \<and>
    h' = h @ [DbExecute (existing_person_query r), ReadRandom,
              DbRun (create_person_query r hashed), ReadClock]"
  using assms
  by (auto simp: signup_def bind_eq_Ok auth_rows_Ok fail_not_Ok map_err_eq_Ok hash_password_def
      call_runs lift_outcome_eq_Ok issue_token_Ok split: if_splits)

lemma middleware_passes_iff:
  "(\<exists>t c. bearer_token auth = Some t \<and> jwt_decode C (unix_nanos E h) (jwt_secret E) t = Some c) \<longleftrightarrow>
   (\<forall>(next :: (api_error, 'a) action). jwt_auth_middleware E C auth next h = next (h @ [ReadClock]))"
    (is "?L \<longleftrightarrow> ?R")
proof
  show "?L \<Longrightarrow> ?R" by (auto simp: jwt_auth_middleware_def bind_def call_runs)
next
  assume r: ?R
  show ?L
  proof (rule ccontr)
    assume "\<not> ?L"
    then have err: "fst (jwt_auth_middleware E C auth m h) = Err (UNAUTHORIZED, JNull)"
      for m :: "(api_error, 'a) action"
      by (auto simp: jwt_auth_middleware_def bind_def call_runs fail_def split: option.splits)
    have "fst (fail (0, JNull) (h @ [ReadClock]) :: (api_error, 'a) outcome \<times> effect list) = Err (UNAUTHORIZED, JNull)"
      using r err by metis
    then show False by (simp add: fail_def UNAUTHORIZED_def)
  qed
qed

lemma middleware_refuses:
  assumes "\<And>t. bearer_token auth = Some t \<Longrightarrow> jwt_decode C (unix_nanos E h) (jwt_secret E) t = None"
  shows "\<exists>u. jwt_auth_middleware E C auth nxt h = (Err (UNAUTHORIZED, JNull), h @ u) \<and> set u \<subseteq> {ReadClock}"
proof (cases "bearer_token auth")
  case None
  then show ?thesis by (intro exI[of _ "[]"]) (simp add: jwt_auth_middleware_def fail_def)
next
  case (Some t)
  then show ?thesis
    using assms[OF Some]
    by (intro exI[of _ "[ReadClock]"]) (simp add: jwt_auth_middleware_def bind_def call_runs fail_def)
qed

lemma bearer_token_of: "bearer_token (Some (''Bearer '' @ t)) = Some t"
  by (simp add: bearer_token_def starts_with_def strip_prefix_def)

text \<open>The documented behaviour of \<open>jsonwebtoken\<close>: a token decodes to what it was made from, with
  the same secret, until a minute (the default leeway) after it has expired.\<close>

definition jwt_round_trip :: "crypto \<Rightarrow> bool" where
  "jwt_round_trip C \<longleftrightarrow>
     (\<forall>secret claims token ns. jwt_encode C secret claims = Some token \<longrightarrow>
        ns div 1000000000 \<le> claim_exp claims + 60 \<longrightarrow>
        jwt_decode C (Some ns) secret token = Some claims)"

lemma issued_token_accepted:
  assumes law: "jwt_round_trip C"
    and "issue_token E C username h = (Ok j, h1)" and "unix_nanos E h = Some t0"
    and "unix_nanos E h2 = Some t" and "t div 1000000000 \<le> t0 div 1000000000 + 24 * 60 * 60"
    and "t0 div 1000000000 + 24 * 60 * 60 < 2 ^ 64"
  shows "\<exists>token. j = token_response token \<and>
    jwt_auth_middleware E C (Some (''Bearer '' @ token)) next h2 = next (h2 @ [ReadClock])"
proof -
  from assms(2,3) obtain token where
    tok: "jwt_encode C (jwt_secret E) (claims_for username (t0 div 1000000000)) = Some token"
      "j = token_response token"
    by (auto simp: issue_token_Ok)
  have "claim_exp (claims_for username (t0 div 1000000000)) = t0 div 1000000000 + 24 * 60 * 60"
    using assms(6) by (simp add: claims_for_def)
  then have "jwt_decode C (Some t) (jwt_secret E) token = Some (claims_for username (t0 div 1000000000))"
    using law tok(1) assms(5) unfolding jwt_round_trip_def by (metis trans_le_add1)
  then have "jwt_auth_middleware E C (Some (''Bearer '' @ token)) next h2 = next (h2 @ [ReadClock])"
    unfolding jwt_auth_middleware_def bearer_token_of using assms(4) by (simp add: bind_def call_runs)
  with tok(2) show ?thesis by blast
qed

end
