(* ===== verification/App_Config.thy ===== *)
theory App_Config
  imports World
begin

text \<open>
  \<open>config/mod.rs\<close> and the settings of \<open>main.rs\<close>: the configuration of the API from the
  environment. The static \<open>CONFIG\<close>, a \<open>OnceLock\<close>, is a state that is passed along: it is
  written once and keeps its first value.
\<close>

record app_config =
  ac_neo4j_uri :: string
  ac_neo4j_user :: string
  ac_neo4j_password :: string
  ac_neo4j_database :: string
  ac_server_port :: nat
  ac_allowed_origin :: string
  ac_jwt_secret :: string
  ac_aws_region :: string
  ac_s3_bucket :: "string option"
  ac_embedding_endpoint :: string
  ac_llm_endpoint :: "string option"
  ac_image_gen_endpoint :: "string option"
  ac_image_gen_api_key :: "string option"

definition var_or :: "env \<Rightarrow> string \<Rightarrow> string \<Rightarrow> string" where
  "var_or E v d = (case env_var E v of Some s \<Rightarrow> s | None \<Rightarrow> d)"

definition required :: "env \<Rightarrow> string \<Rightarrow> (string, string) outcome" where
  "required E v = ok_or (v @ '' environment variable not set'') (env_var E v)"

definition parse_port :: "env \<Rightarrow> nat" where
  "parse_port E = (case parse_u16 (var_or E ''SERVER_PORT'' ''8000'') of Some p \<Rightarrow> p | None \<Rightarrow> 8000)"

definition read_config :: "env \<Rightarrow> (string, app_config) outcome" where
  "read_config E =
     and_then (required E ''ALLOWED_ORIGIN'') (\<lambda>allowed_origin.
     and_then (required E ''EMBEDDING_ENDPOINT'') (\<lambda>embedding_endpoint.
     Ok \<lparr>ac_neo4j_uri = var_or E ''NEO4J_URI'' ''127.0.0.1:7687'',
         ac_neo4j_user = var_or E ''NEO4J_USER'' ''neo4j'',
         ac_neo4j_password = var_or E ''NEO4J_PASSWORD'' ''neo4j'',
         ac_neo4j_database = var_or E ''NEO4J_DATABASE'' ''neo4j'',
         ac_server_port = parse_port E, ac_allowed_origin = allowed_origin,
         ac_jwt_secret = var_or E ''JWT_SECRET'' ''your-secret-key'',
         ac_aws_region = var_or E ''AWS_REGION'' ''us-east-2'',
         ac_s3_bucket = env_var E ''S3_BUCKET'', ac_embedding_endpoint = embedding_endpoint,
         ac_llm_endpoint = env_var E ''LLM_ENDPOINT'',
         ac_image_gen_endpoint = env_var E ''IMAGE_GEN_ENDPOINT'',
         ac_image_gen_api_key = env_var E ''IMAGE_GEN_API_KEY''\<rparr>))"

definition load_config :: "env \<Rightarrow> app_config option \<Rightarrow> (string, app_config) outcome \<times> app_config option" where
  \<comment> \<open>\<open>AppConfig::load\<close>, with the content of \<open>CONFIG\<close> before and after\<close>
  "load_config E stored =
     (case read_config E of
        Ok c \<Rightarrow> (let kept = (case stored of Some s \<Rightarrow> s | None \<Rightarrow> c) in (Ok kept, Some kept))
      | r \<Rightarrow> (r, stored))"

definition get_config :: "app_config option \<Rightarrow> (string, app_config) outcome" where
  \<comment> \<open>\<open>AppConfig::get\<close> panics before the first \<open>load\<close>\<close>
  "get_config stored = (case stored of Some c \<Rightarrow> Ok c | None \<Rightarrow> Panic)"

record neo4j_settings =
  ns_uri :: string
  ns_user :: string
  ns_password :: string
  ns_db :: string
  ns_fetch_size :: nat
  ns_max_connections :: nat

definition create_neo4j_connection :: "env \<Rightarrow> neo4j_settings" where
  \<comment> \<open>the settings that \<open>main.rs\<close> gives to \<open>Graph::connect\<close>\<close>
  "create_neo4j_connection E =
     \<lparr>ns_uri = var_or E ''NEO4J_URI'' ''127.0.0.1:7687'', ns_user = var_or E ''NEO4J_USER'' ''neo4j'',
      ns_password = var_or E ''NEO4J_PASSWORD'' ''neo4j'', ns_db = var_or E ''NEO4J_DATABASE'' ''neo4j'',
      ns_fetch_size = 500, ns_max_connections = 10\<rparr>"

definition listen_address :: string where
  "listen_address = ''0.0.0.0:8000''"

text \<open>Loading once fixes the configuration: later loads give the same one, whatever the environment
  has become, and what \<open>get\<close> gives is what the first load gave.\<close>

lemma load_config_keeps_first:
  assumes "load_config E stored = (Ok c, stored')"
  shows "stored' = Some c" and "get_config stored' = Ok c"
    and "load_config E' stored' = (Ok c', stored'') \<Longrightarrow> c' = c \<and> stored'' = stored'"
  using assms
  by (auto simp: load_config_def get_config_def Let_def split: outcome.splits option.splits)

lemma load_config_Err_iff:
  "(\<exists>e. fst (load_config E stored) = Err e) \<longleftrightarrow>
     env_var E ''ALLOWED_ORIGIN'' = None \<or> env_var E ''EMBEDDING_ENDPOINT'' = None"
  by (auto simp: load_config_def read_config_def required_def Let_def and_then_def ok_or_def
      split: option.splits)

lemma parse_port_range: "parse_port E < 2 ^ 16"
  by (auto simp: parse_port_def parse_u16_def Let_def split: option.split if_splits)

end
