(* ===== verification/Profile.thy ===== *)
theory Profile
  imports Graph_Handlers Llm
begin

text \<open>
  \<open>domains/profile\<close>: the profile of a user, one query whose rows are sent in the shape of Bolt 5;
  and the helper endpoints for embeddings and images (\<open>common/handlers.rs\<close>,
  \<open>common/image_generation.rs\<close>); those for S3 are in \<open>Storage\<close>.

  The structures \<open>UserProfile\<close>, \<open>ProfileNode\<close>, \<open>ProfileRelationship\<close> and
  \<open>AffiliatedNode\<close> of \<open>profile/models.rs\<close> are declared there and used nowhere.
\<close>

subsection \<open>The profile of a user\<close>

datatype profile_error = ProfileDatabaseError string | ProfileNotFound string

fun profile_error_text :: "profile_error \<Rightarrow> string" where
  "profile_error_text (ProfileDatabaseError m) = ''Database error: '' @ m"
| "profile_error_text (ProfileNotFound m) = ''Not found: '' @ m"

definition user_profile_query :: "string \<Rightarrow> query" where
  "user_profile_query username =
     \<lparr>q_text = text_lines
     [[],
      ''        MATCH (node:Person)'',
      ''        WHERE node.username = $username'',
      ''        OPTIONAL MATCH (node)-[r]->(m)'',
      ''        WITH node,'',
      ''             collect(distinct r) AS rels,'',
      ''             collect(distinct m) AS affiliates'',
      [],
      ''        // First, process relationships'',
      ''        UNWIND CASE WHEN size(rels) = 0 THEN [null] ELSE rels END AS rel'',
      ''        WITH node, affiliates,'',
      ''             collect(distinct case when rel is not null then {'',
      ''                 id: id(rel),'',
      ''                 elementId: elementId(rel),'',
      ''                 startId: id(startNode(rel)),'',
      ''                 startElementId: elementId(startNode(rel)),'',
      ''                 endId: id(endNode(rel)),'',
      ''                 endElementId: elementId(endNode(rel)),'',
      ''                 type: type(rel),'',
      ''                 props: properties(rel)'',
      ''             } else null end) AS relationshipsWithMeta'',
      [],
      ''        // Then, process affiliates with their GENERALIZES_TO'',
      ''        UNWIND CASE WHEN size(affiliates) = 0 THEN [null] ELSE affiliates END AS affiliate'',
      ''        OPTIONAL MATCH (affiliate)-[:GENERALIZES_TO]->(general)'',
      ''        WITH node, relationshipsWithMeta,'',
      ''             collect(distinct case when affiliate is not null then {'',
      ''                 id: id(affiliate),'',
      ''                 elementId: elementId(affiliate),'',
      ''                 labels: labels(affiliate),'',
      ''                 props: properties(affiliate),'',
      ''                 generalizesToElementId: case when general is not null then elementId(general) else null end'',
      ''             } else null end) AS affiliatedNodesWithMeta'',
      [],
      ''        WITH'',
      ''            {'',
      ''                id: id(node),'',
      ''                elementId: elementId(node),'',
      ''                labels: labels(node),'',
      ''                props: properties(node)'',
      ''            } AS nodeWithMeta,'',
      ''            relationshipsWithMeta,'',
      ''            affiliatedNodesWithMeta'',
      ''        RETURN'',
      ''            nodeWithMeta AS node,'',
      ''            relationshipsWithMeta AS relationships,'',
      ''            affiliatedNodesWithMeta AS affiliatedNodes'',
      ''    ''],
      q_params = [(''username'', BStr username)]\<rparr>"

definition get_user_profile :: "env \<Rightarrow> string \<Rightarrow> (profile_error, json) action" where
  "get_user_profile E username =
     on_result (graph_execute E (user_profile_query username))
       (\<lambda>result. ret (map_bolt4_to_bolt5 (map node_row (rows_until_error result))))
       (\<lambda>e. fail (ProfileDatabaseError (''Database error: '' @ e)))"

definition get_user_profile_handler :: "env \<Rightarrow> string \<Rightarrow> (nat, json) action" where
  "get_user_profile_handler E username =
     map_err (\<lambda>e. INTERNAL_SERVER_ERROR) (get_user_profile E username)"

subsection \<open>Helpers\<close>

definition create_embedding_from_text :: "env \<Rightarrow> string \<Rightarrow> (nat, json) action" where
  "create_embedding_from_text E text =
     on_result (generate_embedding E text)
       (\<lambda>embedding. ret (JObj [(''embedding'', JArr (map f64_json embedding))]))
       (\<lambda>e. fail INTERNAL_SERVER_ERROR)"

definition image_request :: "string \<Rightarrow> json" where
  "image_request prompt =
     JObj [(''prompt'', JStr prompt), (''width'', json_nat 1024), (''height'', json_nat 1024),
           (''num_inference_steps'', json_nat 8)]"

definition generate_image :: "env \<Rightarrow> string \<Rightarrow> (string, string) action" where
  "generate_image E prompt =
     bind (lift_outcome (ok_or ''IMAGE_GEN_ENDPOINT environment variable not set''
             (env_var E ''IMAGE_GEN_ENDPOINT''))) (\<lambda>endpoint.
     bind (http_call E (post_json endpoint [(''Content-Type'', ''application/json'')]
             (image_request prompt))) (\<lambda>response.
     case response of
       HttpError timeout e \<Rightarrow> fail e
     | HttpResponse status body \<Rightarrow>
         (if \<not> is_success status
          then fail (''Image generation failed with status '' @ status_text E status @ '': '' @
                 (case body of Some b \<Rightarrow> b | None \<Rightarrow> []))
          else (case body of Some image_bytes \<Rightarrow> ret image_bytes | None \<Rightarrow> fail (body_error E None)))))"

subsection \<open>Facts\<close>

lemma no_panic_profile [prog_rules]:
  "no_panic (get_user_profile_handler E username)"
  "no_panic (create_embedding_from_text E s)"
  "no_panic (generate_image E s)"
  unfolding get_user_profile_handler_def get_user_profile_def create_embedding_from_text_def
    generate_image_def
  by (auto intro!: prog_rules split: http_result.split option.split)

text \<open>The properties of a node reach the client as they are stored, apart from the embedding. For the
  node of a person this includes the hash of the password.\<close>

lemma bolt5_node_props:
  assumes "map_of obj ''props'' = Some (JObj props)" and "k \<noteq> ''embedding''"
  shows "\<exists>shown. jget (map_bolt4_to_bolt5_node (JObj obj)) ''Props'' = Some (JObj shown) \<and>
    map_of shown k = map_of props k"
proof -
  let ?shown = "filter (\<lambda>(key, value). key \<noteq> ''embedding'') props"
  have "map_of ?shown k = map_of props k"
    using assms(2) by (induction props) auto
  moreover have "jget (map_bolt4_to_bolt5_node (JObj obj)) ''Props'' = Some (JObj ?shown)"
    using assms(1)
    by (cases "map_of obj ''generalizesToElementId''")
      (simp_all add: map_bolt4_to_bolt5_node_def obj_get_def jget_jobj Let_def)
  ultimately show ?thesis by blast
qed

lemma profile_row_shows_node:
  assumes "col_value r ''node'' = Some (JObj obj)"
  shows "\<exists>rest. jget (case node_row r of JObj m \<Rightarrow> bolt5_row m | _ \<Rightarrow> JNull) ''Values'' =
    Some (JArr (map_bolt4_to_bolt5_node (JObj obj) # rest))"
proof -
  obtain m where m: "node_row r = JObj m" "map_of m ''node'' = Some (value_or (JObj []) r ''node'')"
    using as_object_node_row by blast
  then show ?thesis
    using assms by (simp add: bolt5_row_def jget_jobj obj_get_def value_or_def)
qed

lemma profile_shows_property:
  assumes "db_execute E h (user_profile_query username) = Inr [Inr r]"
    and "col_value r ''node'' = Some (JObj obj)" and "map_of obj ''props'' = Some (JObj props)"
    and "map_of props k = Some v" and "k \<noteq> ''embedding''"
  shows "\<exists>row node rest shown.
    get_user_profile E username h = (Ok (JArr [row]), h @ [DbExecute (user_profile_query username)]) \<and>
    jget row ''Values'' = Some (JArr (node # rest)) \<and> jget node ''Props'' = Some (JObj shown) \<and>
    map_of shown k = Some v"
proof -
  let ?row = "case node_row r of JObj m \<Rightarrow> bolt5_row m | _ \<Rightarrow> JNull"
  have "get_user_profile E username h = (Ok (JArr [?row]), h @ [DbExecute (user_profile_query username)])"
    using assms(1) map_bolt4_to_bolt5_node_rows[of "[r]"]
    by (simp add: get_user_profile_def on_result_def call_runs sum_outcome_def ret_def)
  moreover obtain rest where "jget ?row ''Values'' = Some (JArr (map_bolt4_to_bolt5_node (JObj obj) # rest))"
    using profile_row_shows_node[OF assms(2)] by blast
  moreover obtain shown where "jget (map_bolt4_to_bolt5_node (JObj obj)) ''Props'' = Some (JObj shown)"
    "map_of shown k = Some v"
    using bolt5_node_props[OF assms(3,5)] assms(4) by auto
  ultimately show ?thesis by blast
qed

end
