(* ===== verification/Storage.thy ===== *)
theory Storage
  imports Graph_Handlers
begin

text \<open>
  \<open>common/s3.rs\<close> and its endpoints in \<open>common/handlers.rs\<close>: reading an object of S3 and uploading
  one. The client of S3 and the recognition of a file type (\<open>infer\<close>) are not under src/: they are
  the record \<open>s3_client\<close>, a parameter \<open>S\<close>; so is the check of a header's value.
\<close>

subsection \<open>The client\<close>

record s3_object_params =
  s3p_bucket :: string
  s3p_key :: string

record s3_put =
  put_body :: string
  put_content_type :: string
  put_content_length :: nat

record s3_client =
  s3_get :: "string \<Rightarrow> string \<Rightarrow> string \<Rightarrow> (string, string + string) action"
    \<comment> \<open>region, bucket and key; the body, or the error of collecting it\<close>
  s3_put_object :: "string \<Rightarrow> string \<Rightarrow> string \<Rightarrow> s3_put \<Rightarrow> (string, unit) action"
    \<comment> \<open>its error as \<open>{:?}\<close> prints it, that of \<open>s3_get\<close> as \<open>{}\<close> does\<close>
  infer_mime :: "string \<Rightarrow> string option"
  mime_is_header :: "string \<Rightarrow> bool"

definition aws_region :: "env \<Rightarrow> string" where
  "aws_region E = (case env_var E ''AWS_REGION'' of Some r \<Rightarrow> r | None \<Rightarrow> ''us-east-2'')"

definition content_type_of :: "s3_client \<Rightarrow> string \<Rightarrow> string" where
  "content_type_of S data = (case infer_mime S data of Some t \<Rightarrow> t | None \<Rightarrow> ''application/octet-stream'')"

definition s3_failure :: "string \<Rightarrow> string \<Rightarrow> s3_object_params \<Rightarrow> string \<Rightarrow> string" where
  "s3_failure what side params e =
     ''Unable to '' @ what @ '' object '' @ s3p_key params @ side @ s3p_bucket params @ '': '' @ e"

definition get_s3_object ::
  "env \<Rightarrow> s3_client \<Rightarrow> s3_object_params \<Rightarrow> (string, string \<times> string) action" where
  "get_s3_object E S params =
     bind (map_err (s3_failure ''get'' '' from bucket '' params)
        (s3_get S (aws_region E) (s3p_bucket params) (s3p_key params))) (\<lambda>response.
     bind (map_err (s3_failure ''read'' '' from bucket '' params)
        (lift_outcome (sum_outcome response))) (\<lambda>data.
     ret (data, content_type_of S data)))"

definition upload_object_to_s3 ::
  "env \<Rightarrow> s3_client \<Rightarrow> s3_object_params \<Rightarrow> string \<Rightarrow> (string, unit) action" where
  "upload_object_to_s3 E S params file_data =
     map_err (s3_failure ''upload'' '' to bucket '' params)
       (s3_put_object S (aws_region E) (s3p_bucket params) (s3p_key params)
          \<lparr>put_body = file_data, put_content_type = content_type_of S file_data,
           put_content_length = length file_data\<rparr>)"

subsection \<open>The endpoints\<close>

record s3_response =
  s3r_status :: nat
  s3r_headers :: "(string \<times> string) list"
  s3r_body :: string

definition return_s3_object ::
  "env \<Rightarrow> s3_client \<Rightarrow> s3_object_params \<Rightarrow> (nat, s3_response) action" where
  "return_s3_object E S params =
     on_result (get_s3_object E S params)
       (\<lambda>(data, content_type).
          if mime_is_header S content_type
          then ret \<lparr>s3r_status = 200,
                 s3r_headers = [(''Content-Type'', content_type), (''Cache-Control'', ''public, max-age=3600'')],
                 s3r_body = data\<rparr>
          else fail INTERNAL_SERVER_ERROR)
       (\<lambda>e. fail INTERNAL_SERVER_ERROR)"

type_synonym form_field = "string option \<times> string option"
  \<comment> \<open>the name of a field and its bytes; \<open>None\<close> as bytes: they cannot be read\<close>

fun file_field :: "(unit + form_field) list \<Rightarrow> (nat, string) outcome" where
  \<comment> \<open>the loop over \<open>next_field()\<close>, whose error is \<open>Inl\<close>\<close>
  "file_field [] = Ok []"
| "file_field (Inl u # rest) = Err BAD_REQUEST"
| "file_field (Inr (name, data) # rest) =
     (if name = Some ''file'' then ok_or BAD_REQUEST data else file_field rest)"

definition upload_s3_object ::
  "env \<Rightarrow> s3_client \<Rightarrow> s3_object_params \<Rightarrow> (unit + form_field) list \<Rightarrow> (nat, string) action" where
  "upload_s3_object E S params multipart =
     bind (lift_outcome (file_field multipart)) (\<lambda>file_data.
     if file_data = [] then fail BAD_REQUEST
     else on_result (upload_object_to_s3 E S params file_data) (\<lambda>_. ret ''File uploaded successfully'')
            (\<lambda>e. fail INTERNAL_SERVER_ERROR))"

subsection \<open>Facts\<close>

lemma file_field_no_panic [simp]: "file_field fs \<noteq> Panic"
  by (induction fs rule: file_field.induct) auto

lemma file_field_Ok:
  "file_field fs = Ok data \<longleftrightarrow>
     (\<exists>skipped rest. list_all (\<lambda>f. \<exists>n d. f = Inr (n, d) \<and> n \<noteq> Some ''file'') skipped \<and>
        (fs = skipped \<and> data = [] \<or> fs = skipped @ Inr (Some ''file'', Some data) # rest))"
    (is "_ \<longleftrightarrow> ?R fs")
proof (induction fs rule: file_field.induct)
  case (3 name d rest)
  let ?other = "\<lambda>f. \<exists>n d. f = Inr (n, d) \<and> n \<noteq> Some ''file''"
  show ?case
  proof (cases "name = Some ''file''")
    case True
    have "?R (Inr (name, d) # rest) \<longleftrightarrow> d = Some data"
    proof
      assume "?R (Inr (name, d) # rest)"
      then obtain sk r where "list_all ?other sk" and
        eq: "Inr (name, d) # rest = sk \<and> data = [] \<or>
          Inr (name, d) # rest = sk @ Inr (Some ''file'', Some data) # r"
        by blast
      with True show "d = Some data" by (cases sk) auto
    next
      assume "d = Some data"
      with True show "?R (Inr (name, d) # rest)" by (intro exI [of _ "[]"] exI [of _ rest]) simp
    qed
    with True show ?thesis by (cases d) (auto simp: ok_or_def)
  next
    case False
    have "?R (Inr (name, d) # rest) \<longleftrightarrow> ?R rest"
    proof
      assume "?R (Inr (name, d) # rest)"
      then obtain sk r where "list_all ?other sk" and
        "Inr (name, d) # rest = sk \<and> data = [] \<or>
          Inr (name, d) # rest = sk @ Inr (Some ''file'', Some data) # r"
        by blast
      with False show "?R rest" by (cases sk) auto
    next
      assume "?R rest"
      then obtain sk r where "list_all ?other sk"
        "rest = sk \<and> data = [] \<or> rest = sk @ Inr (Some ''file'', Some data) # r"
        by blast
      with False show "?R (Inr (name, d) # rest)"
        by (intro exI [of _ "Inr (name, d) # sk"] exI [of _ r]) auto
    qed
    with False 3 show ?thesis by simp
  qed
qed (auto intro: exI [of _ "[]"] simp: Cons_eq_append_conv)

text \<open>An upload stores the bytes of the first field \<open>file\<close>, which are not empty, with their length.\<close>

lemma upload_stores_file:
  assumes "upload_s3_object E S params multipart h = (Ok m, h')"
  shows "\<exists>data. file_field multipart = Ok data \<and> data \<noteq> [] \<and>
    s3_put_object S (aws_region E) (s3p_bucket params) (s3p_key params)
      \<lparr>put_body = data, put_content_type = content_type_of S data, put_content_length = length data\<rparr> h =
        (Ok (), h')"
  using assms
  by (auto simp: upload_s3_object_def upload_object_to_s3_def bind_eq_Ok lift_outcome_eq_Ok
      on_result_eq_Ok ret_eq_Ok fail_not_Ok map_err_eq_Ok split: if_splits)

text \<open>An object that was uploaded is returned with the same bytes, by any storage that gives back what
  was put under a key, if the type that is recognised can stand in a header.\<close>

lemma uploaded_object_is_returned:
  assumes "upload_s3_object E S params multipart h = (Ok m, h')"
    and law: "\<And>data. s3_put_object S (aws_region E) (s3p_bucket params) (s3p_key params)
        \<lparr>put_body = data, put_content_type = content_type_of S data, put_content_length = length data\<rparr> h = (Ok (), h') \<Longrightarrow>
      s3_get S (aws_region E) (s3p_bucket params) (s3p_key params) h2 = (Ok (Inr data), h3)"
    and "\<And>data. mime_is_header S (content_type_of S data)"
  shows "\<exists>data r. file_field multipart = Ok data \<and> return_s3_object E S params h2 = (Ok r, h3) \<and>
    s3r_body r = data \<and> s3r_status r = 200"
proof -
  obtain data where "file_field multipart = Ok data" and
    put: "s3_put_object S (aws_region E) (s3p_bucket params) (s3p_key params)
      \<lparr>put_body = data, put_content_type = content_type_of S data, put_content_length = length data\<rparr> h = (Ok (), h')"
    using upload_stores_file [OF assms(1)] by blast
  moreover have "return_s3_object E S params h2 =
      (Ok \<lparr>s3r_status = 200, s3r_headers = [(''Content-Type'', content_type_of S data),
         (''Cache-Control'', ''public, max-age=3600'')], s3r_body = data\<rparr>, h3)"
    using law [OF put] assms(3)
    by (simp add: return_s3_object_def get_s3_object_def on_result_def bind_def map_err_def
        lift_outcome_def sum_outcome_def ret_def)
  ultimately show ?thesis by auto
qed

end
