(* ===== verification/Router.thy ===== *)
theory Router
  imports Auth App_Config Profile Storage Agent_Handlers
begin

text \<open>
  \<open>router/mod.rs\<close> and the CORS layer of \<open>main.rs\<close>: the routes of the API, which of them
  stand behind the JWT middleware, and what a request reaches. Matching a path is axum's: a
  segment \<open>{username}\<close> matches any one segment that is not empty, every other segment itself.
  The layers around the routes are in \<open>Api\<close>; \<open>HEAD\<close>, which axum serves as \<open>GET\<close> without the
  body, is left out.
\<close>

datatype api_method = MGet | MPost | MPut | MPatch | MDelete | MOptions

datatype endpoint =
    EpHealthcheck | EpRegister | EpLogin
  | EpReturnS3Object | EpUploadS3Object | EpEmbedding
  | EpGetNodes | EpGetNodeBySearchTerm | EpCreateNode | EpUpdateNode
  | EpCreateRelationship | EpUpdateRelationship | EpDeleteRelationship
  | EpSimilarNodes | EpSearchNodes
  | EpGetDomain | EpValidateDomainName | EpCreateDomain | EpUpdateDomain
  | EpUserProfile | EpGenerateDomain

record route =
  rt_path :: string
  rt_method :: api_method
  rt_endpoint :: endpoint
  rt_jwt :: bool  \<comment> \<open>behind \<open>jwt_auth_middleware\<close>\<close>

definition group :: "bool \<Rightarrow> (string \<times> api_method \<times> endpoint) list \<Rightarrow> route list" where
  \<comment> \<open>the routes of one \<open>Router\<close>, with or without \<open>route_layer\<close>\<close>
  "group jwt rs =
     map (\<lambda>(path, m, ep). \<lparr>rt_path = path, rt_method = m, rt_endpoint = ep, rt_jwt = jwt\<rparr>) rs"

definition create_auth_routes :: "route list" where
  "create_auth_routes =
     group False
       [(''/api/healthcheck'', MGet, EpHealthcheck),
        (''/api/register'', MPost, EpRegister),
        (''/api/login'', MPost, EpLogin)]"

definition create_helper_routes :: "route list" where
  "create_helper_routes =
     group True
       [(''/api/secure/helper/s3-object'', MGet, EpReturnS3Object),
        (''/api/secure/helper/s3-upload'', MPost, EpUploadS3Object),
        (''/api/secure/helper/embedding'', MPost, EpEmbedding)]"

definition create_graph_routes :: "route list" where
  "create_graph_routes =
     group True
       [(''/api/secure/graph/get-nodes'', MGet, EpGetNodes),
        (''/api/secure/graph/get-node-with-relationships-by-search-term'', MGet, EpGetNodeBySearchTerm),
        (''/api/secure/graph/create-node'', MPost, EpCreateNode),
        (''/api/secure/graph/update-node'', MPut, EpUpdateNode),
        (''/api/secure/graph/create-relationship'', MPost, EpCreateRelationship),
        (''/api/secure/graph/update-relationship'', MPut, EpUpdateRelationship),
        (''/api/secure/graph/delete-relationship'', MPost, EpDeleteRelationship),
        (''/api/secure/graph/similar-nodes'', MPost, EpSimilarNodes),
        (''/api/secure/graph/search-nodes'', MGet, EpSearchNodes),
        (''/api/secure/graph/domain'', MGet, EpGetDomain),
        (''/api/secure/graph/validate-domain-name'', MGet, EpValidateDomainName),
        (''/api/secure/graph/create-domain'', MPost, EpCreateDomain),
        (''/api/secure/graph/update-domain'', MPut, EpUpdateDomain)]"

definition create_public_graph_routes :: "route list" where
  "create_public_graph_routes = group False [(''/api/public/graph/get-nodes'', MGet, EpGetNodes)]"

definition create_profile_routes :: "route list" where
  "create_profile_routes = group True [(''/api/secure/profile/user-profile/{username}'', MGet, EpUserProfile)]"

definition create_agent_routes :: "route list" where
  "create_agent_routes = group True [(''/api/secure/agent/generate-domain'', MPost, EpGenerateDomain)]"

definition create_router :: "route list" where
  "create_router =
     create_auth_routes @ create_helper_routes @ create_graph_routes @ create_public_graph_routes @
     create_profile_routes @ create_agent_routes"

subsection \<open>Matching\<close>

fun segment_matches :: "string \<Rightarrow> string \<Rightarrow> bool" where
  "segment_matches p s =
     (if p \<noteq> [] \<and> hd p = CHR ''{'' \<and> last p = CHR ''}'' then s \<noteq> [] else p = s)"

definition path_matches :: "string \<Rightarrow> string \<Rightarrow> bool" where
  "path_matches pattern path =
     list_all2 segment_matches (split_char CHR ''/'' pattern) (split_char CHR ''/'' path)"

definition find_route :: "route list \<Rightarrow> api_method \<Rightarrow> string \<Rightarrow> (nat, route) outcome" where
  \<comment> \<open>no route for the path: 404; none of its routes has the method: 405\<close>
  "find_route routes m path =
     (case filter (\<lambda>r. path_matches (rt_path r) path) routes of
        [] \<Rightarrow> Err NOT_FOUND
      | rs \<Rightarrow> ok_or 405 (find (\<lambda>r. rt_method r = m) rs))"

definition behind_jwt :: "route list \<Rightarrow> string \<Rightarrow> bool" where
  \<comment> \<open>\<open>route_layer\<close> is around all methods of a path, its 405 included\<close>
  "behind_jwt routes path =
     (case filter (\<lambda>r. path_matches (rt_path r) path) routes of [] \<Rightarrow> False | r # rs \<Rightarrow> rt_jwt r)"

definition dispatch ::
  "env \<Rightarrow> crypto \<Rightarrow> (endpoint \<Rightarrow> (api_error, 'a) action) \<Rightarrow> api_method \<Rightarrow> string \<Rightarrow> string option \<Rightarrow>
     (api_error, 'a) action" where
  \<comment> \<open>the handlers with their extracted requests are the argument \<open>run\<close>\<close>
  "dispatch E C run m path auth_header =
     (let reached = (case find_route create_router m path of
                       Ok r \<Rightarrow> run (rt_endpoint r)
                     | Err status \<Rightarrow> fail (status, JNull)
                     | Panic \<Rightarrow> lift_outcome Panic)
      in if behind_jwt create_router path then jwt_auth_middleware E C auth_header reached else reached)"

subsection \<open>CORS\<close>

definition allow_methods :: "api_method list" where
  "allow_methods = [MGet, MPost, MPatch, MDelete, MOptions]"

definition allow_headers :: "string list" where
  "allow_headers = [''authorization'', ''accept'', ''content-type'']"

definition create_cors_layer :: "env \<Rightarrow> (string \<Rightarrow> bool) \<Rightarrow> (string, string \<times> api_method list \<times> string list) outcome" where
  \<comment> \<open>the origin, which has to be a header value (the argument), or else \<open>main\<close> panics\<close>
  "create_cors_layer E header_value =
     (case env_var E ''ALLOWED_ORIGIN'' of
        Some origin \<Rightarrow> if header_value origin then Ok (origin, allow_methods, allow_headers) else Panic
      | None \<Rightarrow> Panic)"

subsection \<open>Facts\<close>

lemmas route_defs = create_router_def create_auth_routes_def create_helper_routes_def
  create_graph_routes_def create_public_graph_routes_def create_profile_routes_def
  create_agent_routes_def group_def

lemma secure_iff_jwt: "r \<in> set create_router \<Longrightarrow> rt_jwt r \<longleftrightarrow> prefix ''/api/secure/'' (rt_path r)"
  by (auto simp: route_defs)

lemma routes_distinct: "distinct (map (\<lambda>r. (rt_path r, rt_method r)) create_router)"
  by (simp add: route_defs)

lemma find_route_Ok:
  assumes "find_route rs m path = Ok r"
  shows "r \<in> set rs \<and> path_matches (rt_path r) path \<and> rt_method r = m"
proof (cases "filter (\<lambda>r. path_matches (rt_path r) path) rs")
  case Nil
  with assms show ?thesis by (simp add: find_route_def)
next
  case (Cons a as)
  with assms have "find (\<lambda>r. rt_method r = m) (filter (\<lambda>r. path_matches (rt_path r) path) rs) = Some r"
    by (simp add: find_route_def)
  from find_SomeD[OF this] show ?thesis by simp
qed

text \<open>The prefix of the requested path decides whether a token is asked for.\<close>

lemma secure_prefix_iff:
  "prefix ''/api/secure/'' s \<longleftrightarrow>
     (\<exists>rest. rest \<noteq> [] \<and> split_char CHR ''/'' s = [] # ''api'' # ''secure'' # rest)"
proof
  assume "prefix ''/api/secure/'' s"
  then obtain t where "s = ''/api/secure/'' @ t" by (auto simp: prefix_def)
  then show "\<exists>rest. rest \<noteq> [] \<and> split_char CHR ''/'' s = [] # ''api'' # ''secure'' # rest"
    by (intro exI[of _ "split_char CHR ''/'' t"]) simp
next
  assume "\<exists>rest. rest \<noteq> [] \<and> split_char CHR ''/'' s = [] # ''api'' # ''secure'' # rest"
  then obtain x xs where "split_char CHR ''/'' s = [] # ''api'' # ''secure'' # x # xs"
    by (metis neq_Nil_conv)
  then have "s = ''/api/secure/'' @ join ''/'' (x # xs)"
    using join_split_char[of "CHR ''/''" s] by simp
  then show "prefix ''/api/secure/'' s" by (metis prefixI)
qed

definition literal :: "string \<Rightarrow> bool" where
  "literal p \<longleftrightarrow> \<not> (p \<noteq> [] \<and> hd p = CHR ''{'' \<and> last p = CHR ''}'')"

lemma literal_matches: "literal p \<Longrightarrow> segment_matches p s \<longleftrightarrow> p = s"
  by (auto simp: literal_def)

lemma route_segments:
  "r \<in> set create_router \<Longrightarrow> list_all literal (take 3 (split_char CHR ''/'' (rt_path r)))"
  by (auto simp: route_defs literal_def)

lemma path_matches_prefix:
  assumes "r \<in> set create_router" and "path_matches (rt_path r) path"
  shows "prefix ''/api/secure/'' (rt_path r) \<longleftrightarrow> prefix ''/api/secure/'' path"
proof -
  have len: "3 < length ps \<longleftrightarrow> 3 < length qs" and same: "take 3 ps = take 3 qs"
    if m: "list_all2 segment_matches ps qs" and l: "list_all literal (take 3 ps)" for ps qs
  proof -
    have "length ps = length qs" using m by (rule list_all2_lengthD)
    then show "3 < length ps \<longleftrightarrow> 3 < length qs" by simp
    have "list_all2 segment_matches (take 3 ps) (take 3 qs)" using m by (rule list_all2_takeI)
    then have "list_all2 (=) (take 3 ps) (take 3 qs)"
      by (rule list.rel_mono_strong) (use l literal_matches in \<open>auto simp: list_all_iff simp del: segment_matches.simps\<close>)
    then show "take 3 ps = take 3 qs" by (simp add: list.rel_eq)
  qed
  have conv: "(\<exists>rest. rest \<noteq> [] \<and> ps = [] # ''api'' # ''secure'' # rest) \<longleftrightarrow>
      take 3 ps = [[], ''api'', ''secure''] \<and> 3 < length ps" for ps :: "string list"
    by (cases ps; cases "tl ps"; cases "tl (tl ps)") (auto simp: numeral_3_eq_3)
  show ?thesis
    unfolding secure_prefix_iff conv
    using len[OF assms(2)[unfolded path_matches_def] route_segments[OF assms(1)]]
      same[OF assms(2)[unfolded path_matches_def] route_segments[OF assms(1)]] by simp
qed

lemma behind_jwt_iff:
  "behind_jwt create_router path \<longleftrightarrow>
     prefix ''/api/secure/'' path \<and> (\<exists>r\<in>set create_router. path_matches (rt_path r) path)"
proof (cases "filter (\<lambda>r. path_matches (rt_path r) path) create_router")
  case Nil
  then show ?thesis by (auto simp: behind_jwt_def filter_empty_conv)
next
  case (Cons r rs)
  then have "r \<in> set (filter (\<lambda>r. path_matches (rt_path r) path) create_router)" by simp
  then have "r \<in> set create_router" "path_matches (rt_path r) path" by simp_all
  then show ?thesis
    using Cons path_matches_prefix [of r path] secure_iff_jwt [of r] by (auto simp: behind_jwt_def)
qed

lemma dispatch_route:
  assumes "find_route create_router m path = Ok r"
  shows "dispatch E C run m path auth =
    (if rt_jwt r then jwt_auth_middleware E C auth (run (rt_endpoint r)) else run (rt_endpoint r))"
proof -
  have "r \<in> set create_router" "path_matches (rt_path r) path" using find_route_Ok [OF assms] by blast+
  then have "behind_jwt create_router path \<longleftrightarrow> rt_jwt r"
    using path_matches_prefix [of r path] secure_iff_jwt [of r] behind_jwt_iff by blast
  then show ?thesis using assms by (simp add: dispatch_def)
qed

lemma dispatch_secure_without_token:
  assumes "prefix ''/api/secure/'' path"
    and "\<And>t. bearer_token auth = Some t \<Longrightarrow> jwt_decode C (unix_nanos E h) (jwt_secret E) t = None"
  shows "\<exists>status u. dispatch E C run m path auth h = (Err (status, JNull), h @ u) \<and>
    status \<in> {UNAUTHORIZED, NOT_FOUND} \<and> set u \<subseteq> {ReadClock}"
proof (cases "behind_jwt create_router path")
  case True
  then show ?thesis
    using middleware_refuses [OF assms(2)] by (simp add: dispatch_def Let_def) blast
next
  case False
  with assms(1) have "filter (\<lambda>r. path_matches (rt_path r) path) create_router = []"
    by (auto simp: behind_jwt_iff filter_empty_conv)
  then have "dispatch E C run m path auth h = (Err (NOT_FOUND, JNull), h @ [])"
    using False by (simp add: dispatch_def find_route_def fail_def)
  then show ?thesis by (intro exI [of _ NOT_FOUND] exI [of _ "[]"]) simp
qed

lemma put_routes_not_allowed:
  "r \<in> set create_router \<Longrightarrow> rt_method r \<notin> set allow_methods \<longleftrightarrow>
     rt_endpoint r \<in> {EpUpdateNode, EpUpdateRelationship, EpUpdateDomain}"
  by (auto simp: route_defs allow_methods_def)

end
