(* ===== verification/Example_Queue.thy ===== *)
theory Example_Queue
  imports Worker_Messages
begin

text \<open>
  A concrete printer and parser for the messages of the queue, for the environment of
  \<open>Example_World\<close>: a job is written field by field, texts with their length in front. It stands for
  the JSON library where a property needs one that reads back what was written.
\<close>

definition put_nat :: "nat \<Rightarrow> string" where "put_nat n = replicate n CHR ''i'' @ ''.''"

definition get_nat :: "string \<Rightarrow> nat \<times> string" where
  "get_nat s = (length (takeWhile (\<lambda>c. c = CHR ''i'') s), tl (dropWhile (\<lambda>c. c = CHR ''i'') s))"

lemma get_put_nat [simp]: "get_nat (put_nat n @ s) = (n, s)"
  by (induction n) (simp_all add: get_nat_def put_nat_def)

definition put_text :: "string \<Rightarrow> string" where "put_text t = put_nat (length t) @ t"

definition get_text :: "string \<Rightarrow> string \<times> string" where
  "get_text s = (case get_nat s of (n, r) \<Rightarrow> (take n r, drop n r))"

lemma get_put_text [simp]: "get_text (put_text t @ s) = (t, s)"
  by (simp add: get_text_def put_text_def)

definition put_option :: "('a \<Rightarrow> string) \<Rightarrow> 'a option \<Rightarrow> string" where
  "put_option put x = (case x of None \<Rightarrow> put_nat 0 | Some y \<Rightarrow> put_nat 1 @ put y)"

definition get_option :: "(string \<Rightarrow> 'a \<times> string) \<Rightarrow> string \<Rightarrow> 'a option \<times> string" where
  "get_option get s =
     (case get_nat s of (n, r) \<Rightarrow> if n = 0 then (None, r) else (case get r of (y, q) \<Rightarrow> (Some y, q)))"

lemma get_put_option [simp]:
  assumes "\<And>y r. get (put y @ r) = (y, r)"
  shows "get_option get (put_option put x @ s) = (x, s)"
  by (cases x) (simp_all add: get_option_def put_option_def assms)

definition put_level :: "domain_level_info \<Rightarrow> string" where
  "put_level l = put_nat (dli_level l) @ put_text (dli_name l) @ put_text (dli_element_id l)"

fun get_levels :: "nat \<Rightarrow> string \<Rightarrow> domain_level_info list \<times> string" where
  "get_levels 0 s = ([], s)"
| "get_levels (Suc n) s =
     (case get_nat s of (l, s) \<Rightarrow> case get_text s of (nm, s) \<Rightarrow> case get_text s of (i, s) \<Rightarrow>
      case get_levels n s of (ls, s) \<Rightarrow> (\<lparr>dli_level = l, dli_name = nm, dli_element_id = i\<rparr> # ls, s))"

lemma get_put_levels [simp]: "get_levels (length ls) (concat (map put_level ls) @ s) = (ls, s)"
  by (induction ls) (simp_all add: put_level_def)

definition put_type :: "node_type \<Rightarrow> string" where
  "put_type t = put_text (node_type_tag t)"

definition get_type :: "string \<Rightarrow> node_type \<times> string" where
  "get_type s = (case get_text s of (t, r) \<Rightarrow>
     (case node_type_of_tag t of Some ty \<Rightarrow> ty | None \<Rightarrow> KnowledgeT, r))"

lemma get_put_type [simp]: "get_type (put_type t @ s) = (t, s)"
  by (cases t) (simp_all add: get_type_def put_type_def node_type_of_tag_def)

definition put_job :: "node_generation_job \<Rightarrow> string" where
  "put_job j =
     put_text (job_id j) @ put_text (job_generation_id j) @ put_nat (job_sequence_number j) @
     put_nat (job_total_nodes j) @ put_type (job_node_type j) @ put_text (job_node_name j) @
     put_text (job_domain_name j) @ put_option put_text (job_domain_description j) @
     put_text (job_domain_element_id j) @
     put_nat (length (job_domain_levels j)) @ concat (map put_level (job_domain_levels j)) @
     put_option put_nat (job_suggested_level j) @ put_text (job_created_at j) @
     put_nat (job_retry_count j)"

definition get_job :: "string \<Rightarrow> node_generation_job" where
  "get_job s =
     (case get_text s of (jid, s) \<Rightarrow> case get_text s of (gid, s) \<Rightarrow> case get_nat s of (seq, s) \<Rightarrow>
      case get_nat s of (tn, s) \<Rightarrow> case get_type s of (ty, s) \<Rightarrow> case get_text s of (nm, s) \<Rightarrow>
      case get_text s of (dn, s) \<Rightarrow> case get_option get_text s of (dd, s) \<Rightarrow>
      case get_text s of (did, s) \<Rightarrow> case get_nat s of (n, s) \<Rightarrow> case get_levels n s of (ls, s) \<Rightarrow>
      case get_option get_nat s of (sl, s) \<Rightarrow> case get_text s of (ca, s) \<Rightarrow> case get_nat s of (rc, s) \<Rightarrow>
      \<lparr>job_id = jid, job_generation_id = gid, job_sequence_number = seq, job_total_nodes = tn,
       job_node_type = ty, job_node_name = nm, job_domain_name = dn, job_domain_description = dd,
       job_domain_element_id = did, job_domain_levels = ls, job_suggested_level = sl,
       job_created_at = ca, job_retry_count = rc\<rparr>)"

lemma get_put_job: "get_job (put_job j) = j"
proof -
  have "get_nat (put_nat n) = (n, [])" for n using get_put_nat [of n "[]"] by simp
  then show ?thesis by (simp add: get_job_def put_job_def node_job_eta)
qed

definition queue_print :: "json \<Rightarrow> string" where
  "queue_print v = (case de_node_job v of Some j \<Rightarrow> put_job j | None \<Rightarrow> [])"

definition queue_parse :: "string \<Rightarrow> string + json" where
  "queue_parse s = Inr (sorted_json (node_job_json (get_job s)))"

lemma queue_reads_back:
  "job_in_width j \<Longrightarrow> queue_parse (queue_print (node_job_json j)) = Inr (sorted_json (node_job_json j))"
  by (simp add: queue_parse_def queue_print_def node_job_round_trip get_put_job)

end
