(* ===== verification/Example_World.thy ===== *)
theory Example_World
  imports Sse_Events Agent_Handlers Worker_Handler Router Example_Queue
begin

text \<open>
  One concrete outside world, in which the programs run to their end: a database that answers every
  query with one row, an embedding service, and an LLM that answers every request of the agents.
  The theorems of the development hold in every world; this one shows that their hypotheses can be
  met. \<open>gives m x\<close> says that a program returns \<open>x\<close> from every history.
\<close>

subsection \<open>Programs that return the same from every history\<close>

definition gives :: "('f, 'e, 'a) prog \<Rightarrow> 'a \<Rightarrow> bool" where
  "gives m x \<longleftrightarrow> (\<forall>h. fst (m h) = Ok x)"

definition gives_error :: "('f, 'e, 'a) prog \<Rightarrow> 'e \<Rightarrow> bool" where
  "gives_error m e \<longleftrightarrow> (\<forall>h. fst (m h) = Err e)"

lemma givesD: "gives m x \<Longrightarrow> \<exists>h'. m h = (Ok x, h')"
  by (metis gives_def prod.collapse)

lemma gives_run: "gives m x \<Longrightarrow> m h = (Ok x, snd (m h))"
  by (metis gives_def prod.collapse)

lemma gives_ret: "gives (ret x) x"
  by (simp add: gives_def ret_def)

lemma gives_bind: "gives m x \<Longrightarrow> gives (k x) y \<Longrightarrow> gives (bind m k) y"
  by (auto simp: gives_def bind_def split: prod.split outcome.split)
    (metis fst_conv outcome.distinct(1) outcome.distinct(3) outcome.inject(1))+

lemma gives_on_result: "gives m x \<Longrightarrow> gives (k x) y \<Longrightarrow> gives (on_result m k c) y"
  by (auto simp: gives_def on_result_def split: prod.split outcome.split)
    (metis fst_conv outcome.distinct(1) outcome.distinct(3) outcome.inject(1))+

lemma gives_on_error: "gives_error m e \<Longrightarrow> gives (c e) y \<Longrightarrow> gives (on_result m k c) y"
  by (auto simp: gives_def gives_error_def on_result_def split: prod.split outcome.split)
    (metis fst_conv outcome.distinct outcome.inject(2))+

lemma gives_map_err: "gives m x \<Longrightarrow> gives (map_err f m) x"
  by (auto simp: gives_def map_err_def split: prod.split) (metis fst_conv map_err_outcome.simps(1))

lemma gives_lift: "gives (lift_outcome r) x \<longleftrightarrow> r = Ok x"
  by (simp add: gives_def lift_outcome_def)

lemma gives_keeping: "gives m x \<Longrightarrow> gives (keeping c m) x"
  by (simp add: keeping_def gives_map_err)

lemma gives_fold_Nil: "gives (fold_prog f s []) s"
  by (simp add: gives_ret)

lemma gives_fold_Cons:
  "gives (f s x) s' \<Longrightarrow> gives (fold_prog f s' xs) y \<Longrightarrow> gives (fold_prog f s (x # xs)) y"
  by (simp add: gives_bind)

lemma gives_batch_one: "gives (f x) y \<Longrightarrow> gives (batch f [x]) [y]"
  by (auto simp: gives_def batch_def bind_def ret_def lift_outcome_def
      split: prod.split outcome.split) (metis fst_conv outcome.distinct outcome.inject(1))+

lemma gives_emit: "gives (emit_event ev) ()"
  by (simp add: gives_def call_runs)

lemma gives_progress: "gives (progress a m) ()"
  by (simp add: progress_def gives_emit)

lemma gives_announce: "gives (announce_nodes a label r add ns c) (foldl add c ns)"
  by (induction ns arbitrary: c)
    (auto simp: announce_nodes_def gives_ret intro!: gives_bind gives_emit)

lemma gives_progress_then: "gives (k ()) y \<Longrightarrow> gives (bind (progress a m) k) y"
  by (rule gives_bind [OF gives_progress])

lemma gives_keeping_then: "gives m x \<Longrightarrow> gives (k x) y \<Longrightarrow> gives (bind (keeping c m) k) y"
  by (rule gives_bind [OF gives_keeping])

lemmas gives_rules = gives_ret gives_progress gives_emit gives_announce gives_keeping gives_map_err


subsection \<open>The services\<close>

definition nodes_text :: string where
  \<comment> \<open>an answer that holds both a list of concepts and the properties of a node\<close>
  "nodes_text = ''{\"name\":\"Openings\",\"tags\":[\"Openings\"]}''"

definition links_text :: string where
  "links_text = ''{\"level_assignments\":[{\"component\":\"Openings\",\"level\":1}],'' @
     ''\"prerequisites\":[{\"component\":\"Openings\",\"requires\":[{\"name\":\"Openings\",\"type\":\"Knowledge\"}]}]}''"

definition plan_text :: string where
  "plan_text = ''{\"knowledge\":[{\"name\":\"Openings\",\"level\":1}],\"skills\":[{\"name\":\"Castling\"}],'' @
     ''\"traits\":[],\"milestones\":[]}''"

definition milestone_text :: string where
  "milestone_text = ''{\"description\":\"Win\",\"how_to_achieve\":\"Play\",\"name\":\"First win\"}''"

definition milestone_json :: json where
  "milestone_json = JObj [(''description'', JStr ''Win''), (''how_to_achieve'', JStr ''Play''),
     (''name'', JStr ''First win'')]"

definition sample_job :: "node_type \<Rightarrow> node_generation_job" where
  \<comment> \<open>a job with one level, the one for jobs without a suggestion\<close>
  "sample_job ty =
     \<lparr>job_id = ''j'', job_generation_id = ''g'', job_sequence_number = 0, job_total_nodes = 1,
      job_node_type = ty, job_node_name = ''Openings'', job_domain_name = ''Chess'',
      job_domain_description = None, job_domain_element_id = ''d'',
      job_domain_levels = [\<lparr>dli_level = 3, dli_name = ''Chess Competent'', dli_element_id = ''l''\<rparr>],
      job_suggested_level = None, job_created_at = ''0'', job_retry_count = 0\<rparr>"

definition links_json :: json where
  "links_json = JObj
     [(''level_assignments'', JArr [JObj [(''component'', JStr ''Openings''), (''level'', json_nat 1)]]),
      (''prerequisites'', JArr [JObj [(''component'', JStr ''Openings''),
         (''requires'', JArr [JObj [(''name'', JStr ''Openings''), (''type'', JStr ''Knowledge'')]])]])]"

definition plan_json :: json where
  "plan_json = JObj
     [(''knowledge'', JArr [JObj [(''level'', json_nat 1), (''name'', JStr ''Openings'')]]),
      (''milestones'', JArr []), (''skills'', JArr [JObj [(''name'', JStr ''Castling'')]]),
      (''traits'', JArr [])]"

definition claude_json :: "string \<Rightarrow> json" where
  "claude_json s = JObj [(''content'', JArr [JObj [(''text'', JStr s), (''type'', JStr ''text'')]])]"

definition sample_parse :: "string \<Rightarrow> string + json" where
  \<comment> \<open>the texts of this world; the bodies of the answers are abbreviated to one letter\<close>
  "sample_parse s =
     (if s = ''E'' then Inr (JArr [JObj [(''embedding'', JArr [JArr [JNum (Float (Finite 1))]])]])
      else if s = ''N'' then Inr (claude_json nodes_text)
      else if s = ''L'' then Inr (claude_json links_text)
      else if s = ''P'' then Inr (claude_json plan_text)
      else if s = ''M'' then Inr (claude_json milestone_text)
      else if s = ''J'' then Inr (sorted_json (node_job_json (sample_job KnowledgeT)))
      else if s = milestone_text then Inr milestone_json
      else if s = ''[\"Openings\"]'' then Inr (JArr [JStr ''Openings''])
      else if s = nodes_text then Inr (JObj [(''name'', JStr ''Openings''), (''tags'', JArr [JStr ''Openings''])])
      else if s = links_text then Inr links_json
      else if s = plan_text then Inr plan_json
      else Inl ''expected value'')"

definition sample_body :: "http_request \<Rightarrow> string" where
  "sample_body r =
     (if hr_url r = ''embed'' then ''E''
      else case Option.bind (hr_body r) (\<lambda>b. jget b ''system'') of
             Some (JStr s) \<Rightarrow>
               (if s = relationship_architect then ''L''
                else if s = conceptualize_system_prompt then ''P''
                else if s = worker_milestone_system_prompt then ''M'' else ''N'')
           | _ \<Rightarrow> ''N'')"

definition sample_row :: "f64 \<Rightarrow> row" where
  "sample_row score =
     \<lparr>col_string = (\<lambda>k. Some ''n''), col_f64 = (\<lambda>k. Some score), col_i64 = (\<lambda>k. None),
      col_value = (\<lambda>k. None)\<rparr>"

definition sample_env :: "f64 \<Rightarrow> string option \<Rightarrow> env" where
  \<comment> \<open>every row has the given score, and \<open>graph.run\<close> fails with the given text\<close>
  "sample_env score run =
     \<lparr>env_var = map_of [(''EMBEDDING_ENDPOINT'', ''embed''), (''CLAUDE_API_KEY'', ''k''),
        (''DOMAIN_NODE_QUEUE_URL'', ''nodes'')],
      db_execute = (\<lambda>h q. Inr [Inr (sample_row score)]), db_run = (\<lambda>h q. run),
      http_send = (\<lambda>h r. HttpResponse 200 (Some (sample_body r))),
      sqs_send = (\<lambda>h u b. None), client_error = None, unix_nanos = (\<lambda>h. Some 0), instant_ms = length,
      random_bytes = (\<lambda>h. ''salt''), json_parse = sample_parse, json_print = queue_print,
      serde_error = (\<lambda>s. s), body_error = (\<lambda>b. ''body''), status_text = nat_text,
      f64_text = (\<lambda>x. ''x''), debug_str = (\<lambda>s. s), to_lowercase = (\<lambda>s. s),
      is_alphanumeric = (\<lambda>s. True)\<rparr>"

definition sample_llm :: provider where
  "sample_llm = ClaudeP \<lparr>cp_api_key = ''k'', cp_model = ''m''\<rparr>"

lemma sample_env_simps [simp]:
  "env_var (sample_env s r) = map_of [(''EMBEDDING_ENDPOINT'', ''embed''), (''CLAUDE_API_KEY'', ''k''),
     (''DOMAIN_NODE_QUEUE_URL'', ''nodes'')]"
  "db_execute (sample_env s r) h q = Inr [Inr (sample_row s)]"
  "db_run (sample_env s r) h q = r"
  "client_error (sample_env s r) = None"
  "http_send (sample_env s r) h rq = HttpResponse 200 (Some (sample_body rq))"
  "sqs_send (sample_env s r) h u b = None"
  "unix_nanos (sample_env s r) h = Some 0"
  "json_parse (sample_env s r) = sample_parse"
  "json_print (sample_env s r) = queue_print"
  by (simp_all add: sample_env_def)

lemma sample_row_simps [simp]:
  "col_string (sample_row s) k = Some ''n''" "col_f64 (sample_row s) k = Some s"
  "col_value (sample_row s) k = None" "string_or_default (sample_row s) k = ''n''"
  by (simp_all add: sample_row_def string_or_default_def)

lemma sample_parse_simps [simp]:
  "sample_parse ''E'' = Inr (JArr [JObj [(''embedding'', JArr [JArr [JNum (Float (Finite 1))]])]])"
  "sample_parse ''N'' = Inr (claude_json nodes_text)"
  "sample_parse ''L'' = Inr (claude_json links_text)"
  "sample_parse ''P'' = Inr (claude_json plan_text)"
  "sample_parse ''M'' = Inr (claude_json milestone_text)"
  "sample_parse ''J'' = Inr (sorted_json (node_job_json (sample_job KnowledgeT)))"
  "sample_parse milestone_text = Inr milestone_json"
  "sample_parse ''[\"Openings\"]'' = Inr (JArr [JStr ''Openings''])"
  "sample_parse nodes_text = Inr (JObj [(''name'', JStr ''Openings''), (''tags'', JArr [JStr ''Openings''])])"
  "sample_parse links_text = Inr links_json"
  "sample_parse plan_text = Inr plan_json"
  by (simp_all add: sample_parse_def nodes_text_def links_text_def plan_text_def milestone_text_def)


subsection \<open>What the services give\<close>

lemma prompts_apart [simp]:
  "knowledge_expert \<noteq> relationship_architect" "skill_expert \<noteq> relationship_architect"
  "trait_analyst \<noteq> relationship_architect" "milestone_designer \<noteq> relationship_architect"
  "conceptualize_system_prompt \<noteq> relationship_architect"
  "knowledge_expert \<noteq> conceptualize_system_prompt" "skill_expert \<noteq> conceptualize_system_prompt"
  "trait_analyst \<noteq> conceptualize_system_prompt" "milestone_designer \<noteq> conceptualize_system_prompt"
  "relationship_architect \<noteq> conceptualize_system_prompt"
  "knowledge_expert \<noteq> worker_milestone_system_prompt" "skill_expert \<noteq> worker_milestone_system_prompt"
  "trait_analyst \<noteq> worker_milestone_system_prompt" "milestone_designer \<noteq> worker_milestone_system_prompt"
  "worker_milestone_system_prompt \<noteq> relationship_architect"
  "worker_milestone_system_prompt \<noteq> conceptualize_system_prompt"
  by (simp_all add: knowledge_expert_def skill_expert_def trait_analyst_def milestone_designer_def
      relationship_architect_def conceptualize_system_prompt_def worker_milestone_system_prompt_def
      text_lines_def)

lemma gives_embedding: "gives (generate_embedding (sample_env s r) t) [Finite 1]"
  by (simp add: gives_def generate_embedding_def bind_def lift_outcome_def call_runs post_json_def
      sample_body_def is_success_def json_body_def from_str_def parse_value_def sum_outcome_def
      de_embedding_response_def de_vec_def de_field_def first_embedding_def ret_def)

lemma gives_row: "gives (graph_execute (sample_env s r) q) [Inr (sample_row s)]"
  by (simp add: gives_def call_runs sum_outcome_def)

definition sample_answer :: "string \<Rightarrow> string" where
  "sample_answer sys =
     (if sys = relationship_architect then links_text
      else if sys = conceptualize_system_prompt then plan_text
      else if sys = worker_milestone_system_prompt then milestone_text else nodes_text)"

lemma sample_answer_simps [simp]:
  "sample_answer knowledge_expert = nodes_text" "sample_answer skill_expert = nodes_text"
  "sample_answer trait_analyst = nodes_text" "sample_answer milestone_designer = nodes_text"
  "sample_answer relationship_architect = links_text"
  "sample_answer conceptualize_system_prompt = plan_text"
  "sample_answer worker_milestone_system_prompt = milestone_text"
  by (simp_all add: sample_answer_def)

lemma claude_answer_sample:
  "claude_answer (sample_env s r) (HttpResponse 200 (Some (sample_body (post_json claude_endpoint hs
     (claude_request p sys prompt cfg))))) = Ok (sample_answer sys)"
  by (simp add: claude_answer_def is_success_def json_body_def from_str_def parse_value_def
      sum_outcome_def sample_body_def post_json_def claude_request_def claude_endpoint_def
      sample_answer_def de_claude_response_def de_content_block_def de_vec_def de_field_def
      de_option_def claude_json_def first_text_def)

lemma gives_llm: "gives (llm_generate (sample_env s r) sample_llm sys prompt cfg) (sample_answer sys)"
  by (simp add: sample_llm_def claude_generate_def gives_def bind_def call_runs lift_outcome_def
      claude_answer_sample)


definition sample_similar :: "f64 \<Rightarrow> similar_node" where
  "sample_similar score =
     \<lparr>sn_name = ''n'', sn_description = Some ''n'', sn_id = ''n'', sn_score = score\<rparr>"

lemma similar_of_sample [simp]: "similar_of_row (sample_row s) = sample_similar s"
  by (simp add: similar_of_row_def sample_similar_def)

lemma gives_similarity:
  "gives (execute_similarity_query (sample_env s r) q ps) [sample_similar s]"
  by (simp add: gives_def execute_similarity_query_def bind_def call_runs sum_outcome_def
      lift_outcome_def ret_def)

lemma gives_search: "gives (search_text (sample_env s r) label t l) [sample_similar s]"
  by (auto simp: search_text_def find_similar_nodes_def default_similar_request_def
      intro!: gives_map_err gives_bind [OF gives_embedding] gives_similarity)

definition sample_node :: "string list \<Rightarrow> create_node_result" where
  "sample_node labels = \<lparr>nres_element_id = ''n'', nres_name = ''n'', nres_labels = labels\<rparr>"

lemma gives_first_row:
  "gives (run_returning_first (sample_env s r) q rd m) (rd (sample_row s))"
  by (simp add: gives_def run_returning_first_def on_result_def call_runs sum_outcome_def first_row_def
      ret_def)

lemma gives_create_node: "gives (create_step_node (sample_env s r) label props) (sample_node [label])"
proof -
  let ?rq = "\<lparr>cnr_labels = [label], cnr_properties = props\<rparr>"
  have "gives (create_node (sample_env s r) ?rq False) (sample_node [label])"
    unfolding create_node_def Let_def
    using gives_first_row [of s r _ "\<lambda>row. \<lparr>nres_element_id = string_or_default row ''elementId'',
                   nres_name = string_or_default row ''name'', nres_labels = cnr_labels ?rq\<rparr>"]
    by (intro gives_bind [OF gives_map_err [OF gives_embedding]]) (simp add: sample_node_def)
  then show ?thesis by (simp add: create_step_node_def gives_map_err)
qed

definition sample_relationship :: "create_relationship_request \<Rightarrow> create_relationship_result" where
  "sample_relationship q = \<lparr>rres_element_id = ''n'', rres_type = crr_type q,
     rres_source_id = crr_source_id q, rres_target_id = crr_target_id q\<rparr>"

lemma gives_create_relationship:
  "gives (create_relationship (sample_env s r) q) (sample_relationship q)"
  using gives_first_row [of s r _ "\<lambda>row. \<lparr>rres_element_id = string_or_default row ''elementId'',
      rres_type = crr_type q, rres_source_id = crr_source_id q, rres_target_id = crr_target_id q\<rparr>"]
  by (simp add: create_relationship_def sample_relationship_def)

lemma gives_ask: "gives (ask_llm (sample_env s r) sample_llm sys p cfg) (sample_answer sys)"
  by (simp add: ask_llm_def gives_map_err gives_llm)

subsection \<open>What the parsers read\<close>

lemma bracedI: "hd s = CHR ''{'' \<Longrightarrow> last s = CHR ''}'' \<Longrightarrow> 2 \<le> length s \<Longrightarrow> braced s"
proof -
  assume a: "hd s = CHR ''{''" "last s = CHR ''}''" "2 \<le> length s"
  then obtain t where s: "s = CHR ''{'' # t" "t \<noteq> []" by (cases s) (auto simp: Suc_le_eq)
  with a have "t = butlast t @ [CHR ''}'']" by (metis append_butlast_last_id last_ConsR)
  with s show "braced s" unfolding braced_def by blast
qed

lemma braced_sample:
  "braced nodes_text" "braced links_text" "braced plan_text" "braced milestone_text"
  by (rule bracedI; simp add: nodes_text_def links_text_def plan_text_def milestone_text_def)+

lemmas sample_trims [simp] = braced_sample [THEN trim_braced] braced_sample [THEN extract_json_bare]

lemma nodes_concepts: "parse_concept_list (sample_env s r) nodes_text = Ok [''Openings'']"
proof -
  have "find_char CHR ''['' nodes_text = Some 26" "rfind_char CHR '']'' nodes_text = Some 37"
    "slice nodes_text 26 38 = (Ok ''[\"Openings\"]'' :: (string, string) outcome)"
    by (simp_all add: nodes_text_def rfind_char_def slice_def char_boundary_def is_cont_def)
  then show ?thesis
    by (simp add: parse_concept_list_def from_str_def parse_value_def sum_outcome_def de_vec_def)
qed

lemma sample_objects:
  "object_text_guarded a b c nodes_text = Ok nodes_text" "object_text a b nodes_text = Ok nodes_text"
  "object_text a b links_text = Ok links_text"
proof -
  have "find_char CHR ''{'' nodes_text = Some 0" "rfind_char CHR ''}'' nodes_text = Some 38"
    "slice nodes_text 0 39 = (Ok nodes_text :: (string, string) outcome)"
    by (simp_all add: nodes_text_def rfind_char_def slice_def char_boundary_def is_cont_def)
  then show "object_text_guarded a b c nodes_text = Ok nodes_text"
    "object_text a b nodes_text = Ok nodes_text"
    by (simp_all add: object_text_guarded_def object_text_def)
  have "find_char CHR ''{'' links_text = Some 0" "rfind_char CHR ''}'' links_text = Some 152"
    "slice links_text 0 153 = (Ok links_text :: (string, string) outcome)"
    by (simp_all add: links_text_def rfind_char_def slice_def char_boundary_def is_cont_def)
  then show "object_text a b links_text = Ok links_text" by (simp add: object_text_def)
qed

subsection \<open>The steps of a generation\<close>

abbreviation world :: env where "world \<equiv> sample_env (Finite 0) None"

abbreviation openings :: "string \<Rightarrow> created_node" where
  "openings label \<equiv> CreatedNode_new ''Openings'' ''n'' label"

lemma gives_similarity_pass:
  "gives (similarity_pass (sample_env s r) label [x]) [(x, [sample_similar s])]"
  unfolding similarity_pass_def by (intro gives_batch_one gives_bind [OF gives_search] gives_ret)

lemma new_concepts:
  "determine_action_by_score x [sample_similar (Finite 0)] = Some (vc_create_new x)"
  "missing_targets [vc_create_new x] = []" "concepts_to_generate [vc_create_new x] = [(x, None)]"
  by (simp_all add: determine_action_by_score_def sample_similar_def SIMILARITY_THRESHOLD_LOW_def f64_consts
      missing_targets_def vc_defs concepts_to_generate_def is_use_existing_def map_filter_def)

lemma gives_property_pass:
  assumes "ck_system k = sys" "sample_answer sys = nodes_text" "ck_parse k nodes_text ''Openings'' = Ok p"
  shows "gives (property_pass (sample_env s r) sample_llm k d [vc_create_new ''Openings'']) [p]"
  unfolding property_pass_def Let_def
  using gives_ask [of s r sys] assms
  by (auto simp: new_concepts gives_lift intro!: gives_batch_one gives_bind)

lemma gives_node_pass:
  assumes "ck_name k p = ''Openings''"
  shows "gives (node_pass (sample_env s r) k [vc_create_new ''Openings''] [p]) [openings (ck_label k)]"
  using assms unfolding node_pass_def
  by (auto simp: create_concept_node_def vc_defs sample_node_def
      intro!: gives_bind [where x = "([openings (ck_label k)], [])"] gives_ret
        gives_bind [OF gives_create_node] simp del: bind_ret)

lemma gives_generalize_nothing:
  "gives (generalize_pass E ty [vc_create_new x] created c) c"
  by (simp add: generalize_pass_def generalize_one_def vc_defs gives_ret)

definition sample_knowledge :: knowledge_properties where
  "sample_knowledge = \<lparr>kp_name = ''Openings'', kp_description = [], kp_how_to_learn = [],
     kp_remember_level = [], kp_understand_level = [], kp_apply_level = [], kp_analyze_level = [],
     kp_evaluate_level = [], kp_create_level = []\<rparr>"

lemma nodes_knowledge: "parse_knowledge_properties (sample_env s r) nodes_text x = Ok sample_knowledge"
  by (simp add: parse_knowledge_properties_def sample_objects parse_value_def sum_outcome_def
      parse_failed_def str_field_or_def jstr_field_def jget_def sample_knowledge_def)

lemma gives_knowledge:
  "gives (knowledge_execute world sample_llm c) (add_knowledge c (openings ''Knowledge''))"
proof -
  let ?v = "[vc_create_new ''Openings'']"
  have 1: "gives (knowledge_pass1 world sample_llm c) [''Openings'']"
    using gives_ask [of "Finite 0" None knowledge_expert]
    by (auto simp: knowledge_pass1_def Let_def gives_lift nodes_concepts intro!: gives_bind)
  have 3: "gives (knowledge_pass3 world sample_llm c [(''Openings'', [sample_similar (Finite 0)])]) ?v"
    by (auto simp: knowledge_pass3_def knowledge_decide_def new_concepts
        intro!: gives_bind [where x = ?v] gives_bind [OF gives_emit] gives_ret)
  have 4: "gives (knowledge_targets world sample_llm c ?v) (?v, c)"
    by (simp add: knowledge_targets_def new_concepts gives_ret)
  have 5: "gives (knowledge_pass5 world sample_llm c ?v) [sample_knowledge]"
    unfolding knowledge_pass5_def
    by (rule gives_property_pass [where sys = knowledge_expert]) (simp_all add: knowledge_kind_def nodes_knowledge)
  have 6: "gives (knowledge_pass6 world ?v [sample_knowledge]) [openings ''Knowledge'']"
    using gives_node_pass [of "knowledge_kind world" sample_knowledge]
    by (simp add: knowledge_pass6_def knowledge_kind_def sample_knowledge_def)
  have 7: "gives (knowledge_pass7 world ?v [openings ''Knowledge''] c) c"
    by (simp add: knowledge_pass7_def gives_generalize_nothing)
  have 8: "gives (announce_nodes KnowledgeGenerator ''Knowledge'' cn_was_reused add_knowledge
      [openings ''Knowledge''] c) (add_knowledge c (openings ''Knowledge''))"
    using gives_announce [of _ _ _ add_knowledge "[openings ''Knowledge'']"] by simp
  show ?thesis
    unfolding knowledge_execute_def knowledge_pass2_def
    by (rule gives_progress_then, rule gives_keeping_then [OF 1], rule gives_progress_then,
        rule gives_progress_then, rule gives_keeping_then [OF gives_similarity_pass],
        rule gives_progress_then, rule gives_keeping_then [OF 3], rule gives_bind [OF 4], unfold prod.case,
        rule gives_progress_then, rule gives_keeping_then [OF 5], rule gives_progress_then,
        rule gives_keeping_then [OF 6], rule gives_bind [OF 7], rule 8)
qed

definition sample_skill :: skill_properties where
  "sample_skill = \<lparr>sp_name = ''Openings'', sp_description = [], sp_how_to_develop = [],
     sp_novice_level = [], sp_advanced_beginner_level = [], sp_competent_level = [],
     sp_proficient_level = [], sp_expert_level = []\<rparr>"

lemma nodes_skill: "parse_skill_properties (sample_env s r) nodes_text x = Ok sample_skill"
  by (simp add: parse_skill_properties_def sample_objects parse_value_def sum_outcome_def
      parse_failed_def str_field_or_def jstr_field_def jget_def sample_skill_def)

lemma gives_skill:
  "gives (skill_execute world sample_llm c) (add_skill c (openings ''Skill''))"
proof -
  let ?v = "[vc_create_new ''Openings'']"
  have 1: "gives (skill_pass1 world sample_llm c) [''Openings'']"
    using gives_ask [of "Finite 0" None skill_expert]
    by (auto simp: skill_pass1_def Let_def gives_lift nodes_concepts intro!: gives_bind)
  have 3: "gives (skill_pass3 world sample_llm c [(''Openings'', [sample_similar (Finite 0)])]) ?v"
    by (auto simp: skill_pass3_def skill_decide_def new_concepts
        intro!: gives_bind [where x = ?v] gives_bind [OF gives_emit] gives_ret)
  have 4: "gives (skill_targets world sample_llm c ?v) (?v, c)"
    by (simp add: skill_targets_def new_concepts gives_ret)
  have 5: "gives (skill_pass5 world sample_llm c ?v) [sample_skill]"
    unfolding skill_pass5_def
    by (rule gives_property_pass [where sys = skill_expert]) (simp_all add: skill_kind_def nodes_skill)
  have 6: "gives (skill_pass6 world ?v [sample_skill]) [openings ''Skill'']"
    using gives_node_pass [of "skill_kind world" sample_skill]
    by (simp add: skill_pass6_def skill_kind_def sample_skill_def)
  have 7: "gives (skill_pass7 world ?v [openings ''Skill''] c) c"
    by (simp add: skill_pass7_def gives_generalize_nothing)
  have 8: "gives (announce_nodes SkillGenerator ''Skill'' cn_was_reused add_skill
      [openings ''Skill''] c) (add_skill c (openings ''Skill''))"
    using gives_announce [of _ _ _ add_skill "[openings ''Skill'']"] by simp
  show ?thesis
    unfolding skill_execute_def skill_pass2_def
    by (rule gives_progress_then, rule gives_keeping_then [OF 1], rule gives_progress_then,
        rule gives_progress_then, rule gives_keeping_then [OF gives_similarity_pass],
        rule gives_progress_then, rule gives_keeping_then [OF 3], rule gives_bind [OF 4], unfold prod.case,
        rule gives_progress_then, rule gives_keeping_then [OF 5], rule gives_progress_then,
        rule gives_keeping_then [OF 6], rule gives_bind [OF 7], rule 8)
qed

definition sample_trait :: trait_properties where
  "sample_trait = \<lparr>tp_name = ''Openings'', tp_description = [], tp_measurement_criteria = []\<rparr>"

lemma nodes_trait: "parse_trait_properties (sample_env s r) nodes_text x = Ok sample_trait"
  by (simp add: parse_trait_properties_def sample_objects parse_value_def sum_outcome_def
      parse_failed_def str_field_or_def jstr_field_def jget_def sample_trait_def)

lemma gives_trait:
  "gives (trait_execute world sample_llm c) (add_trait c (openings ''Trait''))"
proof -
  let ?v = "[vc_create_new ''Openings'']"
  have 1: "gives (trait_pass1 world sample_llm c) [''Openings'']"
    using gives_ask [of "Finite 0" None trait_analyst]
    by (auto simp: trait_pass1_def Let_def gives_lift nodes_concepts intro!: gives_bind)
  have 3: "gives (trait_pass3 world sample_llm c [(''Openings'', [sample_similar (Finite 0)])]) ?v"
    by (auto simp: trait_pass3_def trait_decide_def sample_similar_def f64_consts
        intro!: gives_bind [where x = ?v] gives_bind [OF gives_emit] gives_ret)
  have 4: "gives (trait_pass4 world sample_llm ?v) [sample_trait]"
    using gives_ask [of "Finite 0" None trait_analyst]
    by (auto simp: trait_pass4_def Let_def vc_defs is_use_existing_def gives_lift nodes_trait
        intro!: gives_batch_one gives_bind)
  have 5: "gives (trait_pass5 world ?v [sample_trait]) [openings ''Trait'']"
    by (auto simp: trait_pass5_def create_trait_def vc_defs sample_node_def sample_trait_def
        intro!: gives_bind [where x = "([openings ''Trait''], [])"] gives_ret
          gives_bind [OF gives_create_node] simp del: bind_ret)
  have 6: "gives (announce_nodes TraitGenerator ''Trait'' cn_was_reused add_trait
      [openings ''Trait''] c) (add_trait c (openings ''Trait''))"
    using gives_announce [of _ _ _ add_trait "[openings ''Trait'']"] by simp
  show ?thesis
    unfolding trait_execute_def trait_pass2_def
    by (rule gives_progress_then, rule gives_keeping_then [OF 1], rule gives_progress_then,
        rule gives_keeping_then [OF gives_similarity_pass], rule gives_keeping_then [OF 3],
        rule gives_keeping_then [OF 4], rule gives_keeping_then [OF 5], rule 6)
qed

definition sample_milestone :: milestone_properties where
  "sample_milestone = \<lparr>mp_name = ''Openings'', mp_description = [], mp_how_to_achieve = []\<rparr>"

lemma nodes_milestone: "parse_milestone_properties (sample_env s r) nodes_text x = Ok sample_milestone"
  by (simp add: parse_milestone_properties_def sample_objects parse_value_def sum_outcome_def
      parse_failed_def str_field_or_def jstr_field_def jget_def sample_milestone_def)

lemma gives_milestone:
  "gives (milestone_execute world sample_llm c) (add_milestone c (openings ''Milestone''))"
proof -
  have 1: "gives (milestone_conceptualize world sample_llm c) [''Openings'']"
    using gives_ask [of "Finite 0" None milestone_designer]
    by (auto simp: milestone_conceptualize_def Let_def gives_lift nodes_concepts intro!: gives_bind)
  have 2: "gives (milestone_generate_properties world sample_llm c [''Openings'']) [sample_milestone]"
    using gives_ask [of "Finite 0" None milestone_designer]
    by (auto simp: milestone_generate_properties_def gives_lift nodes_milestone
        intro!: gives_batch_one gives_bind)
  have 3: "gives (milestone_create_nodes world [sample_milestone]) [openings ''Milestone'']"
    by (auto simp: milestone_create_nodes_def create_milestone_def sample_node_def sample_milestone_def
        intro!: gives_bind [where x = "[openings ''Milestone'']"] gives_ret
          gives_bind [OF gives_create_node])
  have 4: "gives (announce_nodes MilestoneGenerator ''Milestone'' cn_was_reused add_milestone
      [openings ''Milestone''] c) (add_milestone c (openings ''Milestone''))"
    using gives_announce [of _ _ _ add_milestone "[openings ''Milestone'']"] by simp
  show ?thesis
    unfolding milestone_execute_def
    by (rule gives_progress_then, rule gives_keeping_then [OF 1], rule gives_progress_then,
        rule gives_keeping_then [OF 2], rule gives_keeping_then [OF 3], rule 4)
qed

lemma links_assignments:
  "parse_level_assignments (sample_env s r) links_text c ty =
     and_then (parse_assignment (ctx_graph c) ty (JObj [(''component'', JStr ''Openings''), (''level'', json_nat 1)]))
       (\<lambda>x. Ok (case x of Some y \<Rightarrow> [y] | None \<Rightarrow> []))"
  by (simp add: parse_level_assignments_def sample_objects parse_value_def sum_outcome_def
      parse_failed_def jget_def links_json_def cong: option.case_cong)

lemma links_assignments_Ok: "\<exists>as. parse_level_assignments (sample_env s r) links_text c ty = Ok as"
  unfolding links_assignments
  by (auto simp: parse_assignment_def jstr_field_def jget_def json_nat_def split: option.split)

lemma gives_level_relationships:
  "\<exists>s'. gives (fold_prog (create_level_relationship (sample_env s r)) nc as) s'"
proof (induction as arbitrary: nc)
  case (Cons a as)
  obtain n c where nc: "nc = (n, c)" by (cases nc)
  have "\<exists>s1. gives (create_level_relationship (sample_env s r) nc a) s1"
    by (cases "requires_type (la_component_type a)")
      (auto simp: create_level_relationship_def nc intro!: exI gives_ret
        gives_on_result [OF gives_create_relationship])
  with Cons.IH show ?case by (meson gives_fold_Cons)
qed (meson gives_fold_Nil)

lemma gives_distributor: "\<exists>c'. gives (distributor_execute (sample_env s r) sample_llm c) c'"
proof -
  have one: "\<exists>as. gives (analyze_level_assignments_for_type (sample_env s r) sample_llm c ty) as" for ty
    using links_assignments_Ok [of s r c ty] gives_ask [of s r relationship_architect]
    unfolding analyze_level_assignments_for_type_def Let_def
    by (metis gives_bind gives_lift sample_answer_simps(5))
  have "\<exists>bs. gives (fold_prog (\<lambda>as ty. bind (progress LevelDistributor (m ty))
      (\<lambda>_. bind (analyze_level_assignments_for_type (sample_env s r) sample_llm c ty)
        (\<lambda>xs. ret (as @ xs)))) as tys) bs" for as tys m
  proof (induction tys arbitrary: as)
    case (Cons ty tys)
    from one [of ty] obtain xs where
      "gives (analyze_level_assignments_for_type (sample_env s r) sample_llm c ty) xs" ..
    with Cons.IH [of "as @ xs"] show ?case
      by (meson gives_fold_Cons gives_progress_then gives_bind gives_ret)
  qed (meson gives_fold_Nil)
  then obtain as where "gives (analyze_level_assignments (sample_env s r) sample_llm c) as"
    unfolding analyze_level_assignments_def by meson
  moreover obtain n c' where "gives (create_level_relationships (sample_env s r) as c) (n, c')"
    using gives_level_relationships unfolding create_level_relationships_def by (metis prod.exhaust)
  ultimately have "gives (distributor_execute (sample_env s r) sample_llm c) c'"
    unfolding distributor_execute_def
    by (intro gives_keeping_then gives_progress_then gives_bind [where x = "(n, c')"])
      (auto intro: gives_progress_then gives_ret)
  then show ?thesis ..
qed

lemma links_prerequisites_Ok: "\<exists>ps. parse_prerequisites (sample_env s r) links_text c ty = Ok ps"
  by (auto simp: parse_prerequisites_def sample_objects parse_value_def sum_outcome_def
      parse_failed_def jget_def links_json_def parse_prerequisite_def jstr_field_def
      split: option.split)

lemma gives_prerequisite_relationships:
  "\<exists>s'. gives (fold_prog (create_prerequisite_relationship (sample_env s r)) nc ps) s'"
proof (induction ps arbitrary: nc)
  case (Cons p ps)
  obtain n c where nc: "nc = (n, c)" by (cases nc)
  have "\<exists>s1. gives (create_prerequisite_relationship (sample_env s r) nc p) s1"
    by (auto simp: create_prerequisite_relationship_def nc intro!: exI gives_ret
        gives_on_result [OF gives_create_relationship])
  with Cons.IH show ?case by (meson gives_fold_Cons)
qed (meson gives_fold_Nil)

lemma gives_mapper: "\<exists>c'. gives (mapper_execute (sample_env s r) sample_llm c) c'"
proof -
  have one: "\<exists>ps. gives (analyze_prerequisites_for_type (sample_env s r) sample_llm c ty) ps" for ty
    using links_prerequisites_Ok [of s r c ty] gives_ask [of s r relationship_architect]
    unfolding analyze_prerequisites_for_type_def Let_def
    by (metis gives_bind gives_lift sample_answer_simps(5))
  have "\<exists>qs. gives (fold_prog (\<lambda>ps ty. bind (progress PrerequisiteMapper (m ty))
      (\<lambda>_. bind (analyze_prerequisites_for_type (sample_env s r) sample_llm c ty)
        (\<lambda>xs. ret (ps @ xs)))) ps tys) qs" for ps tys m
  proof (induction tys arbitrary: ps)
    case (Cons ty tys)
    from one [of ty] obtain xs where
      "gives (analyze_prerequisites_for_type (sample_env s r) sample_llm c ty) xs" ..
    with Cons.IH [of "ps @ xs"] show ?case
      by (meson gives_fold_Cons gives_progress_then gives_bind gives_ret)
  qed (meson gives_fold_Nil)
  then obtain ps where "gives (analyze_prerequisites (sample_env s r) sample_llm c) ps"
    unfolding analyze_prerequisites_def by meson
  moreover obtain n c' where "gives (create_prerequisite_relationships (sample_env s r) ps c) (n, c')"
    using gives_prerequisite_relationships unfolding create_prerequisite_relationships_def
    by (metis prod.exhaust)
  ultimately have "gives (mapper_execute (sample_env s r) sample_llm c) c'"
    unfolding mapper_execute_def
    by (intro gives_keeping_then gives_progress_then gives_bind [where x = "(n, c')"])
      (auto intro: gives_progress_then gives_ret)
  then show ?thesis ..
qed

lemma gives_architect_level:
  "gives (architect_level (sample_env s r) d c l)
     (add_domain_level c (CreatedNode_new (li_name l) ''n'' ''Domain_Level''))"
  unfolding architect_level_def Let_def
  by (rule gives_keeping_then [OF gives_create_node],
      rule gives_keeping_then [OF gives_map_err [OF gives_create_relationship]],
      rule gives_bind [OF gives_emit]) (simp add: sample_node_def gives_ret)

lemma gives_architect_levels:
  "gives (fold_prog (architect_level (sample_env s r) d) c ls)
     (foldl add_domain_level c (map (\<lambda>l. CreatedNode_new (li_name l) ''n'' ''Domain_Level'') ls))"
proof (induction ls arbitrary: c)
  case (Cons l ls)
  show ?case
    unfolding fold_prog.simps by (rule gives_bind [OF gives_architect_level]) (use Cons.IH in simp)
qed (simp add: gives_ret)

definition after_architect :: "agent_context \<Rightarrow> agent_context" where
  "after_architect c = foldl add_domain_level
     (set_domain c (CreatedNode_new (ctx_domain_name c) ''n'' ''Domain''))
     (map (\<lambda>l. CreatedNode_new (li_name l) ''n'' ''Domain_Level'') (get_level_structure (ctx_domain_name c)))"

lemma gives_architect: "gives (architect_execute (sample_env s r) c) (after_architect c)"
proof -
  have "gives (queue_avatar_generation (sample_env s r) n i) ()" for n i
    by (simp add: queue_avatar_generation_def is_queue_configured_def gives_ret)
  then show ?thesis
    unfolding architect_execute_def Let_def after_architect_def
    by (intro gives_progress_then gives_keeping_then [OF gives_create_node] gives_bind [OF gives_emit])
      (auto simp: sample_node_def intro!: gives_bind gives_progress_then gives_architect_levels)
qed

subsection \<open>A whole generation\<close>

lemma gives_run_agent:
  assumes "gives (execute c) c'"
  shows "gives (run_agent (stats, c) (i, a, execute)) (update_stats stats a c', c')"
  unfolding run_agent_def prod.case
  by (rule gives_bind [OF gives_emit], rule gives_on_result [OF assms])
    (auto simp: Let_def intro!: gives_bind [OF gives_emit] gives_ret split: prod.split)

lemma gives_agents:
  "list_all (\<lambda>(a, ex). \<forall>c. \<exists>c'. gives (ex c) c') steps \<Longrightarrow>
   \<exists>s'. gives (fold_prog run_agent s (enumerate i steps)) s'"
proof (induction steps arbitrary: s i)
  case (Cons st steps)
  obtain a ex where st: "st = (a, ex)" by (cases st)
  obtain stats c where s: "s = (stats, c)" by (cases s)
  from Cons.prems st obtain c' where "gives (ex c) c'" by auto
  then have "gives (run_agent (stats, c) (i, a, ex)) (update_stats stats a c', c')"
    by (rule gives_run_agent [of ex])
  moreover from Cons.IH Cons.prems obtain s' where
    "gives (fold_prog run_agent (update_stats stats a c', c') (enumerate (Suc i) steps)) s'"
    unfolding list.pred_inject by meson
  ultimately show ?case
    unfolding enumerate_simps fold_prog.simps st s by (blast intro: gives_bind)
qed (auto intro: gives_ret)

lemma gives_check_domain:
  "gives (check_domain_exists (sample_env s r) name)
     (if f64_ge s DOMAIN_SIMILARITY_THRESHOLD then Some ''n'' else None)"
  unfolding check_domain_exists_def
  by (rule gives_bind [OF gives_search]) (simp add: sample_similar_def gives_ret)

lemma generation_succeeds: "\<exists>r h'. generate_domain world sample_llm name desc h = (Ok r, h')"
proof -
  have "list_all (\<lambda>(a, ex). \<forall>c. \<exists>c'. gives (ex c) c') (agent_steps world sample_llm)"
    unfolding agent_steps_def
    using gives_architect gives_knowledge gives_skill gives_trait gives_milestone gives_distributor
      gives_mapper by (simp, blast)
  from gives_agents [OF this] obtain stats c where
    run: "gives (fold_prog run_agent (default_statistics, AgentContext_new name desc)
       (enumerate 0 (agent_steps world sample_llm))) (stats, c)" by (metis prod.exhaust)
  have no: "gives (check_domain_exists world name) None"
    using gives_check_domain [of "Finite 0" None name]
    by (simp add: DOMAIN_SIMILARITY_THRESHOLD_def f64_consts f64_ge_def f64_eq_def)
  from givesD [OF no] obtain h1 where
    1: "check_domain_exists world name (h @ [ReadInstant]) = (Ok None, h1)" by blast
  from givesD [OF run] obtain h2 where
    2: "fold_prog run_agent (default_statistics, AgentContext_new name desc)
       (enumerate 0 (agent_steps world sample_llm)) (h1 @ [Emit (Started name 7)]) = (Ok (stats, c), h2)"
    by blast
  show ?thesis
    unfolding generate_domain_def bind_run(1) [where m = "read_instant world", OF call_runs(7)] bind_run(1) [where m = "check_domain_exists world name", OF 1] option.case
      bind_run(1) [where m = "emit_event _", OF call_runs(5)] 
      bind_run(1) [where m = "fold_prog run_agent (default_statistics, AgentContext_new name desc)
       (enumerate 0 (agent_steps world sample_llm))", OF 2] prod.case Let_def ret_def by blast
qed

subsection \<open>A world without database\<close>

definition broken_db :: "env \<Rightarrow> env" where
  "broken_db E = E\<lparr>db_execute := (\<lambda>h q. Inl ''down'')\<rparr>"

lemma broken_db_simps [simp]:
  "env_var (broken_db E) = env_var E" "http_send (broken_db E) = http_send E"
  "json_parse (broken_db E) = json_parse E" "debug_str (broken_db E) = debug_str E"
  "db_execute (broken_db E) h q = Inl ''down''"
  by (simp_all add: broken_db_def)

lemma broken_answer:
  "claude_answer (broken_db (sample_env s r)) (HttpResponse 200 (Some (sample_body (post_json claude_endpoint hs
     (claude_request p sys prompt cfg))))) = Ok (sample_answer sys)"
  by (simp add: claude_answer_def is_success_def json_body_def from_str_def parse_value_def
      sum_outcome_def sample_body_def post_json_def claude_request_def claude_endpoint_def
      sample_answer_def de_claude_response_def de_content_block_def de_vec_def de_field_def
      de_option_def claude_json_def first_text_def)

lemma gives_ask_broken:
  "gives (ask_llm (broken_db (sample_env s r)) sample_llm sys p cfg) (sample_answer sys)"
  by (auto simp: ask_llm_def sample_llm_def claude_generate_def gives_def bind_def call_runs lift_outcome_def
      broken_answer intro!: gives_map_err [unfolded gives_def, THEN spec])

lemma nodes_knowledge_broken:
  "parse_knowledge_properties (broken_db (sample_env s r)) nodes_text x = Ok sample_knowledge"
  by (simp add: parse_knowledge_properties_def sample_objects parse_value_def sum_outcome_def
      parse_failed_def str_field_or_def jstr_field_def jget_def sample_knowledge_def)

lemma broken_pass5:
  "gives (knowledge_pass5 (broken_db world) sample_llm c [vc_create_new ''Openings'']) [sample_knowledge]"
  using gives_ask_broken [of "Finite 0" None knowledge_expert]
  by (auto simp: knowledge_pass5_def property_pass_def knowledge_kind_def new_concepts gives_lift
      nodes_knowledge_broken intro!: gives_batch_one gives_bind)

lemma gives_embedding_broken: "gives (generate_embedding (broken_db (sample_env s r)) t) [Finite 1]"
  by (simp add: gives_def generate_embedding_def bind_def lift_outcome_def call_runs post_json_def
      sample_body_def is_success_def json_body_def from_str_def parse_value_def sum_outcome_def
      de_embedding_response_def de_vec_def de_field_def first_embedding_def ret_def)

lemma broken_create:
  "\<exists>h'. create_step_node (broken_db (sample_env s r)) label props h =
     (Err (service_error_text (broken_db (sample_env s r)) (db_error ''down'')), h')"
proof -
  obtain h1 where 1: "generate_embedding (broken_db (sample_env s r)) (node_text props) h = (Ok [Finite 1], h1)"
    using givesD [OF gives_embedding_broken] by blast
  then show ?thesis
    by (simp add: create_step_node_def create_node_def map_err_def bind_def ret_def
        run_returning_first_def on_result_def call_runs sum_outcome_def fail_def)
qed

lemma broken_pass6:
  "\<exists>e h'. knowledge_pass6 (broken_db world) [vc_create_new ''Openings''] [p] h = (Err e, h')"
proof -
  obtain h1 where "create_step_node (broken_db world) ''Knowledge'' (knowledge_props p) h =
     (Err (service_error_text (broken_db world) (db_error ''down'')), h1)"
    using broken_create by blast
  then show ?thesis
    by (simp add: knowledge_pass6_def node_pass_def knowledge_kind_def create_concept_node_def vc_defs bind_def)
qed

end
