(* ===== verification/Request_Decoding.thy ===== *)
theory Request_Decoding
  imports Graph_Models Auth Storage Sse_Events
begin

text \<open>
  What \<open>serde\<close> makes of a request: the bodies of \<open>graph/models.rs\<close>, \<open>auth/models.rs\<close>,
  \<open>agent/models.rs\<close> and \<open>common/handlers.rs\<close> from their JSON values, the query-parameter structs
  from the decoded pairs of a query string; and the derived \<open>Serialize\<close> of the graph requests, whose
  inverse the decoding is.
\<close>

subsection \<open>Numbers, lists and maps\<close>

definition de_signed :: "nat \<Rightarrow> json \<Rightarrow> int option" where
  \<comment> \<open>a signed integer of the given width\<close>
  "de_signed w v =
     (case v of
        JNum (PosInt n) \<Rightarrow> if n < 2 ^ (w - 1) then Some (int n) else None
      | JNum (NegInt i) \<Rightarrow> if - (2 ^ (w - 1)) \<le> i then Some i else None
      | _ \<Rightarrow> None)"

definition de_i32 :: "json \<Rightarrow> int option" where "de_i32 = de_signed 32"
definition de_i64 :: "json \<Rightarrow> int option" where "de_i64 = de_signed 64"

definition de_strings :: "json \<Rightarrow> string list option" where
  "de_strings = de_vec de_string"

definition de_properties :: "json \<Rightarrow> json hash_map option" where
  \<comment> \<open>\<open>HashMap<String, Value>\<close>\<close>
  "de_properties v = as_object v"

subsection \<open>Bodies\<close>

definition de_create_node_request :: "json \<Rightarrow> create_node_request option" where
  "de_create_node_request v =
     Option.bind (de_field ''labels'' de_strings v) (\<lambda>labels.
     Option.bind (de_field ''properties'' de_properties v) (\<lambda>properties.
     Some \<lparr>cnr_labels = labels, cnr_properties = properties\<rparr>))"

definition de_update_node_request :: "json \<Rightarrow> update_node_request option" where
  "de_update_node_request v =
     Option.bind (de_field ''targetId'' de_string v) (\<lambda>target_id.
     Option.bind (de_option ''labels'' de_strings v) (\<lambda>labels.
     Option.bind (de_option ''properties'' de_properties v) (\<lambda>properties.
     Some \<lparr>unr_target_id = target_id, unr_labels = labels, unr_properties = properties\<rparr>)))"

definition de_create_relationship_request :: "json \<Rightarrow> create_relationship_request option" where
  "de_create_relationship_request v =
     Option.bind (de_field ''sourceId'' de_string v) (\<lambda>source_id.
     Option.bind (de_field ''targetId'' de_string v) (\<lambda>target_id.
     Option.bind (de_field ''type'' de_string v) (\<lambda>relationship_type.
     Option.bind (de_option ''properties'' de_properties v) (\<lambda>properties.
     Some \<lparr>crr_source_id = source_id, crr_target_id = target_id, crr_type = relationship_type,
           crr_properties = properties\<rparr>))))"

definition de_update_relationship_request :: "json \<Rightarrow> update_relationship_request option" where
  "de_update_relationship_request v =
     Option.bind (de_field ''targetId'' de_string v) (\<lambda>target_id.
     Option.bind (de_field ''type'' de_string v) (\<lambda>relationship_type.
     Option.bind (de_option ''properties'' de_properties v) (\<lambda>properties.
     Some \<lparr>urr_target_id = target_id, urr_type = relationship_type, urr_properties = properties\<rparr>)))"

definition de_delete_relationship_request :: "json \<Rightarrow> string option" where
  \<comment> \<open>a struct of one field\<close>
  "de_delete_relationship_request v = de_field ''relationshipElementId'' de_string v"

definition de_find_similar_request :: "json \<Rightarrow> find_similar_request option" where
  "de_find_similar_request v =
     Option.bind (de_option ''node_id'' de_string v) (\<lambda>node_id.
     Option.bind (de_option ''embedding'' (de_vec de_f64) v) (\<lambda>embedding.
     Option.bind (de_option ''text'' de_string v) (\<lambda>text.
     Option.bind (de_option ''label'' de_string v) (\<lambda>label.
     Option.bind (de_option ''limit'' de_i32 v) (\<lambda>limit.
     Some \<lparr>fs_node_id = node_id, fs_embedding = embedding, fs_text = text, fs_label = label,
           fs_limit = limit\<rparr>)))))"

definition de_new_node_data :: "json \<Rightarrow> new_node_data option" where
  "de_new_node_data v =
     Option.bind (de_field ''name'' de_string v) (\<lambda>name.
     Option.bind (de_field ''description'' de_string v) (\<lambda>description.
     Option.bind (de_option ''how_to_learn'' de_string v) (\<lambda>how_to_learn.
     Option.bind (de_option ''how_to_develop'' de_string v) (\<lambda>how_to_develop.
     Option.bind (de_option ''measurement_criteria'' de_string v) (\<lambda>measurement_criteria.
     Option.bind (de_option ''how_to_achieve'' de_string v) (\<lambda>how_to_achieve.
     Some \<lparr>nd_name = name, nd_description = description, nd_how_to_learn = how_to_learn,
           nd_how_to_develop = how_to_develop, nd_measurement_criteria = measurement_criteria,
           nd_how_to_achieve = how_to_achieve\<rparr>))))))"

definition de_knowledge_requirement :: "json \<Rightarrow> knowledge_requirement option" where
  "de_knowledge_requirement v =
     Option.bind (de_option ''nodeElementId'' de_string v) (\<lambda>node_element_id.
     Option.bind (de_option ''newNode'' de_new_node_data v) (\<lambda>new_node.
     Option.bind (de_field ''bloom_level'' de_string v) (\<lambda>bloom_level.
     Some \<lparr>kr_node_element_id = node_element_id, kr_new_node = new_node, kr_bloom_level = bloom_level\<rparr>)))"

definition de_skill_requirement :: "json \<Rightarrow> skill_requirement option" where
  "de_skill_requirement v =
     Option.bind (de_option ''nodeElementId'' de_string v) (\<lambda>node_element_id.
     Option.bind (de_option ''newNode'' de_new_node_data v) (\<lambda>new_node.
     Option.bind (de_field ''dreyfus_level'' de_string v) (\<lambda>dreyfus_level.
     Some \<lparr>sr_node_element_id = node_element_id, sr_new_node = new_node,
           sr_dreyfus_level = dreyfus_level\<rparr>)))"

definition de_trait_requirement :: "json \<Rightarrow> trait_requirement option" where
  "de_trait_requirement v =
     Option.bind (de_option ''nodeElementId'' de_string v) (\<lambda>node_element_id.
     Option.bind (de_option ''newNode'' de_new_node_data v) (\<lambda>new_node.
     Option.bind (de_field ''min_score'' de_i64 v) (\<lambda>min_score.
     Some \<lparr>tr_node_element_id = node_element_id, tr_new_node = new_node, tr_min_score = min_score\<rparr>)))"

definition de_milestone_requirement :: "json \<Rightarrow> milestone_requirement option" where
  "de_milestone_requirement v =
     Option.bind (de_option ''nodeElementId'' de_string v) (\<lambda>node_element_id.
     Option.bind (de_option ''newNode'' de_new_node_data v) (\<lambda>new_node.
     Some \<lparr>mr_node_element_id = node_element_id, mr_new_node = new_node\<rparr>))"

definition de_level_requirements :: "json \<Rightarrow> level_requirements option" where
  "de_level_requirements v =
     Option.bind (de_field ''knowledge'' (de_vec de_knowledge_requirement) v) (\<lambda>knowledge.
     Option.bind (de_field ''skills'' (de_vec de_skill_requirement) v) (\<lambda>skills.
     Option.bind (de_field ''traits'' (de_vec de_trait_requirement) v) (\<lambda>traits.
     Option.bind (de_field ''milestones'' (de_vec de_milestone_requirement) v) (\<lambda>milestones.
     Some \<lparr>lreq_knowledge = knowledge, lreq_skills = skills, lreq_traits = traits,
           lreq_milestones = milestones\<rparr>))))"

definition de_domain_level :: "json \<Rightarrow> domain_level option" where
  "de_domain_level v =
     Option.bind (de_field ''level'' de_i64 v) (\<lambda>level.
     Option.bind (de_field ''name'' de_string v) (\<lambda>name.
     Option.bind (de_option ''description'' de_string v) (\<lambda>description.
     Option.bind (de_field ''points_required'' de_i64 v) (\<lambda>points_required.
     Option.bind (de_field ''requirements'' de_level_requirements v) (\<lambda>requirements.
     Some \<lparr>dl_level = level, dl_name = name, dl_description = description,
           dl_points_required = points_required, dl_requirements = requirements\<rparr>)))))"

definition de_domain_info :: "json \<Rightarrow> domain_info option" where
  "de_domain_info v =
     Option.bind (de_field ''name'' de_string v) (\<lambda>name.
     Option.bind (de_field ''description'' de_string v) (\<lambda>description.
     Some \<lparr>di_name = name, di_description = description\<rparr>))"

definition de_create_domain_request :: "json \<Rightarrow> create_domain_request option" where
  "de_create_domain_request v =
     Option.bind (de_field ''domain'' de_domain_info v) (\<lambda>domain.
     Option.bind (de_field ''levels'' (de_vec de_domain_level) v) (\<lambda>levels.
     Some \<lparr>cdr_domain = domain, cdr_levels = levels\<rparr>))"

definition de_update_domain_request :: "json \<Rightarrow> update_domain_request option" where
  "de_update_domain_request v =
     Option.bind (de_field ''domainElementId'' de_string v) (\<lambda>domain_element_id.
     Option.bind (de_field ''domain'' de_domain_info v) (\<lambda>domain.
     Option.bind (de_field ''levels'' (de_vec de_domain_level) v) (\<lambda>levels.
     Option.bind (de_field ''removedNodeElementIds'' de_strings v) (\<lambda>removed.
     Some \<lparr>udr_domain_element_id = domain_element_id, udr_domain = domain, udr_levels = levels,
           udr_removed_node_element_ids = removed\<rparr>))))"

definition de_login_request :: "json \<Rightarrow> login_request option" where
  "de_login_request v =
     Option.bind (de_field ''username'' de_string v) (\<lambda>username.
     Option.bind (de_field ''password'' de_string v) (\<lambda>password.
     Some \<lparr>log_username = username, log_password = password\<rparr>))"

definition de_sign_up_request :: "json \<Rightarrow> sign_up_request option" where
  "de_sign_up_request v =
     Option.bind (de_field ''username'' de_string v) (\<lambda>username.
     Option.bind (de_field ''password'' de_string v) (\<lambda>password.
     Option.bind (de_field ''phone'' de_string v) (\<lambda>phone.
     Some \<lparr>sup_username = username, sup_password = password, sup_phone = phone\<rparr>)))"

definition de_generate_domain_request :: "json \<Rightarrow> generate_domain_request option" where
  "de_generate_domain_request v =
     Option.bind (de_field ''domainName'' de_string v) (\<lambda>domain_name.
     Option.bind (de_option ''description'' de_string v) (\<lambda>description.
     Some \<lparr>gdr_domain_name = domain_name, gdr_description = description\<rparr>))"

definition de_embedding_params :: "json \<Rightarrow> string option" where
  "de_embedding_params v = de_field ''text'' de_string v"

subsection \<open>Query strings\<close>

text \<open>axum hands the pairs of the query string to \<open>serde_urlencoded\<close>: a field that is given twice is an
  error, a pair that no field names is ignored, and numbers are parsed with \<open>FromStr\<close>.\<close>

type_synonym query_pairs = "(string \<times> string) list"

definition q_option :: "string \<Rightarrow> (string \<Rightarrow> 'a option) \<Rightarrow> query_pairs \<Rightarrow> 'a option option" where
  \<comment> \<open>a field of an \<open>Option\<close> type\<close>
  "q_option k parse qs =
     (case filter (\<lambda>p. fst p = k) qs of
        [] \<Rightarrow> Some None
      | [p] \<Rightarrow> map_option Some (parse (snd p))
      | _ \<Rightarrow> None)"

definition q_field :: "string \<Rightarrow> query_pairs \<Rightarrow> string option" where
  \<comment> \<open>a \<open>String\<close> that must be there\<close>
  "q_field k qs = Option.bind (q_option k Some qs) (\<lambda>x. x)"

definition parse_i32 :: "string \<Rightarrow> int option" where
  "parse_i32 s =
     (case parse_i64 s of Some n \<Rightarrow> if - (2 ^ 31) \<le> n \<and> n < 2 ^ 31 then Some n else None | None \<Rightarrow> None)"

record node_query_params =
  nq_labels :: "string option"
  nq_properties :: "string option"
  nq_depth :: "int option"

definition q_node_query_params :: "query_pairs \<Rightarrow> node_query_params option" where
  "q_node_query_params qs =
     Option.bind (q_option ''labels'' Some qs) (\<lambda>labels.
     Option.bind (q_option ''properties'' Some qs) (\<lambda>properties.
     Option.bind (q_option ''depth'' parse_i32 qs) (\<lambda>depth.
     Some \<lparr>nq_labels = labels, nq_properties = properties, nq_depth = depth\<rparr>)))"

record search_term_params =
  st_search_term :: string
  st_depth :: "int option"

definition q_search_term_params :: "query_pairs \<Rightarrow> search_term_params option" where
  "q_search_term_params qs =
     Option.bind (q_field ''searchTerm'' qs) (\<lambda>search_term.
     Option.bind (q_option ''depth'' parse_i32 qs) (\<lambda>depth.
     Some \<lparr>st_search_term = search_term, st_depth = depth\<rparr>))"

record search_nodes_params =
  snp_query :: string
  snp_labels :: "string option"
  snp_limit :: "int option"

definition q_search_nodes_params :: "query_pairs \<Rightarrow> search_nodes_params option" where
  "q_search_nodes_params qs =
     Option.bind (q_field ''query'' qs) (\<lambda>query.
     Option.bind (q_option ''labels'' Some qs) (\<lambda>labels.
     Option.bind (q_option ''limit'' parse_i64 qs) (\<lambda>limit.
     Some \<lparr>snp_query = query, snp_labels = labels, snp_limit = limit\<rparr>)))"

definition q_get_domain_params :: "query_pairs \<Rightarrow> string option" where
  "q_get_domain_params qs = q_field ''name'' qs"

definition q_validate_domain_name_params :: "query_pairs \<Rightarrow> string option" where
  "q_validate_domain_name_params qs = q_field ''name'' qs"

definition q_s3_object_params :: "query_pairs \<Rightarrow> s3_object_params option" where
  "q_s3_object_params qs =
     Option.bind (q_field ''bucket'' qs) (\<lambda>bucket.
     Option.bind (q_field ''key'' qs) (\<lambda>key.
     Some \<lparr>s3p_bucket = bucket, s3p_key = key\<rparr>))"

definition q_upload_params :: "query_pairs \<Rightarrow> s3_object_params option" where
  \<comment> \<open>\<open>UploadParams\<close> has the fields of \<open>S3ObjectParams\<close>\<close>
  "q_upload_params qs =
     Option.bind (q_field ''bucket'' qs) (\<lambda>bucket.
     Option.bind (q_field ''key'' qs) (\<lambda>key.
     Some \<lparr>s3p_bucket = bucket, s3p_key = key\<rparr>))"

subsection \<open>Writing the graph requests\<close>

definition create_node_request_json :: "create_node_request \<Rightarrow> json" where
  "create_node_request_json r =
     JObj [(''labels'', JArr (map JStr (cnr_labels r))), (''properties'', JObj (cnr_properties r))]"

definition update_node_request_json :: "update_node_request \<Rightarrow> json" where
  "update_node_request_json r =
     JObj [(''targetId'', JStr (unr_target_id r)),
           (''labels'', json_opt (\<lambda>ls. JArr (map JStr ls)) (unr_labels r)),
           (''properties'', json_opt JObj (unr_properties r))]"

definition create_relationship_request_json :: "create_relationship_request \<Rightarrow> json" where
  "create_relationship_request_json r =
     JObj [(''sourceId'', JStr (crr_source_id r)), (''targetId'', JStr (crr_target_id r)),
           (''type'', JStr (crr_type r)), (''properties'', json_opt JObj (crr_properties r))]"

definition update_relationship_request_json :: "update_relationship_request \<Rightarrow> json" where
  "update_relationship_request_json r =
     JObj [(''targetId'', JStr (urr_target_id r)), (''type'', JStr (urr_type r)),
           (''properties'', json_opt JObj (urr_properties r))]"

definition new_node_data_json :: "new_node_data \<Rightarrow> json" where
  "new_node_data_json n =
     JObj [(''name'', JStr (nd_name n)), (''description'', JStr (nd_description n)),
           (''how_to_learn'', json_opt JStr (nd_how_to_learn n)),
           (''how_to_develop'', json_opt JStr (nd_how_to_develop n)),
           (''measurement_criteria'', json_opt JStr (nd_measurement_criteria n)),
           (''how_to_achieve'', json_opt JStr (nd_how_to_achieve n))]"

definition knowledge_requirement_json :: "knowledge_requirement \<Rightarrow> json" where
  "knowledge_requirement_json r =
     JObj [(''nodeElementId'', json_opt JStr (kr_node_element_id r)),
           (''newNode'', json_opt new_node_data_json (kr_new_node r)),
           (''bloom_level'', JStr (kr_bloom_level r))]"

definition skill_requirement_json :: "skill_requirement \<Rightarrow> json" where
  "skill_requirement_json r =
     JObj [(''nodeElementId'', json_opt JStr (sr_node_element_id r)),
           (''newNode'', json_opt new_node_data_json (sr_new_node r)),
           (''dreyfus_level'', JStr (sr_dreyfus_level r))]"

definition trait_requirement_json :: "trait_requirement \<Rightarrow> json" where
  "trait_requirement_json r =
     JObj [(''nodeElementId'', json_opt JStr (tr_node_element_id r)),
           (''newNode'', json_opt new_node_data_json (tr_new_node r)),
           (''min_score'', json_int (tr_min_score r))]"

definition milestone_requirement_json :: "milestone_requirement \<Rightarrow> json" where
  "milestone_requirement_json r =
     JObj [(''nodeElementId'', json_opt JStr (mr_node_element_id r)),
           (''newNode'', json_opt new_node_data_json (mr_new_node r))]"

definition level_requirements_json :: "level_requirements \<Rightarrow> json" where
  "level_requirements_json r =
     JObj [(''knowledge'', JArr (map knowledge_requirement_json (lreq_knowledge r))),
           (''skills'', JArr (map skill_requirement_json (lreq_skills r))),
           (''traits'', JArr (map trait_requirement_json (lreq_traits r))),
           (''milestones'', JArr (map milestone_requirement_json (lreq_milestones r)))]"

definition domain_level_json :: "domain_level \<Rightarrow> json" where
  "domain_level_json l =
     JObj [(''level'', json_int (dl_level l)), (''name'', JStr (dl_name l)),
           (''description'', json_opt JStr (dl_description l)),
           (''points_required'', json_int (dl_points_required l)),
           (''requirements'', level_requirements_json (dl_requirements l))]"

definition domain_info_json :: "domain_info \<Rightarrow> json" where
  "domain_info_json d = JObj [(''name'', JStr (di_name d)), (''description'', JStr (di_description d))]"

definition create_domain_request_json :: "create_domain_request \<Rightarrow> json" where
  "create_domain_request_json r =
     JObj [(''domain'', domain_info_json (cdr_domain r)),
           (''levels'', JArr (map domain_level_json (cdr_levels r)))]"

definition update_domain_request_json :: "update_domain_request \<Rightarrow> json" where
  "update_domain_request_json r =
     JObj [(''domainElementId'', JStr (udr_domain_element_id r)),
           (''domain'', domain_info_json (udr_domain r)),
           (''levels'', JArr (map domain_level_json (udr_levels r))),
           (''removedNodeElementIds'', JArr (map JStr (udr_removed_node_element_ids r)))]"

subsection \<open>What was written is read back\<close>

lemma de_option_written:
  assumes "jget v k = Some (json_opt f x)" and "\<And>y. f y \<noteq> JNull" and "\<And>y. x = Some y \<Longrightarrow> de (f y) = Some y"
  shows "de_option k de v = Some x"
  using assms by (cases x) (auto simp: de_option_def json_opt_def split: json.splits)

lemma de_vec_written: "(\<And>x. x \<in> set xs \<Longrightarrow> de (f x) = Some x) \<Longrightarrow> de_vec de (JArr (map f xs)) = Some xs"
  by (induction xs) (simp_all add: de_vec_def)

lemma de_strings_written [simp]: "de_strings (JArr (map JStr ss)) = Some ss"
  unfolding de_strings_def by (rule de_vec_written) simp

lemma de_properties_written [simp]: "de_properties (JObj m) = Some m"
  by (simp add: de_properties_def)

definition in_i64 :: "int \<Rightarrow> bool" where
  "in_i64 i \<longleftrightarrow> - (2 ^ 63) \<le> i \<and> i < 2 ^ 63"

lemma de_i64_written: "in_i64 i \<Longrightarrow> de_i64 (json_int i) = Some i"
  by (auto simp: de_i64_def de_signed_def json_int_def in_i64_def nat_less_iff)

lemma de_option_written_leaf [simp]:
  "jget v k = Some (json_opt JStr x) \<Longrightarrow> de_option k de_string v = Some x"
  "jget v k = Some (json_opt JObj y) \<Longrightarrow> de_option k de_properties v = Some y"
  "jget v k = Some (json_opt (\<lambda>ls. JArr (map JStr ls)) z) \<Longrightarrow> de_option k de_strings v = Some z"
  by (erule de_option_written; simp)+

lemma graph_requests_read_back:
  "de_create_node_request (create_node_request_json cn) = Some cn"
  "de_update_node_request (update_node_request_json un) = Some un"
  "de_create_relationship_request (create_relationship_request_json cr) = Some cr"
  "de_update_relationship_request (update_relationship_request_json ur) = Some ur"
  by (simp_all add: de_create_node_request_def create_node_request_json_def
      de_update_node_request_def update_node_request_json_def
      de_create_relationship_request_def create_relationship_request_json_def
      de_update_relationship_request_def update_relationship_request_json_def de_field_def)

lemma new_node_read_back: "de_new_node_data (new_node_data_json n) = Some n"
  by (simp add: de_new_node_data_def new_node_data_json_def de_field_def)

lemma new_node_option_read_back [simp]:
  "jget v k = Some (json_opt new_node_data_json x) \<Longrightarrow> de_option k de_new_node_data v = Some x"
  by (erule de_option_written) (simp add: new_node_data_json_def, simp add: new_node_read_back)

definition level_in_range :: "domain_level \<Rightarrow> bool" where
  \<comment> \<open>the numbers fit \<open>i64\<close>\<close>
  "level_in_range l \<longleftrightarrow> in_i64 (dl_level l) \<and> in_i64 (dl_points_required l) \<and>
     list_all (\<lambda>t. in_i64 (tr_min_score t)) (lreq_traits (dl_requirements l))"

lemma requirements_read_back [simp]:
  "de_knowledge_requirement (knowledge_requirement_json kr) = Some kr"
  "de_skill_requirement (skill_requirement_json sr) = Some sr"
  "in_i64 (tr_min_score t) \<Longrightarrow> de_trait_requirement (trait_requirement_json t) = Some t"
  "de_milestone_requirement (milestone_requirement_json mr) = Some mr"
  by (simp_all add: de_knowledge_requirement_def knowledge_requirement_json_def
      de_skill_requirement_def skill_requirement_json_def
      de_trait_requirement_def trait_requirement_json_def
      de_milestone_requirement_def milestone_requirement_json_def de_field_def de_i64_written)

lemma level_requirements_read_back:
  assumes "list_all (\<lambda>t. in_i64 (tr_min_score t)) (lreq_traits r)"
  shows "de_level_requirements (level_requirements_json r) = Some r"
proof -
  have "de_vec de_trait_requirement (JArr (map trait_requirement_json (lreq_traits r))) = Some (lreq_traits r)"
    using assms by (intro de_vec_written) (simp add: list_all_iff)
  then show ?thesis
    by (simp add: de_level_requirements_def level_requirements_json_def de_field_def de_vec_written)
qed

lemma domain_level_read_back: "level_in_range l \<Longrightarrow> de_domain_level (domain_level_json l) = Some l"
  by (simp add: de_domain_level_def domain_level_json_def de_field_def level_in_range_def de_i64_written
      level_requirements_read_back)

lemma domain_info_read_back [simp]: "de_domain_info (domain_info_json d) = Some d"
  by (simp add: de_domain_info_def domain_info_json_def de_field_def)

lemma domain_levels_read_back:
  "list_all level_in_range ls \<Longrightarrow> de_vec de_domain_level (JArr (map domain_level_json ls)) = Some ls"
  by (rule de_vec_written) (simp add: list_all_iff domain_level_read_back)

lemma domain_requests_read_back:
  "list_all level_in_range (cdr_levels c) \<Longrightarrow>
     de_create_domain_request (create_domain_request_json c) = Some c"
  "list_all level_in_range (udr_levels u) \<Longrightarrow>
     de_update_domain_request (update_domain_request_json u) = Some u"
  by (simp_all add: de_create_domain_request_def create_domain_request_json_def
      de_update_domain_request_def update_domain_request_json_def de_field_def domain_levels_read_back)

end
