(* ===== verification/Api.thy ===== *)
theory Api
  imports Router Request_Decoding
begin

text \<open>
  The API from a request to its response: what axum extracts for each handler, the handler behind every
  route of \<open>router/mod.rs\<close>, and the layers around the routes (\<open>common/logging_middleware.rs\<close>, CORS).
  The extractors themselves are axum's, which is not under src/. Splitting a query string into pairs,
  decoding a path parameter and reading a multipart body: the request holds their results. Reading the
  body of a request as JSON, with its content type and limit, and the status of a rejection are
  parameters of the backend. The structs that the values are read into are the code's.
\<close>

subsection \<open>Requests and responses\<close>

record api_request =
  rq_method :: api_method
  rq_path :: string
  rq_auth :: "string option"  \<comment> \<open>the header \<open>Authorization\<close>, if it is there and readable\<close>
  rq_query :: query_pairs
  rq_param :: "string option"  \<comment> \<open>the decoded segment of \<open>{username}\<close>; \<open>None\<close>: not UTF-8\<close>
  rq_content_type :: "string option"
  rq_body :: string
  rq_form :: "(unit + form_field) list option"  \<comment> \<open>the fields of a multipart body\<close>

datatype api_response =
    RJson json
  | REvents  \<comment> \<open>the stream of the events of the generation\<close>
  | RObject s3_response
  | RText string
  | RPreflight string "api_method list" "string list"

record backend =
  \<comment> \<open>what the handlers use besides the environment\<close>
  be_crypto :: crypto
  be_s3 :: s3_client
  be_validation :: "generate_domain_request \<Rightarrow> string"  \<comment> \<open>the text of the errors of a validation\<close>
  be_json :: "api_request \<Rightarrow> nat + json"  \<comment> \<open>axum: the JSON value of the body, or the status of the rejection\<close>
  be_rejection :: "api_request \<Rightarrow> nat"  \<comment> \<open>axum: the status when what was read does not fit the struct\<close>

definition rejected :: "nat \<Rightarrow> api_error" where
  \<comment> \<open>axum's rejections; their texts are not modelled\<close>
  "rejected status = (status, JNull)"

definition json_body_of :: "backend \<Rightarrow> (json \<Rightarrow> 'a option) \<Rightarrow> api_request \<Rightarrow> (api_error, 'a) outcome" where
  \<comment> \<open>an argument \<open>Json(x): Json<T>\<close> of a handler\<close>
  "json_body_of B de rq =
     (case be_json B rq of
        Inl status \<Rightarrow> Err (rejected status)
      | Inr v \<Rightarrow> ok_or (rejected (be_rejection B rq)) (de v))"

definition query_of :: "backend \<Rightarrow> (query_pairs \<Rightarrow> 'a option) \<Rightarrow> api_request \<Rightarrow> (api_error, 'a) outcome" where
  \<comment> \<open>an argument \<open>Query(x): Query<T>\<close> of a handler\<close>
  "query_of B q rq = ok_or (rejected (be_rejection B rq)) (q (rq_query rq))"

definition status_only :: "(nat, 'a) action \<Rightarrow> (api_error, 'a) action" where
  \<comment> \<open>an error that is a \<open>StatusCode\<close> has no body\<close>
  "status_only m = map_err rejected m"

definition respond :: "('e, json) action \<Rightarrow> ('e, api_response) action" where
  "respond m = bind m (\<lambda>v. ret (RJson v))"

definition with_body ::
  "backend \<Rightarrow> (json \<Rightarrow> 'a option) \<Rightarrow> api_request \<Rightarrow> ('a \<Rightarrow> (api_error, json) action) \<Rightarrow>
     (api_error, api_response) action" where
  "with_body B de rq handler = bind (lift_outcome (json_body_of B de rq)) (\<lambda>x. respond (handler x))"

definition with_query ::
  "backend \<Rightarrow> (query_pairs \<Rightarrow> 'a option) \<Rightarrow> api_request \<Rightarrow> ('a \<Rightarrow> (nat, json) action) \<Rightarrow>
     (api_error, api_response) action" where
  "with_query B q rq handler = bind (lift_outcome (query_of B q rq)) (\<lambda>x. respond (status_only (handler x)))"

subsection \<open>The handler of a route\<close>

fun api_handler :: "env \<Rightarrow> backend \<Rightarrow> api_request \<Rightarrow> endpoint \<Rightarrow> (api_error, api_response) action" where
  "api_handler E B rq EpHealthcheck = ret (RJson healthcheck)"
| "api_handler E B rq EpRegister = with_body B de_sign_up_request rq (signup E (be_crypto B))"
| "api_handler E B rq EpLogin = with_body B de_login_request rq (login E (be_crypto B))"
| "api_handler E B rq EpReturnS3Object =
     bind (lift_outcome (query_of B q_s3_object_params rq)) (\<lambda>params.
     bind (status_only (return_s3_object E (be_s3 B) params)) (\<lambda>r. ret (RObject r)))"
| "api_handler E B rq EpUploadS3Object =
     bind (lift_outcome (query_of B q_upload_params rq)) (\<lambda>params.
     bind (lift_outcome (ok_or (rejected (be_rejection B rq)) (rq_form rq))) (\<lambda>form.
     bind (status_only (upload_s3_object E (be_s3 B) params form)) (\<lambda>t. ret (RText t))))"
| "api_handler E B rq EpEmbedding =
     with_body B de_embedding_params rq (\<lambda>text. status_only (create_embedding_from_text E text))"
| "api_handler E B rq EpGetNodes =
     with_query B q_node_query_params rq
       (\<lambda>p. get_nodes_handler E (nq_labels p) (nq_properties p) (nq_depth p))"
| "api_handler E B rq EpGetNodeBySearchTerm =
     with_query B q_search_term_params rq
       (\<lambda>p. get_node_by_search_term_handler E (st_search_term p) (st_depth p))"
| "api_handler E B rq EpCreateNode = with_body B de_create_node_request rq (create_node_handler E)"
| "api_handler E B rq EpUpdateNode = with_body B de_update_node_request rq (update_node_handler E)"
| "api_handler E B rq EpCreateRelationship =
     with_body B de_create_relationship_request rq (create_relationship_handler E)"
| "api_handler E B rq EpUpdateRelationship =
     with_body B de_update_relationship_request rq (update_relationship_handler E)"
| "api_handler E B rq EpDeleteRelationship =
     with_body B de_delete_relationship_request rq (delete_relationship_handler E)"
| "api_handler E B rq EpSimilarNodes =
     with_body B de_find_similar_request rq (get_similar_nodes_handler E)"
| "api_handler E B rq EpSearchNodes =
     with_query B q_search_nodes_params rq
       (\<lambda>p. search_nodes_handler E (snp_query p) (snp_labels p) (snp_limit p))"
| "api_handler E B rq EpGetDomain = with_query B q_get_domain_params rq (get_domain_handler E)"
| "api_handler E B rq EpValidateDomainName =
     with_query B q_validate_domain_name_params rq (validate_domain_name_handler E)"
| "api_handler E B rq EpCreateDomain =
     with_body B de_create_domain_request rq (create_domain_handler E)"
| "api_handler E B rq EpUpdateDomain =
     with_body B de_update_domain_request rq (update_domain_handler E)"
| "api_handler E B rq EpUserProfile =
     bind (lift_outcome (ok_or (rejected (be_rejection B rq)) (rq_param rq))) (\<lambda>username.
     respond (status_only (get_user_profile_handler E username)))"
| "api_handler E B rq EpGenerateDomain =
     bind (lift_outcome (json_body_of B de_generate_domain_request rq)) (\<lambda>request.
     bind (generate_domain_sse E (be_validation B) request) (\<lambda>_. ret REvents))"

subsection \<open>The layers\<close>

definition logging_middleware :: "env \<Rightarrow> ('e, 'a) action \<Rightarrow> ('e, 'a) action" where
  \<comment> \<open>the clock is read before and after the handler, whose response is passed on\<close>
  "logging_middleware E next =
     bind (read_instant E) (\<lambda>start.
     on_result next
       (\<lambda>response. bind (read_instant E) (\<lambda>duration. ret response))
       (\<lambda>response. bind (read_instant E) (\<lambda>duration. fail response)))"

definition cors_layer ::
  "string \<times> api_method list \<times> string list \<Rightarrow> api_method \<Rightarrow> ('e, api_response) action \<Rightarrow>
     ('e, api_response) action" where
  \<comment> \<open>a preflight is answered by the layer itself\<close>
  "cors_layer cors m next =
     (case cors of (origin, methods, headers) \<Rightarrow>
        if m = MOptions then ret (RPreflight origin methods headers) else next)"

definition serve ::
  "env \<Rightarrow> backend \<Rightarrow> string \<times> api_method list \<times> string list \<Rightarrow> api_request \<Rightarrow>
     (api_error, api_response) action" where
  \<comment> \<open>the application that \<open>create_router\<close> builds\<close>
  "serve E B cors rq =
     cors_layer cors (rq_method rq)
       (logging_middleware E
          (dispatch E (be_crypto B) (api_handler E B rq) (rq_method rq) (rq_path rq) (rq_auth rq)))"

subsection \<open>The server stays up\<close>

text \<open>The only panics of a handler are the \<open>expect\<close> on a clock before the epoch, when a token is made, and
  whatever the S3 client does. A generation runs in a task of its own.\<close>

definition s3_safe :: "s3_client \<Rightarrow> bool" where
  "s3_safe S \<longleftrightarrow> (\<forall>r b k. no_panic (s3_get S r b k)) \<and> (\<forall>r b k p. no_panic (s3_put_object S r b k p))"

lemma map_err_outcome_Panic: "map_err_outcome f r = Panic \<longleftrightarrow> r = Panic"
  by (cases r) auto

lemma no_panic_tokens:
  assumes "\<And>h. unix_nanos E h \<noteq> None"
  shows "no_panic (login E C r)" and "no_panic (signup E C s)"
proof -
  have tok: "no_panic (issue_token E C u)" for u
    using assms
    by (auto simp: no_panic_iff issue_token_def generate_token_def bind_def map_err_def call_runs
        lift_outcome_def ret_def ok_or_def split: option.splits outcome.splits prod.splits)
  have rows: "no_panic (auth_rows E q)" for q
    unfolding auth_rows_def by (intro prog_rules) (simp add: map_err_outcome_Panic)
  show "no_panic (login E C r)"
    unfolding login_def login_answer_def
    by (auto intro!: prog_rules rows tok split: list.split option.split bool.split)
  show "no_panic (signup E C s)"
    unfolding signup_def hash_password_def by (auto intro!: prog_rules rows tok)
qed

lemma no_panic_s3:
  assumes "s3_safe S"
  shows "no_panic (return_s3_object E S p)" and "no_panic (upload_s3_object E S p f)"
  using assms
  unfolding return_s3_object_def upload_s3_object_def get_s3_object_def upload_object_to_s3_def s3_safe_def
  by (auto intro!: prog_rules simp: sum_outcome_def split: prod.split sum.splits)

lemma extractors_no_panic [simp]:
  "json_body_of B de rq \<noteq> Panic" "query_of B q rq \<noteq> Panic"
  by (auto simp: json_body_of_def query_of_def split: sum.split)

lemma no_panic_with_body: "(\<And>x. no_panic (f x)) \<Longrightarrow> no_panic (with_body B de rq f)"
  unfolding with_body_def respond_def by (auto intro!: prog_rules)

lemma no_panic_with_query: "(\<And>x. no_panic (f x)) \<Longrightarrow> no_panic (with_query B q rq f)"
  unfolding with_query_def respond_def status_only_def by (auto intro!: prog_rules)

lemma api_handler_no_panic:
  assumes "\<And>h. unix_nanos E h \<noteq> None" and "s3_safe (be_s3 B)"
  shows "no_panic (api_handler E B rq ep)"
  using no_panic_tokens [OF assms(1)] no_panic_s3 [OF assms(2)]
  by (cases ep)
    (auto intro!: prog_rules no_panic_with_body no_panic_with_query no_panic_generate_domain_sse
      simp: status_only_def respond_def)

lemma dispatch_no_panic:
  assumes "\<And>ep. no_panic (run ep)"
  shows "no_panic (dispatch E C run m path auth)"
proof -
  have "find_route rs m path \<noteq> Panic" for rs by (auto simp: find_route_def split: list.split)
  then show ?thesis
    unfolding dispatch_def jwt_auth_middleware_def Let_def
    by (auto intro!: prog_rules assms split: outcome.split option.split)
qed

lemma serve_no_panic:
  assumes "\<And>h. unix_nanos E h \<noteq> None" and "s3_safe (be_s3 B)"
  shows "no_panic (serve E B cors rq)"
  unfolding serve_def cors_layer_def logging_middleware_def
  by (auto intro!: prog_rules dispatch_no_panic api_handler_no_panic assms split: prod.split)

subsection \<open>Refused requests\<close>

lemma logging_runs:
  "m (h @ [ReadInstant]) = (Ok x, h') \<Longrightarrow> logging_middleware E m h = (Ok x, h' @ [ReadInstant])"
  "m (h @ [ReadInstant]) = (Err e, h') \<Longrightarrow> logging_middleware E m h = (Err e, h' @ [ReadInstant])"
  by (simp_all add: logging_middleware_def bind_def on_result_def call_runs ret_def fail_def)

lemma serve_secure_without_token:
  assumes "prefix ''/api/secure/'' (rq_path rq)" and "rq_method rq \<noteq> MOptions"
    and "\<And>t. bearer_token (rq_auth rq) = Some t \<Longrightarrow>
      jwt_decode (be_crypto B) (unix_nanos E (h @ [ReadInstant])) (jwt_secret E) t = None"
  shows "\<exists>status u. serve E B cors rq h = (Err (rejected status), h @ u) \<and>
    status \<in> {UNAUTHORIZED, NOT_FOUND} \<and> set u \<subseteq> {ReadClock, ReadInstant}"
proof -
  let ?d = "dispatch E (be_crypto B) (api_handler E B rq) (rq_method rq) (rq_path rq) (rq_auth rq)"
  have serve: "serve E B cors rq = logging_middleware E ?d"
    using assms(2) by (simp add: serve_def cors_layer_def split: prod.split)
  obtain status u where d: "?d (h @ [ReadInstant]) = (Err (rejected status), (h @ [ReadInstant]) @ u)"
    and "status \<in> {UNAUTHORIZED, NOT_FOUND}" "set u \<subseteq> {ReadClock}"
    using dispatch_secure_without_token [OF assms(1,3)] unfolding rejected_def by blast
  then show ?thesis
    unfolding serve using logging_runs(2) [of ?d h, OF d]
    by (intro exI [of _ status] exI [of _ "[ReadInstant] @ u @ [ReadInstant]"]) auto
qed

end
