(* ===== verification/Startup.thy ===== *)
theory Startup
  imports Api Worker_Handler
begin

text \<open>
  \<open>main.rs\<close> of the API and of the worker: what has to hold for a program to start, and the service that
  then runs. The environment is the one after \<open>dotenv\<close> (the filter of the log is read before it). Building the connection, checking a header value
  and binding the port are not under src/: they are the record \<open>host\<close>.
\<close>

record host =
  config_builds :: "neo4j_settings \<Rightarrow> bool"  \<comment> \<open>\<open>ConfigBuilder::build\<close>\<close>
  graph_connects :: "neo4j_settings \<Rightarrow> bool"  \<comment> \<open>\<open>Graph::connect\<close>\<close>
  header_value :: "string \<Rightarrow> bool"
  port_binds :: "string \<Rightarrow> bool"

definition log_filter :: "env \<Rightarrow> string" where
  \<comment> \<open>the filter of the API's log\<close>
  "log_filter E = var_or E ''RUST_LOG'' ''info''"

definition connect_database :: "env \<Rightarrow> host \<Rightarrow> (string, neo4j_settings) outcome" where
  \<comment> \<open>\<open>create_neo4j_connection\<close> with its two \<open>expect\<close>\<close>
  "connect_database E H =
     (let settings = create_neo4j_connection E
      in if config_builds H settings \<and> graph_connects H settings then Ok settings else Panic)"

definition api_main ::
  "env \<Rightarrow> host \<Rightarrow> backend \<Rightarrow> (string, api_request \<Rightarrow> (api_error, api_response) action) outcome" where
  \<comment> \<open>\<open>main\<close> of the API up to \<open>axum::serve\<close>: the application, or a panic\<close>
  "api_main E H B =
     and_then (connect_database E H) (\<lambda>graph.
     and_then (create_cors_layer E (header_value H)) (\<lambda>cors.
     if port_binds H listen_address then Ok (serve E B cors) else Panic))"

definition worker_main ::
  "env \<Rightarrow> (string \<Rightarrow> string \<Rightarrow> string \<Rightarrow> string option) \<Rightarrow>
     (string, string option list \<Rightarrow> (string, unit) action) outcome" where
  \<comment> \<open>\<open>main\<close> of the worker up to \<open>run\<close>: the error of the configuration, or the service, which
    takes a clone of it for every event\<close>
  "worker_main E connect =
     and_then (map_err_outcome config_error_text (config_from_env E)) (\<lambda>config.
     Ok (\<lambda>records. handle_sqs_event E connect records config))"

subsection \<open>When the programs start\<close>

lemma api_main_Ok_iff:
  "api_main E H B = Ok app \<longleftrightarrow>
     config_builds H (create_neo4j_connection E) \<and> graph_connects H (create_neo4j_connection E) \<and>
     port_binds H listen_address \<and>
     (\<exists>origin. env_var E ''ALLOWED_ORIGIN'' = Some origin \<and> header_value H origin \<and>
        app = serve E B (origin, allow_methods, allow_headers))"
  by (auto simp: api_main_def connect_database_def create_cors_layer_def Let_def and_then_eq_Ok
      split: option.splits if_splits)

lemma api_main_Panic_iff: "api_main E H B = Panic \<longleftrightarrow> (\<nexists>app. api_main E H B = Ok app)"
  by (auto simp: api_main_def connect_database_def create_cors_layer_def Let_def and_then_eq_Ok
      and_then_eq_Panic split: option.splits if_splits)

lemma worker_main_Ok_iff:
  "worker_main E connect = Ok service \<longleftrightarrow>
     (\<exists>config. config_from_env E = Ok config \<and> service = (\<lambda>records. handle_sqs_event E connect records config))"
  by (auto simp: worker_main_def and_then_eq_Ok map_err_outcome_eq_Ok)

definition worker_vars :: "string list" where
  "worker_vars = [''NEO4J_URI'', ''NEO4J_USER'', ''NEO4J_PASSWORD'', ''EMBEDDING_ENDPOINT'', ''QUEUE_URL'']"

lemma config_from_env_Err_iff:
  "config_from_env E = Err v \<longleftrightarrow>
     (\<exists>i<length worker_vars. v = worker_vars ! i \<and> env_var E v = None \<and>
        (\<forall>j<i. env_var E (worker_vars ! j) \<noteq> None))"
proof -
  have all: "(\<forall>j<Suc n. P j) \<longleftrightarrow> P n \<and> (\<forall>j<n. P j)" for P and n :: nat
    using less_Suc_eq by auto
  have ex: "(\<exists>j<Suc n. P j) \<longleftrightarrow> P n \<or> (\<exists>j<n. P j)" for P and n :: nat
    using less_Suc_eq by auto
  have "length worker_vars = Suc (Suc (Suc (Suc (Suc 0))))" by (simp add: worker_vars_def)
  then show ?thesis
    unfolding config_from_env_def required_var_def worker_vars_def
    by (auto simp: and_then_def ok_or_def all ex numeral_eq_Suc split: option.split)
qed

lemma worker_main_Err_iff:
  "worker_main E connect = Err m \<longleftrightarrow> (\<exists>v. config_from_env E = Err v \<and> m = config_error_text v)"
  by (cases "config_from_env E") (auto simp: worker_main_def)

end
