(* ===== verification/Example_Worker.thy ===== *)
theory Example_Worker
  imports Example_World Startup
begin

text \<open>
  The world of \<open>Example_World\<close>, continued: the generation through the queue, the jobs of the worker
  and a token. Its facts serve the witnesses of the properties only.
\<close>

subsection \<open>A generation through the queue\<close>

lemma gives_claude: "gives (llm_generate (sample_env s r) (ClaudeP p) sys prompt cfg) (sample_answer sys)"
  by (simp add: claude_generate_def gives_def bind_def call_runs lift_outcome_def claude_answer_sample)

lemma gives_async_node:
  "gives (async_create_node (sample_env s r) label props) (sample_node [label])"
  using gives_create_node by (simp add: async_create_node_def create_step_node_def)

lemma gives_domain_and_levels:
  "\<exists>ls. gives (create_domain_and_levels (sample_env s r) name desc) (''n'', ls)"
proof -
  have level: "\<exists>ls'. gives (async_level (sample_env s r) name did ls l) ls'" for did ls l
    by (cases l) (auto simp: async_level_def Let_def
        intro!: exI gives_bind [OF gives_async_node] gives_bind [OF gives_map_err [OF gives_create_relationship]] gives_ret)
  have "\<exists>ls'. gives (fold_prog (async_level (sample_env s r) name did) ls xs) ls'" for did ls xs
  proof (induction xs arbitrary: ls)
    case (Cons x xs)
    with level [of did ls x] show ?case by (meson gives_fold_Cons)
  qed (meson gives_fold_Nil)
  then obtain ls where "gives (fold_prog (async_level (sample_env s r) name ''n'') [] async_levels) ls"
    by meson
  then have "gives (create_domain_and_levels (sample_env s r) name desc) (''n'', ls)"
    unfolding create_domain_and_levels_def
    by (intro gives_bind [OF gives_async_node]) (auto simp: sample_node_def intro!: gives_bind gives_ret)
  then show ?thesis ..
qed

definition sample_plan :: conceptualized_domain where
  "sample_plan = \<lparr>con_knowledge = [\<lparr>con_name = ''Openings'', con_suggested_level = Some 1\<rparr>],
     con_skills = [\<lparr>con_name = ''Castling'', con_suggested_level = None\<rparr>], con_traits = [],
     con_milestones = []\<rparr>"

lemma gives_plan: "gives (conceptualize_all_nodes (sample_env s r) name desc) sample_plan"
proof -
  obtain p where provider: "create_provider (sample_env s r) Claude = Ok (ClaudeP p)"
    by (simp add: create_provider_def ClaudeProvider_new_def Let_def)
  have plan: "from_str (sample_env s r) de_concepts_response plan_text = Ok sample_plan"
    by (simp add: from_str_def parse_value_def sum_outcome_def plan_json_def de_concepts_response_def
        de_concept_item_def de_field_def de_option_def de_vec_def de_unsigned_def json_nat_def
        sample_plan_def)
  have 1: "gives (lift_outcome (map_err_outcome f (create_provider (sample_env s r) Claude))) (ClaudeP p)" for f
    by (simp add: provider gives_lift)
  have 2: "gives (lift_outcome (map_err_outcome f
      (from_str (sample_env s r) de_concepts_response (extract_json plan_text)))) sample_plan" for f
    by (simp add: plan gives_lift)
  have 3: "gives (map_err f (llm_generate (sample_env s r) (ClaudeP p) conceptualize_system_prompt u cfg))
      plan_text" for f u cfg
    using gives_map_err [OF gives_claude [of s r p conceptualize_system_prompt]] by simp
  show ?thesis
    unfolding conceptualize_all_nodes_def Let_def
    by (rule gives_bind [OF 1], rule gives_bind [OF 3], rule 2)
qed

lemma async_generation_succeeds:
  "\<exists>a h'. generate_domain_async (sample_env s r) vt
     \<lparr>gdr_domain_name = ''Chess'', gdr_description = None\<rparr> h = (Ok a, h')"
proof -
  let ?E = "sample_env s r"
  have valid: "request_valid \<lparr>gdr_domain_name = ''Chess'', gdr_description = None\<rparr>"
    by (simp add: request_valid_def char_count_def is_cont_def)
  have queue: "is_node_queue_configured ?E" by (simp add: is_node_queue_configured_def)
  have clock: "gives (read_clock ?E) (Some 0)" by (simp add: gives_def call_runs)
  have avatar: "gives (queue_domain_avatar ?E n i) ()" for n i
    by (simp add: queue_domain_avatar_def is_queue_configured_def gives_ret)
  have jobs: "gives (queue_all ?E t sample_plan :: (api_error, nat) action) 2" for t
    unfolding gives_def
  proof
    fix h
    have "length (all_concepts sample_plan) = 2" by (simp add: all_concepts_def sample_plan_def)
    moreover obtain u where "queue_all ?E t sample_plan h =
        (Ok (length (all_concepts sample_plan)) :: (api_error, nat) outcome, h @ u)"
      using queue_all_runs [of ?E "''nodes''" sample_plan t h] calculation by auto
    ultimately show "fst (queue_all ?E t sample_plan h :: (api_error, nat) outcome \<times> effect list) = Ok 2"
      by simp
  qed
  obtain ls where levels: "gives (create_domain_and_levels ?E ''Chess'' None) (''n'', ls)"
    using gives_domain_and_levels by blast
  have "\<exists>a. gives (generate_domain_async ?E vt \<lparr>gdr_domain_name = ''Chess'', gdr_description = None\<rparr>) a"
    using valid queue
    unfolding generate_domain_async_def Let_def
    by (auto intro!: exI gives_bind [OF clock] gives_bind [OF gives_map_err [OF levels]] gives_bind [OF avatar]
        gives_bind [OF gives_map_err [OF gives_plan]] gives_bind [OF jobs] gives_ret)
  then show ?thesis by (meson givesD)
qed

subsection \<open>The worker\<close>

lemma gives_worker_embedding: "gives (worker_generate_embedding (sample_env s r) t) [Finite 1]"
  by (simp add: gives_def worker_generate_embedding_def bind_def lift_outcome_def call_runs post_json_def
      sample_body_def is_success_def json_body_def from_str_def parse_value_def sum_outcome_def map_err_def
      de_embedding_response_def de_vec_def de_field_def first_embedding_def ret_def)

lemma gives_worker_search: "gives (search_for_job (sample_env s r) job label) [sample_similar s]"
  unfolding search_for_job_def find_similar_by_text_def
  by (auto simp: worker_find_similar_nodes_def worker_execute_similarity_query default_similar_request_def
      intro!: gives_map_err gives_bind [OF gives_map_err [OF gives_worker_embedding]] gives_similarity)

lemma worker_answer_sample:
  "worker_llm_answer (sample_env s r) (HttpResponse 200 (Some (sample_body (post_json claude_endpoint hs
     (worker_llm_request p sys prompt cfg))))) = Ok (sample_answer sys)"
  by (simp add: worker_llm_answer_def is_success_def json_body_def from_str_def parse_value_def
      sum_outcome_def sample_body_def post_json_def worker_llm_request_def claude_endpoint_def
      sample_answer_def de_worker_claude_response_def de_content_block_def de_vec_def de_field_def
      de_option_def claude_json_def first_text_def)

lemma gives_worker_llm: "gives (worker_llm_generate (sample_env s r) p sys prompt cfg) (sample_answer sys)"
  by (simp add: worker_llm_generate_def gives_def bind_def call_runs lift_outcome_def worker_answer_sample)

definition first_win :: worker_milestone where
  "first_win = \<lparr>wm_name = ''First win'', wm_description = ''Win'', wm_how_to_achieve = ''Play''\<rparr>"

lemma gives_worker_milestone:
  "gives (worker_milestone_properties (sample_env s r) llm n d desc) first_win"
proof -
  have read: "from_str (sample_env s r) de_worker_milestone milestone_text = Ok first_win"
    by (simp add: from_str_def parse_value_def sum_outcome_def milestone_json_def de_worker_milestone_def
        de_field_def first_win_def)
  have ask: "gives (map_err f (worker_llm_generate (sample_env s r) llm worker_milestone_system_prompt u cfg))
      milestone_text" for f u cfg
    using gives_map_err [OF gives_worker_llm [of s r llm worker_milestone_system_prompt]] by simp
  show ?thesis
    unfolding worker_milestone_properties_def ask_properties_def
    by (rule gives_bind [OF ask]) (simp add: read gives_lift)
qed

lemma gives_worker_create: "gives (write_node (sample_env s r) nm q ps) \<lparr>wn_element_id = ''n'', wn_name = ''n''\<rparr>"
  unfolding write_node_def
  by (rule gives_bind [OF gives_map_err [OF gives_worker_embedding]],
      rule gives_bind [OF gives_map_err [OF gives_row]])
    (simp add: gives_def bind_def map_err_def lift_outcome_def next_row_def ret_def)

abbreviation reusing_world :: env where "reusing_world \<equiv> sample_env (Finite 1) None"

abbreviation unlinked_world :: env where
  \<comment> \<open>every similar node is found, every relationship fails\<close>
  "unlinked_world \<equiv> sample_env (Finite 1) (Some ''down'')"

abbreviation sample_service :: llm_service where
  "sample_service \<equiv> \<lparr>ls_api_key = ''k'', ls_model = ''claude-sonnet-4-20250514''\<rparr>"

lemma sample_level:
  "determine_level (job_suggested_level (sample_job ty)) n ls = 3"
  "find (\<lambda>l. dli_level l = 3) (job_domain_levels (sample_job ty)) =
     Some \<lparr>dli_level = 3, dli_name = ''Chess Competent'', dli_element_id = ''l''\<rparr>"
  by (simp_all add: sample_job_def determine_level_def)

lemma knowledge_reused:
  "\<exists>h1. knowledge_process (sample_env (Finite 1) r) llm (sample_job KnowledgeT) h =
     assign_level (sample_env (Finite 1) r) (sample_job KnowledgeT) ''REQUIRES_KNOWLEDGE'' ''n'' True h1"
proof -
  obtain h1 where "search_for_job (sample_env (Finite 1) r) (sample_job KnowledgeT) ''Knowledge'' h =
      (Ok [sample_similar (Finite 1)], h1)"
    using givesD [OF gives_worker_search] by blast
  from knowledge_reuse_writes_nothing [OF this] show ?thesis
    by (auto simp: sample_similar_def thresholds_standard_def f64_consts f64_ge_def)
qed

lemma sample_job_succeeds:
  "\<exists>h'. process_job reusing_world (Some sample_service) (sample_job KnowledgeT) h =
     (Ok (result_success ''j'' ''n'' True (Some 3) 0), h')"
  using knowledge_reused [of None sample_service h]
  by (auto simp: process_job_def sample_job_def assign_level_def determine_level_def bind_def ret_def
      create_level_requirement_def map_err_def call_runs)

lemma sample_job_unlinked:
  "\<exists>h'. process_job unlinked_world (Some sample_service) (sample_job KnowledgeT) h = (Err (PNeo4j ''down''), h')"
  using knowledge_reused [of "Some ''down''" sample_service h]
  by (auto simp: process_job_def sample_job_def assign_level_def determine_level_def bind_def ret_def
      create_level_requirement_def map_err_def call_runs)

lemma sample_job_in_width: "job_in_width (sample_job ty)"
  by (simp add: sample_job_def job_in_width_def level_in_width_def)

lemma sample_record: "from_str (sample_env s r) de_node_job ''J'' = Ok (sample_job KnowledgeT)"
  by (simp add: from_str_def parse_value_def sum_outcome_def sorted_job_round_trip [OF sample_job_in_width])

definition sample_config :: config where
  "sample_config = \<lparr>cfg_neo4j_uri = ''u'', cfg_neo4j_user = ''n'', cfg_neo4j_password = ''p'',
     cfg_embedding_endpoint = ''embed'', cfg_llm_endpoint = None, cfg_anthropic_api_key = Some ''k'',
     cfg_queue_url = ''nodes''\<rparr>"

lemma sample_create_llm: "create_llm_service (sample_env s r) sample_config = Ok (Some sample_service)"
  by (simp add: create_llm_service_def LlmService_new_def sample_config_def)

subsection \<open>A new domain\<close>

definition free_world :: env where
  \<comment> \<open>the first search finds nothing\<close>
  "free_world = world\<lparr>db_execute := (\<lambda>h q. if h = [] then Inr [] else Inr [Inr (sample_row (Finite 0))])\<rparr>"

definition chess_request :: create_domain_request where
  "chess_request = \<lparr>cdr_domain = \<lparr>di_name = ''Chess'', di_description = ''Game''\<rparr>, cdr_levels =
     [\<lparr>dl_level = 1, dl_name = ''Novice'', dl_description = None, dl_points_required = 100,
       dl_requirements = \<lparr>lreq_knowledge = [], lreq_skills =
         [\<lparr>sr_node_element_id = None, sr_new_node = Some \<lparr>nd_name = ''Castling'',
           nd_description = ''Safety'', nd_how_to_learn = None, nd_how_to_develop = None,
           nd_measurement_criteria = None, nd_how_to_achieve = None\<rparr>, sr_dreyfus_level = ''Novice''\<rparr>],
         lreq_traits = [], lreq_milestones = []\<rparr>\<rparr>]\<rparr>"

lemma chess_created:
  "\<exists>res h'. create_domain free_world chess_request [] = (Ok res, h') \<and>
     map cni_name (cdres_created_nodes res) = [''Castling'']"
  by (simp add: create_domain_def validate_domain_request_def bind_def lift_outcome_def on_result_def
      call_runs sum_outcome_def first_row_def ret_def create_levels_run level_answer_def map_filter_def
      process_levels_def process_level_requirements_def process_requirement_def create_component_node_def
      run_returning_first_def run_logged_def level_history_def free_world_def chess_request_def
      sample_env_def)

subsection \<open>A token\<close>

definition sample_claims :: jwt_claims where
  "sample_claims = \<lparr>claim_sub = ''ann'', claim_exp = 86400, claim_iat = 0, claim_iss = ''ann''\<rparr>"

definition sample_crypto :: crypto where
  \<comment> \<open>a library that knows one password, one hash and one token\<close>
  "sample_crypto =
     \<lparr>pw_hash = (\<lambda>salt pw. Some ''n''), pw_verify = (\<lambda>pw hash. Some (pw = ''pw'' \<and> hash = ''n'')),
      jwt_encode = (\<lambda>secret claims.
         if secret = ''your-secret-key'' \<and> claims = sample_claims then Some ''t'' else None),
      jwt_decode = (\<lambda>now secret token.
         if secret = ''your-secret-key'' \<and> token = ''t'' \<and>
            (case now of Some ns \<Rightarrow> ns div 1000000000 \<le> claim_exp sample_claims + 60 | None \<Rightarrow> False)
         then Some sample_claims else None),
      base64 = (\<lambda>s. s)\<rparr>"

lemma sample_crypto_round_trip: "jwt_round_trip sample_crypto"
  by (simp add: jwt_round_trip_def sample_crypto_def)

lemma sample_token:
  "issue_token (sample_env s r) sample_crypto ''ann'' h = (Ok (token_response ''t''), h @ [ReadClock])"
  by (simp add: issue_token_Ok sample_crypto_def jwt_secret_def claims_for_def sample_claims_def)

subsection \<open>Requests\<close>

definition sample_backend :: backend where
  "sample_backend = \<lparr>be_crypto = sample_crypto,
     be_s3 = \<lparr>s3_get = (\<lambda>r b k. ret (Inl ''none'')), s3_put_object = (\<lambda>r b k p. ret ()),
       infer_mime = (\<lambda>b. None), mime_is_header = (\<lambda>m. True)\<rparr>,
     be_validation = (\<lambda>r. ''invalid''), be_json = (\<lambda>rq. Inr (JObj [])), be_rejection = (\<lambda>rq. 422)\<rparr>"

definition sample_request :: "api_method \<Rightarrow> string \<Rightarrow> api_request" where
  \<comment> \<open>a request with a JSON body and without a token\<close>
  "sample_request m path = \<lparr>rq_method = m, rq_path = path, rq_auth = None, rq_query = [], rq_param = None,
     rq_content_type = Some ''application/json'', rq_body = ''{}'', rq_form = None\<rparr>"

subsection \<open>A person\<close>

definition ann_row :: row where
  "ann_row = (sample_row (Finite 0))\<lparr>col_value := map_of [(''node'',
     JObj [(''props'', JObj [(''username'', JStr ''ann''), (''password'', JStr ''n'')])])]\<rparr>"

definition person_world :: env where
  \<comment> \<open>every query answers with the person above\<close>
  "person_world = world\<lparr>db_execute := (\<lambda>h q. Inr [Inr ann_row])\<rparr>"

end
