(* ===== verification/Example_Race.thy ===== *)
theory Example_Race
  imports Concurrency Example_Worker
begin

text \<open>
  A database that finds the domains that were created, and two requests for the same name that it
  serves at the same time: both succeed.
\<close>

definition creates :: "(string \<times> bolt) list \<Rightarrow> effect \<Rightarrow> bool" where
  \<comment> \<open>the effect creates a domain with the name of these parameters\<close>
  "creates ps f =
     (case f of
        DbExecute c \<Rightarrow>
          q_text c = q_text (create_domain_node_query \<lparr>di_name = [], di_description = []\<rparr>) \<and>
          map_of (q_params c) ''name'' = map_of ps ''name''
      | _ \<Rightarrow> False)"

definition race_world :: env where
  "race_world = world\<lparr>db_execute := (\<lambda>h q.
     if q_text q = q_text (domain_exists_query []) \<and> \<not> list_ex (creates (q_params q)) h then Inr []
     else Inr [Inr (sample_row (Finite 0))])\<rparr>"

definition race_request :: "string \<Rightarrow> create_domain_request" where
  "race_request description = \<lparr>cdr_domain = \<lparr>di_name = ''Chess'', di_description = description\<rparr>, cdr_levels =
     [\<lparr>dl_level = 1, dl_name = ''Novice'', dl_description = None, dl_points_required = 100,
       dl_requirements = \<lparr>lreq_knowledge = [], lreq_skills = [], lreq_traits = [], lreq_milestones = []\<rparr>\<rparr>]\<rparr>"

definition race_statements :: "string \<Rightarrow> effect list" where
  \<comment> \<open>the statements of the request after its check\<close>
  "race_statements description =
     [DbExecute (create_domain_node_query (cdr_domain (race_request description))),
      DbExecute (create_level_query ''n'' (hd (cdr_levels (race_request description))))]"

definition race_schedule :: schedule where
  "race_schedule =
     [(0, DbExecute (domain_exists_query ''Chess'')), (1, DbExecute (domain_exists_query ''Chess''))] @
     map (Pair 0) (race_statements ''Game'') @ map (Pair 1) (race_statements ''Sport'')"

lemma race_world_truthful:
  "created_in race_world h n \<Longrightarrow> db_execute race_world h (domain_exists_query n) = Inr [Inr (sample_row (Finite 0))]"
  by (auto simp: created_in_def race_world_def creates_def domain_exists_query_def
      create_domain_node_query_def)

lemma domain_statements_apart:
  "q_text (create_domain_node_query d) \<noteq> q_text (domain_exists_query n)"
  "q_text (create_level_query i l) \<noteq> q_text (domain_exists_query n)"
  by (simp_all add: create_domain_node_query_def create_level_query_def domain_exists_query_def Let_def
      text_lines_def)

lemma race_world_answers:
  "db_execute race_world h (create_domain_node_query d) = Inr [Inr (sample_row (Finite 0))]"
  "db_execute race_world h (create_level_query i l) = Inr [Inr (sample_row (Finite 0))]"
  "db_execute race_world [] (domain_exists_query n) = Inr []"
  "db_execute race_world [DbExecute (domain_exists_query m)] (domain_exists_query n) = Inr []"
proof -
  have "q_text (domain_exists_query n) = q_text (domain_exists_query [])" for n
    by (simp add: domain_exists_query_def)
  then show "db_execute race_world h (create_domain_node_query d) = Inr [Inr (sample_row (Finite 0))]"
    "db_execute race_world h (create_level_query i l) = Inr [Inr (sample_row (Finite 0))]"
    "db_execute race_world [] (domain_exists_query n) = Inr []"
    "db_execute race_world [DbExecute (domain_exists_query m)] (domain_exists_query n) = Inr []"
    using domain_statements_apart domain_statements_apart(1) [symmetric] by (auto simp: race_world_def creates_def)
qed

lemma race_both_succeed:
  "\<exists>a. takes_part race_world [] race_schedule 0 (\<lambda>E. create_domain E (race_request ''Game'')) (Ok a)"
  "\<exists>b. takes_part race_world [] race_schedule 1 (\<lambda>E. create_domain E (race_request ''Sport'')) (Ok b)"
  by (simp_all add: takes_part_def create_domain_def validate_domain_request_def bind_def lift_outcome_def
      on_result_def call_runs sum_outcome_def first_row_def ret_def create_levels_run level_answer_def
      map_filter_def process_levels_def process_level_requirements_def level_history_def race_world_answers
      race_request_def race_schedule_def race_statements_def)

end
