(* ===== verification/Registry_Invariant.thy ===== *)
theory Registry_Invariant
  imports Orchestrator
begin

text \<open>
  What holds of the registry (\<open>DomainGraphRegistry\<close> in \<open>agent/models.rs\<close>) throughout a
  generation: every node stands in the list of its label, levels, milestones and the domain are new,
  every level requirement and prerequisite joins nodes of the registry, and every generalisation starts
  at one (where it ends is the subject of \<open>General_Ends\<close>). The interface \<open>agent_step\<close> is extended by
  the preservation of this invariant, which each of the seven steps keeps, also when it fails.
\<close>

subsection \<open>The invariant\<close>

definition labelled :: "string \<Rightarrow> created_node list \<Rightarrow> bool" where
  "labelled label ns \<longleftrightarrow> list_all (\<lambda>n. cn_label n = label) ns"

definition newly :: "string \<Rightarrow> created_node list \<Rightarrow> bool" where
  \<comment> \<open>nodes of this kind are never reused\<close>
  "newly label ns \<longleftrightarrow> list_all (\<lambda>n. cn_label n = label \<and> \<not> cn_was_reused n) ns"

definition nodes_typed :: "registry \<Rightarrow> bool" where
  "nodes_typed g \<longleftrightarrow>
     (\<forall>d. reg_domain g = Some d \<longrightarrow> cn_label d = ''Domain'' \<and> \<not> cn_was_reused d) \<and>
     newly ''Domain_Level'' (reg_domain_levels g) \<and>
     labelled ''Knowledge'' (reg_knowledge g) \<and>
     labelled ''Skill'' (reg_skills g) \<and>
     labelled ''Trait'' (reg_traits g) \<and>
     newly ''Milestone'' (reg_milestones g)"

definition links_typed :: "registry \<Rightarrow> bool" where
  "links_typed g \<longleftrightarrow>
     list_all (level_link_ok g) (reg_level_requirements g) \<and>
     list_all (prerequisite_link_ok g) (reg_prerequisites g) \<and>
     list_all (\<lambda>l. gl_node_type l \<in> {''Knowledge'', ''Skill''}) (reg_generalizations g)"

definition registry_typed :: "registry \<Rightarrow> bool" where
  "registry_typed g \<longleftrightarrow> nodes_typed g \<and> links_typed g"

definition source_present :: "registry \<Rightarrow> generalization_link \<Rightarrow> bool" where
  "source_present g l \<longleftrightarrow>
     (\<exists>n\<in>set (component_nodes g (gl_node_type l)).
        cn_element_id n = gl_specific_id l \<and> cn_name n = gl_specific_name l)"

definition registry_wf :: "registry \<Rightarrow> bool" where
  \<comment> \<open>between two steps also the source of every generalisation is there\<close>
  "registry_wf g \<longleftrightarrow> registry_typed g \<and> list_all (source_present g) (reg_generalizations g)"

lemmas registry_inv_defs = registry_wf_def registry_typed_def nodes_typed_def links_typed_def
  labelled_def newly_def

lemma registry_wf_typed: "registry_wf g \<Longrightarrow> registry_typed g"
  by (simp add: registry_wf_def)

lemma empty_registry_wf [simp]: "registry_wf empty_registry"
  by (simp add: registry_inv_defs empty_registry_def)

subsection \<open>A registry that grows keeps its links\<close>

lemma component_nodes_grow:
  "registry_grows g g' \<Longrightarrow> set (component_nodes g ty) \<subseteq> set (component_nodes g' ty)"
  by (simp add: registry_grows_def component_nodes_def set_mono_prefix)

lemma level_link_grows: "registry_grows g g' \<Longrightarrow> level_link_ok g r \<Longrightarrow> level_link_ok g' r"
proof -
  assume grows: "registry_grows g g'"
  then have "set (reg_domain_levels g) \<subseteq> set (reg_domain_levels g')"
    by (simp add: registry_grows_def set_mono_prefix)
  then show "level_link_ok g r \<Longrightarrow> level_link_ok g' r"
    unfolding level_link_ok_def using component_nodes_grow [OF grows] by blast
qed

lemma prerequisite_link_grows: "registry_grows g g' \<Longrightarrow> prerequisite_link_ok g l \<Longrightarrow> prerequisite_link_ok g' l"
proof -
  assume grows: "registry_grows g g'"
  have "prerequisite_ok g p \<Longrightarrow> prerequisite_ok g' p" for p
    unfolding prerequisite_ok_def using component_nodes_grow [OF grows] by blast
  then show "prerequisite_link_ok g l \<Longrightarrow> prerequisite_link_ok g' l"
    unfolding prerequisite_link_ok_def by blast
qed

lemma source_present_grows: "registry_grows g g' \<Longrightarrow> source_present g l \<Longrightarrow> source_present g' l"
  unfolding source_present_def using component_nodes_grow by blast

lemma links_typed_grow:
  assumes "registry_grows g g'" and "links_typed g"
    and "reg_level_requirements g' = reg_level_requirements g @ rs" "list_all (level_link_ok g') rs"
    and "reg_prerequisites g' = reg_prerequisites g @ ps" "list_all (prerequisite_link_ok g') ps"
    and "reg_generalizations g' = reg_generalizations g @ ls"
      "list_all (\<lambda>l. gl_node_type l \<in> {''Knowledge'', ''Skill''}) ls"
  shows "links_typed g'"
  using assms(2-) level_link_grows [OF assms(1)] prerequisite_link_grows [OF assms(1)]
  by (auto simp: links_typed_def list_all_iff)

lemma registry_wf_grows:
  assumes "registry_grows g g'" and "registry_wf g" and "registry_typed g'"
    and "reg_generalizations g' = reg_generalizations g @ ls" "list_all (source_present g') ls"
  shows "registry_wf g'"
  using assms(2-) source_present_grows [OF assms(1)] by (auto simp: registry_wf_def list_all_iff)

subsection \<open>The operations of the context\<close>

abbreviation typed :: "agent_context \<Rightarrow> bool" where
  "typed c \<equiv> registry_typed (ctx_graph c)"

abbreviation sound :: "agent_context \<Rightarrow> bool" where
  "sound c \<equiv> registry_wf (ctx_graph c)"

lemma context_registry_grows: "context_grows c c' \<Longrightarrow> registry_grows (ctx_graph c) (ctx_graph c')"
  by (simp add: context_grows_def)

lemma nodes_added:
  assumes "context_grows c c'" and "typed c" and "nodes_typed (ctx_graph c')"
    and "reg_level_requirements (ctx_graph c') = reg_level_requirements (ctx_graph c)"
    and "reg_prerequisites (ctx_graph c') = reg_prerequisites (ctx_graph c)"
    and "reg_generalizations (ctx_graph c') = reg_generalizations (ctx_graph c)"
  shows "typed c' \<and> (sound c \<longrightarrow> sound c')"
proof -
  have grows: "registry_grows (ctx_graph c) (ctx_graph c')"
    using assms(1) by (rule context_registry_grows)
  have "typed c'"
    using assms(2-) links_typed_grow [OF grows, of "[]" "[]" "[]"] by (simp add: registry_typed_def)
  then show ?thesis
    using registry_wf_grows [OF grows, of "[]"] assms(6) by simp
qed

lemmas node_inv_defs = context_defs registry_typed_def nodes_typed_def labelled_def newly_def

lemma add_node_preserves:
  "typed c \<Longrightarrow> cn_label n = ''Domain'' \<Longrightarrow> \<not> cn_was_reused n \<Longrightarrow>
     typed (set_domain c n) \<and> (sound c \<longrightarrow> sound (set_domain c n))"
  "typed c \<Longrightarrow> cn_label n = ''Domain_Level'' \<Longrightarrow> \<not> cn_was_reused n \<Longrightarrow>
     typed (add_domain_level c n) \<and> (sound c \<longrightarrow> sound (add_domain_level c n))"
  "typed c \<Longrightarrow> cn_label n = ''Knowledge'' \<Longrightarrow> typed (add_knowledge c n) \<and> (sound c \<longrightarrow> sound (add_knowledge c n))"
  "typed c \<Longrightarrow> cn_label n = ''Skill'' \<Longrightarrow> typed (add_skill c n) \<and> (sound c \<longrightarrow> sound (add_skill c n))"
  "typed c \<Longrightarrow> cn_label n = ''Trait'' \<Longrightarrow> typed (add_trait c n) \<and> (sound c \<longrightarrow> sound (add_trait c n))"
  "typed c \<Longrightarrow> cn_label n = ''Milestone'' \<Longrightarrow> \<not> cn_was_reused n \<Longrightarrow>
     typed (add_milestone c n) \<and> (sound c \<longrightarrow> sound (add_milestone c n))"
  by ((rule nodes_added, rule context_grows_ops); simp add: node_inv_defs)+

lemma add_generalization_typed:
  assumes "typed c" and "gl_node_type l \<in> {''Knowledge'', ''Skill''}"
  shows "typed (add_generalization c l)"
proof -
  have "registry_grows (ctx_graph c) (ctx_graph (add_generalization c l))"
    by (rule context_registry_grows) (rule context_grows_ops)
  from links_typed_grow [OF this, of "[]" "[]" "[l]"] assms show ?thesis
    by (simp add: registry_typed_def nodes_typed_def add_generalization_def reg_add_generalization_def)
qed

subsection \<open>Parts of the steps\<close>

definition keeps_sound :: "(string \<times> agent_context, agent_context) action \<Rightarrow> bool" where
  "keeps_sound m \<longleftrightarrow> ends m sound (\<lambda>(e, c'). typed c')"

lemma sound_typed: "sound c \<Longrightarrow> typed c"
  by (rule registry_wf_typed)

lemma ends_keeping_typed: "typed c \<Longrightarrow> returns m P \<Longrightarrow> ends (keeping c m) P (\<lambda>(e, c'). typed c')"
  unfolding keeping_def by (rule ends_map_err) (auto simp: ends_def returns_iff)

lemma ends_announce_inv:
  assumes "I c" and "\<And>x n. n \<in> set nodes \<Longrightarrow> I x \<Longrightarrow> I (add x n)"
  shows "ends (announce_nodes a label r add nodes c) I R"
  unfolding announce_nodes_def
  by (rule ends_fold_prog) (auto intro!: ends_bind [where P = "\<lambda>_. True"] ends_emit assms)

lemma ends_generalize_typed:
  assumes "typed c" and "ty \<in> {''Knowledge'', ''Skill''}"
  shows "ends (generalize_pass E ty vs created c) typed (\<lambda>(e, c'). typed c')"
  unfolding generalize_pass_def
proof (rule ends_fold_prog)
  show "ends (generalize_one E ty created x v) typed (\<lambda>(e, c'). typed c')" if "typed x" for x v
    unfolding generalize_one_def using that assms(2)
    by (auto intro!: ends_on_result [where P = "\<lambda>_. True" and S = "\<lambda>_. True"] add_generalization_typed
        split: concept_action.split option.split)
qed (rule assms)

lemma foldl_context_grows:
  "(\<And>x n. context_grows x (add x n)) \<Longrightarrow> context_grows c (foldl add c ns)"
  by (induction ns arbitrary: c) (auto intro: context_grows_trans)

text \<open>Passes 7 and the announcement together: the generalisations of pass 7 go out from nodes that are
  in the registry only after the announcement.\<close>

lemma generalize_and_announce:
  assumes c: "sound c" and ty: "ty \<in> {''Knowledge'', ''Skill''}" and created: "labelled ty created"
    and add_typed: "\<And>x n. typed x \<Longrightarrow> cn_label n = ty \<Longrightarrow> typed (add x n)"
    and add_nodes: "\<And>x n. component_nodes (ctx_graph (add x n)) ty = component_nodes (ctx_graph x) ty @ [n]"
    and add_gens: "\<And>x n. reg_generalizations (ctx_graph (add x n)) = reg_generalizations (ctx_graph x)"
    and add_grows: "\<And>x n. context_grows x (add x n)"
  shows "ends (bind (generalize_pass E ty vs created c) (\<lambda>c. announce_nodes a label r add created c))
    sound (\<lambda>(e, c'). typed c')"
proof (rule ends_bind [where P = "\<lambda>x. typed x \<and>
    (\<exists>ls. x = foldl add_generalization c ls \<and> list_all (generalization_of ty created vs) ls)"])
  show "ends (generalize_pass E ty vs created c) (\<lambda>x. typed x \<and>
      (\<exists>ls. x = foldl add_generalization c ls \<and> list_all (generalization_of ty created vs) ls))
      (\<lambda>(e, c'). typed c')"
    using ends_generalize_typed [OF sound_typed [OF c] ty] generalize_pass_Ok
    unfolding ends_def by blast
next
  fix x
  assume x: "typed x \<and>
    (\<exists>ls. x = foldl add_generalization c ls \<and> list_all (generalization_of ty created vs) ls)"
  then obtain ls where ls: "x = foldl add_generalization c ls" "list_all (generalization_of ty created vs) ls"
    by blast
  let ?y = "foldl add x created"
  have gens: "reg_generalizations (ctx_graph (foldl add z ns)) = reg_generalizations (ctx_graph z)"
    and nodes: "component_nodes (ctx_graph (foldl add z ns)) ty = component_nodes (ctx_graph z) ty @ ns" for z ns
    by (induction ns arbitrary: z) (simp_all add: add_gens add_nodes)
  have "typed (foldl add z ns)" if "labelled ty ns" "typed z" for z ns
    using that by (induction ns arbitrary: z) (simp_all add: labelled_def add_typed)
  with x created have typed: "typed ?y" by blast
  have "context_grows c ?y"
    using ls(1) foldl_context_grows [of add_generalization] foldl_context_grows [of add, OF add_grows]
    by (metis context_grows_ops(8) context_grows_trans)
  then have grows: "registry_grows (ctx_graph c) (ctx_graph ?y)" by (rule context_registry_grows)
  have "list_all (source_present (ctx_graph ?y)) ls"
    using ls(2) nodes by (fastforce simp: list_all_iff source_present_def generalization_of_def)
  then have "sound ?y"
    using registry_wf_grows [OF grows c typed] gens ls(1) by (simp add: foldl_add_generalization)
  then show "ends (announce_nodes a label r add created x) sound (\<lambda>(e, c'). typed c')"
    unfolding ends_def
    using announce_nodes_Ok never_fails_announce_nodes unfolding never_fails_iff
    by (metis outcome.distinct(1) prod.inject)
qed

lemma target_pass_labelled:
  "returns (target_pass E llm k vs) (\<lambda>(vs', ts). labelled (ck_label k) ts)"
proof -
  have "returns (create_target E k s p) (\<lambda>(vs', ts). labelled (ck_label k) ts)"
    if "case s of (vs', ts) \<Rightarrow> labelled (ck_label k) ts" for s p
    using that
    by (auto simp: create_target_def returns_ret labelled_def CreatedNode_new_def intro!: returns_bindI
        split: prod.split)
  then have "returns (fold_prog (create_target E k) (vs, []) ps) (\<lambda>(vs', ts). labelled (ck_label k) ts)" for ps
    by (intro returns_fold_prog) (simp_all add: labelled_def)
  then show ?thesis
    unfolding target_pass_def Let_def
    by (auto simp: returns_ret labelled_def intro!: returns_bindI)
qed

lemma node_pass_labelled: "returns (node_pass E k vs ps) (labelled (ck_label k))"
  unfolding returns_iff
proof (intro allI impI)
  fix h ns h'
  assume "node_pass E k vs ps h = (Ok ns, h')"
  from node_pass_Ok [OF this] show "labelled (ck_label k) ns"
    by (auto simp: labelled_def node_for_def list_all_length list_all2_conv_all_nth)
qed

end
