(* ===== verification/Registry_Steps.thy ===== *)
theory Registry_Steps
  imports Registry_Invariant
begin

text \<open>
  The seven steps keep the registry well formed, also when they fail: the interface \<open>typed_step\<close>
  extends \<open>agent_step\<close> by this promise, every step of \<open>agent/steps\<close> satisfies it, and the loop of
  \<open>agent/orchestrator.rs\<close> hands it to the result of a generation and to its \<open>Failed\<close> events.
\<close>

subsection \<open>Sequences of passes\<close>

lemma ends_bind_any: "ends m (\<lambda>_. True) R \<Longrightarrow> (\<And>x. ends (k x) Q R) \<Longrightarrow> ends (bind m k) Q R"
  by (rule ends_bind)

lemma keeping_then:
  "typed c \<Longrightarrow> (\<And>x. ends (k x) Q (\<lambda>(e, c'). typed c')) \<Longrightarrow>
     ends (bind (keeping c m) k) Q (\<lambda>(e, c'). typed c')"
  by (rule ends_bind_any [OF ends_keeping_typed [OF _ returns_True]])

lemma keeping_then_returns:
  "typed c \<Longrightarrow> returns m P \<Longrightarrow> (\<And>x. P x \<Longrightarrow> ends (k x) Q (\<lambda>(e, c'). typed c')) \<Longrightarrow>
     ends (bind (keeping c m) k) Q (\<lambda>(e, c'). typed c')"
  by (rule ends_bind [OF ends_keeping_typed])

lemma progress_then: "(\<And>x. ends (k x) Q R) \<Longrightarrow> ends (bind (progress a t) k) Q R"
  by (rule ends_bind_any [OF ends_progress])

lemma emit_then: "(\<And>x. ends (k x) Q R) \<Longrightarrow> ends (bind (emit_event ev) k) Q R"
  by (rule ends_bind_any [OF ends_emit])

lemmas pass_rules = keeping_then progress_then emit_then

lemma announce_labelled:
  assumes "sound c" and "labelled label ns"
    and "\<And>x n. sound x \<Longrightarrow> cn_label n = label \<Longrightarrow> sound (add x n)"
  shows "ends (announce_nodes a l r add ns c) sound R"
  using assms by (auto intro!: ends_announce_inv simp: labelled_def list_all_iff)

subsection \<open>The architect\<close>

lemma architect_level_keeps: "sound c \<Longrightarrow> ends (architect_level E d c l) sound (\<lambda>(e, c'). typed c')"
  unfolding architect_level_def Let_def
  using add_node_preserves(2) [OF sound_typed]
  by (auto intro!: ends_bind [where P = "\<lambda>_. True"] ends_keeping_typed ends_emit sound_typed
      simp: CreatedNode_new_def)

lemma architect_keeps:
  assumes "sound c"
  shows "keeps_sound (architect_execute E c)"
proof -
  have "sound (set_domain c (CreatedNode_new n i ''Domain''))" for n i
    using assms add_node_preserves(1) [OF sound_typed [OF assms]] by (simp add: CreatedNode_new_def)
  then show ?thesis
    unfolding keeps_sound_def architect_execute_def Let_def
    by (auto intro!: ends_bind [where P = "\<lambda>_. True"] ends_keeping_typed ends_emit ends_progress
        ends_avatar ends_fold_prog architect_level_keeps sound_typed assms)
qed

subsection \<open>Knowledge and skills\<close>

lemma targets_keep:
  \<comment> \<open>the block that creates the missing targets and announces them\<close>
  assumes c: "sound c" and p4: "returns p4 (\<lambda>(vs', ts). labelled label ts)"
    and add: "\<And>x n. sound x \<Longrightarrow> cn_label n = label \<Longrightarrow> sound (add x n)"
  shows "ends (bind (progress a t) (\<lambda>_. bind (keeping c p4) (\<lambda>(vs, ts).
      bind (announce_nodes a l r add ts c) (\<lambda>c. ret (vs, c)))))
    (\<lambda>(vs', c'). sound c') (\<lambda>(e, c'). typed c')"
  by (rule progress_then, rule keeping_then_returns [OF sound_typed [OF c] p4])
    (auto intro!: ends_bind [where P = sound] announce_labelled [OF c] add)

lemma add_knowledge_skill_sound:
  "sound x \<Longrightarrow> cn_label n = ''Knowledge'' \<Longrightarrow> sound (add_knowledge x n)"
  "sound x \<Longrightarrow> cn_label n = ''Skill'' \<Longrightarrow> sound (add_skill x n)"
  using add_node_preserves(3,4) [OF sound_typed] by blast+

lemma concepts_keep:
  \<comment> \<open>the passes after the targets: properties, nodes, and what is done with the nodes\<close>
  assumes "sound c" and "\<And>ps. returns (p6 ps) (labelled ty)"
    and "\<And>created. labelled ty created \<Longrightarrow> ends (finish created) sound (\<lambda>(e, c'). typed c')"
  shows "ends (bind (progress a t1) (\<lambda>_. bind (keeping c p5) (\<lambda>properties.
      bind (progress a t2) (\<lambda>_. bind (keeping c (p6 properties)) finish))))
    sound (\<lambda>(e, c'). typed c')"
  by (rule progress_then, rule keeping_then [OF sound_typed [OF assms(1)]], rule progress_then,
      rule keeping_then_returns [OF sound_typed [OF assms(1)] assms(2)], rule assms(3))

lemma knowledge_targets_keeps:
  assumes "sound c"
  shows "ends (knowledge_targets E llm c vs) (\<lambda>(vs', c'). sound c') (\<lambda>(e, c'). typed c')"
proof -
  have "returns (knowledge_pass4 E llm vs) (\<lambda>(vs', ts). labelled ''Knowledge'' ts)"
    using target_pass_labelled [of E llm "knowledge_kind E"]
    by (simp add: knowledge_pass4_def knowledge_kind_def)
  from targets_keep [OF assms this add_knowledge_skill_sound(1)] assms show ?thesis
    by (simp add: knowledge_targets_def Let_def)
qed

lemma knowledge_finish_keeps:
  assumes "sound c" and "labelled ''Knowledge'' created"
  shows "ends (bind (knowledge_pass7 E vs created c) (\<lambda>c.
      announce_nodes KnowledgeGenerator ''Knowledge'' cn_was_reused add_knowledge created c))
    sound (\<lambda>(e, c'). typed c')"
  unfolding knowledge_pass7_def
proof (rule generalize_and_announce [OF assms(1) _ assms(2)])
  show "typed (add_knowledge x n)" if "typed x" "cn_label n = ''Knowledge''" for x n
    using add_node_preserves(3) [OF that] by simp
  show "context_grows x (add_knowledge x n)" for x n by (rule context_grows_ops)
qed (simp_all add: component_nodes_def add_knowledge_def)

lemma knowledge_keeps:
  assumes c: "sound c"
  shows "keeps_sound (knowledge_execute E llm c)"
proof -
  have p6: "returns (knowledge_pass6 E vs ps) (labelled ''Knowledge'')" for vs ps
    using node_pass_labelled [of E "knowledge_kind E"] by (simp add: knowledge_pass6_def knowledge_kind_def)
  show ?thesis
    unfolding keeps_sound_def knowledge_execute_def
    by ((rule pass_rules sound_typed [OF c])+, rule ends_bind [OF knowledge_targets_keeps [OF c]])
      (auto intro!: concepts_keep p6 knowledge_finish_keeps)
qed

lemma skill_targets_keeps:
  assumes "sound c"
  shows "ends (skill_targets E llm c vs) (\<lambda>(vs', c'). sound c') (\<lambda>(e, c'). typed c')"
proof -
  have "returns (skill_pass4 E llm vs) (\<lambda>(vs', ts). labelled ''Skill'' ts)"
    using target_pass_labelled [of E llm "skill_kind E"]
    by (simp add: skill_pass4_def skill_kind_def)
  from targets_keep [OF assms this add_knowledge_skill_sound(2)] assms show ?thesis
    by (simp add: skill_targets_def Let_def)
qed

lemma skill_finish_keeps:
  assumes "sound c" and "labelled ''Skill'' created"
  shows "ends (bind (skill_pass7 E vs created c) (\<lambda>c.
      announce_nodes SkillGenerator ''Skill'' cn_was_reused add_skill created c))
    sound (\<lambda>(e, c'). typed c')"
  unfolding skill_pass7_def
proof (rule generalize_and_announce [OF assms(1) _ assms(2)])
  show "typed (add_skill x n)" if "typed x" "cn_label n = ''Skill''" for x n
    using add_node_preserves(4) [OF that] by simp
  show "context_grows x (add_skill x n)" for x n by (rule context_grows_ops)
qed (simp_all add: component_nodes_def add_skill_def)

lemma skill_keeps:
  assumes c: "sound c"
  shows "keeps_sound (skill_execute E llm c)"
proof -
  have p6: "returns (skill_pass6 E vs ps) (labelled ''Skill'')" for vs ps
    using node_pass_labelled [of E "skill_kind E"] by (simp add: skill_pass6_def skill_kind_def)
  show ?thesis
    unfolding keeps_sound_def skill_execute_def
    by ((rule pass_rules sound_typed [OF c])+, rule ends_bind [OF skill_targets_keeps [OF c]])
      (auto intro!: concepts_keep p6 skill_finish_keeps)
qed

subsection \<open>Traits and milestones\<close>

lemma announce_shared_sound:
  "sound c \<Longrightarrow> labelled ''Trait'' ns \<Longrightarrow> ends (announce_nodes a l r add_trait ns c) sound R"
  "sound c \<Longrightarrow> newly ''Milestone'' ns \<Longrightarrow> ends (announce_nodes a l r add_milestone ns c) sound R"
proof -
  have "sound (add_trait x n)" if "sound x" "cn_label n = ''Trait''" for x n
    using add_node_preserves(5) [OF sound_typed] that by blast
  then show "sound c \<Longrightarrow> labelled ''Trait'' ns \<Longrightarrow> ends (announce_nodes a l r add_trait ns c) sound R"
    by (blast intro: announce_labelled)
  have "sound (add_milestone x n)" if "sound x" "cn_label n = ''Milestone''" "\<not> cn_was_reused n" for x n
    using add_node_preserves(6) [OF sound_typed] that by blast
  then show "sound c \<Longrightarrow> newly ''Milestone'' ns \<Longrightarrow> ends (announce_nodes a l r add_milestone ns c) sound R"
    by (auto intro!: ends_announce_inv simp: newly_def list_all_iff)
qed

lemma trait_pass5_labelled: "returns (trait_pass5 E vs ps) (labelled ''Trait'')"
proof -
  have "returns (create_trait E s v) (\<lambda>(created, _). labelled ''Trait'' created)"
    if "case s of (created, ps) \<Rightarrow> labelled ''Trait'' created" for s v
    using that
    by (auto simp: create_trait_def returns_ret labelled_def CreatedNode_new_def CreatedNode_reused_def
        intro!: returns_bindI split: prod.split list.split concept_action.split)
  then have "returns (fold_prog (create_trait E) ([], ps) vs) (\<lambda>(created, _). labelled ''Trait'' created)"
    by (intro returns_fold_prog) (simp_all add: labelled_def)
  then show ?thesis
    unfolding trait_pass5_def by (rule returns_bind) (auto simp: returns_ret)
qed

lemma trait_keeps:
  assumes c: "sound c"
  shows "keeps_sound (trait_execute E llm c)"
  unfolding keeps_sound_def trait_execute_def
  by ((rule progress_then | rule keeping_then_returns [OF sound_typed [OF c] trait_pass5_labelled]
      | rule keeping_then [OF sound_typed [OF c]])+, rule announce_shared_sound(1) [OF c])

lemma milestone_create_nodes_newly: "returns (milestone_create_nodes E ps) (newly ''Milestone'')"
  unfolding milestone_create_nodes_def
  by (rule returns_fold_prog)
    (auto simp: create_milestone_def returns_ret newly_def CreatedNode_new_def intro!: returns_bindI)

lemma milestone_keeps:
  assumes c: "sound c"
  shows "keeps_sound (milestone_execute E llm c)"
  unfolding keeps_sound_def milestone_execute_def
  by ((rule progress_then | rule keeping_then_returns [OF sound_typed [OF c] milestone_create_nodes_newly]
      | rule keeping_then [OF sound_typed [OF c]])+, rule announce_shared_sound(2) [OF c])

subsection \<open>The relationships\<close>

lemma never_fails_links [prog_rules]:
  "never_fails (create_level_relationships E as c)"
  "never_fails (create_prerequisite_relationships E ps c)"
  unfolding create_level_relationships_def create_level_relationship_def
    create_prerequisite_relationships_def create_prerequisite_relationship_def
  by (auto intro!: prog_rules split: prod.split option.split)

lemma distributor_keeps:
  assumes c: "sound c"
  shows "keeps_sound (distributor_execute E llm c)"
  unfolding keeps_sound_def ends_def
proof (intro conjI allI impI)
  fix h c' h' assume run: "distributor_execute E llm c h = (Ok c', h')"
  from distributor_execute_Ok [OF run] obtain rs where
    rs: "list_all (level_link_ok (ctx_graph c)) rs"
    and g: "ctx_graph c' = (ctx_graph c)\<lparr>reg_level_requirements := reg_level_requirements (ctx_graph c) @ rs\<rparr>"
    by blast
  have grows: "registry_grows (ctx_graph c) (ctx_graph c')"
    using distributor_step.success_grows [OF run] by (rule context_registry_grows)
  have "list_all (level_link_ok (ctx_graph c')) rs"
    using rs level_link_grows [OF grows] by (auto simp: list_all_iff)
  then have "typed c'"
    using links_typed_grow [OF grows, of rs "[]" "[]"] sound_typed [OF c] g
    by (simp add: registry_typed_def nodes_typed_def)
  then show "sound c'"
    using registry_wf_grows [OF grows c, of "[]"] g by simp
next
  fix h e h' assume run: "distributor_execute E llm c h = (Err e, h')"
  have "ends (distributor_execute E llm c) (\<lambda>_. True) (\<lambda>(e, c'). typed c')"
    unfolding distributor_execute_def
    by (rule keeping_then [OF sound_typed [OF c]])
      (auto intro!: never_fails_ends prog_rules split: prod.split)
  with run show "case e of (e, c') \<Rightarrow> typed c'" unfolding ends_def by blast
qed

lemma mapper_keeps:
  assumes c: "sound c"
  shows "keeps_sound (mapper_execute E llm c)"
  unfolding keeps_sound_def ends_def
proof (intro conjI allI impI)
  fix h c' h' assume run: "mapper_execute E llm c h = (Ok c', h')"
  from mapper_execute_Ok [OF run] obtain ls where
    ls: "list_all (prerequisite_link_ok (ctx_graph c)) ls"
    and g: "ctx_graph c' = (ctx_graph c)\<lparr>reg_prerequisites := reg_prerequisites (ctx_graph c) @ ls\<rparr>"
    by blast
  have grows: "registry_grows (ctx_graph c) (ctx_graph c')"
    using mapper_step.success_grows [OF run] by (rule context_registry_grows)
  have "list_all (prerequisite_link_ok (ctx_graph c')) ls"
    using ls prerequisite_link_grows [OF grows] by (auto simp: list_all_iff)
  then have "typed c'"
    using links_typed_grow [OF grows, of "[]" ls "[]"] sound_typed [OF c] g
    by (simp add: registry_typed_def nodes_typed_def)
  then show "sound c'"
    using registry_wf_grows [OF grows c, of "[]"] g by simp
next
  fix h e h' assume run: "mapper_execute E llm c h = (Err e, h')"
  have "ends (mapper_execute E llm c) (\<lambda>_. True) (\<lambda>(e, c'). typed c')"
    unfolding mapper_execute_def
    by (rule keeping_then [OF sound_typed [OF c]])
      (auto intro!: never_fails_ends prog_rules split: prod.split)
  with run show "case e of (e, c') \<Rightarrow> typed c'" unfolding ends_def by blast
qed

subsection \<open>The interface\<close>

locale typed_step = agent_step agent execute for agent and execute +
  assumes keeps: "sound c \<Longrightarrow> keeps_sound (execute c)"
begin

lemma success_sound: "sound c \<Longrightarrow> execute c h = (Ok c', h') \<Longrightarrow> sound c'"
  using keeps unfolding keeps_sound_def ends_def by blast

lemma failure_typed: "sound c \<Longrightarrow> execute c h = (Err (e, c'), h') \<Longrightarrow> typed c'"
  using keeps unfolding keeps_sound_def ends_def by fastforce

end

interpretation architect_typed: typed_step DomainArchitect "architect_execute E"
  by unfold_locales (rule architect_keeps)

interpretation knowledge_typed: typed_step KnowledgeGenerator "knowledge_execute E llm"
  by unfold_locales (rule knowledge_keeps)

interpretation skill_typed: typed_step SkillGenerator "skill_execute E llm"
  by unfold_locales (rule skill_keeps)

interpretation trait_typed: typed_step TraitGenerator "trait_execute E llm"
  by unfold_locales (rule trait_keeps)

interpretation milestone_typed: typed_step MilestoneGenerator "milestone_execute E llm"
  by unfold_locales (rule milestone_keeps)

interpretation distributor_typed: typed_step LevelDistributor "distributor_execute E llm"
  by unfold_locales (rule distributor_keeps)

interpretation mapper_typed: typed_step PrerequisiteMapper "mapper_execute E llm"
  by unfold_locales (rule mapper_keeps)

lemma agent_steps_typed: "list_all (\<lambda>(a, ex). typed_step a ex) (agent_steps E llm)"
  by (simp add: agent_steps_def architect_typed.typed_step_axioms knowledge_typed.typed_step_axioms
      skill_typed.typed_step_axioms trait_typed.typed_step_axioms milestone_typed.typed_step_axioms
      distributor_typed.typed_step_axioms mapper_typed.typed_step_axioms)

subsection \<open>The generation\<close>

fun reports_typed :: "effect \<Rightarrow> bool" where
  \<comment> \<open>the partial registry that a \<open>Failed\<close> event shows the client\<close>
  "reports_typed (Emit (Failed e a (Some g))) \<longleftrightarrow> registry_typed g"
| "reports_typed _ \<longleftrightarrow> True"

lemma own_effect_reports: "own_effect a f \<Longrightarrow> reports_typed f"
  by (cases f rule: reports_typed.cases) auto

lemma search_effect_reports: "search_effect f \<Longrightarrow> reports_typed f"
  by (cases f rule: reports_typed.cases) auto

context typed_step
begin

lemma run_agent_reports:
  assumes "run_agent (stats, c) (idx, agent, execute) h = (out, h')" and "sound c"
  shows "\<exists>u. h' = h @ u \<and> list_all reports_typed u \<and> (\<forall>s. out = Ok s \<longrightarrow> sound (snd s))"
proof -
  let ?h = "h @ [Emit (AgentStarted agent (idx + 1) (display_name agent))]"
  obtain r h1 where ex: "execute c ?h = (r, h1)" by (cases "execute c ?h")
  obtain u where u: "h1 = ?h @ u" "list_all reports_typed u"
    using appends [OF ex] own_effect_reports by (fastforce simp: list_all_iff)
  show ?thesis
  proof (cases r)
    case (Ok c')
    with assms ex u success_sound show ?thesis
      by (auto simp: run_agent_def bind_def on_result_def call_runs ret_def Let_def split: prod.splits)
  next
    case (Err d)
    obtain e c' where "d = (e, c')" by (cases d)
    with assms ex u Err failure_typed show ?thesis
      by (auto simp: run_agent_def bind_def on_result_def call_runs fail_def Let_def)
  next
    case Panic
    with assms ex u show ?thesis by (auto simp: run_agent_def bind_def on_result_def call_runs)
  qed
qed

end

lemma fold_run_agent_reports:
  "list_all (\<lambda>(a, ex). typed_step a ex) steps \<Longrightarrow> sound c \<Longrightarrow>
   fold_prog run_agent (stats, c) (enumerate i steps) h = (out, h') \<Longrightarrow>
     \<exists>u. h' = h @ u \<and> list_all reports_typed u \<and> (\<forall>s. out = Ok s \<longrightarrow> sound (snd s))"
proof (induction steps arbitrary: i stats c h)
  case Nil
  then show ?case by (auto simp: ret_def)
next
  case (Cons st steps)
  obtain a ex where st: "st = (a, ex)" by (cases st)
  obtain r h1 where r: "run_agent (stats, c) (i, a, ex) h = (r, h1)"
    by (cases "run_agent (stats, c) (i, a, ex) h")
  have "typed_step a ex" using Cons.prems(1) st by simp
  from typed_step.run_agent_reports [OF this r Cons.prems(2)] obtain u where
    u: "h1 = h @ u" "list_all reports_typed u" "\<forall>s. r = Ok s \<longrightarrow> sound (snd s)" by blast
  show ?case
  proof (cases r)
    case (Ok s)
    obtain stats1 c1 where s: "s = (stats1, c1)" by (cases s)
    have "fold_prog run_agent (stats1, c1) (enumerate (Suc i) steps) h1 = (out, h')"
      using Cons.prems(3) st r Ok s by (simp add: bind_def)
    from Cons.IH [OF _ _ this] Cons.prems(1) u Ok s show ?thesis by auto
  qed (use Cons.prems(3) st r u in \<open>auto simp: bind_def\<close>)
qed

lemma generate_domain_reports:
  assumes "generate_domain E llm name desc h = (out, h')"
  shows "\<exists>u. h' = h @ u \<and> list_all reports_typed u \<and> (\<forall>r. out = Ok r \<longrightarrow> registry_wf (dgr_domain_graph r))"
proof -
  let ?h0 = "h @ [ReadInstant]" and ?s0 = "(default_statistics, AgentContext_new name desc)"
  obtain r h1 where ch: "check_domain_exists E name ?h0 = (r, h1)"
    by (cases "check_domain_exists E name ?h0")
  from emitsE [OF check_domain_exists_effects ch] obtain u where u: "h1 = ?h0 @ u" "list_all reports_typed u"
    using search_effect_reports by (metis (no_types, lifting) list_all_iff)
  show ?thesis
  proof (cases "r = Ok None")
    case False
    with assms ch u show ?thesis
      by (cases r) (auto simp: generate_domain_def bind_def call_runs fail_def split: option.splits)
  next
    case True
    let ?h2 = "h1 @ [Emit (Started name 7)]"
    obtain r2 h3 where run: "fold_prog run_agent ?s0 (enumerate 0 (agent_steps E llm)) ?h2 = (r2, h3)"
      by (cases "fold_prog run_agent ?s0 (enumerate 0 (agent_steps E llm)) ?h2")
    have "sound (AgentContext_new name desc)" by (simp add: AgentContext_new_def)
    from fold_run_agent_reports [OF agent_steps_typed this run] obtain w where
      w: "h3 = ?h2 @ w" "list_all reports_typed w" "\<forall>s. r2 = Ok s \<longrightarrow> sound (snd s)" by blast
    with assms ch u True run show ?thesis
      by (cases r2) (auto simp: generate_domain_def bind_def call_runs Let_def ret_def)
  qed
qed

end
