(* ===== verification/General_Ends.thy ===== *)
theory General_Ends
  imports Registry_Steps
begin

text \<open>
  Where the recorded generalisations end. A decision of pass 3 takes the id of the general node from a
  search, or leaves it to pass 4, which creates the node and records it before pass 7 links to it. So the
  general end of every recorded generalisation is a node that a search of this run returned, or a node
  that the step created and recorded: no id comes from the answer of the LLM. The judgement \<open>triple\<close>
  carries this through the passes, with the history, and the interface \<open>ending_step\<close> through the steps.
\<close>

subsection \<open>Triples\<close>

definition triple ::
  "('f list \<Rightarrow> bool) \<Rightarrow> ('f, 'e, 'a) prog \<Rightarrow> ('a \<Rightarrow> 'f list \<Rightarrow> bool) \<Rightarrow> ('e \<Rightarrow> 'f list \<Rightarrow> bool) \<Rightarrow> bool" where
  \<comment> \<open>from a history with the first property: what holds of a value, and of an error, and the history then\<close>
  "triple P m Q R \<longleftrightarrow>
     (\<forall>h v h'. P h \<and> m h = (Ok v, h') \<longrightarrow> Q v h') \<and> (\<forall>h e h'. P h \<and> m h = (Err e, h') \<longrightarrow> R e h')"

definition stable :: "('f list \<Rightarrow> bool) \<Rightarrow> bool" where
  "stable P \<longleftrightarrow> (\<forall>h h'. P h \<and> prefix h h' \<longrightarrow> P h')"

abbreviation extends :: "('f, 'e, 'a) prog \<Rightarrow> bool" where
  "extends m \<equiv> emits (\<lambda>_. True) m"

lemma extendsD: "emits A m \<Longrightarrow> m h = (r, h') \<Longrightarrow> prefix h h'"
  by (metis emitsE prefixI)

lemma triple_ret: "(\<And>h. P h \<Longrightarrow> Q x h) \<Longrightarrow> triple P (ret x) Q R"
  by (simp add: triple_def ret_def)

lemma triple_fail: "(\<And>h. P h \<Longrightarrow> R e h) \<Longrightarrow> triple P (fail e) Q R"
  by (simp add: triple_def fail_def)

lemma triple_bind:
  "triple P m Q' R \<Longrightarrow> (\<And>x. triple (Q' x) (k x) Q R) \<Longrightarrow> triple P (bind m k) Q R"
  unfolding triple_def bind_eq_Ok bind_eq_Err by blast

lemma triple_bind_pair:
  "triple P m (\<lambda>(a, b). Q' a b) R \<Longrightarrow> (\<And>a b. triple (Q' a b) (k a b) Q R) \<Longrightarrow>
     triple P (bind m (\<lambda>(a, b). k a b)) Q R"
  by (rule triple_bind) (auto split: prod.split)

lemma triple_on_result:
  "triple P m Q' R' \<Longrightarrow> (\<And>x. triple (Q' x) (k x) Q R) \<Longrightarrow> (\<And>e. triple (R' e) (c e) Q R) \<Longrightarrow>
     triple P (on_result m k c) Q R"
  unfolding triple_def on_result_eq_Ok on_result_eq_Err by blast

lemma triple_conseq:
  "triple P m Q R \<Longrightarrow> (\<And>h. P' h \<Longrightarrow> P h) \<Longrightarrow> (\<And>v h. Q v h \<Longrightarrow> Q' v h) \<Longrightarrow> (\<And>e h. R e h \<Longrightarrow> R' e h) \<Longrightarrow>
     triple P' m Q' R'"
  unfolding triple_def by blast

lemma triple_fold_prog:
  "(\<And>h. P h \<Longrightarrow> I s h) \<Longrightarrow> (\<And>s x. x \<in> set xs \<Longrightarrow> triple (I s) (f s x) I R) \<Longrightarrow>
     triple P (fold_prog f s xs) I R"
proof (induction xs arbitrary: P s)
  case Nil
  then show ?case by (simp add: triple_ret)
next
  case (Cons x xs)
  have "triple P (f s x) I R" using Cons.prems by (intro triple_conseq [OF Cons.prems(2)]) simp_all
  moreover have "triple (I s') (fold_prog f s' xs) I R" for s' using Cons by simp
  ultimately show ?case by (simp add: triple_bind)
qed

lemma triple_frame: "emits A m \<Longrightarrow> stable P \<Longrightarrow> triple P m (\<lambda>_. P) (\<lambda>_. P)"
  unfolding triple_def stable_def using extendsD by blast

lemma triple_keeping: "triple P m Q (\<lambda>e. R (e, c)) \<Longrightarrow> triple P (keeping c m) Q R"
  by (auto simp: triple_def keeping_def map_err_eq_Ok map_err_eq_Err)

text \<open>Every value of a batch was computed between its start and its end.\<close>

lemma batch_members:
  fixes f :: "'x \<Rightarrow> ('f, 'e, 'a) prog"
  assumes f: "\<And>x. emits A (f x)" and "batch f xs h = (Ok ys, h')" and "y \<in> set ys"
  shows "\<exists>x h1 h2. x \<in> set xs \<and> f x h1 = (Ok y, h2) \<and> prefix h h1 \<and> prefix h2 h'"
proof -
  have ran: "Ok y \<in> set rs \<Longrightarrow>
      (run_all f xs h :: ('e, ('e, 'a) outcome list) outcome \<times> 'f list) = (Ok rs, h') \<Longrightarrow>
      \<exists>x h1 h2. x \<in> set xs \<and> f x h1 = (Ok y, h2) \<and> prefix h h1 \<and> prefix h2 h'" for rs h
  proof (induction xs arbitrary: h rs)
    case (Cons x xs)
    obtain r h1 where fx: "f x h = (r, h1)" by (cases "f x h")
    have "\<exists>rs'. rs = r # rs' \<and>
        (run_all f xs h1 :: ('e, ('e, 'a) outcome list) outcome \<times> 'f list) = (Ok rs', h')"
      using Cons.prems(2) fx by (cases r) (auto simp: bind_eq_Ok ret_eq_Ok)
    then obtain rs' where rs: "rs = r # rs'"
      and rest: "(run_all f xs h1 :: ('e, ('e, 'a) outcome list) outcome \<times> 'f list) = (Ok rs', h')"
      by blast
    have "prefix h h1" by (rule extendsD [OF f fx])
    moreover have "prefix h1 h'" by (rule extendsD [OF emits_run_all [OF f] rest])
    ultimately show ?case
      using Cons.IH [OF _ rest] Cons.prems(1) rs fx by (auto intro: prefix_order.trans)
  qed (simp add: ret_def)
  obtain rs where "(run_all f xs h :: ('e, ('e, 'a) outcome list) outcome \<times> 'f list) = (Ok rs, h')"
    "rs = map Ok ys"
    using assms(2) by (auto simp: batch_def bind_eq_Ok lift_outcome_eq_Ok collect_results_Ok_iff)
  with ran [of rs h] assms(3) show ?thesis by simp
qed

subsection \<open>The general end of a generalisation\<close>

definition found_in ::
  "env \<Rightarrow> effect list \<Rightarrow> effect list \<Rightarrow> string \<Rightarrow> string \<Rightarrow> bool" where
  \<comment> \<open>a search for nodes of the label, between the two points of the history, returned the id\<close>
  "found_in E h h' label i \<longleftrightarrow>
     (\<exists>text limit ns h1 h2. search_text E label text limit h1 = (Ok ns, h2) \<and>
        prefix h h1 \<and> prefix h2 h' \<and> i \<in> sn_id ` set ns)"

definition made_in :: "registry \<Rightarrow> string \<Rightarrow> string \<Rightarrow> string \<Rightarrow> bool" where
  \<comment> \<open>a node that the generation created and recorded under the label\<close>
  "made_in g label i name \<longleftrightarrow>
     (\<exists>n\<in>set (component_nodes g label). cn_element_id n = i \<and> cn_name n = name \<and> \<not> cn_was_reused n)"

definition general_end :: "env \<Rightarrow> effect list \<Rightarrow> effect list \<Rightarrow> registry \<Rightarrow> generalization_link \<Rightarrow> bool" where
  "general_end E h h' g l \<longleftrightarrow>
     found_in E h h' (gl_node_type l) (gl_general_id l) \<or>
     made_in g (gl_node_type l) (gl_general_id l) (gl_general_name l)"

definition general_ends :: "env \<Rightarrow> effect list \<Rightarrow> effect list \<Rightarrow> registry \<Rightarrow> bool" where
  "general_ends E h h' g \<longleftrightarrow> list_all (general_end E h h' g) (reg_generalizations g)"

lemma found_in_later: "found_in E h k label i \<Longrightarrow> prefix k k' \<Longrightarrow> found_in E h k' label i"
  unfolding found_in_def by (blast intro: prefix_order.trans)

lemma made_in_grows: "made_in g label i n \<Longrightarrow> registry_grows g g' \<Longrightarrow> made_in g' label i n"
  unfolding made_in_def using component_nodes_grow by blast

lemma general_end_later:
  "general_end E h k g l \<Longrightarrow> prefix k k' \<Longrightarrow> registry_grows g g' \<Longrightarrow> general_end E h k' g' l"
  unfolding general_end_def using found_in_later made_in_grows by blast

lemma general_ends_later: "general_ends E h k g \<Longrightarrow> prefix k k' \<Longrightarrow> general_ends E h k' g"
  unfolding general_ends_def list_all_iff using found_in_later unfolding general_end_def by blast

lemma general_ends_grow:
  assumes "general_ends E h k g" and "registry_grows g g'"
    and "reg_generalizations g' = reg_generalizations g @ ls" and "list_all (general_end E h k g') ls"
  shows "general_ends E h k g'"
  using assms general_end_later [OF _ prefix_order.refl]
  by (auto simp: general_ends_def list_all_iff)

subsection \<open>Pass 2 and pass 3\<close>

definition candidates ::
  "env \<Rightarrow> effect list \<Rightarrow> string \<Rightarrow> (string \<times> similar_node list) list \<Rightarrow> effect list \<Rightarrow> bool" where
  "candidates E h0 label results h \<longleftrightarrow>
     (\<forall>(concept, ns)\<in>set results. \<forall>n\<in>set ns. found_in E h0 h label (sn_id n))"

definition decided :: "env \<Rightarrow> effect list \<Rightarrow> string \<Rightarrow> effect list \<Rightarrow> verified_concept \<Rightarrow> bool" where
  \<comment> \<open>a target without a node is marked for creation\<close>
  "decided E h0 label h v \<longleftrightarrow>
     (\<forall>gid name needs. vc_action v = CreateAndGeneralize gid name needs \<longrightarrow>
        needs \<or> found_in E h0 h label gid)"

lemma similarity_pass_candidates:
  assumes "similarity_pass E label concepts h = (Ok results, h')" and "prefix h0 h"
  shows "candidates E h0 label results h'"
  unfolding candidates_def
proof (safe)
  fix concept ns n
  assume mem: "(concept, ns) \<in> set results" "n \<in> set ns"
  have "extends (bind (search_text E label c 3) (\<lambda>similar. ret (c, similar)))" for c
    by (rule emits_mono [where P = "own_effect KnowledgeGenerator"]) (auto intro!: prog_rules)
  from batch_members [OF this assms(1) [unfolded similarity_pass_def] mem(1)]
  obtain h1 h2 where "search_text E label concept 3 h1 = (Ok ns, h2)" "prefix h h1" "prefix h2 h'"
    by (auto simp: bind_eq_Ok ret_eq_Ok)
  with assms(2) mem(2) show "found_in E h0 h' label (sn_id n)"
    unfolding found_in_def by (blast intro: prefix_order.trans)
qed

lemma resolve_target_decided:
  assumes "resolve_target E label concept ns d h = (Ok v, h')" and "prefix h0 h"
    and "\<forall>n\<in>set ns. found_in E h0 h label (sn_id n)"
  shows "decided E h0 label h' v"
proof (cases "vc_action d")
  case (CreateAndGeneralize g name b)
  show ?thesis
  proof (cases "find (\<lambda>n. sn_name n = name) ns")
    case (Some n)
    then show ?thesis
      using assms find_SomeD [OF Some] CreateAndGeneralize
      by (auto simp: resolve_target_def ret_def decided_def vc_defs)
  next
    case None
    with assms(1) CreateAndGeneralize obtain rs h1 where
      s: "search_text E label name 1 h = (Ok rs, h1)" and h': "h' = h1"
      and v: "v = (case rs of found # _ \<Rightarrow>
                     (if f64_ge (sn_score found) f64_0_95 \<or> sn_name found = name
                      then vc_create_and_generalize concept (sn_id found) name False
                      else vc_create_and_generalize concept [] name True)
                   | [] \<Rightarrow> vc_create_and_generalize concept [] name True)"
      by (auto simp: resolve_target_def prog_Ok_iff)
    have "found_in E h0 h' label (sn_id r)" if "r \<in> set rs" for r
      unfolding found_in_def h' using s assms(2) that by blast
    then show ?thesis
      unfolding v by (cases rs) (auto simp: decided_def vc_defs)
  qed
qed (use assms in \<open>simp_all add: resolve_target_def ret_def decided_def\<close>)

lemma determine_action_decided: "determine_action_by_score concept ns = Some v \<Longrightarrow> decided E h0 label h v"
  by (auto simp: determine_action_by_score_def decided_def vc_defs split: list.splits if_splits)

lemma decided_later: "decided E h0 label h v \<Longrightarrow> prefix h h' \<Longrightarrow> decided E h0 label h' v"
  unfolding decided_def using found_in_later by blast

lemma candidates_later: "candidates E h0 label rs h \<Longrightarrow> prefix h h' \<Longrightarrow> candidates E h0 label rs h'"
  unfolding candidates_def using found_in_later by blast

text \<open>Pass 3 decides concept by concept; later decisions only extend the history.\<close>

lemma fold_decided:
  assumes step: "\<And>vs x h vs' h'. f vs x h = (Ok vs', h') \<Longrightarrow> prefix h0 h \<Longrightarrow>
        \<forall>n\<in>set (snd x). found_in E h0 h label (sn_id n) \<Longrightarrow>
        prefix h h' \<and> (\<exists>v. vs' = vs @ [v] \<and> decided E h0 label h' v)"
  shows "fold_prog f vs results h = (Ok vs', h') \<Longrightarrow> prefix h0 h \<Longrightarrow> candidates E h0 label results h \<Longrightarrow>
    list_all (decided E h0 label h) vs \<Longrightarrow> list_all (decided E h0 label h') vs'"
proof (induction results arbitrary: vs h)
  case Nil
  then show ?case by (simp add: ret_def)
next
  case (Cons x results)
  from Cons.prems(1) obtain vs1 h1 where 1: "f vs x h = (Ok vs1, h1)" "fold_prog f vs1 results h1 = (Ok vs', h')"
    by (auto elim: bind_OkE)
  moreover have "\<forall>n\<in>set (snd x). found_in E h0 h label (sn_id n)"
    using Cons.prems(3) by (auto simp: candidates_def split: prod.splits)
  ultimately obtain v where v: "prefix h h1" "vs1 = vs @ [v]" "decided E h0 label h1 v"
    using step Cons.prems(2) by blast
  have "candidates E h0 label results h"
    using Cons.prems(3) by (simp add: candidates_def)
  then have "candidates E h0 label results h1" using v(1) by (rule candidates_later)
  moreover have "list_all (decided E h0 label h1) vs1"
    using Cons.prems(4) v decided_later by (auto simp: list_all_iff)
  moreover have "prefix h0 h1" using Cons.prems(2) v(1) by (rule prefix_order.trans)
  ultimately show ?case using Cons.IH 1(2) by blast
qed

lemma verify_decided:
  \<comment> \<open>the branch that asks the LLM\<close>
  assumes "bind (ask_llm E llm sys prompt cfg) (\<lambda>response. bind (lift_outcome (parse response))
      (\<lambda>decision. resolve_target E label concept ns decision)) h = (Ok v, h1)"
    and "prefix h0 h" and "\<forall>n\<in>set ns. found_in E h0 h label (sn_id n)"
  shows "decided E h0 label h1 v"
proof -
  obtain response h2 d where ask: "ask_llm E llm sys prompt cfg h = (Ok response, h2)"
    and d: "resolve_target E label concept ns d h2 = (Ok v, h1)"
    using assms(1) by (auto simp: bind_eq_Ok lift_outcome_eq_Ok)
  have h2: "prefix h h2" by (rule extendsD [OF emits_shared_parts(1) ask])
  then have "prefix h0 h2" using assms(2) prefix_order.trans by blast
  with resolve_target_decided [OF d] assms(3) found_in_later h2 show ?thesis by blast
qed

lemma knowledge_decide_grows: "emits (own_effect KnowledgeGenerator) (knowledge_decide E llm c vs x)"
  unfolding knowledge_decide_def knowledge_verify_def case_prod_beta
  by (intro prog_rules allI impI | simp split: option.split | (auto intro!: prog_rules; fail))+

lemma knowledge_decide_decided:
  assumes run: "knowledge_decide E llm c vs x h = (Ok vs', h')" and h0: "prefix h0 h"
    and found: "\<forall>n\<in>set (snd x). found_in E h0 h ''Knowledge'' (sn_id n)"
  shows "\<exists>v. vs' = vs @ [v] \<and> decided E h0 ''Knowledge'' h' v"
proof -
  obtain concept ns where x: "x = (concept, ns)" by (cases x)
  let ?h = "h @ [Emit (SimilarityCheck KnowledgeGenerator concept (length ns) (map_option sn_score (first_of ns)))]"
  show ?thesis
  proof (cases "determine_action_by_score concept ns")
    case (Some d)
    with run x have "vs' = vs @ [d]" by (auto simp: knowledge_decide_def prog_Ok_iff)
    with determine_action_decided [OF Some] show ?thesis by blast
  next
    case None
    with run x obtain v h1 where v: "knowledge_verify E llm c concept ns ?h = (Ok v, h1)" "vs' = vs @ [v]"
        and h1: "prefix h1 h'"
      by (auto simp: knowledge_decide_def prog_Ok_iff call_runs)
    have "prefix h0 ?h" using h0 by (metis prefix_prefix)
    moreover have "\<forall>n\<in>set ns. found_in E h0 ?h ''Knowledge'' (sn_id n)"
      using found x found_in_later by fastforce
    ultimately have "decided E h0 ''Knowledge'' h1 v"
      using verify_decided [OF v(1) [unfolded knowledge_verify_def]] by blast
    with h1 v(2) decided_later show ?thesis by blast
  qed
qed

lemma skill_decide_grows: "emits (own_effect SkillGenerator) (skill_decide E llm c vs x)"
  unfolding skill_decide_def skill_verify_def case_prod_beta
  by (intro prog_rules allI impI | simp split: option.split | (auto intro!: prog_rules; fail))+

lemma skill_decide_decided:
  assumes run: "skill_decide E llm c vs x h = (Ok vs', h')" and h0: "prefix h0 h"
    and found: "\<forall>n\<in>set (snd x). found_in E h0 h ''Skill'' (sn_id n)"
  shows "\<exists>v. vs' = vs @ [v] \<and> decided E h0 ''Skill'' h' v"
proof -
  obtain concept ns where x: "x = (concept, ns)" by (cases x)
  let ?h = "h @ [Emit (SimilarityCheck SkillGenerator concept (length ns) (map_option sn_score (first_of ns)))]"
  show ?thesis
  proof (cases "determine_action_by_score concept ns")
    case (Some d)
    with run x have "vs' = vs @ [d]" by (auto simp: skill_decide_def prog_Ok_iff)
    with determine_action_decided [OF Some] show ?thesis by blast
  next
    case None
    with run x obtain v where v: "skill_verify E llm c concept ns ?h = (Ok v, h')" "vs' = vs @ [v]"
      by (auto simp: skill_decide_def prog_Ok_iff call_runs)
    have "prefix h0 ?h" using h0 by (metis prefix_prefix)
    moreover have "\<forall>n\<in>set ns. found_in E h0 ?h ''Skill'' (sn_id n)"
      using found x found_in_later by fastforce
    ultimately have "decided E h0 ''Skill'' h' v"
      using verify_decided [OF v(1) [unfolded skill_verify_def]] by blast
    with v(2) show ?thesis by blast
  qed
qed

subsection \<open>Pass 4\<close>

definition aimed ::
  "env \<Rightarrow> effect list \<Rightarrow> string \<Rightarrow> created_node list \<Rightarrow> effect list \<Rightarrow> verified_concept \<Rightarrow> bool" where
  \<comment> \<open>the target of the decision was found, or is one of the nodes\<close>
  "aimed E h0 label ts h v \<longleftrightarrow>
     (\<forall>gid name needs. vc_action v = CreateAndGeneralize gid name needs \<longrightarrow>
        found_in E h0 h label gid \<or>
        (\<exists>n\<in>set ts. cn_element_id n = gid \<and> cn_name n = name \<and> \<not> cn_was_reused n))"

lemma aimed_mono:
  "aimed E h0 label ts h v \<Longrightarrow> set ts \<subseteq> set ts' \<Longrightarrow> prefix h h' \<Longrightarrow> aimed E h0 label ts' h' v"
  unfolding aimed_def using found_in_later by blast

lemma missing_targets_mem:
  "i < length vs \<Longrightarrow> vc_action (vs ! i) = CreateAndGeneralize gid name True \<Longrightarrow>
     (i, name) \<in> set (missing_targets vs)"
proof -
  have "List.map_filter f (enumerate 0 vs) = map (the \<circ> f) (filter (\<lambda>x. f x \<noteq> None) (enumerate 0 vs))"
    for f :: "nat \<times> verified_concept \<Rightarrow> (nat \<times> string) option"
    by (simp add: List.map_filter_def)
  moreover assume "i < length vs" "vc_action (vs ! i) = CreateAndGeneralize gid name True"
  ultimately show ?thesis
    by (force simp: missing_targets_def in_set_enumerate_eq image_iff)
qed

lemma decided_aimed:
  assumes "list_all (decided E h0 label h) vs" and "i < length vs"
    and "i \<notin> fst ` set (missing_targets vs)"
  shows "aimed E h0 label ts h (vs ! i)"
proof -
  have "decided E h0 label h (vs ! i)" using assms(1,2) by (simp add: list_all_length)
  moreover have "\<not> needs" if "vc_action (vs ! i) = CreateAndGeneralize gid name needs" for gid name needs
  proof (cases needs)
    case True
    with that missing_targets_mem [OF assms(2)] assms(3) show ?thesis by force
  qed simp
  ultimately show ?thesis unfolding decided_def aimed_def by blast
qed

lemma create_targets_aimed:
  assumes "fold_prog (create_target E k) (vs, ts) ps h = (Ok (vs', ts'), h')"
    and "\<forall>i<length vs. i \<in> fst ` set ps \<or> aimed E h0 label ts h (vs ! i)"
  shows "list_all (aimed E h0 label ts' h') vs'"
  using assms
proof (induction ps arbitrary: vs ts h)
  case Nil
  then show ?case by (simp add: ret_def list_all_length)
next
  case (Cons p ps)
  obtain i n q where p: "p = (i, n, q)" by (cases p)
  from Cons.prems(1) obtain vs1 ts1 h1 where
    1: "create_target E k (vs, ts) (i, n, q) h = (Ok (vs1, ts1), h1)" and
    2: "fold_prog (create_target E k) (vs1, ts1) ps h1 = (Ok (vs', ts'), h')"
    by (auto simp: p bind_eq_Ok)
  from create_target_Ok [OF 1] obtain gid where
    vs1: "vs1 = vs[i := (vs ! i)\<lparr>vc_action := CreateAndGeneralize gid n False\<rparr>]"
    and ts1: "ts1 = ts @ [CreatedNode_new n gid (ck_label k)]" by blast
  have "emits (own_effect KnowledgeGenerator) (create_target E k (vs, ts) (i, n, q))"
    unfolding create_target_def by (auto intro!: prog_rules)
  then have grow: "prefix h h1" using 1 by (rule extendsD)
  have "\<forall>j<length vs1. j \<in> fst ` set ps \<or> aimed E h0 label ts1 h1 (vs1 ! j)"
  proof (intro allI impI)
    fix j assume j: "j < length vs1"
    show "j \<in> fst ` set ps \<or> aimed E h0 label ts1 h1 (vs1 ! j)"
    proof (cases "j = i")
      case True
      with j show ?thesis by (simp add: vs1 ts1 aimed_def CreatedNode_new_def)
    next
      case False
      with j Cons.prems(2) have "j \<in> fst ` set ps \<or> aimed E h0 label ts h (vs ! j)"
        by (auto simp: p vs1)
      moreover have "vs1 ! j = vs ! j" using False by (simp add: vs1)
      moreover have "set ts \<subseteq> set ts1" by (auto simp: ts1)
      ultimately show ?thesis using aimed_mono [OF _ _ grow] by auto
    qed
  qed
  with Cons.IH [OF 2] show ?case by blast
qed

lemma target_pass_aimed:
  assumes "target_pass E llm k vs h = (Ok (vs', ts), h')" and "prefix h0 h"
    and "list_all (decided E h0 label h) vs"
  shows "list_all (aimed E h0 label ts h') vs'"
proof (cases "missing_targets vs = []")
  case True
  with assms have "vs' = vs" "h' = h" by (auto simp: target_pass_def ret_def)
  with decided_aimed [OF assms(3)] True show ?thesis by (simp add: list_all_length)
next
  case False
  with assms(1) obtain ps h1 where b: "batch (target_properties E llm k) (missing_targets vs) h = (Ok ps, h1)"
    and f: "fold_prog (create_target E k) (vs, []) ps h1 = (Ok (vs', ts), h')"
    by (auto simp: target_pass_def bind_eq_Ok)
  have tags: "map (\<lambda>t. (fst t, fst (snd t))) ps = missing_targets vs"
    by (rule batch_tagged [OF _ b]) (auto simp: target_properties_def prog_Ok_iff)
  have "map fst ps = map fst (missing_targets vs)"
    unfolding tags [symmetric] by simp
  then have idx: "fst ` set ps = fst ` set (missing_targets vs)" by (metis list.set_map)
  have "emits (own_effect KnowledgeGenerator) (batch (target_properties E llm k) (missing_targets vs))"
    unfolding target_properties_def by (auto intro!: prog_rules)
  then have "prefix h h1" using b by (rule extendsD)
  then have "list_all (decided E h0 label h1) vs"
    using assms(3) by (auto simp: list_all_iff intro: decided_later)
  then have "\<forall>i<length vs. i \<in> fst ` set ps \<or> aimed E h0 label [] h1 (vs ! i)"
    unfolding idx using decided_aimed by blast
  then show ?thesis by (rule create_targets_aimed [OF f])
qed

subsection \<open>Pass 7 and the context\<close>

definition going :: "env \<Rightarrow> effect list \<Rightarrow> agent_context \<Rightarrow> effect list \<Rightarrow> bool" where
  "going E h0 c h \<longleftrightarrow> prefix h0 h \<and> general_ends E h0 h (ctx_graph c)"

definition stopped :: "env \<Rightarrow> effect list \<Rightarrow> string \<times> agent_context \<Rightarrow> effect list \<Rightarrow> bool" where
  \<comment> \<open>a failure keeps the context of that point\<close>
  "stopped E h0 ec h \<longleftrightarrow> going E h0 (snd ec) h"

lemma going_later: "going E h0 c h \<Longrightarrow> prefix h h' \<Longrightarrow> going E h0 c h'"
  unfolding going_def using general_ends_later prefix_order.trans by blast

lemma going_grows:
  assumes "going E h0 c h" and "context_grows c c'"
    and "reg_generalizations (ctx_graph c') = reg_generalizations (ctx_graph c)"
  shows "going E h0 c' h"
  using assms general_ends_grow [of E h0 h "ctx_graph c" "ctx_graph c'" "[]"]
  by (simp add: going_def context_registry_grows)

lemma stable_going [intro]:
  "stable (going E h0 c)"
  "stable (\<lambda>h. going E h0 c h \<and> candidates E h0 label results h)"
  "stable (\<lambda>h. going E h0 c h \<and> list_all (decided E h0 label h) vs)"
  "stable (\<lambda>h. going E h0 c h \<and> list_all (aimed E h0 label ts h) vs)"
proof -
  show going: "stable (going E h0 c)"
    unfolding stable_def using going_later by blast
  have both: "stable (\<lambda>h. going E h0 c h \<and> Q h)" if "\<And>h h'. Q h \<Longrightarrow> prefix h h' \<Longrightarrow> Q h'" for Q
    using going that unfolding stable_def by blast
  show "stable (\<lambda>h. going E h0 c h \<and> candidates E h0 label results h)"
    by (rule both) (rule candidates_later)
  show "stable (\<lambda>h. going E h0 c h \<and> list_all (decided E h0 label h) vs)"
    by (rule both) (auto simp: list_all_iff intro: decided_later)
  show "stable (\<lambda>h. going E h0 c h \<and> list_all (aimed E h0 label ts h) vs)"
    by (rule both) (auto simp: list_all_iff intro: aimed_mono)
qed

text \<open>Calls that leave the context alone.\<close>

lemma keeping_step:
  assumes "emits A m" and "stable P" and "\<And>h. P h \<Longrightarrow> going E h0 c h"
    and "\<And>x. triple P (k x) Q (stopped E h0)"
  shows "triple P (bind (keeping c m) k) Q (stopped E h0)"
proof (rule triple_bind [OF triple_keeping assms(4)])
  show "triple P m (\<lambda>_. P) (\<lambda>e. stopped E h0 (e, c))"
    using triple_frame [OF assms(1,2)] by (rule triple_conseq) (simp_all add: stopped_def assms(3))
qed

lemma progress_step:
  assumes "stable P" and "\<And>x. triple P (k x) Q R"
  shows "triple P (bind (progress a t) k) Q R"
proof (rule triple_bind [OF _ assms(2)])
  have "P (h @ u)" if "P h" for h u
    using assms(1) that unfolding stable_def by (metis prefixI)
  then show "triple P (progress a t) (\<lambda>_. P) R"
    unfolding triple_def by (auto simp: progress_run)
qed

lemma generalize_pass_context:
  assumes "generalize_pass E ty vs created c h = (r, h')" and "r = Ok c' \<or> r = Err (e, c')"
  shows "\<exists>ls. c' = foldl add_generalization c ls \<and> list_all (generalization_of ty created vs) ls"
  using assms
proof (induction vs arbitrary: c h)
  case Nil
  then show ?case by (auto simp: generalize_pass_def ret_def intro: exI [of _ "[]"])
next
  case (Cons v vs)
  obtain r1 h1 where one: "generalize_one E ty created c v h = (r1, h1)"
    by (cases "generalize_one E ty created c v h")
  show ?case
  proof (cases r1)
    case (Ok c1)
    with one Cons.prems(1) have rest: "generalize_pass E ty vs created c1 h1 = (r, h')"
      by (simp add: generalize_pass_def bind_def)
    obtain ls where ls: "c' = foldl add_generalization c1 ls" "list_all (generalization_of ty created vs) ls"
      using Cons.IH [OF rest Cons.prems(2)] by blast
    obtain ls1 where "c1 = foldl add_generalization c ls1" "list_all (generalization_of ty created [v]) ls1"
    proof -
      consider "c1 = c" | l where "generalization_of ty created [v] l" "c1 = add_generalization c l"
        using generalize_one_Ok [OF one [unfolded Ok]] by blast
      then show thesis
      proof cases
        case 1
        then show thesis using that [of "[]"] by simp
      next
        case (2 l)
        then show thesis using that [of "[l]"] by simp
      qed
    qed
    with ls show ?thesis
      by (intro exI [of _ "ls1 @ ls"]) (auto simp: list_all_iff generalization_of_def)
  next
    case (Err ec)
    with one have "snd ec = c"
      by (auto simp: generalize_one_def fail_def ret_def on_result_eq_Err split: concept_action.splits option.splits)
    with one Err Cons.prems have "c' = c" by (auto simp: generalize_pass_def bind_def)
    then show ?thesis by (intro exI [of _ "[]"]) simp
  qed (use one Cons.prems in \<open>auto simp: generalize_pass_def bind_def\<close>)
qed

lemma aimed_general_end:
  assumes "generalization_of ty created vs l" and "list_all (aimed E h0 ty (component_nodes g ty) h) vs"
  shows "general_end E h0 h g l"
  using assms unfolding generalization_of_def aimed_def general_end_def made_in_def list_all_iff by blast

lemma generalize_pass_ends:
  "triple (\<lambda>h. going E h0 c h \<and> list_all (aimed E h0 ty (component_nodes (ctx_graph c) ty) h) vs)
     (generalize_pass E ty vs created c) (going E h0) (stopped E h0)"
proof -
  have step: "going E h0 c' h'"
    if going: "going E h0 c h" and aimed: "list_all (aimed E h0 ty (component_nodes (ctx_graph c) ty) h) vs"
      and run: "generalize_pass E ty vs created c h = (r, h')" and r: "r = Ok c' \<or> r = Err (e, c')"
    for h h' r c' e
  proof -
    obtain ls where ls: "c' = foldl add_generalization c ls" "list_all (generalization_of ty created vs) ls"
      using generalize_pass_context [OF run r] by blast
    have grow: "prefix h h'" by (rule extendsD [OF emits_step_parts(2) run])
    have g: "ctx_graph c' = (ctx_graph c)\<lparr>reg_generalizations := reg_generalizations (ctx_graph c) @ ls\<rparr>"
      using ls(1) foldl_add_generalization by simp
    then have "component_nodes (ctx_graph c') ty = component_nodes (ctx_graph c) ty"
      by (simp add: component_nodes_def)
    with aimed have "list_all (aimed E h0 ty (component_nodes (ctx_graph c') ty) h') vs"
      using aimed_mono [OF _ subset_refl grow] by (simp add: list_all_iff)
    then have "list_all (general_end E h0 h' (ctx_graph c')) ls"
      using ls(2) aimed_general_end by (auto simp: list_all_iff)
    moreover have "registry_grows (ctx_graph c) (ctx_graph c')"
      by (simp add: g registry_grows_def)
    ultimately show ?thesis
      using going_later [OF going grow] general_ends_grow [of E h0 h' "ctx_graph c" "ctx_graph c'" ls] g
      by (simp add: going_def)
  qed
  then show ?thesis unfolding triple_def stopped_def by (metis prod.collapse)
qed

lemma announce_ends:
  assumes "\<And>x n. context_grows x (add x n)"
    and "\<And>x n. reg_generalizations (ctx_graph (add x n)) = reg_generalizations (ctx_graph x)"
  shows "triple (going E h0 c) (announce_nodes a l r add ns c) (going E h0) R"
proof -
  have "reg_generalizations (ctx_graph (foldl add c ns)) = reg_generalizations (ctx_graph c)"
    by (induction ns arbitrary: c) (simp_all add: assms(2))
  moreover have "context_grows c (foldl add c ns)" by (rule foldl_context_grows [OF assms(1)])
  ultimately have "going E h0 (foldl add c ns) h'" if "going E h0 c h" "prefix h h'" for h h'
    using going_grows going_later [OF that] by blast
  then have Ok: "going E h0 c' h'"
    if "going E h0 c h" "announce_nodes a l r add ns c h = (Ok c', h')" for h c' h'
    using announce_nodes_Ok [OF that(2)] extendsD [OF emits_step_parts(3) that(2)] that(1) by simp
  have Err: "announce_nodes a l r add ns c h \<noteq> (Err e, h')" for h e h'
    using never_fails_announce_nodes [of a l r add ns c] unfolding never_fails_iff
    by (metis outcome.distinct(1) prod.inject)
  show ?thesis
    unfolding triple_def by (intro conjI allI impI; elim conjE) (rule Ok, assumption+, simp add: Err)
qed

subsection \<open>The knowledge step and the skill step\<close>

lemma targets_end:
  assumes label: "ck_label k = label" and adds: "\<And>x n. context_grows x (add x n)"
      "\<And>x n. reg_generalizations (ctx_graph (add x n)) = reg_generalizations (ctx_graph x)"
    and nodes: "\<And>x n. component_nodes (ctx_graph (add x n)) label = component_nodes (ctx_graph x) label @ [n]"
  shows "triple (\<lambda>h. going E h0 c h \<and> list_all (decided E h0 label h) vs)
    (if length (missing_targets vs) > 0 then
       bind (progress a t) (\<lambda>_. bind (keeping c (target_pass E llm k vs)) (\<lambda>(vs', ts).
       bind (announce_nodes a l r add ts c) (\<lambda>c'. ret (vs', c'))))
     else ret (vs, c))
    (\<lambda>(vs', c') h. going E h0 c' h \<and> list_all (aimed E h0 label (component_nodes (ctx_graph c') label) h) vs')
    (stopped E h0)"
proof (cases "missing_targets vs = []")
  case True
  then have "list_all (aimed E h0 label ts h) vs" if "list_all (decided E h0 label h) vs" for ts h
    using decided_aimed [OF that] by (simp add: list_all_length)
  with True show ?thesis by (auto intro!: triple_ret)
next
  case False
  let ?Q = "\<lambda>(vs', ts) h. going E h0 c h \<and> list_all (aimed E h0 label ts h) vs'"
  have grow: "prefix h h'" if "target_pass E llm k vs h = (v, h')" for h v h'
    by (rule extendsD [OF emits_concept_passes(1) that])
  have pass: "triple (\<lambda>h. going E h0 c h \<and> list_all (decided E h0 label h) vs)
      (keeping c (target_pass E llm k vs)) ?Q (stopped E h0)"
  proof (rule triple_keeping, unfold triple_def, intro conjI allI impI; elim conjE)
    fix h v h'
    assume c: "going E h0 c h" and vs: "list_all (decided E h0 label h) vs"
      and run: "target_pass E llm k vs h = (Ok v, h')"
    obtain vs' ts where v: "v = (vs', ts)" by (cases v)
    have "prefix h0 h" using c by (simp add: going_def)
    then show "?Q v h'"
      using target_pass_aimed [OF run [unfolded v] _ vs] going_later [OF c grow [OF run]] v by simp
  next
    fix h e h'
    assume "going E h0 c h" and "target_pass E llm k vs h = (Err e, h')"
    then show "stopped E h0 (e, c) h'" using going_later grow by (simp add: stopped_def)
  qed
  have comp: "component_nodes (ctx_graph (foldl add c ts)) label = component_nodes (ctx_graph c) label @ ts" for ts
    by (induction ts arbitrary: c) (simp_all add: nodes)
  have announce: "triple (\<lambda>h. going E h0 c h \<and> list_all (aimed E h0 label ts h) vs') (announce_nodes a l r add ts c)
      (\<lambda>c' h. going E h0 c' h \<and> list_all (aimed E h0 label (component_nodes (ctx_graph c') label) h) vs')
      (stopped E h0)" for vs' ts
  proof -
    have "triple (going E h0 c) (announce_nodes a l r add ts c) (going E h0) (stopped E h0)"
      by (rule announce_ends [OF adds])
    moreover have "list_all (aimed E h0 label (component_nodes (ctx_graph c') label) h') vs'"
      if "announce_nodes a l r add ts c h = (Ok c', h')" "list_all (aimed E h0 label ts h) vs'" for c' h h'
    proof -
      have "set ts \<subseteq> set (component_nodes (ctx_graph c') label)"
        using announce_nodes_Ok [OF that(1)] comp by simp
      with that show ?thesis
        using extendsD [OF emits_step_parts(3) that(1)] by (auto simp: list_all_iff intro: aimed_mono)
    qed
    ultimately show ?thesis unfolding triple_def split_conv by blast
  qed
  show ?thesis
    using False
    by (auto intro!: progress_step triple_bind [OF pass] triple_bind [OF announce] triple_ret split: prod.split)
qed

lemma candidates_end:
  "triple (going E h0 c) (keeping c (similarity_pass E label concepts))
     (\<lambda>rs h. going E h0 c h \<and> candidates E h0 label rs h) (stopped E h0)"
proof (rule triple_keeping, unfold triple_def, intro conjI allI impI; elim conjE)
  fix h rs h'
  assume c: "going E h0 c h" and run: "similarity_pass E label concepts h = (Ok rs, h')"
  then have "prefix h0 h" by (simp add: going_def)
  then show "going E h0 c h'" "candidates E h0 label rs h'"
    using similarity_pass_candidates [OF run] going_later [OF c extendsD [OF emits_shared_parts(3) run]] by simp_all
next
  fix h e h'
  assume "going E h0 c h" and "similarity_pass E label concepts h = (Err e, h')"
  then show "stopped E h0 (e, c) h'"
    using going_later extendsD [OF emits_shared_parts(3)] by (fastforce simp: stopped_def)
qed

lemma decisions_end:
  assumes decide: "\<And>vs x h vs' h'. f vs x h = (Ok vs', h') \<Longrightarrow> prefix h0 h \<Longrightarrow>
      \<forall>n\<in>set (snd x). found_in E h0 h label (sn_id n) \<Longrightarrow>
      \<exists>v. vs' = vs @ [v] \<and> decided E h0 label h' v"
    and grows: "\<And>vs x. emits A (f vs x)"
  shows "triple (\<lambda>h. going E h0 c h \<and> candidates E h0 label rs h) (keeping c (fold_prog f [] rs))
    (\<lambda>vs h. going E h0 c h \<and> list_all (decided E h0 label h) vs) (stopped E h0)"
proof (rule triple_keeping, unfold triple_def, intro conjI allI impI; elim conjE)
  have all: "prefix h h'" if "fold_prog f [] rs h = (r, h')" for h r h'
    by (rule extendsD [OF emits_fold_prog [OF grows] that])
  fix h vs h'
  assume c: "going E h0 c h" and rs: "candidates E h0 label rs h" and run: "fold_prog f [] rs h = (Ok vs, h')"
  show "going E h0 c h'" using going_later [OF c all [OF run]] .
  have "prefix h0 h" using c by (simp add: going_def)
  moreover have "prefix h h' \<and> (\<exists>v. vs' = vs @ [v] \<and> decided E h0 label h' v)"
    if "f vs x h = (Ok vs', h')" "prefix h0 h" "\<forall>n\<in>set (snd x). found_in E h0 h label (sn_id n)"
    for vs x h vs' h'
    using decide [OF that] extendsD [OF grows that(1)] by blast
  ultimately show "list_all (decided E h0 label h') vs"
    using fold_decided [of f h0 E label, OF _ run _ rs] by simp
next
  fix h e h'
  assume c: "going E h0 c h" and run: "fold_prog f [] rs h = (Err e, h')"
  show "stopped E h0 (e, c) h'"
    using going_later [OF c extendsD [OF emits_fold_prog [OF grows] run]] by (simp add: stopped_def)
qed

lemma knowledge_ends:
  "triple (going E h0 c) (knowledge_execute E llm c) (going E h0) (stopped E h0)"
proof -
  have candidates: "triple (going E h0 c) (keeping c (knowledge_pass2 E concepts))
      (\<lambda>rs h. going E h0 c h \<and> candidates E h0 ''Knowledge'' rs h) (stopped E h0)" for concepts
    unfolding knowledge_pass2_def by (rule candidates_end)
  have decide: "triple (\<lambda>h. going E h0 c h \<and> candidates E h0 ''Knowledge'' rs h) (keeping c (knowledge_pass3 E llm c rs))
      (\<lambda>vs h. going E h0 c h \<and> list_all (decided E h0 ''Knowledge'' h) vs) (stopped E h0)" for rs
    unfolding knowledge_pass3_def by (rule decisions_end [OF knowledge_decide_decided knowledge_decide_grows])
  have targets: "triple (\<lambda>h. going E h0 c h \<and> list_all (decided E h0 ''Knowledge'' h) vs) (knowledge_targets E llm c vs)
      (\<lambda>(vs', c') h. going E h0 c' h \<and>
         list_all (aimed E h0 ''Knowledge'' (component_nodes (ctx_graph c') ''Knowledge'') h) vs') (stopped E h0)" for vs
    unfolding knowledge_targets_def knowledge_pass4_def Let_def
    by (rule targets_end, simp add: knowledge_kind_def, rule context_grows_ops, simp_all add: component_nodes_def add_knowledge_def)
  have passes: "emits (own_effect KnowledgeGenerator) (knowledge_pass1 E llm c)"
    "emits (own_effect KnowledgeGenerator) (knowledge_pass5 E llm c' vs)"
    "emits (own_effect KnowledgeGenerator) (knowledge_pass6 E vs ps)" for c' vs ps
    unfolding knowledge_pass1_def knowledge_pass5_def knowledge_pass6_def Let_def by (intro prog_rules)+
  have announce: "triple (going E h0 c') (announce_nodes a l r add_knowledge ns c') (going E h0) (stopped E h0)" for a l r ns c'
    by (rule announce_ends, rule context_grows_ops, simp add: add_knowledge_def)
  show ?thesis
    unfolding knowledge_execute_def knowledge_pass7_def
    by (rule progress_step keeping_step [OF passes(1)] triple_bind [OF candidates] triple_bind [OF decide]
        triple_bind_pair [OF targets] keeping_step [OF passes(2)] keeping_step [OF passes(3)]
        triple_bind [OF generalize_pass_ends] announce stable_going | assumption | erule conjunct1)+
qed

lemma skill_ends:
  "triple (going E h0 c) (skill_execute E llm c) (going E h0) (stopped E h0)"
proof -
  have candidates: "triple (going E h0 c) (keeping c (skill_pass2 E concepts))
      (\<lambda>rs h. going E h0 c h \<and> candidates E h0 ''Skill'' rs h) (stopped E h0)" for concepts
    unfolding skill_pass2_def by (rule candidates_end)
  have decide: "triple (\<lambda>h. going E h0 c h \<and> candidates E h0 ''Skill'' rs h) (keeping c (skill_pass3 E llm c rs))
      (\<lambda>vs h. going E h0 c h \<and> list_all (decided E h0 ''Skill'' h) vs) (stopped E h0)" for rs
    unfolding skill_pass3_def by (rule decisions_end [OF skill_decide_decided skill_decide_grows])
  have targets: "triple (\<lambda>h. going E h0 c h \<and> list_all (decided E h0 ''Skill'' h) vs) (skill_targets E llm c vs)
      (\<lambda>(vs', c') h. going E h0 c' h \<and>
         list_all (aimed E h0 ''Skill'' (component_nodes (ctx_graph c') ''Skill'') h) vs') (stopped E h0)" for vs
    unfolding skill_targets_def skill_pass4_def Let_def
    by (rule targets_end, simp add: skill_kind_def, rule context_grows_ops, simp_all add: component_nodes_def add_skill_def)
  have passes: "emits (own_effect SkillGenerator) (skill_pass1 E llm c)"
    "emits (own_effect SkillGenerator) (skill_pass5 E llm c' vs)"
    "emits (own_effect SkillGenerator) (skill_pass6 E vs ps)" for c' vs ps
    unfolding skill_pass1_def skill_pass5_def skill_pass6_def Let_def by (intro prog_rules)+
  have announce: "triple (going E h0 c') (announce_nodes a l r add_skill ns c') (going E h0) (stopped E h0)" for a l r ns c'
    by (rule announce_ends, rule context_grows_ops, simp add: add_skill_def)
  show ?thesis
    unfolding skill_execute_def skill_pass7_def
    by (rule progress_step keeping_step [OF passes(1)] triple_bind [OF candidates] triple_bind [OF decide]
        triple_bind_pair [OF targets] keeping_step [OF passes(2)] keeping_step [OF passes(3)]
        triple_bind [OF generalize_pass_ends] announce stable_going | assumption | erule conjunct1)+
qed

subsection \<open>The other steps\<close>

text \<open>They leave the generalisations alone.\<close>

abbreviation same_links :: "agent_context \<Rightarrow> agent_context \<Rightarrow> bool" where
  "same_links c c' \<equiv> reg_generalizations (ctx_graph c') = reg_generalizations (ctx_graph c)"

definition unlinking :: "agent_context \<Rightarrow> (string \<times> agent_context, agent_context) action \<Rightarrow> bool" where
  "unlinking c m \<longleftrightarrow> ends m (same_links c) (\<lambda>(e, c'). same_links c c')"

lemma ends_keeping_same: "same_links c c' \<Longrightarrow> ends (keeping c' m) (\<lambda>_. True) (\<lambda>(e, c'). same_links c c')"
  unfolding keeping_def by (rule ends_map_err) simp

lemmas unlinking_rules = ends_bind_any [OF ends_keeping_same] progress_then emit_then

lemma architect_unlinking: "unlinking c (architect_execute E c)"
proof -
  have level: "ends (architect_level E d x l) (same_links c) (\<lambda>(e, c'). same_links c c')" if "same_links c x" for d x l
    unfolding architect_level_def Let_def using that
    by (auto intro!: unlinking_rules simp: add_domain_level_def)
  show ?thesis
    unfolding unlinking_def architect_execute_def Let_def
    by (auto intro!: unlinking_rules ends_bind_any [OF ends_avatar] ends_fold_prog level simp: set_domain_def)
qed

lemma trait_unlinking: "unlinking c (trait_execute E llm c)"
  unfolding unlinking_def trait_execute_def
  by (auto intro!: unlinking_rules ends_announce_inv simp: add_trait_def)

lemma milestone_unlinking: "unlinking c (milestone_execute E llm c)"
  unfolding unlinking_def milestone_execute_def
  by (auto intro!: unlinking_rules ends_announce_inv simp: add_milestone_def)

lemma distributor_unlinking: "unlinking c (distributor_execute E llm c)"
proof -
  have "ends (create_level_relationship E s a) (\<lambda>(n, x). same_links c x) (\<lambda>(e, x). same_links c x)"
    if "same_links c (snd s)" for s a
    unfolding create_level_relationship_def using that
    by (auto intro!: ends_on_result [where P = "\<lambda>_. True" and S = "\<lambda>_. True"]
        simp: add_level_requirement_def reg_add_level_requirement_def split: prod.split option.split)
  then have "ends (create_level_relationships E as c) (\<lambda>(n, x). same_links c x) (\<lambda>(e, x). same_links c x)" for as
    unfolding create_level_relationships_def by (intro ends_fold_prog) auto
  then show ?thesis
    unfolding unlinking_def distributor_execute_def
    by (auto intro!: unlinking_rules ends_bind [where P = "\<lambda>(n, x). same_links c x"])
qed

lemma mapper_unlinking: "unlinking c (mapper_execute E llm c)"
proof -
  have "ends (create_prerequisite_relationship E s p) (\<lambda>(n, x). same_links c x) (\<lambda>(e, x). same_links c x)"
    if "same_links c (snd s)" for s p
    unfolding create_prerequisite_relationship_def using that
    by (auto intro!: ends_on_result [where P = "\<lambda>_. True" and S = "\<lambda>_. True"]
        simp: add_prerequisite_def reg_add_prerequisite_def split: prod.split)
  then have "ends (create_prerequisite_relationships E ps c) (\<lambda>(n, x). same_links c x) (\<lambda>(e, x). same_links c x)" for ps
    unfolding create_prerequisite_relationships_def by (intro ends_fold_prog) auto
  then show ?thesis
    unfolding unlinking_def mapper_execute_def
    by (auto intro!: unlinking_rules ends_bind [where P = "\<lambda>(n, x). same_links c x"])
qed

subsection \<open>The interface\<close>

context agent_step
begin

lemma unlinking_ends:
  assumes "unlinking c (execute c)"
  shows "triple (going E h0 c) (execute c) (going E h0) (stopped E h0)"
proof (unfold triple_def, intro conjI allI impI; elim conjE)
  fix h c' h'
  assume going: "going E h0 c h" and run: "execute c h = (Ok c', h')"
  have "same_links c c'" using assms run unfolding unlinking_def ends_def by blast
  from going_grows [OF going_later [OF going extendsD [OF own_events run]] success_grows [OF run] this]
  show "going E h0 c' h'" .
next
  fix h ec h'
  assume going: "going E h0 c h" and run: "execute c h = (Err ec, h')"
  obtain e c' where ec: "ec = (e, c')" by (cases ec)
  have "same_links c c'" using assms run ec unfolding unlinking_def ends_def by fast
  from going_grows [OF going_later [OF going extendsD [OF own_events run]] failure_grows [OF run [unfolded ec]] this]
  show "stopped E h0 ec h'" by (simp add: stopped_def ec)
qed

end

locale ending_step = agent_step agent execute for agent and execute +
  fixes E :: env
  assumes general: "triple (going E h0 c) (execute c) (going E h0) (stopped E h0)"
begin

lemma success_going: "going E h0 c h \<Longrightarrow> execute c h = (Ok c', h') \<Longrightarrow> going E h0 c' h'"
  using general unfolding triple_def by blast

lemma failure_going: "going E h0 c h \<Longrightarrow> execute c h = (Err (e, c'), h') \<Longrightarrow> going E h0 c' h'"
  using general [of h0 c, unfolded triple_def, THEN conjunct2, rule_format, of h "(e, c')" h']
  by (simp add: stopped_def)

end

interpretation architect_ending: ending_step DomainArchitect "architect_execute E" E
  by unfold_locales (rule architect_step.unlinking_ends [OF architect_unlinking])

interpretation trait_ending: ending_step TraitGenerator "trait_execute E llm" E
  by unfold_locales (rule trait_step.unlinking_ends [OF trait_unlinking])

interpretation milestone_ending: ending_step MilestoneGenerator "milestone_execute E llm" E
  by unfold_locales (rule milestone_step.unlinking_ends [OF milestone_unlinking])

interpretation distributor_ending: ending_step LevelDistributor "distributor_execute E llm" E
  by unfold_locales (rule distributor_step.unlinking_ends [OF distributor_unlinking])

interpretation mapper_ending: ending_step PrerequisiteMapper "mapper_execute E llm" E
  by unfold_locales (rule mapper_step.unlinking_ends [OF mapper_unlinking])

interpretation knowledge_ending: ending_step KnowledgeGenerator "knowledge_execute E llm" E
  by unfold_locales (rule knowledge_ends)

interpretation skill_ending: ending_step SkillGenerator "skill_execute E llm" E
  by unfold_locales (rule skill_ends)

lemma agent_steps_ending: "list_all (\<lambda>(a, ex). ending_step a ex E) (agent_steps E llm)"
  by (simp add: agent_steps_def architect_ending.ending_step_axioms
      knowledge_ending.ending_step_axioms skill_ending.ending_step_axioms trait_ending.ending_step_axioms
      milestone_ending.ending_step_axioms distributor_ending.ending_step_axioms
      mapper_ending.ending_step_axioms)

subsection \<open>The generation\<close>

definition reports_ends :: "env \<Rightarrow> effect list \<Rightarrow> effect list \<Rightarrow> effect \<Rightarrow> bool" where
  \<comment> \<open>the partial registry of a \<open>Failed\<close> event\<close>
  "reports_ends E h0 h f \<longleftrightarrow> (\<forall>e a g. f = Emit (Failed e a (Some g)) \<longrightarrow> general_ends E h0 h g)"

lemma reports_ends_later: "reports_ends E h0 h f \<Longrightarrow> prefix h h' \<Longrightarrow> reports_ends E h0 h' f"
  unfolding reports_ends_def using general_ends_later by blast

lemma own_effect_reports_ends: "own_effect a f \<Longrightarrow> reports_ends E h0 h f"
  by (auto simp: reports_ends_def)

lemma search_effect_reports_ends: "search_effect f \<Longrightarrow> reports_ends E h0 h f"
  by (auto simp: reports_ends_def)

context ending_step
begin

lemma run_agent_ends:
  assumes "run_agent (stats, c) (idx, agent, execute) h = (out, h')" and going: "going E h0 c h"
  shows "\<exists>u. h' = h @ u \<and> list_all (reports_ends E h0 h') u \<and> (\<forall>s. out = Ok s \<longrightarrow> going E h0 (snd s) h')"
proof -
  let ?h = "h @ [Emit (AgentStarted agent (idx + 1) (display_name agent))]"
  obtain r h1 where ex: "execute c ?h = (r, h1)" by (cases "execute c ?h")
  obtain u where u: "h1 = ?h @ u" "list_all (own_effect agent) u" using appends [OF ex] by blast
  have start: "going E h0 c ?h" using going by (rule going_later) simp
  have quiet: "list_all (reports_ends E h0 h') u"
    using u(2) own_effect_reports_ends by (auto simp: list_all_iff)
  show ?thesis
  proof (cases r)
    case (Ok c')
    have "going E h0 c' (h1 @ v)" for v
      using success_going [OF start ex [unfolded Ok]] by (rule going_later) simp
    with assms(1) ex u quiet Ok show ?thesis
      by (auto simp: run_agent_def bind_def on_result_def call_runs ret_def Let_def reports_ends_def
          split: prod.splits)
  next
    case (Err d)
    obtain e c' where d: "d = (e, c')" by (cases d)
    have "going E h0 c' (h1 @ v)" for v
      using failure_going [OF start ex [unfolded Err d]] by (rule going_later) simp
    then have "general_ends E h0 (h1 @ v) (ctx_graph c')" for v by (simp add: going_def)
    with assms(1) ex u quiet Err d show ?thesis
      by (auto simp: run_agent_def bind_def on_result_def call_runs fail_def Let_def reports_ends_def)
  next
    case Panic
    with assms(1) ex u quiet show ?thesis
      by (auto simp: run_agent_def bind_def on_result_def call_runs reports_ends_def)
  qed
qed

end

lemma fold_run_agent_ends:
  "list_all (\<lambda>(a, ex). ending_step a ex E) steps \<Longrightarrow> going E h0 c h \<Longrightarrow>
   fold_prog run_agent (stats, c) (enumerate i steps) h = (out, h') \<Longrightarrow>
     \<exists>u. h' = h @ u \<and> list_all (reports_ends E h0 h') u \<and> (\<forall>s. out = Ok s \<longrightarrow> going E h0 (snd s) h')"
proof (induction steps arbitrary: i stats c h)
  case Nil
  then show ?case by (auto simp: ret_def)
next
  case (Cons st steps)
  obtain a ex where st: "st = (a, ex)" by (cases st)
  obtain r h1 where r: "run_agent (stats, c) (i, a, ex) h = (r, h1)"
    by (cases "run_agent (stats, c) (i, a, ex) h")
  have "ending_step a ex E" using Cons.prems(1) st by simp
  from ending_step.run_agent_ends [OF this r Cons.prems(2)] obtain u where
    u: "h1 = h @ u" "list_all (reports_ends E h0 h1) u" "\<forall>s. r = Ok s \<longrightarrow> going E h0 (snd s) h1" by blast
  show ?case
  proof (cases r)
    case (Ok s)
    obtain stats1 c1 where s: "s = (stats1, c1)" by (cases s)
    have "fold_prog run_agent (stats1, c1) (enumerate (Suc i) steps) h1 = (out, h')"
      using Cons.prems(3) st r Ok s by (simp add: bind_def)
    moreover have "going E h0 c1 h1" using u(3) Ok s by simp
    ultimately have "\<exists>w. h' = h1 @ w \<and> list_all (reports_ends E h0 h') w \<and>
        (\<forall>s. out = Ok s \<longrightarrow> going E h0 (snd s) h')"
      using Cons.IH Cons.prems(1) by simp
    then obtain w where w: "h' = h1 @ w" "list_all (reports_ends E h0 h') w"
      "\<forall>s. out = Ok s \<longrightarrow> going E h0 (snd s) h'" by blast
    moreover have "list_all (reports_ends E h0 h') u"
      using u(2) w(1) by (auto simp: list_all_iff intro: reports_ends_later)
    ultimately show ?thesis using u(1) by simp
  qed (use Cons.prems(3) st r u in \<open>auto simp: bind_def\<close>)
qed

lemma generate_domain_ends:
  assumes "generate_domain E llm name desc h = (out, h')"
  shows "\<exists>u. h' = h @ u \<and> list_all (reports_ends E h h') u \<and>
    (\<forall>r. out = Ok r \<longrightarrow> general_ends E h h' (dgr_domain_graph r))"
proof -
  let ?h0 = "h @ [ReadInstant]" and ?s0 = "(default_statistics, AgentContext_new name desc)"
  obtain r h1 where ch: "check_domain_exists E name ?h0 = (r, h1)"
    by (cases "check_domain_exists E name ?h0")
  from emitsE [OF check_domain_exists_effects ch] obtain u where u: "h1 = ?h0 @ u" "list_all search_effect u" .
  then have quiet: "list_all (reports_ends E h h') u"
    using search_effect_reports_ends by (auto simp: list_all_iff)
  show ?thesis
  proof (cases "r = Ok None")
    case False
    with assms ch u quiet show ?thesis
      by (cases r) (auto simp: generate_domain_def bind_def call_runs fail_def reports_ends_def split: option.splits)
  next
    case True
    let ?h2 = "h1 @ [Emit (Started name 7)]"
    obtain r2 h3 where run: "fold_prog run_agent ?s0 (enumerate 0 (agent_steps E llm)) ?h2 = (r2, h3)"
      by (cases "fold_prog run_agent ?s0 (enumerate 0 (agent_steps E llm)) ?h2")
    have "going E h (AgentContext_new name desc) ?h2"
      using u(1) by (simp add: going_def general_ends_def AgentContext_new_def empty_registry_def)
    from fold_run_agent_ends [OF agent_steps_ending this run] obtain w where
      w: "h3 = ?h2 @ w" "list_all (reports_ends E h h3) w" "\<forall>s. r2 = Ok s \<longrightarrow> going E h (snd s) h3" by blast
    have "list_all (reports_ends E h (h3 @ v)) w" for v
      using w(2) by (auto simp: list_all_iff intro: reports_ends_later)
    moreover have "general_ends E h (h3 @ v) (ctx_graph (snd s))" if "r2 = Ok s" for s v
    proof -
      have "general_ends E h h3 (ctx_graph (snd s))" using w(3) that by (simp add: going_def)
      then show ?thesis by (rule general_ends_later) simp
    qed
    ultimately show ?thesis
      using assms ch u quiet w(1,2) True run
      by (cases r2) (auto simp: generate_domain_def bind_def call_runs Let_def ret_def reports_ends_def)
  qed
qed

end
