(* ===== verification/Worker_Costs.thy ===== *)
theory Worker_Costs
  imports Worker_Handler
begin

text \<open>
  How much an invocation of the worker does at most. The judgement \<open>costs a b\<close> bounds the HTTP requests
  and the database statements of a program and excludes every other effect; its rules follow the
  composition of the programs. A job costs at most four of each, so a batch ends after a number of
  effects that its length fixes, whatever the outside answers.
\<close>

subsection \<open>The judgement\<close>

definition costs :: "nat \<Rightarrow> nat \<Rightarrow> ('e, 'a) action \<Rightarrow> bool" where
  "costs a b m \<longleftrightarrow> (\<forall>h. \<exists>u. snd (m h) = h @ u \<and> list_all worker_effect u \<and>
     length (filter is_http u) \<le> a \<and> length (filter is_db u) \<le> b)"

named_theorems cost_rules \<open>compositional rules for the costs of a program\<close>

lemma costsE:
  assumes "costs a b m" and "m h = (r, h')"
  obtains u where "h' = h @ u" "list_all worker_effect u" "length (filter is_http u) \<le> a"
    "length (filter is_db u) \<le> b"
  using assms by (metis costs_def snd_conv)

lemma costs_mono: "costs a b m \<Longrightarrow> a \<le> a' \<Longrightarrow> b \<le> b' \<Longrightarrow> costs a' b' m"
  unfolding costs_def by (meson order_trans)

lemma costs_leaf [cost_rules]:
  "costs 0 0 (ret x)" "costs 0 0 (fail e)" "costs 0 0 (lift_outcome r)"
  by (simp_all add: costs_def ret_def fail_def lift_outcome_def)

lemma costs_call [cost_rules]:
  "costs 1 0 (http_call E r)" "costs 0 1 (graph_execute E q)" "costs 0 1 (graph_run E q)"
  by (simp_all add: costs_def call_runs)

lemma costs_map_err [cost_rules]: "costs a b m \<Longrightarrow> costs a b (map_err f m)"
  by (simp add: costs_def map_err_def case_prod_beta)

lemma costs_then:
  \<comment> \<open>a program and what runs after it\<close>
  assumes "m h = (r, h1)" "costs a b m" "k h1 = (r', h2)" "costs c d k"
  shows "\<exists>u. h2 = h @ u \<and> list_all worker_effect u \<and>
    length (filter is_http u) \<le> a + c \<and> length (filter is_db u) \<le> b + d"
proof -
  obtain u where "h1 = h @ u" "list_all worker_effect u" "length (filter is_http u) \<le> a"
    "length (filter is_db u) \<le> b" using costsE [OF assms(2,1)] .
  moreover obtain v where "h2 = h1 @ v" "list_all worker_effect v" "length (filter is_http v) \<le> c"
    "length (filter is_db v) \<le> d" using costsE [OF assms(4,3)] .
  ultimately show ?thesis by (intro exI [of _ "u @ v"]) simp
qed

lemma costs_stop:
  \<comment> \<open>nothing runs after it\<close>
  "m h = (r, h1) \<Longrightarrow> costs a b m \<Longrightarrow> \<exists>u. h1 = h @ u \<and> list_all worker_effect u \<and>
    length (filter is_http u) \<le> a + c \<and> length (filter is_db u) \<le> b + d"
  by (meson costsE trans_le_add1)

lemma costs_bind [cost_rules]:
  assumes m: "costs a b m" and k: "\<And>x. costs c d (k x)"
  shows "costs (a + c) (b + d) (bind m k)"
  unfolding costs_def
proof
  fix h
  obtain r h1 where r: "m h = (r, h1)" by (cases "m h")
  show "\<exists>u. snd (bind m k h) = h @ u \<and> list_all worker_effect u \<and>
    length (filter is_http u) \<le> a + c \<and> length (filter is_db u) \<le> b + d"
  proof (cases r)
    case (Ok x)
    then show ?thesis using costs_then [OF r m _ k] r by (cases "k x h1") (auto simp: bind_def)
  qed (use costs_stop [OF r m] r in \<open>auto simp: bind_def\<close>)
qed

lemma costs_on_result [cost_rules]:
  assumes m: "costs a b m" and k: "\<And>x. costs c d (k x)" and e: "\<And>x. costs c d (l x)"
  shows "costs (a + c) (b + d) (on_result m k l)"
  unfolding costs_def
proof
  fix h
  obtain r h1 where r: "m h = (r, h1)" by (cases "m h")
  show "\<exists>u. snd (on_result m k l h) = h @ u \<and> list_all worker_effect u \<and>
    length (filter is_http u) \<le> a + c \<and> length (filter is_db u) \<le> b + d"
  proof (cases r)
    case (Ok x)
    then show ?thesis using costs_then [OF r m _ k] r by (cases "k x h1") (auto simp: on_result_def)
  next
    case (Err x)
    then show ?thesis using costs_then [OF r m _ e] r by (cases "l x h1") (auto simp: on_result_def)
  next
    case Panic
    then show ?thesis using costs_stop [OF r m] r by (auto simp: on_result_def)
  qed
qed

lemma costs_fold_prog:
  assumes "\<And>s x. costs a b (f s x)"
  shows "costs (a * length xs) (b * length xs) (fold_prog f s xs)"
proof (induction xs arbitrary: s)
  case Nil
  then show ?case by (simp add: costs_leaf)
next
  case (Cons x xs)
  show ?case using costs_bind [OF assms Cons.IH] by simp
qed

subsection \<open>A job\<close>

lemma costs_option [cost_rules]:
  "costs a b m \<Longrightarrow> (\<And>x. costs a b (k x)) \<Longrightarrow> costs a b (case v of None \<Rightarrow> m | Some x \<Rightarrow> k x)"
  by (simp split: option.split)

lemma costs_up: "costs 0 0 m \<Longrightarrow> costs a b m"
  by (erule costs_mono) simp_all

lemma costs_services [cost_rules]:
  "costs 1 0 (worker_generate_embedding E s)"
  "costs 1 1 (find_similar_by_text E t label n)"
  "costs 1 0 (worker_llm_generate E llm sys user config)"
proof -
  have answer: "costs 0 0 (bind (lift_outcome r) k)" if "\<And>x. costs 0 0 (k x)"
    for r :: "('e, 'b) outcome" and k :: "'b \<Rightarrow> ('e, 'a) action"
    using costs_bind [OF costs_leaf(3) that, of r] by simp
  show 1: "costs 1 0 (worker_generate_embedding E s)" for s
  proof -
    have "costs (0 + (1 + 0)) (0 + (0 + 0)) (worker_generate_embedding E s)"
      unfolding worker_generate_embedding_def map_err_simps
      by (intro costs_bind costs_leaf costs_call)
        (auto intro!: answer costs_leaf split: http_result.split option.split)
    then show ?thesis by simp
  qed
  have q: "costs 0 1 (worker_execute_similarity_query E q ps)" for q ps
  proof -
    have "costs (0 + (0 + 0)) (1 + (0 + 0)) (worker_execute_similarity_query E q ps)"
      unfolding worker_execute_similarity_query_def by (intro cost_rules)
    then show ?thesis by simp
  qed
  show "costs 1 1 (find_similar_by_text E t label n)"
    using costs_bind [OF costs_map_err [OF 1] q]
    by (simp add: find_similar_by_text_def worker_find_similar_nodes_def default_similar_request_def)
  have "costs (1 + 0) (0 + 0) (worker_llm_generate E llm sys user config)"
    unfolding worker_llm_generate_def by (intro cost_rules)
  then show "costs 1 0 (worker_llm_generate E llm sys user config)" by simp
qed

lemma costs_parts [cost_rules]:
  "costs 1 1 (search_for_job E job label)"
  "costs 1 0 (decide_concept_action E c ns t llm d label)"
  "costs 1 0 (ask_properties E llm sys user n de what)"
  "costs 1 1 (write_node E nm q ps)"
  "costs 0 1 (create_generalization E i j)"
  "costs 0 1 (assign_level E job ty i reused)"
proof -
  show "costs 1 1 (search_for_job E job label)"
    unfolding search_for_job_def by (intro cost_rules)
  have "costs (1 + 0) (0 + 0) (bind (verify_with_llm E c ns llm d label) (\<lambda>v. ret (f v)))" for f
  proof -
    have "costs (1 + 0) (0 + 0) (verify_with_llm E c ns llm d label)"
      unfolding verify_with_llm_def Let_def by (intro cost_rules)
    from costs_bind [OF this costs_leaf(1)] show ?thesis by simp
  qed
  then show "costs 1 0 (decide_concept_action E c ns t llm d label)"
    unfolding decide_concept_action_def by (auto intro: costs_up costs_leaf split: option.split)
  have "costs (1 + 0) (0 + 0) (ask_properties E llm sys user n de what)"
    unfolding ask_properties_def by (intro cost_rules)
  then show "costs 1 0 (ask_properties E llm sys user n de what)" by simp
  have "costs (1 + (0 + (0 + 0))) (0 + (1 + (0 + 0))) (write_node E nm q ps)"
    unfolding write_node_def by (intro cost_rules)
  then show "costs 1 1 (write_node E nm q ps)" by simp
  show "costs 0 1 (create_generalization E i j)"
    unfolding create_generalization_def by (intro cost_rules)
  have "costs (0 + 0) (1 + 0) (assign_level E job ty i reused)"
    unfolding assign_level_def Let_def create_level_requirement_def
    by (rule costs_bind) (auto intro!: cost_rules costs_call [unfolded One_nat_def] intro: costs_up costs_leaf
        split: option.split)
  then show "costs 0 1 (assign_level E job ty i reused)" by simp
qed

lemma costs_act:
  "costs 2 2 (knowledge_act E llm job d)"
  "costs 2 2 (skill_act E llm job d)"
  "costs 2 2 (trait_act E llm job d)"
proof -
  have new: "costs 2 1 (bind (ask_properties E llm sys user n de what) (\<lambda>p.
      bind (write_node E (nm p) q (ps p)) (\<lambda>c. ret (f c))))" for sys user n de what nm q ps f
  proof -
    have "costs (1 + (1 + 0)) (0 + (1 + 0)) (bind (ask_properties E llm sys user n de what) (\<lambda>p.
      bind (write_node E (nm p) q (ps p)) (\<lambda>c. ret (f c))))" by (intro cost_rules)
    then show ?thesis by (rule costs_mono) simp_all
  qed
  have general: "costs 2 2 (bind (ask_properties E llm sys user n de what) (\<lambda>p.
      bind (write_node E (nm p) q (ps p)) (\<lambda>c. bind (create_generalization E (i c) j) (\<lambda>_. ret (f c)))))"
    for sys user n de what nm q ps f i j
  proof -
    have "costs (1 + (1 + (0 + 0))) (0 + (1 + (1 + 0))) (bind (ask_properties E llm sys user n de what) (\<lambda>p.
      bind (write_node E (nm p) q (ps p)) (\<lambda>c. bind (create_generalization E (i c) j) (\<lambda>_. ret (f c)))))"
      by (intro cost_rules)
    then show ?thesis by (rule costs_mono) simp_all
  qed
  show "costs 2 2 (knowledge_act E llm job d)" "costs 2 2 (skill_act E llm job d)"
    "costs 2 2 (trait_act E llm job d)"
    unfolding processor_defs
    by (auto intro: costs_up costs_leaf general costs_mono [OF new] split: concept_decision.split)
qed

lemma costs_processors:
  "costs 4 4 (knowledge_process E llm job)"
  "costs 4 4 (skill_process E llm job)"
  "costs 4 4 (trait_process E llm job)"
  "costs 2 2 (milestone_process E llm job)"
proof -
  have "costs (1 + (1 + (2 + 0))) (1 + (0 + (2 + 1))) (knowledge_process E llm job)"
    "costs (1 + (1 + (2 + 0))) (1 + (0 + (2 + 1))) (skill_process E llm job)"
    "costs (1 + (1 + (2 + 0))) (1 + (0 + (2 + 1))) (trait_process E llm job)"
    unfolding knowledge_process_def skill_process_def trait_process_def case_prod_beta
    by (intro costs_bind cost_rules costs_act)+
  then show "costs 4 4 (knowledge_process E llm job)" "costs 4 4 (skill_process E llm job)"
    "costs 4 4 (trait_process E llm job)" by (simp_all add: eval_nat_numeral)
  have "costs (1 + (1 + 0)) (0 + (1 + 1)) (milestone_process E llm job)"
    unfolding milestone_process_def worker_milestone_properties_def worker_create_milestone_def
    by (intro cost_rules)
  then show "costs 2 2 (milestone_process E llm job)" by (rule costs_mono) simp_all
qed

subsection \<open>An invocation\<close>

lemma costs_process_job: "costs 4 4 (process_job E llm job)"
  unfolding process_job_def
  by (auto intro: costs_processors costs_mono [OF costs_processors(4)] costs_up costs_leaf
      split: option.split node_type.split)

lemma costs_handle_record: "costs 4 4 (handle_record E llm u r)"
proof -
  have "costs (4 + 0) (4 + 0) (settle (process_job E llm) job)" for job
    unfolding settle_def
    by (rule costs_on_result [OF costs_process_job]) (auto intro: costs_leaf)
  then show ?thesis
    unfolding handle_record_def
    by (auto intro: costs_up costs_leaf split: option.split outcome.split)
qed

lemma costs_handle_sqs_event:
  "costs (4 * length records) (4 * length records) (handle_sqs_event E connect records cfg)"
proof -
  have "costs (0 + (0 + 4 * length records)) (0 + (0 + 4 * length records))
      (bind (lift_outcome (create_graph_connection connect cfg)) (\<lambda>_.
       bind (lift_outcome (create_llm_service E cfg)) (\<lambda>llm. fold_prog (handle_record E llm) () records)))"
    by (rule costs_bind [OF costs_leaf(3) costs_bind [OF costs_leaf(3) costs_fold_prog [OF costs_handle_record]]])
  then show ?thesis
    by (auto simp: handle_sqs_event_def intro: costs_leaf)
qed

lemma worker_effects_split:
  "list_all worker_effect u \<Longrightarrow> length u = length (filter is_http u) + length (filter is_db u)"
proof (induction u)
  case (Cons f u)
  then show ?case by (cases f) simp_all
qed simp

lemma batch_ends:
  "\<exists>r u. handle_sqs_event E connect records cfg h = (r, h @ u) \<and>
     (r = Panic \<longleftrightarrow> records \<noteq> [] \<and> create_graph_connection connect cfg = Ok () \<and>
        cfg_anthropic_api_key cfg \<noteq> None \<and> client_error E \<noteq> None) \<and>
     length (filter is_http u) \<le> 4 * length records \<and> length (filter is_db u) \<le> 4 * length records \<and>
     length u \<le> 8 * length records"
proof -
  obtain r h' where run: "handle_sqs_event E connect records cfg h = (r, h')"
    by (cases "handle_sqs_event E connect records cfg h")
  moreover obtain u where "h' = h @ u" "list_all worker_effect u"
    "length (filter is_http u) \<le> 4 * length records" "length (filter is_db u) \<le> 4 * length records"
    using costsE [OF costs_handle_sqs_event run] .
  ultimately show ?thesis
    using worker_effects_split [of u] handle_sqs_event_Panic_iff [OF run]
    by (intro exI [of _ r] exI [of _ u]) simp
qed

end
