(* ===== verification/Queue_Delivery.thy ===== *)
theory Queue_Delivery
  imports Agent_Handlers Worker_Handler
begin

text \<open>
  The way of a job from the API (\<open>agent/handlers.rs\<close>, \<open>common/sqs.rs\<close>) to the worker
  (\<open>messages/node_job.rs\<close>, \<open>handler.rs\<close>): whatever the worker decodes fits the widths of the Rust
  types, so does every job that a generation sends, and the worker processes exactly these jobs, in the
  order in which they were sent.
\<close>

subsection \<open>Widths\<close>

lemma de_unsigned_width: "de_unsigned w v = Some n \<Longrightarrow> n < 2 ^ w"
  by (auto simp: de_unsigned_def split: json.splits number.splits if_splits)

lemma de_field_Some: "de_field k de v = Some x \<Longrightarrow> \<exists>w. jget v k = Some w \<and> de w = Some x"
  by (auto simp: de_field_def split: bind_splits)

lemma de_field_width: "de_field k (de_unsigned w) v = Some n \<Longrightarrow> n < 2 ^ w"
  by (auto dest!: de_field_Some de_unsigned_width)

lemma de_option_width:
  "de_option k (de_unsigned w) v = Some x \<Longrightarrow> (case x of None \<Rightarrow> True | Some n \<Rightarrow> n < 2 ^ w)"
  by (auto simp: de_option_def split: option.splits json.splits dest: de_unsigned_width)

lemma de_vec_all:
  assumes "de_vec de v = Some xs" and "\<And>w x. de w = Some x \<Longrightarrow> P x"
  shows "list_all P xs"
proof -
  obtain vs where "map de vs = map Some xs"
    using assms(1) by (auto simp: de_vec_def option_all_eq_Some split: json.splits)
  then have "Some x \<in> de ` set vs" if "x \<in> set xs" for x
    using that by (metis image_eqI list.set_map)
  then show ?thesis using assms(2) by (fastforce simp: list_all_iff)
qed

lemma de_level_info_width: "de_level_info v = Some l \<Longrightarrow> level_in_width l"
  by (auto simp: de_level_info_def level_in_width_def dest!: de_field_width split: bind_splits)

lemma de_node_job_width:
  assumes "de_node_job v = Some j"
  shows "job_in_width j"
proof -
  have levels: "list_all level_in_width ls" if "de_field ''domain_levels'' (de_vec de_level_info) v = Some ls" for ls
    using de_field_Some [OF that] de_vec_all [of de_level_info _ ls level_in_width] de_level_info_width by blast
  obtain seq tn rc ls sl where f: "de_field ''sequence_number'' (de_unsigned 32) v = Some seq"
    "de_field ''total_nodes'' (de_unsigned 32) v = Some tn"
    "de_field ''retry_count'' (de_unsigned 32) v = Some rc"
    "de_field ''domain_levels'' (de_vec de_level_info) v = Some ls"
    "de_option ''suggested_level'' (de_unsigned 8) v = Some sl"
    and j: "job_sequence_number j = seq" "job_total_nodes j = tn" "job_retry_count j = rc"
      "job_domain_levels j = ls" "job_suggested_level j = sl"
    using assms unfolding de_node_job_def by (auto split: bind_splits)
  show ?thesis
    unfolding job_in_width_def j
    using f(1,2,3) [THEN de_field_width] levels [OF f(4)] de_option_width [OF f(5)] by blast
qed

lemma from_str_Ok: "from_str E de s = Ok x \<Longrightarrow> \<exists>v. json_parse E s = Inr v \<and> de v = Some x"
  by (cases "json_parse E s"; cases "de (projr (json_parse E s))")
    (auto simp: from_str_def parse_value_def sum_outcome_def)

subsection \<open>The concepts and their jobs\<close>

definition concept_in_width :: "conceptualized_node \<Rightarrow> bool" where
  "concept_in_width c = (case con_suggested_level c of None \<Rightarrow> True | Some l \<Rightarrow> l < 2 ^ 8)"

definition concepts_in_width :: "conceptualized_domain \<Rightarrow> bool" where
  "concepts_in_width c = list_all (\<lambda>(ty, n). concept_in_width n) (all_concepts c)"

lemma de_concept_item_width: "de_concept_item v = Some c \<Longrightarrow> concept_in_width c"
  by (auto simp: de_concept_item_def concept_in_width_def dest!: de_option_width split: bind_splits)

lemma de_concepts_width:
  assumes "de_concepts_response v = Some c"
  shows "concepts_in_width c"
proof -
  have items: "list_all concept_in_width cs" if "de_field k (de_vec de_concept_item) v = Some cs" for k cs
    using de_field_Some [OF that] de_vec_all [of de_concept_item _ cs concept_in_width] de_concept_item_width by blast
  then show ?thesis
    using assms
    by (auto simp: de_concepts_response_def concepts_in_width_def all_concepts_def list.pred_map comp_def
        split: bind_splits)
qed

lemma conceptualize_width:
  assumes "conceptualize_all_nodes E name desc h = (Ok c, h')"
  shows "concepts_in_width c"
proof -
  have "returns (lift_outcome (map_err_outcome f (from_str E de_concepts_response s))) concepts_in_width" for f s
    by (auto simp: map_err_outcome_eq_Ok dest!: from_str_Ok de_concepts_width)
  then have "returns (conceptualize_all_nodes E name desc) concepts_in_width"
    unfolding conceptualize_all_nodes_def Let_def by (intro returns_bindI)
  then show ?thesis using assms by (rule returnsD)
qed

lemma job_for_width:
  assumes "job_for t (ty, c) n j" and "n < 2 ^ 32" "gt_total_nodes t < 2 ^ 32"
    and "concept_in_width c" and "map dli_level (gt_domain_levels t) = [1, 2, 3, 4, 5]"
  shows "job_in_width j"
proof -
  have "list_all level_in_width (gt_domain_levels t) \<longleftrightarrow> list_all (\<lambda>l. l < 2 ^ 8) (map dli_level (gt_domain_levels t))"
    by (simp add: list_all_iff level_in_width_def)
  then have "list_all level_in_width (gt_domain_levels t)" unfolding assms(5) by simp
  with assms show ?thesis by (simp add: job_for_def job_in_width_def concept_in_width_def)
qed

lemma jobs_for_width:
  assumes "jobs_for t cs 0 js" and "length cs < 2 ^ 32" "gt_total_nodes t < 2 ^ 32"
    and "list_all (\<lambda>(ty, c). concept_in_width c) cs" and "map dli_level (gt_domain_levels t) = [1, 2, 3, 4, 5]"
  shows "list_all job_in_width js"
  unfolding list_all_length
proof (intro allI impI)
  fix i assume i: "i < length js"
  have len: "length js = length cs" by (rule jobs_for_numbers(1) [OF assms(1)])
  obtain ty c where c: "cs ! i = (ty, c)" by (cases "cs ! i")
  have "job_for t (ty, c) i (js ! i)"
    using list_all2_nthD2 [OF assms(1) [unfolded jobs_for_def] i] i len c by (simp add: nth_enumerate_eq)
  moreover have "concept_in_width c" using assms(4) i len c by (auto simp: list_all_length)
  ultimately show "job_in_width (js ! i)"
    using job_for_width [OF _ _ assms(3) _ assms(5)] i len assms(2) by simp
qed

subsection \<open>Delivery\<close>

lemma fold_prog_cong_map:
  "(\<And>s x. x \<in> set xs \<Longrightarrow> f s (g x) = k s x) \<Longrightarrow> fold_prog f s (map g xs) = fold_prog k s xs"
  by (induction xs arbitrary: s) simp_all

lemma worker_takes_jobs:
  assumes json: "\<And>j. job_in_width j \<Longrightarrow>
      json_parse E' (json_print E (node_job_json j)) = Inr (sorted_json (node_job_json j))"
    and "list_all job_in_width js"
  shows "fold_prog (handle_record E' llm) () (map (\<lambda>j. Some (json_print E (node_job_json j))) js) =
    fold_prog (\<lambda>_. settle (process_job E' llm)) () js"
proof (rule fold_prog_cong_map)
  fix u j assume "j \<in> set js"
  with assms(2) have "job_in_width j" by (simp add: list_all_iff)
  from queued_job_decodes [OF this json [OF this]]
  show "handle_record E' llm u (Some (json_print E (node_job_json j))) = settle (process_job E' llm) j"
    by (simp add: handle_record_def)
qed

lemma async_generation_delivered:
  assumes ok: "generate_domain_async E vt request h = (Ok r, h')"
    and url: "env_var E ''DOMAIN_NODE_QUEUE_URL'' = Some url"
    and json: "\<And>j. job_in_width j \<Longrightarrow>
      json_parse E' (json_print E (node_job_json j)) = Inr (sorted_json (node_job_json j))"
  shows "\<exists>h1 h2 u concepts t js.
    conceptualize_all_nodes E (gdr_domain_name request) (gdr_description request) h1 = (Ok concepts, h2) \<and>
    h' = h2 @ u \<and>
    (length (all_concepts concepts) < 2 ^ 32 \<longrightarrow>
       jobs_for t (all_concepts concepts) 0 js \<and> list_all job_in_width js \<and>
       fold_prog (handle_record E' llm) () (map Some (sent_to url u)) =
         fold_prog (\<lambda>_. settle (process_job E' llm)) () js)"
proof -
  from generate_domain_async_Ok [OF ok url] obtain h1 h1a h2 u concepts levels t js where
    1: "create_domain_and_levels E (gdr_domain_name request) (gdr_description request) (h @ [ReadClock]) =
      (Ok (agr_domain_element_id r, levels), h1)" and
    2: "conceptualize_all_nodes E (gdr_domain_name request) (gdr_description request) h1a = (Ok concepts, h2)" and
    3: "h' = h2 @ u" "agr_total_nodes r = count_concepts concepts" "gt_total_nodes t = agr_total_nodes r"
      "gt_domain_levels t = levels" and
    4: "length (all_concepts concepts) < 2 ^ 32 \<longrightarrow>
       sent_to url u = map (\<lambda>j. json_print E (node_job_json j)) js \<and> jobs_for t (all_concepts concepts) 0 js"
    by blast
  have levels: "map dli_level (gt_domain_levels t) = [1, 2, 3, 4, 5]"
    using create_domain_and_levels_Ok [OF 1] 3 by simp
  have total: "gt_total_nodes t < 2 ^ 32" using 3 by (simp add: count_concepts_def)
  have "jobs_for t (all_concepts concepts) 0 js \<and> list_all job_in_width js \<and>
      fold_prog (handle_record E' llm) () (map Some (sent_to url u)) =
        fold_prog (\<lambda>_. settle (process_job E' llm)) () js"
    if len: "length (all_concepts concepts) < 2 ^ 32"
  proof -
    have jobs: "jobs_for t (all_concepts concepts) 0 js" using 4 len by blast
    have width: "list_all job_in_width js"
      using jobs_for_width [OF jobs len total _ levels] conceptualize_width [OF 2]
      by (simp add: concepts_in_width_def)
    have "map Some (sent_to url u) = map (\<lambda>j. Some (json_print E (node_job_json j))) js"
      using 4 len by simp
    with jobs width worker_takes_jobs [OF json width] show ?thesis by simp
  qed
  with 2 3 show ?thesis by blast
qed

end
