(* ===== verification/Spec2Isabelle.thy ===== *)
theory Spec2Isabelle
  imports Example_Race General_Ends Worker_Costs Queue_Delivery Startup
begin

text \<open>
  Atlas of Us: the two Rust programs under \<open>src/apis\<close>, the REST API
  (\<open>atlas_of_us_rest_api\<close>) and the worker behind its queue (\<open>atlas_domain_worker\<close>).

  \<^bold>\<open>The programs.\<close> The graph database holds domains with five levels of mastery and the knowledge,
  skill, trait and milestone nodes that a level requires. The API reads and edits this graph, and
  generates a domain: the orchestrator (\<open>agent/orchestrator.rs\<close>) refuses a name that is close to an
  existing domain, then runs seven agents in order (\<open>agent/steps\<close>) over one shared context, each of
  which asks an LLM, searches the graph for similar nodes and writes nodes or relationships, while the
  client follows the run as server-sent events. The other way to generate
  (\<open>generate_domain_async\<close>) makes the domain and one queue message for each node; the worker
  (\<open>handler.rs\<close>) turns every message into a node, reused or new, and links it to a level.

  \<^bold>\<open>How a program is modelled.\<close> An \<open>async fn\<close> is a \<open>prog\<close> (theory \<open>Prelude\<close>): a function
  from the history of the effects so far to an outcome (\<open>Ok\<close>, \<open>Err\<close> or \<open>Panic\<close>) and the extended
  history. Effects (theory \<open>World\<close>) are the statements sent to the database, HTTP requests, queue
  messages, events, and reads of the clocks and the random source. What answers them is not under src/: it is the record
  \<open>env\<close>, a parameter \<open>E\<close>, whose functions see the whole history, so that a service may keep any
  state and fail at any point. A theorem that names no condition on \<open>E\<close> holds for every database,
  service and LLM. \<open>?\<close> is \<open>bind\<close>, a \<open>match\<close> on a result \<open>on_result\<close>, a \<open>for\<close> loop
  \<open>fold_prog\<close>; streams with \<open>buffer_unordered(BATCH_SIZE)\<close> run one item after the other, as
  \<open>BATCH_SIZE\<close> is 1.

  \<^bold>\<open>Data.\<close> Structures are records and enums datatypes with the fields and variants of the source. A
  \<open>String\<close> is the list of its UTF-8 bytes (\<open>Rust_Text\<close>), so that a slice off a character boundary
  panics as it does in Rust. A \<open>HashMap\<close> is the association list of its entries in iteration order,
  and every theorem holds for every order. Values of type \<open>f64\<close> are rationals, the infinities and NaN
  with the comparisons of IEEE 754 (\<open>Json\<close>); the code compares and passes scores on and never
  computes with them. Machine arithmetic that can leave its range is written with the wrap of the
  release build (\<open>usize\<close> and \<open>i32\<close> in \<open>Level_Distributor\<close>, \<open>u64\<close> in \<open>Auth\<close>).

  \<^bold>\<open>Theories\<close>, in the order of the imports (paths under \<open>atlas_of_us_rest_api/src\<close> unless the worker
  is named):
  \<^item> \<open>Prelude\<close>, \<open>Rust_Text\<close>, \<open>Json\<close> (also \<open>common/neo4j_utils.rs\<close>), \<open>World\<close>: the vocabulary above, with the
    compositional judgements \<open>emits\<close>, \<open>returns\<close> and \<open>no_panic\<close> and their rules \<open>prog_rules\<close>.
  \<^item> \<open>Agent_Models\<close>: \<open>agent/models.rs\<close>, the registry and the context of a generation.
  \<^item> \<open>Services\<close>: \<open>common/embedding.rs\<close>, \<open>common/similarity.rs\<close> and the worker's copies.
  \<^item> \<open>Llm\<close>: \<open>agent/llm\<close> and the worker's \<open>services/llm.rs\<close>; the interface \<open>llm_provider\<close>.
  \<^item> \<open>Prompts\<close>: \<open>agent/prompts/templates.rs\<close>, every prompt text for text.
  \<^item> \<open>Graph_Models\<close>, \<open>Graph_Node\<close>, \<open>Graph_Relationship\<close>, \<open>Graph_Domain\<close>, \<open>Graph_Handlers\<close>:
    \<open>domains/graph\<close> (models, \<open>services/*.rs\<close>, \<open>handlers.rs\<close>) and \<open>error/mod.rs\<close>, with the text of the
    Cypher that is built.
  \<^item> \<open>Sqs\<close>: \<open>common/sqs.rs\<close>, the messages and their JSON.
  \<^item> \<open>Steps_Common\<close>: \<open>agent/steps/mod.rs\<close> and the interface \<open>agent_step\<close>; \<open>Concept_Passes\<close>: the passes that
    knowledge and skills share; \<open>Domain_Architect\<close>, \<open>Knowledge_Generator\<close>, \<open>Skill_Generator\<close>,
    \<open>Trait_Generator\<close>, \<open>Milestone_Generator\<close>, \<open>Level_Distributor\<close>, \<open>Prerequisite_Mapper\<close>: the seven
    agents, one per file of \<open>agent/steps\<close>, every pass and the whole \<open>execute\<close>.
  \<^item> \<open>Orchestrator\<close>: \<open>agent/orchestrator.rs\<close>, with the abstract workflow \<open>generation_trace\<close>.
  \<^item> \<open>Sse_Events\<close>, \<open>Fenced_Json\<close>, \<open>Agent_Handlers\<close>: \<open>agent/handlers.rs\<close>, the event stream and the
    generation through the queue.
  \<^item> \<open>Registry_Invariant\<close>, \<open>Registry_Steps\<close>: the well-formed registry, kept by the seven steps and by the
    orchestrator, also where a step fails; the interface \<open>typed_step\<close>. \<open>General_Ends\<close>: where the recorded
    generalisations end, carried through the passes by the judgement \<open>triple\<close> (with the history) and
    through the steps by the interface \<open>ending_step\<close>.
  \<^item> \<open>Worker_Messages\<close>, \<open>Worker_Common\<close>, \<open>Worker_Processors\<close>, \<open>Worker_Handler\<close>: the worker
    (\<open>messages\<close>, \<open>processors\<close>, \<open>handler.rs\<close>, \<open>config.rs\<close>); the interface \<open>node_processor\<close>.
  \<^item> \<open>Worker_Costs\<close>: how many requests and statements an invocation makes, by the compositional judgement
    \<open>costs\<close>; \<open>Queue_Delivery\<close>: from a generation of the API to the jobs that the worker processes.
  \<^item> \<open>Auth\<close>, \<open>Profile\<close>, \<open>Storage\<close>, \<open>App_Config\<close>, \<open>Router\<close>: \<open>domains/auth\<close>, \<open>domains/profile\<close>,
    \<open>common/s3.rs\<close> and \<open>common/handlers.rs\<close>, \<open>config/mod.rs\<close>, \<open>router/mod.rs\<close> and the CORS layer of
    \<open>main.rs\<close>.
  \<^item> \<open>Request_Decoding\<close>: the requests of all endpoints, from JSON and from query strings, and back to JSON;
    \<open>Api\<close>: the handler of every route with its extractors, the layers (\<open>common/logging_middleware.rs\<close>,
    CORS) and the served application \<open>serve\<close>; \<open>Startup\<close>: \<open>main.rs\<close> of both programs.
  \<^item> \<open>Concurrency\<close>: requests that are served at the same time, as a schedule of the effects of several
    clients, and the race of two requests for one name.
  \<^item> \<open>Example_Queue\<close>, \<open>Example_World\<close>, \<open>Example_Worker\<close>, \<open>Example_Race\<close>: one concrete environment, in
    which a whole generation, a queued generation, a worker job, a batch of the queue and two requests at
    once run to their end; the witnesses of the properties use it.

  \<^bold>\<open>Interfaces.\<close> \<open>llm_provider\<close> (a call sends at most one request and never panics) is interpreted on
  the API's and the worker's client. \<open>agent_step\<close> (a step appends only step events and effects, keeps
  the name of the domain, and its registry only grows) is interpreted on the seven steps; the orchestrator's
  lemmas rest on it. \<open>typed_step\<close> extends it by the invariant of the registry and \<open>ending_step\<close> by the ends of
  the generalisations, on the same seven steps.
  \<open>node_processor\<close> (a success answers for the job, with a level in 1 to 5) is interpreted on the four
  processors and on the dispatch over them.

  \<^bold>\<open>Properties.\<close> C1 to C4: the workflow of a generation, its gate, its result and the invariant of its
  registry. C5 to C11: the agents, what they record, reuse and link, and what they never do. C12 to C14:
  reading the answers of the LLM, with the exact inputs on which a parser panics. C15: the event stream.
  C16 to C24: the graph services and their requests. C25 to C27: the generation through the queue, to the
  jobs that the worker receives. C28 to C35: the worker, its decisions, results, errors and retries, what an
  acknowledged batch has done, and the bounds of an invocation. C36 to C40: users, tokens, and what the
  server does with any request. Several of them state a defect of the code as it is: C3 (a statistic that
  stays zero), C10 to C12 (links that are lost or misplaced), C13 and C14 (panics), C17 (an endpoint without
  results), C18, C19 (parameters and query text), C20 (requirements of the wrong level), C21 (an error of the
  name check that counts as a free name), C22 (a domain that exists twice), C23 (an update that loses the
  levels), C31 and C32 (messages that are deleted unprocessed), C34 (repeated jobs) and C36. The lemma
  \<open>put_routes_not_allowed\<close> (CORS leaves out the three updates) states one more.

  \<^bold>\<open>Termination and fuel.\<close> Every loop of the code runs over a list that is known when it starts, except those
  of the text functions, which shorten their argument. All definitions are total functions, and no fuel is
  used: that a call returns an outcome is part of its type, and \<open>no_panic\<close> excludes the third kind of it.
  C33 bounds the effects of an invocation of the worker and names its one panic.

  \<^bold>\<open>Not modelled.\<close> Log lines and TLS set-up (also that \<open>reqwest::Client::new()\<close> and the connectors
  panic when TLS cannot be initialised; a client that is built with \<open>Client::builder()\<close>, whose error the
  code handles or expects, fails when \<open>client_error\<close> says so; in the worker that one is
  built before any other, so the first case cannot arise there); reading \<open>.env\<close> (the environment is the one after it); the pools
  and tasks of the runtime: a spawned generation is its whole run, in which the events of the channel are
  \<open>Emit\<close> effects (a closed channel is only logged by the code, so the run is the same). What other clients and
  invocations do meanwhile is part of the answers of \<open>E\<close>; \<open>Concurrency\<close> makes that explicit. Parsing and printing JSON text is a parameter of \<open>env\<close>, while
  the conversions between JSON values and the types of the code are defined; a type is decoded from the value
  rather than from the text, and a struct from an object only (\<open>serde\<close> also takes an array of its fields).
  The extractors are axum's: the value that it reads from a body, with the content type and the limit on the
  size, and the status of a rejection are parameters of \<open>backend\<close>, and the texts of the rejections are left
  out. SQS is not modelled: neither when it delivers, deletes or expires a message, nor a redrive policy;
  what the worker returns to it is. \<open>argon2\<close>, \<open>jsonwebtoken\<close>, S3, \<open>infer\<close> and the connections are parameters. The
  response structures of \<open>profile/models.rs\<close> are used by no code. Other languages of
  the repository (\<open>src/ui\<close>, the Python services, the database scripts) are outside this development.
\<close>

section \<open>Generation of a domain\<close>

text \<open>C1. Whatever the database, the services and the LLM answer, a generation only appends to the
  history, and the workflow events that the client sees are one of four shapes, in step with the
  result: nothing after an error of the search for a similar domain; the refusal; all seven agents in
  order between the start and the completion, with a result; or the agents up to the one that failed
  and the failure (or, where a task panics, nothing more at all).\<close>

theorem generation_follows_workflow:
  "\<exists>u. snd (generate_domain E llm name desc h) = h @ u \<and>
     generation_trace (lifecycle_of u) (fst (generate_domain E llm name desc h))"
  using generate_domain_trace [of E llm name desc h] by (metis prod.collapse)

text \<open>C2. When the domain that is closest to the name has a score of at least 0.85, the generation is
  refused: besides the clock and the search it issues one event, \<open>DomainExists\<close> with the name of
  that domain, and it creates nothing.\<close>

theorem similar_domain_is_refused:
  assumes "search_text E ''Domain'' name 1 (h @ [ReadInstant]) = (Ok (s # rest), h1)"
    and "f64_ge (sn_score s) DOMAIN_SIMILARITY_THRESHOLD"
  shows "\<exists>e u. generate_domain E llm name desc h =
      (Err e, h @ [ReadInstant] @ u @ [Emit (DomainExists name (sn_name s))]) \<and>
    list_all search_effect u"
proof -
  have "check_domain_exists E name (h @ [ReadInstant]) = (Ok (Some (sn_name s)), h1)"
    using assms by (simp add: check_domain_exists_def bind_def ret_def)
  from generate_domain_refused [OF this] show ?thesis .
qed

theorem similar_domain_is_refused_witness:
  "\<exists>e u. generate_domain (sample_env (Finite 1) None) sample_llm ''Chess'' None [] =
      (Err e, [] @ [ReadInstant] @ u @ [Emit (DomainExists ''Chess'' ''n'')]) \<and> list_all search_effect u"
proof -
  let ?E = "sample_env (Finite 1) None"
  obtain h1 where "search_text ?E ''Domain'' ''Chess'' 1 ([] @ [ReadInstant]) =
      (Ok [sample_similar (Finite 1)], h1)"
    using givesD [OF gives_search] by blast
  from similar_domain_is_refused [OF this, of sample_llm None] show ?thesis
    by (simp add: sample_similar_def DOMAIN_SIMILARITY_THRESHOLD_def f64_consts f64_ge_def)
qed

text \<open>C3. A generation that succeeds has created the five levels of the domain, in order and first in
  the registry of levels, and reports five levels and the reused nodes of the registry. The statistic
  \<open>relationships_created\<close> is never counted: it is zero after every generation.\<close>

theorem successful_generation:
  assumes "generate_domain E llm name desc h = (Ok r, h')"
  shows "dgr_domain_name r = name \<and>
    domain_levels_created (dgr_statistics r) = 5 \<and>
    relationships_created (dgr_statistics r) = 0 \<and>
    nodes_reused (dgr_statistics r) = count_reused (dgr_domain_graph r) \<and>
    (\<exists>ns. level_nodes_of (get_level_structure name) ns \<and> prefix ns (reg_domain_levels (dgr_domain_graph r)))"
  using assms by (rule generate_domain_Ok)

theorem successful_generation_witness:
  "\<exists>r h'. generate_domain world sample_llm ''Chess'' None [] = (Ok r, h') \<and>
     dgr_domain_name r = ''Chess'' \<and> domain_levels_created (dgr_statistics r) = 5"
proof -
  obtain r h' where run: "generate_domain world sample_llm ''Chess'' None [] = (Ok r, h')"
    using generation_succeeds by blast
  with successful_generation [OF run] show ?thesis by blast
qed

text \<open>C4. Throughout a generation the registry is well formed: every node stands in the list of its
  label, and the domain, the levels and the milestones are new. Every recorded level requirement goes
  from a recorded level to a recorded node of its type, every prerequisite joins two recorded nodes.
  Every generalisation ends at a node that a search of this generation returned, under the link's label,
  or at a node that the generation created and recorded under that label with the link's name: no id is
  made up. This holds of every partial registry that a failure shows to the client, and of the result,
  in which moreover every generalisation starts at a recorded node (in a partial registry that node may
  not be recorded yet).\<close>

theorem generated_registry_well_formed:
  assumes "generate_domain E llm name desc h = (out, h')"
  shows "\<exists>u. h' = h @ u \<and>
    (\<forall>e a g. Emit (Failed e a (Some g)) \<in> set u \<longrightarrow> registry_typed g \<and> general_ends E h h' g) \<and>
    (\<forall>r. out = Ok r \<longrightarrow> registry_wf (dgr_domain_graph r) \<and> general_ends E h h' (dgr_domain_graph r))"
proof -
  obtain u where u: "h' = h @ u" "list_all reports_typed u" "\<forall>r. out = Ok r \<longrightarrow> registry_wf (dgr_domain_graph r)"
    using generate_domain_reports [OF assms] by blast
  moreover from u(1) have "list_all (reports_ends E h h') u"
    "\<forall>r. out = Ok r \<longrightarrow> general_ends E h h' (dgr_domain_graph r)"
    using generate_domain_ends [OF assms] by auto
  ultimately show ?thesis
    unfolding list_all_iff by (fastforce simp: reports_ends_def)
qed

theorem generated_registry_well_formed_witness:
  "\<exists>r h'. generate_domain world sample_llm ''Chess'' None [] = (Ok r, h') \<and>
     registry_wf (dgr_domain_graph r) \<and> general_ends world [] h' (dgr_domain_graph r)"
proof -
  obtain r h' where run: "generate_domain world sample_llm ''Chess'' None [] = (Ok r, h')"
    using generation_succeeds by blast
  with generated_registry_well_formed [OF run] show ?thesis by blast
qed

section \<open>The steps of a generation\<close>



text \<open>C6. The trait step that succeeds records one node for each concept of the LLM, in order; a node
  that it reuses has the name of the concept and the id of one of the nodes that the similarity search
  found for that concept, never an id that the LLM made up. The milestone step creates one new
  \<open>Milestone\<close> node for each concept and never reuses one.\<close>

theorem traits_reuse_and_milestones_create:
  "(trait_execute E llm c h = (Ok c', h') \<longrightarrow>
      (\<exists>concepts results created h1 h2 h3.
         trait_pass1 E llm c
           (h @ [Emit (StepProgress TraitGenerator ''Identifying relevant traits...'')]) = (Ok concepts, h1) \<and>
         trait_pass2 E concepts h2 = (Ok results, h3) \<and> map fst results = concepts \<and>
         list_all2 trait_node_for results created \<and>
         reg_traits (ctx_graph c') = reg_traits (ctx_graph c) @ created)) \<and>
   (milestone_execute E llm c h = (Ok c', h') \<longrightarrow>
      (\<exists>concepts created h1.
         milestone_conceptualize E llm c
           (h @ [Emit (StepProgress MilestoneGenerator ''Identifying milestone achievements...'')]) =
           (Ok concepts, h1) \<and>
         length created = length concepts \<and>
         (\<forall>n\<in>set created. cn_label n = ''Milestone'' \<and> \<not> cn_was_reused n) \<and>
         reg_milestones (ctx_graph c') = reg_milestones (ctx_graph c) @ created))"
proof (intro conjI impI)
  assume "trait_execute E llm c h = (Ok c', h')"
  then show "\<exists>concepts results created h1 h2 h3.
      trait_pass1 E llm c
        (h @ [Emit (StepProgress TraitGenerator ''Identifying relevant traits...'')]) = (Ok concepts, h1) \<and>
      trait_pass2 E concepts h2 = (Ok results, h3) \<and> map fst results = concepts \<and>
      list_all2 trait_node_for results created \<and>
      reg_traits (ctx_graph c') = reg_traits (ctx_graph c) @ created"
    by (rule trait_execute_Ok) blast
next
  assume "milestone_execute E llm c h = (Ok c', h')"
  then show "\<exists>concepts created h1.
      milestone_conceptualize E llm c
        (h @ [Emit (StepProgress MilestoneGenerator ''Identifying milestone achievements...'')]) =
        (Ok concepts, h1) \<and>
      length created = length concepts \<and>
      (\<forall>n\<in>set created. cn_label n = ''Milestone'' \<and> \<not> cn_was_reused n) \<and>
      reg_milestones (ctx_graph c') = reg_milestones (ctx_graph c) @ created"
    by (rule milestone_execute_Ok) blast
qed

theorem traits_reuse_and_milestones_create_witness:
  "\<exists>ct ht cm hm results.
     trait_execute world sample_llm (AgentContext_new ''Chess'' None) [] = (Ok ct, ht) \<and>
     milestone_execute world sample_llm (AgentContext_new ''Chess'' None) [] = (Ok cm, hm) \<and>
     reg_traits (ctx_graph ct) = [openings ''Trait''] \<and> reg_milestones (ctx_graph cm) = [openings ''Milestone''] \<and>
     list_all2 trait_node_for results (reg_traits (ctx_graph ct)) \<and>
     (\<forall>n\<in>set (reg_milestones (ctx_graph cm)). cn_label n = ''Milestone'' \<and> \<not> cn_was_reused n)"
proof -
  let ?c = "AgentContext_new ''Chess'' None"
  obtain ht where t: "trait_execute world sample_llm ?c [] = (Ok (add_trait ?c (openings ''Trait'')), ht)"
    using givesD [OF gives_trait] by blast
  obtain hm where m: "milestone_execute world sample_llm ?c [] =
      (Ok (add_milestone ?c (openings ''Milestone'')), hm)"
    using givesD [OF gives_milestone] by blast
  have none: "reg_traits (ctx_graph ?c) = []" "reg_milestones (ctx_graph ?c) = []"
    by (simp_all add: AgentContext_new_def empty_registry_def)
  show ?thesis
    using traits_reuse_and_milestones_create [THEN conjunct1, THEN mp, OF t]
      traits_reuse_and_milestones_create [THEN conjunct2, THEN mp, OF m] t m none
    by (auto simp: add_trait_def add_milestone_def)
qed

text \<open>C7. Every step, whatever its result, only adds to the context (nodes and links are never
  removed, and the domain node stays set), only appends to the history, and announces progress in its own
  name. The context that a failing step leaves is the one that the client sees in the failure.\<close>

theorem steps_only_add:
  assumes "(a, ex) \<in> set (agent_steps E llm)"
  shows "\<exists>u. snd (ex c h) = h @ u \<and> list_all (own_effect a) u \<and>
    (case fst (ex c h) of
       Ok c' \<Rightarrow> context_grows c c' | Err (e, c') \<Rightarrow> context_grows c c' | Panic \<Rightarrow> True)"
proof -
  have step: "agent_step a ex"
    using agent_steps_sound [of E llm] assms unfolding list_all_iff by blast
  obtain out h' where run: "ex c h = (out, h')" by (cases "ex c h")
  with agent_step.appends [OF step run] agent_step.success_grows [OF step]
    agent_step.failure_grows [OF step]
  show ?thesis by (cases out) auto
qed

theorem steps_only_add_witness:
  "\<exists>u. snd (knowledge_execute world sample_llm (AgentContext_new ''Chess'' None) []) = [] @ u \<and>
     list_all (own_effect KnowledgeGenerator) u"
  using steps_only_add [of KnowledgeGenerator "knowledge_execute world sample_llm" world sample_llm
      "AgentContext_new ''Chess'' None" "[]"]
  unfolding agent_steps_def by auto

text \<open>C8. Whatever the LLM answers, the last two steps add nothing but links between recorded nodes. The
  level distributor adds level requirements, each one from a level of the registry to a node of the
  registry, with the name and the id that are recorded there; the prerequisite mapper adds
  prerequisites, each one from a skill or a milestone to a node of the registry, with the relationship
  type of that node's kind.\<close>

theorem links_stay_in_registry:
  "(distributor_execute E llm c h = (Ok c', h') \<longrightarrow>
      (\<exists>rs. list_all (level_link_ok (ctx_graph c)) rs \<and>
         ctx_graph c' = (ctx_graph c)\<lparr>reg_level_requirements := reg_level_requirements (ctx_graph c) @ rs\<rparr>)) \<and>
   (mapper_execute E llm c h = (Ok c', h') \<longrightarrow>
      (\<exists>ls. list_all (prerequisite_link_ok (ctx_graph c)) ls \<and>
         ctx_graph c' = (ctx_graph c)\<lparr>reg_prerequisites := reg_prerequisites (ctx_graph c) @ ls\<rparr>))"
  using distributor_execute_Ok mapper_execute_Ok by blast

theorem links_stay_in_registry_witness:
  "\<exists>cd hd cm hm.
     distributor_execute world sample_llm
       (add_knowledge (after_architect (AgentContext_new ''Chess'' None)) (openings ''Knowledge'')) [] = (Ok cd, hd) \<and>
     list_all (level_link_ok (ctx_graph (add_knowledge (after_architect (AgentContext_new ''Chess'' None))
       (openings ''Knowledge'')))) (reg_level_requirements (ctx_graph cd)) \<and>
     mapper_execute world sample_llm (AgentContext_new ''Chess'' None) [] = (Ok cm, hm) \<and>
     list_all (prerequisite_link_ok (ctx_graph (AgentContext_new ''Chess'' None))) (reg_prerequisites (ctx_graph cm))"
proof -
  let ?c = "AgentContext_new ''Chess'' None"
  let ?d = "add_knowledge (after_architect ?c) (openings ''Knowledge'')"
  obtain cd hd where d: "distributor_execute world sample_llm ?d [] = (Ok cd, hd)"
    using givesD gives_distributor by metis
  obtain cm hm where m: "mapper_execute world sample_llm ?c [] = (Ok cm, hm)"
    using givesD gives_mapper by metis
  have none: "reg_level_requirements (ctx_graph ?d) = []" "reg_prerequisites (ctx_graph ?c) = []"
    by (simp_all add: after_architect_def AgentContext_new_def empty_registry_def context_defs
        get_level_structure_def)
  show ?thesis
    using links_stay_in_registry [THEN conjunct1, THEN mp, OF d]
      links_stay_in_registry [THEN conjunct2, THEN mp, OF m] d m none
    by auto
qed



text \<open>C10. Pass 7 of the knowledge step looks the node of a concept up by the name of the concept, but pass 6 records a new node
  under the name that the LLM gave in the properties. So with the nodes of pass 6, pass 7 succeeds when
  some recorded node carries the name of each concept to generalise; otherwise the first concept whose
  name no node carries stops the step with \<open>Node not found\<close>, after all the nodes were created. (The node
  that carries the name may be the one of another concept.)\<close>

theorem renamed_node_is_not_found:
  assumes "knowledge_pass6 E vs ps h = (Ok created, h1)"
  shows "prefix (map cn_name (filter (\<lambda>n. \<not> cn_was_reused n) created)) (map kp_name ps) \<and>
    (\<exists>c' h2. knowledge_pass7 E vs created c h1 =
       (case first_unnamed created vs of
          None \<Rightarrow> (Ok c', h2) | Some v \<Rightarrow> (Err (''Node not found: '' @ vc_name v, c'), h2)))"
  using node_pass_names [of E "knowledge_kind E"] generalize_pass_outcome assms
  by (simp add: knowledge_pass6_def knowledge_pass7_def knowledge_kind_def)

theorem renamed_node_is_not_found_witness:
  "\<exists>h1. knowledge_pass6 world [vc_create_and_generalize ''Chess Openings'' ''g'' ''Theory'' False]
          [sample_knowledge] [] = (Ok [openings ''Knowledge''], h1) \<and>
     (\<exists>c' h2. knowledge_pass7 world [vc_create_and_generalize ''Chess Openings'' ''g'' ''Theory'' False]
          [openings ''Knowledge''] (AgentContext_new ''Chess'' None) h1 =
       (Err (''Node not found: Chess Openings'', c'), h2))"
proof -
  let ?v = "vc_create_and_generalize ''Chess Openings'' ''g'' ''Theory'' False"
  obtain h1 where 1: "create_step_node world ''Knowledge'' (knowledge_props sample_knowledge) [] =
      (Ok (sample_node [''Knowledge'']), h1)"
    using givesD [OF gives_create_node] by blast
  then have run: "knowledge_pass6 world [?v] [sample_knowledge] [] = (Ok [openings ''Knowledge''], h1)"
    by (simp add: knowledge_pass6_def node_pass_def create_concept_node_def knowledge_kind_def bind_def
        ret_def vc_defs sample_node_def sample_knowledge_def)
  have "first_unnamed [openings ''Knowledge''] [?v] = Some ?v"
    by (simp add: first_unnamed_def vc_defs CreatedNode_new_def)
  with run renamed_node_is_not_found [OF run, of "AgentContext_new ''Chess'' None"] show ?thesis
    by (simp add: vc_defs)
qed

text \<open>C11. When the LLM decides to use an existing node it gives the name of the node, and this name
  is stored as its element id: neither the resolution of targets nor pass 6 replaces it, even when the
  search has found a node with that name.\<close>

theorem existing_node_keeps_name_as_id:
  assumes "object_text_guarded ''No JSON object found in response'' ''No closing brace found''
             ''Invalid JSON object structure'' response = Ok s"
    and "parse_value E s = Ok v" and "jstr_field v ''decision'' = Some ''use_existing''"
    and "jstr_field v ''existing_node_name'' = Some name" and "name \<noteq> []" and "name \<noteq> ''null''"
  shows "\<exists>d. parse_verification_response E response concept = Ok d \<and>
    resolve_target E ''Knowledge'' concept similar d h = (Ok d, h) \<and>
    knowledge_pass6 E [d] [] h = (Ok [CreatedNode_reused concept name ''Knowledge''], h)"
  using parse_verification_use_existing [OF assms]
  by (simp add: resolve_target_def knowledge_pass6_def node_pass_def create_concept_node_def
      knowledge_kind_def bind_def ret_def vc_defs)

theorem existing_node_keeps_name_as_id_witness:
  "let E = world\<lparr>json_parse := (\<lambda>s. Inr (JObj [(''decision'', JStr ''use_existing''),
             (''existing_node_name'', JStr ''Tactics'')]))\<rparr>;
       found = \<lparr>sn_name = ''Tactics'', sn_description = None, sn_id = ''4:x:7'', sn_score = Finite 1\<rparr>
   in \<exists>d. parse_verification_response E ''{}'' ''Chess Tactics'' = Ok d \<and>
        resolve_target E ''Knowledge'' ''Chess Tactics'' [found] d [] = (Ok d, []) \<and>
        knowledge_pass6 E [d] [] [] = (Ok [CreatedNode_reused ''Chess Tactics'' ''Tactics'' ''Knowledge''], [])"
proof -
  have braces: "object_text_guarded a b c ''{}'' = Ok ''{}''" for a b c
    by (simp add: object_text_guarded_def trim_braced braced_def rfind_char_def slice_def
        char_boundary_def is_cont_def)
  show ?thesis
    unfolding Let_def
    by (rule existing_node_keeps_name_as_id [OF braces, where v = "JObj [(''decision'', JStr ''use_existing''),
           (''existing_node_name'', JStr ''Tactics'')]" and name = "''Tactics''"])
      (simp_all add: parse_value_def sum_outcome_def jstr_field_def jget_def)
qed

text \<open>C12. With the five levels of the architect, a level from 1 to 5 is found at its place, as long as
  the name of the domain itself does not contain the name of that level. A level outside 1 to 5 is
  neither refused nor skipped: the text that is looked for is then a single space, which every level
  name contains, so that the component is assigned to the first level, and the lookup by index behind
  it is never reached.\<close>

theorem level_lookup_decided_by_suffix:
  assumes "map cn_name levels = map (\<lambda>s. d @ '' '' @ s) level_suffixes"
  shows "(1 \<le> k \<and> k \<le> 5 \<and> \<not> contains_str ('' '' @ level_suffix k) d \<longrightarrow>
      find_level levels k = Some (cn_element_id (levels ! nat (k - 1)))) \<and>
    (k < 1 \<or> 5 < k \<longrightarrow> find_level levels k = Some (cn_element_id (hd levels)))"
  using find_level_correct [OF _ _ assms] find_level_out_of_range_first [OF _ assms] by blast

theorem level_lookup_decided_by_suffix_witness:
  "let ls = map (\<lambda>(i, s). CreatedNode_new (''Chess '' @ s) i ''Domain_Level'')
     (zip [''a'', ''b'', ''c'', ''d'', ''e''] level_suffixes)
   in find_level ls 4 = Some ''d'' \<and> find_level ls 9 = Some ''a''"
proof -
  let ?ls = "map (\<lambda>(i, s). CreatedNode_new (''Chess '' @ s) i ''Domain_Level'')
     (zip [''a'', ''b'', ''c'', ''d'', ''e''] level_suffixes)"
  have "map cn_name ?ls = map (\<lambda>s. ''Chess'' @ '' '' @ s) level_suffixes"
    by (simp add: level_suffixes_def CreatedNode_new_def)
  from level_lookup_decided_by_suffix [OF this, of 4] level_lookup_decided_by_suffix [OF this, of 9]
  show ?thesis
    by (simp add: level_suffixes_def level_suffix_def CreatedNode_new_def)
qed

text \<open>C13. Six parsers of LLM answers cut the text from the first opening brace to the last closing
  brace without comparing the two: they panic for exactly the answers in which the last closing brace
  stands before the first opening brace (with at least one character between). The two parsers that
  compare the places first never panic: such an answer is an error of the step.\<close>

theorem parsers_panic_iff:
  assumes "well_encoded response" and "found \<noteq> []"
  shows "(parse_skill_properties E response concept = Panic \<longleftrightarrow> crossed_braces response) \<and>
    (parse_trait_properties E response concept = Panic \<longleftrightarrow> crossed_braces response) \<and>
    (parse_trait_verification E response concept found = Panic \<longleftrightarrow> crossed_braces response) \<and>
    (parse_milestone_properties E response concept = Panic \<longleftrightarrow> crossed_braces response) \<and>
    (parse_level_assignments E response c ty = Panic \<longleftrightarrow> crossed_braces response) \<and>
    (parse_prerequisites E response c ty = Panic \<longleftrightarrow> crossed_braces response) \<and>
    parse_knowledge_properties E response concept \<noteq> Panic \<and>
    parse_verification_response E response concept \<noteq> Panic"
  using assms by (simp add: parse_skill_properties_crossed parse_trait_properties_crossed
      parse_trait_verification_crossed parse_milestone_properties_crossed
      parse_level_assignments_crossed parse_prerequisites_crossed
      parse_knowledge_properties_safe parse_verification_safe)

theorem parsers_panic_iff_witness:
  "parse_skill_properties world ''} {'' ''Castling'' = Panic \<and>
   parse_level_assignments world ''} {'' (AgentContext_new ''Chess'' None) ''Skill'' = Panic \<and>
   parse_knowledge_properties world ''} {'' ''Castling'' \<noteq> Panic"
proof -
  have enc: "well_encoded ''} {''" by (rule ascii_well_encoded) simp
  have "trim ''} {'' = ''} {''"
    by (rule trim_id) (auto simp: ws_chars_def suffix_to_prefix)
  then have "crossed_braces ''} {''"
    by (simp add: crossed_braces_def rfind_char_def)
  with parsers_panic_iff [OF enc, of "[sample_similar (Finite 0)]"] show ?thesis by blast
qed

text \<open>C14. The parser of concept lists panics while it builds an error message: exactly for an answer
  without an array that is longer than 200 bytes and has a character across byte 200.\<close>

theorem concept_list_preview_panics_iff:
  assumes "well_encoded response"
  shows "parse_concept_list E response = Panic \<longleftrightarrow>
    (CHR ''['' \<notin> set (trim response) \<or> CHR '']'' \<notin> set (trim response)) \<and>
    200 < length (trim response) \<and> \<not> char_boundary (trim response) 200"
  using assms by (rule concept_list_panic_iff)

theorem concept_list_preview_panics_iff_witness:
  "parse_concept_list world
     (replicate 199 CHR ''x'' @ [CHR 0xC3, CHR 0xA9] @ replicate 5 CHR ''x'') = Panic"
proof -
  let ?s = "replicate 199 CHR ''x'' @ [CHR 0xC3, CHR 0xA9] @ replicate 5 CHR ''x''"
  have enc: "well_encoded ?s"
    by (auto simp: well_encoded_def nth_append nth_Cons' is_cont_def)
  have "trim ?s = ?s"
  proof (rule trim_id)
    show "\<forall>w\<in>set ws_chars. \<not> prefix w ?s"
      using prefix_Cons_char [of _ "CHR ''x''"] by (simp add: ws_chars_def numeral_eq_Suc)
    show "\<forall>w\<in>set ws_chars. \<not> suffix w ?s"
      using suffix_snoc_char [of _ "replicate 199 CHR ''x'' @ [CHR 0xC3, CHR 0xA9] @ replicate 4 CHR ''x''"
          "CHR ''x''"]
      by (fastforce simp: ws_chars_def numeral_eq_Suc)
  qed simp
  with concept_list_preview_panics_iff [OF enc, of world] show ?thesis
    by (simp add: char_boundary_def nth_append is_cont_def)
qed

section \<open>The stream of events\<close>

text \<open>C15. The stream of a generation holds a final event (completed, failed or refused) exactly when
  the search for a similar domain answered and no step panicked. In the two other cases the client's
  stream just ends.\<close>

theorem stream_ends_with_result:
  "\<exists>u. snd (generate_domain E llm name desc h) = h @ u \<and>
     ((\<exists>l \<in> set (lifecycle_of u). terminal l) \<longleftrightarrow>
        fst (generate_domain E llm name desc h) \<noteq> Panic \<and>
        is_ok (fst (check_domain_exists E name (h @ [ReadInstant]))))"
  by (rule generate_domain_terminal)

section \<open>The graph services\<close>

text \<open>C16. The endpoint that creates a node refuses it with 409 when its embedding is within 0.7 of an
  existing one, and no statement that creates it is sent: after the embedding there is only the search.
  The callers that pass \<open>false\<close> for the check (the steps of a generation, \<open>create_node_internal\<close>) do not
  ask: after the same embedding the only thing sent is the statement that creates the node.\<close>

theorem similar_node_is_refused:
  assumes "generate_embedding E (node_text (cnr_properties request)) h = (Ok embedding, h1)"
    and "find_similar_nodes E
          (default_similar_request\<lparr>fs_embedding := Some embedding, fs_limit := Some 1\<rparr>) h1 =
         (Ok (s # rest), h2)"
    and "f64_gt (sn_score s) f64_0_70"
  shows "create_node E request True h = (Err (similar_exists_error E (sn_score s)), h2) \<and>
    (\<exists>details. create_node_handler E request h =
       (Err (CONFLICT, jobj [(''error'', JStr ''similar node already exists''), (''details'', JStr details),
               (''score'', f64_json (sn_score s))]), h2)) \<and>
    snd (create_node E request False h) = h1 @ [DbExecute (create_node_query E request embedding)] \<and>
    snd (create_node_internal E request h) = h1 @ [DbExecute (create_node_query E request embedding)]"
proof -
  have direct: "snd (create_node E request False h) = h1 @ [DbExecute (create_node_query E request embedding)]"
    using assms(1) by (rule create_node_unchecked)
  have refused: "create_node E request True h = (Err (similar_exists_error E (sn_score s)), h2)"
    using assms by (rule create_node_similar)
  have "\<exists>details. create_node_handler E request h =
      (Err (CONFLICT, jobj [(''error'', JStr ''similar node already exists''), (''details'', JStr details),
              (''score'', f64_json (sn_score s))]), h2)"
    unfolding create_node_handler_def on_result_def refused similar_exists_error_def fail_def by auto
  moreover have "snd (create_node_internal E request h) = snd (create_node E request False h)"
    by (simp add: create_node_internal_def map_err_def split: prod.split)
  ultimately show ?thesis using refused direct by simp
qed

theorem similar_node_is_refused_witness:
  "\<exists>h2. create_node (sample_env (Finite 1) None)
      \<lparr>cnr_labels = [''Skill''], cnr_properties = [(''name'', JStr ''Castling'')]\<rparr> True [] =
    (Err (similar_exists_error (sample_env (Finite 1) None) (Finite 1)), h2)"
proof -
  let ?E = "sample_env (Finite 1) None"
    and ?rq = "\<lparr>cnr_labels = [''Skill''], cnr_properties = [(''name'', JStr ''Castling'')]\<rparr>"
  obtain h1 where 1: "generate_embedding ?E (node_text (cnr_properties ?rq)) [] = (Ok [Finite 1], h1)"
    using givesD [OF gives_embedding] by blast
  obtain h2 where 2: "find_similar_nodes ?E
      (default_similar_request\<lparr>fs_embedding := Some [Finite 1], fs_limit := Some 1\<rparr>) h1 =
      (Ok [sample_similar (Finite 1)], h2)"
    using givesD [OF gives_similarity] by (simp add: find_similar_nodes_def default_similar_request_def) blast
  from similar_node_is_refused [OF 1 2] show ?thesis
    by (auto simp: sample_similar_def f64_gt_def f64_consts)
qed

text \<open>C17. The search by a term never shows what it found: every node of its answer is an empty object
  without relationships or affiliated nodes, because the rows were already brought into the format
  with \<open>Values\<close> and \<open>Keys\<close> when the fields \<open>node\<close>, \<open>relationships\<close> and \<open>affiliatedNodes\<close> are read.\<close>

theorem search_by_term_answers_empty_nodes:
  assumes "get_nodes_by_search_term E term depth h = (Ok ns, h')"
  shows "\<forall>n\<in>set ns. n = \<lparr>nwr_node = JObj [], nwr_relationships = JArr [], nwr_affiliated_nodes = JArr []\<rparr>"
  using assms by (rule search_term_nodes_empty)

theorem search_by_term_answers_empty_nodes_witness:
  "\<exists>ns h'. get_nodes_by_search_term world ''openings'' 1 [] = (Ok ns, h') \<and> length ns = 1 \<and>
     (\<forall>n\<in>set ns. n = \<lparr>nwr_node = JObj [], nwr_relationships = JArr [], nwr_affiliated_nodes = JArr []\<rparr>)"
proof -
  have "gives (get_nodes_by_search_term world ''openings'' 1)
      (map node_of_bolt5 (map (\<lambda>r. case node_row r of JObj m \<Rightarrow> bolt5_row m | _ \<Rightarrow> JNull)
         [sample_row (Finite 0)]))"
    unfolding get_nodes_by_search_term_def
    by (rule gives_bind [OF gives_map_err [OF gives_embedding]])
      (simp add: gives_def run_collecting_def on_result_def bind_def call_runs sum_outcome_def ret_def
        map_bolt4_to_bolt5_node_rows [of "[sample_row (Finite 0)]", simplified])
  from givesD [OF this, of "[]"] search_by_term_answers_empty_nodes show ?thesis by fastforce
qed

text \<open>C18. The id of the node to update and the new properties share one name space of parameters: a
  property called \<open>targetId\<close> replaces the id, and the statement then changes the node that the property
  names. Without such a property the id is the one of the request.\<close>

theorem update_target_is_overridable:
  assumes "distinct (map fst props)"
  shows "effective_param (update_node_query E target_id labels (Some props)) ''targetId'' =
    (case map_of props ''targetId'' of
       Some v \<Rightarrow> Some (json_value_to_bolt_type (json_print E) v) | None \<Rightarrow> Some (BStr target_id))"
  using assms by (rule update_node_target)

theorem update_target_is_overridable_witness:
  "effective_param (update_node_query world ''4:x:1'' None
     (Some [(''name'', JStr ''Castling''), (''targetId'', JStr ''4:x:9'')])) ''targetId'' = Some (BStr ''4:x:9'')"
  using update_target_is_overridable [of "[(''name'', JStr ''Castling''), (''targetId'', JStr ''4:x:9'')]" world
      "''4:x:1''" None]
  by simp

text \<open>C19. The public route for nodes needs no token, and what it is given as the value of a property
  goes into the text of the query between two quotation marks, as it is (without the spaces around
  it): a value with a quotation mark ends the literal, and the rest is Cypher.\<close>

theorem public_query_holds_value_verbatim:
  assumes "json_parse E filter_text = Inr (JObj [(k, JStr v)])" and "trim k \<noteq> ''elementId''"
    and "run EpGetNodes = map_err (\<lambda>status. (status, JNull)) (get_nodes_handler E labels (Some filter_text) depth)"
  shows "\<exists>q. snd (dispatch E C run MGet ''/api/public/graph/get-nodes'' None h) = h @ [DbExecute q] \<and>
    contains_str (''WHERE node.'' @ trim k @ '' = '' @ [CHR 0x27] @ trim v @ [CHR 0x27]) (q_text q)"
proof -
  have route: "find_route create_router MGet ''/api/public/graph/get-nodes'' =
      Ok \<lparr>rt_path = ''/api/public/graph/get-nodes'', rt_method = MGet, rt_endpoint = EpGetNodes, rt_jwt = False\<rparr>"
    by code_simp
  let ?d = "case depth of Some x \<Rightarrow> x | None \<Rightarrow> 1"
  let ?q = "nodes_query (parse_labels labels) (Some [(k, JStr v)]) ?d"
  have err: "snd (map_err f m h) = snd (m h)" for f :: "'x \<Rightarrow> 'y" and m :: "('x, 'z) action"
    by (simp add: map_err_def split: prod.split)
  have "snd (run EpGetNodes h) = h @ [DbExecute ?q]"
    using assms(1) get_nodes_with_relationships_sends [of E "parse_labels labels" "Some [(k, JStr v)]" ?d h]
    by (simp add: assms(3) err get_nodes_handler_def from_str_def parse_value_def sum_outcome_def
        lift_outcome_def bind_def)
  then show ?thesis
    using nodes_query_contains [OF assms(2), of v "parse_labels labels" ?d] by (simp add: dispatch_route [OF route])
qed

theorem public_query_holds_value_verbatim_witness:
  "let E = world\<lparr>json_parse := (\<lambda>s. Inr (JObj [(''name'', JStr ([CHR 0x27] @ '' OR true //''))]))\<rparr>
   in \<exists>q. snd (dispatch E sample_crypto
        (\<lambda>_. map_err (\<lambda>status. (status, JNull)) (get_nodes_handler E None (Some ''{...}'') None))
        MGet ''/api/public/graph/get-nodes'' None []) = [] @ [DbExecute q] \<and>
      contains_str (''WHERE node.'' @ trim ''name'' @ '' = '' @ [CHR 0x27] @
        trim ([CHR 0x27] @ '' OR true //'') @ [CHR 0x27]) (q_text q)"
  unfolding Let_def
proof (rule public_query_holds_value_verbatim)
  have "trim ''name'' = ''name''" by (rule trim_id) (auto simp: ws_chars_def suffix_to_prefix)
  then show "trim ''name'' \<noteq> ''elementId''" by simp
qed simp_all

text \<open>C20. The requirements of a level go to the node at its position in the list of the ids that came
  back. When all levels were created, that is the node of the level itself. But the ids are collected
  without the failed levels: when the first of two levels is not created, the requirements of the first
  level are attached to the node of the second level, and those of the second level nowhere.\<close>

theorem requirements_follow_positions:
  "(create_levels E d ls h = (Ok ids, h') \<and> length ids = length ls \<and> i < length ls \<longrightarrow>
      level_answer E d (level_history d h (take i ls)) (ls ! i) = Some (ids ! i)) \<and>
   (level_answer E d h l1 = None \<and>
      level_answer E d (h @ [DbExecute (create_level_query d l1)]) l2 = Some k \<longrightarrow>
      bind (create_levels E d [l1, l2]) (\<lambda>ids. process_levels E ids [l1, l2]) h =
        process_pair E [] (k, l1) (level_history d h [l1, l2]))"
  using levels_aligned_when_all_created level_ids_shift by blast

theorem requirements_follow_positions_witness:
  "let l = (\<lambda>n. \<lparr>dl_level = n, dl_name = ''Chess'', dl_description = None, dl_points_required = 1,
       dl_requirements = \<lparr>lreq_knowledge = [], lreq_skills = [], lreq_traits = [], lreq_milestones = []\<rparr>\<rparr>);
       E = world\<lparr>db_execute := (\<lambda>h q. if h = [] then Inl ''busy'' else Inr [Inr (sample_row (Finite 0))])\<rparr>
   in level_answer world ''d'' (level_history ''d'' [] (take 1 [l 1, l 2])) ([l 1, l 2] ! 1) = Some ([''n'', ''n''] ! 1) \<and>
      bind (create_levels E ''d'' [l 1, l 2]) (\<lambda>ids. process_levels E ids [l 1, l 2]) [] =
        process_pair E [] (''n'', l 1) (level_history ''d'' [] [l 1, l 2])"
  unfolding Let_def
  by (intro conjI requirements_follow_positions [THEN conjunct1, THEN mp]
      requirements_follow_positions [THEN conjunct2, THEN mp])
    (simp_all add: create_levels_run level_answer_def first_row_def map_filter_def)

text \<open>C21. The check of the name decides whether a domain is created. When it answers a row, the request
  is refused and nothing more is sent. When it answers no row, or a row that cannot be read, the
  statement that creates the domain follows at once: an error of the row counts as a free name. A
  creation that succeeds has passed the check in one of these two ways, and the nodes it reports as
  created are those that the levels asked for by a description and without an id, with their names and
  labels.\<close>

theorem name_check_decides_creation:
  "(create_domain E q h = (Ok res, h') \<longrightarrow>
      validate_domain_request (cdr_domain q) (cdr_levels q) = Ok () \<and>
      (\<exists>s. db_execute E h (domain_exists_query (di_name (cdr_domain q))) = Inr s \<and>
         (s = [] \<or> (\<exists>e rest. s = Inl e # rest))) \<and>
      cdres_domain_name res = di_name (cdr_domain q) \<and>
      list_all (\<lambda>info. \<exists>l\<in>set (cdr_levels q). requested_node (dl_requirements l) info)
        (cdres_created_nodes res)) \<and>
   (validate_domain_request (cdr_domain q) (cdr_levels q) = Ok () \<and>
      db_execute E h (domain_exists_query (di_name (cdr_domain q))) = Inr (Inr r # rows) \<longrightarrow>
      create_domain E q h = (Err (ValidationError ''Domain with this name already exists''),
        h @ [DbExecute (domain_exists_query (di_name (cdr_domain q)))])) \<and>
   (validate_domain_request (cdr_domain q) (cdr_levels q) = Ok () \<and>
      db_execute E h (domain_exists_query (di_name (cdr_domain q))) = Inr s \<and>
      (s = [] \<or> (\<exists>e rest. s = Inl e # rest)) \<longrightarrow>
      (\<exists>out u. create_domain E q h = (out, h @ [DbExecute (domain_exists_query (di_name (cdr_domain q))),
         DbExecute (create_domain_node_query (cdr_domain q))] @ u)))"
  using create_domain_Ok [of E q h res h'] create_domain_taken [of q E h r rows]
    create_domain_passed [of q E h s] unfolding first_row_None_iff by blast

theorem name_check_decides_creation_witness:
  "(\<exists>res h'. create_domain free_world chess_request [] = (Ok res, h') \<and>
      map cni_name (cdres_created_nodes res) = [''Castling''] \<and>
      list_all (\<lambda>info. \<exists>l\<in>set (cdr_levels chess_request). requested_node (dl_requirements l) info)
        (cdres_created_nodes res)) \<and>
   create_domain world chess_request [] = (Err (ValidationError ''Domain with this name already exists''),
     [DbExecute (domain_exists_query ''Chess'')]) \<and>
   (\<exists>out u. create_domain (world\<lparr>db_execute := (\<lambda>h q. Inr [Inl ''connection lost''])\<rparr>) chess_request [] =
     (out, [DbExecute (domain_exists_query ''Chess''),
            DbExecute (create_domain_node_query (cdr_domain chess_request))] @ u))"
proof (intro conjI)
  obtain res h' where run: "create_domain free_world chess_request [] = (Ok res, h')"
    and "map cni_name (cdres_created_nodes res) = [''Castling'']"
    using chess_created by (elim exE conjE) (rule that)
  with name_check_decides_creation [THEN conjunct1, THEN mp, OF run]
  show "\<exists>res h'. create_domain free_world chess_request [] = (Ok res, h') \<and>
      map cni_name (cdres_created_nodes res) = [''Castling''] \<and>
      list_all (\<lambda>info. \<exists>l\<in>set (cdr_levels chess_request). requested_node (dl_requirements l) info)
        (cdres_created_nodes res)"
    by (intro exI [of _ res] exI [of _ h']) simp
  have valid: "validate_domain_request (cdr_domain chess_request) (cdr_levels chess_request) = Ok ()"
    and name: "di_name (cdr_domain chess_request) = ''Chess''"
    by (simp_all add: validate_domain_request_def chess_request_def)
  then show "create_domain world chess_request [] = (Err (ValidationError ''Domain with this name already exists''),
     [DbExecute (domain_exists_query ''Chess'')])"
    using name_check_decides_creation [THEN conjunct2, THEN conjunct1, of chess_request world "[]"
        "sample_row (Finite 0)" "[]"] by simp
  show "\<exists>out u. create_domain (world\<lparr>db_execute := (\<lambda>h q. Inr [Inl ''connection lost''])\<rparr>) chess_request [] =
     (out, [DbExecute (domain_exists_query ''Chess''),
            DbExecute (create_domain_node_query (cdr_domain chess_request))] @ u)"
    using valid name name_check_decides_creation [THEN conjunct2, THEN conjunct2, of chess_request
        "world\<lparr>db_execute := (\<lambda>h q. Inr [Inl ''connection lost''])\<rparr>" "[]" "[Inl ''connection lost'']"] by simp
qed

text \<open>C22. Two requests that create a domain under the same name can both succeed in two ways only: they
  overlap, each having checked the name before the other one went on to create the domain; or one of
  them was late, but its check missed the domain that the other had created, because it answered no row
  (the domain has been deleted or renamed since) or one that cannot be read. And the first does happen,
  also with a database that finds every domain that was created: the check and the creation are two
  statements and nothing holds them together.\<close>

theorem same_name_needs_race:
  "(\<forall>E h w c d p q a b.
      c \<noteq> d \<and> di_name (cdr_domain p) = di_name (cdr_domain q) \<and>
      takes_part E h w c (\<lambda>E. create_domain E p) (Ok a) \<and>
      takes_part E h w d (\<lambda>E. create_domain E q) (Ok b) \<longrightarrow>
      checks_overlap w (DbExecute (domain_exists_query (di_name (cdr_domain p)))) c d \<or>
      missed E h w d (cdr_domain p) \<or> missed E h w c (cdr_domain q)) \<and>
   (\<exists>E w p q a b.
      (\<forall>h n. created_in E h n \<longrightarrow> (\<exists>r. db_execute E h (domain_exists_query n) = Inr [Inr r])) \<and>
      di_name (cdr_domain p) = di_name (cdr_domain q) \<and>
      takes_part E [] w 0 (\<lambda>E. create_domain E p) (Ok a) \<and>
      takes_part E [] w 1 (\<lambda>E. create_domain E q) (Ok b))"
proof
  have "di_name (cdr_domain (race_request ''Game'')) = di_name (cdr_domain (race_request ''Sport''))"
    by (simp add: race_request_def)
  then show "\<exists>E w p q a b.
      (\<forall>h n. created_in E h n \<longrightarrow> (\<exists>r. db_execute E h (domain_exists_query n) = Inr [Inr r])) \<and>
      di_name (cdr_domain p) = di_name (cdr_domain q) \<and>
      takes_part E [] w 0 (\<lambda>E. create_domain E p) (Ok a) \<and>
      takes_part E [] w 1 (\<lambda>E. create_domain E q) (Ok b)"
    using race_world_truthful race_both_succeed by blast
qed (intro allI impI, elim conjE, rule race_overlaps [OF _ _ _ refl sym], assumption+)

theorem same_name_needs_race_witness:
  "checks_overlap race_schedule (DbExecute (domain_exists_query ''Chess'')) 0 1 \<or>
   missed race_world [] race_schedule 1 (cdr_domain (race_request ''Game'')) \<or>
   missed race_world [] race_schedule 0 (cdr_domain (race_request ''Sport''))"
proof -
  have "di_name (cdr_domain (race_request d)) = ''Chess''" for d by (simp add: race_request_def)
  then show ?thesis
    using same_name_needs_race [THEN conjunct1] race_both_succeed
    by (metis zero_neq_one)
qed

text \<open>C23. An update of a domain deletes the old levels before it creates the new ones, and from then on
  it succeeds whatever the database answers: once the statement that deletes the levels has run, the
  request is answered with success, and when no level can be created the domain has lost all its levels
  and their requirements, with nothing sent after the failed creations.\<close>

theorem update_succeeds_after_deletion:
  assumes "validate_domain_request (udr_domain q) (udr_levels q) = Ok ()"
    and "db_execute E h (verify_domain_query (udr_domain_element_id q)) = Inr (Inr row # rest)"
    and "delete_progress E (udr_removed_node_element_ids q)
           (h @ [DbExecute (verify_domain_query (udr_domain_element_id q))]) =
         (Ok n :: (service_error, int) outcome, h1)"
    and "db_run E h1 (update_domain_node_query (udr_domain_element_id q) (udr_domain q)) = None"
    and "h2 = h1 @ [DbRun (update_domain_node_query (udr_domain_element_id q) (udr_domain q))]"
    and "db_run E h2 (delete_levels_query (udr_domain_element_id q)) = None"
    and "h3 = h2 @ [DbRun (delete_levels_query (udr_domain_element_id q))]"
  shows "\<exists>res u. update_domain E q h = (Ok res, h3 @ u) \<and> udres_success res \<and>
    (set (level_answers E (udr_domain_element_id q) h3 (udr_levels q)) \<subseteq> {None} \<longrightarrow>
       udres_created_nodes res = [] \<and>
       u = map (\<lambda>l. DbExecute (create_level_query (udr_domain_element_id q) l)) (udr_levels q))"
  using assms by (rule update_domain_after_deletion)

theorem update_succeeds_after_deletion_witness:
  "let E = world\<lparr>db_execute := (\<lambda>h q. if h = [] then Inr [Inr (sample_row (Finite 0))] else Inl ''disk full'')\<rparr>;
       q = \<lparr>udr_domain_element_id = ''d'', udr_domain = cdr_domain chess_request,
            udr_levels = cdr_levels chess_request, udr_removed_node_element_ids = []\<rparr>
   in \<exists>res. update_domain E q [] = (Ok res,
        [DbExecute (verify_domain_query ''d''), DbRun (update_domain_node_query ''d'' (cdr_domain chess_request)),
         DbRun (delete_levels_query ''d''),
         DbExecute (create_level_query ''d'' (hd (cdr_levels chess_request)))]) \<and>
      udres_success res \<and> udres_created_nodes res = []"
proof -
  let ?E = "world\<lparr>db_execute := (\<lambda>h q. if h = [] then Inr [Inr (sample_row (Finite 0))] else Inl ''disk full'')\<rparr>"
  let ?q = "\<lparr>udr_domain_element_id = ''d'', udr_domain = cdr_domain chess_request,
            udr_levels = cdr_levels chess_request, udr_removed_node_element_ids = []\<rparr>"
  let ?h1 = "[DbExecute (verify_domain_query ''d'')]"
  let ?h2 = "?h1 @ [DbRun (update_domain_node_query ''d'' (cdr_domain chess_request))]"
  let ?h3 = "?h2 @ [DbRun (delete_levels_query ''d'')]"
  have lost: "set (level_answers ?E ''d'' ?h3 (cdr_levels chess_request)) \<subseteq> {None}"
    by (simp add: chess_request_def level_answer_def)
  have "\<exists>res u. update_domain ?E ?q [] = (Ok res, ?h3 @ u) \<and> udres_success res \<and>
      (set (level_answers ?E (udr_domain_element_id ?q) ?h3 (udr_levels ?q)) \<subseteq> {None} \<longrightarrow>
         udres_created_nodes res = [] \<and>
         u = map (\<lambda>l. DbExecute (create_level_query (udr_domain_element_id ?q) l)) (udr_levels ?q))"
    by (rule update_succeeds_after_deletion [where h = "[]" and ?h1.0 = ?h1 and ?h2.0 = ?h2 and n = 0 and rest = "[]"])
      (simp_all add: validate_domain_request_def chess_request_def delete_progress_def ret_def)
  with lost show ?thesis
    unfolding Let_def by (auto simp: chess_request_def)
qed

text \<open>C24. The bodies of the two domain requests, with every optional field and all four kinds of
  requirements, are read back as the requests that were written, as long as the numbers fit \<open>i64\<close>: when
  the value that axum reads from the body is the one that the client's struct serialises to, the
  handlers run with exactly that struct.\<close>

theorem domain_requests_reach_handlers:
  "(list_all level_in_range (cdr_levels c) \<and> be_json B rq = Inr (create_domain_request_json c) \<longrightarrow>
      api_handler E B rq EpCreateDomain = respond (create_domain_handler E c)) \<and>
   (list_all level_in_range (udr_levels u) \<and> be_json B rq = Inr (update_domain_request_json u) \<longrightarrow>
      api_handler E B rq EpUpdateDomain = respond (update_domain_handler E u))"
  using domain_requests_read_back
  by (auto simp: with_body_def json_body_of_def ok_or_def bind_def lift_outcome_def)

theorem domain_requests_reach_handlers_witness:
  "api_handler world (sample_backend\<lparr>be_json := (\<lambda>rq. Inr (create_domain_request_json chess_request))\<rparr>)
     (sample_request MPost ''/api/secure/graph/create-domain'') EpCreateDomain =
   respond (create_domain_handler world chess_request)"
proof -
  have "list_all level_in_range (cdr_levels chess_request)"
    by (simp add: chess_request_def level_in_range_def in_i64_def)
  then show ?thesis
    by (intro domain_requests_reach_handlers [THEN conjunct1, THEN mp]) simp
qed

section \<open>The queue between the API and the worker\<close>

text \<open>C25. A generation through the queue that succeeds has created the domain and its five levels, has
  asked the LLM for the concepts, and has then sent exactly one job for each of them, in the order
  knowledge, skills, traits, milestones, numbered from 0 without a gap; every job carries the
  identifiers and levels of the answer.\<close>

theorem async_jobs_cover_concepts:
  assumes "generate_domain_async E vt request h = (Ok r, h')"
    and "env_var E ''DOMAIN_NODE_QUEUE_URL'' = Some url"
  shows "\<exists>h1 h1a h2 u concepts levels t js.
    create_domain_and_levels E (gdr_domain_name request) (gdr_description request) (h @ [ReadClock]) =
      (Ok (agr_domain_element_id r, levels), h1) \<and>
    conceptualize_all_nodes E (gdr_domain_name request) (gdr_description request) h1a = (Ok concepts, h2) \<and>
    h' = h2 @ u \<and> agr_total_nodes r = count_concepts concepts \<and>
    gt_total_nodes t = agr_total_nodes r \<and> gt_generation_id t = agr_generation_id r \<and>
    gt_domain_element_id t = agr_domain_element_id r \<and> gt_domain_levels t = levels \<and>
    (length (all_concepts concepts) < 2 ^ 32 \<longrightarrow>
       sent_to url u = map (\<lambda>j. json_print E (node_job_json j)) js \<and>
       jobs_for t (all_concepts concepts) 0 js)"
  using assms by (rule generate_domain_async_Ok)

theorem async_jobs_cover_concepts_witness:
  "\<exists>r h' concepts. generate_domain_async world (\<lambda>r. ''invalid'')
      \<lparr>gdr_domain_name = ''Chess'', gdr_description = None\<rparr> [] = (Ok r, h') \<and>
    agr_total_nodes r = count_concepts concepts"
proof -
  obtain r h' where run: "generate_domain_async world (\<lambda>r. ''invalid'')
      \<lparr>gdr_domain_name = ''Chess'', gdr_description = None\<rparr> [] = (Ok r, h')"
    using async_generation_succeeds by blast
  from async_jobs_cover_concepts [OF run, of "''nodes''"] run show ?thesis by auto
qed

text \<open>C26. From the API through the queue into the worker: when the worker is given the messages that a
  successful generation has sent, it processes exactly one job for each concept of the LLM, with the
  fields that the API wrote, in the order in which they were sent, and skips none of them as malformed.
  (The hypothesis on the JSON library: what was written is read back as the same value, with the keys of
  the objects in order.)\<close>

theorem queued_generation_reaches_worker:
  assumes "generate_domain_async E vt request h = (Ok r, h')"
    and "env_var E ''DOMAIN_NODE_QUEUE_URL'' = Some url"
    and "\<And>j. job_in_width j \<Longrightarrow>
      json_parse E' (json_print E (node_job_json j)) = Inr (sorted_json (node_job_json j))"
  shows "\<exists>h1 h2 u concepts t js.
    conceptualize_all_nodes E (gdr_domain_name request) (gdr_description request) h1 = (Ok concepts, h2) \<and>
    h' = h2 @ u \<and>
    (length (all_concepts concepts) < 2 ^ 32 \<longrightarrow>
       jobs_for t (all_concepts concepts) 0 js \<and> list_all job_in_width js \<and>
       fold_prog (handle_record E' llm) () (map Some (sent_to url u)) =
         fold_prog (\<lambda>_. settle (process_job E' llm)) () js)"
  using assms by (rule async_generation_delivered)

theorem queued_generation_reaches_worker_witness:
  "\<exists>r h' h2 u t js. generate_domain_async world (\<lambda>r. ''invalid'')
      \<lparr>gdr_domain_name = ''Chess'', gdr_description = None\<rparr> [] = (Ok r, h') \<and> h' = h2 @ u \<and>
    jobs_for t (all_concepts sample_plan) 0 js \<and>
    fold_prog (handle_record (world\<lparr>json_parse := queue_parse\<rparr>) None) () (map Some (sent_to ''nodes'' u)) =
      fold_prog (\<lambda>_. settle (process_job (world\<lparr>json_parse := queue_parse\<rparr>) None)) () js"
proof -
  let ?rq = "\<lparr>gdr_domain_name = ''Chess'', gdr_description = None\<rparr>" and ?E = "world\<lparr>json_parse := queue_parse\<rparr>"
  obtain r h' where run: "generate_domain_async world (\<lambda>r. ''invalid'') ?rq [] = (Ok r, h')"
    using async_generation_succeeds by blast
  have "\<exists>h1 h2 u concepts t js.
      conceptualize_all_nodes world (gdr_domain_name ?rq) (gdr_description ?rq) h1 = (Ok concepts, h2) \<and>
      h' = h2 @ u \<and>
      (length (all_concepts concepts) < 2 ^ 32 \<longrightarrow>
         jobs_for t (all_concepts concepts) 0 js \<and> list_all job_in_width js \<and>
         fold_prog (handle_record ?E None) () (map Some (sent_to ''nodes'' u)) =
           fold_prog (\<lambda>_. settle (process_job ?E None)) () js)"
    by (rule queued_generation_reaches_worker [OF run]) (simp_all add: queue_reads_back)
  moreover have "concepts = sample_plan"
    if "conceptualize_all_nodes world (gdr_domain_name ?rq) (gdr_description ?rq) h1 = (Ok concepts, h2)"
    for h1 h2 concepts
    using that gives_plan unfolding gives_def by (metis fst_conv outcome.inject(1))
  moreover have "length (all_concepts sample_plan) < 2 ^ 32"
    by (simp add: all_concepts_def sample_plan_def)
  ultimately show ?thesis using run by blast
qed

text \<open>C27. Whatever bytes arrive, a job that the worker reads from a message fits the types of the
  struct (\<open>u32\<close> for the sequence number, the total and the retry count, \<open>u8\<close> for levels), so that the
  job, written again, is the same message.\<close>

theorem received_jobs_fit_their_types:
  assumes "from_str E de_node_job body = Ok job"
  shows "job_sequence_number job < 2 ^ 32 \<and> job_total_nodes job < 2 ^ 32 \<and> job_retry_count job < 2 ^ 32 \<and>
    (\<forall>l. job_suggested_level job = Some l \<longrightarrow> l < 2 ^ 8) \<and>
    list_all (\<lambda>l. dli_level l < 2 ^ 8) (job_domain_levels job) \<and>
    de_node_job (node_job_json job) = Some job"
proof -
  obtain v where "de_node_job v = Some job" using from_str_Ok [OF assms] by blast
  then have "job_in_width job" by (rule de_node_job_width)
  with node_job_round_trip [OF this] show ?thesis
    by (auto simp: job_in_width_def level_in_width_def [abs_def])
qed

theorem received_jobs_fit_their_types_witness:
  "from_str world de_node_job ''J'' = Ok (sample_job KnowledgeT) \<and>
   de_node_job (node_job_json (sample_job KnowledgeT)) = Some (sample_job KnowledgeT)"
  using received_jobs_fit_their_types [OF sample_record] sample_record by blast

section \<open>The worker\<close>

text \<open>C28. The decision about a concept never names a node that the search did not find: reuse and
  generalisation both take the id and the name from one of the candidates, whatever the LLM answers.
  The LLM is only asked between the two thresholds: with a score at or above the one for reuse, or below
  the one for creation, the decision is made at once and nothing is sent.\<close>

theorem decision_names_candidates:
  assumes "decide_concept_action E concept found t llm domain label h = (r, h')"
  shows "(\<forall>d. r = Ok d \<longrightarrow> from_candidates found d) \<and>
    (f64_ge (top_score found) (auto_reuse t) \<and> found \<noteq> [] \<or> f64_lt (top_score found) (auto_create t) \<longrightarrow>
      (\<exists>d. r = Ok d) \<and> h' = h)"
  using assms decide_without_llm [of found t E concept llm domain label h]
  by (auto dest: returnsD [OF decide_from_candidates])

theorem decision_names_candidates_witness:
  "from_candidates [sample_similar (Finite 1)] (DUseExisting ''n'' ''n'') \<and>
   (\<exists>d. decide_concept_action world ''Openings'' [] thresholds_trait_node sample_service ''Chess'' ''Trait'' [] =
      (Ok d, []))"
proof
  have "decide_concept_action world ''Openings'' [sample_similar (Finite 1)] thresholds_standard
      sample_service ''Chess'' ''Knowledge'' [] = (Ok (DUseExisting ''n'' ''n''), [])"
    by (simp add: decide_concept_action_def auto_match_def thresholds_standard_def sample_similar_def
        f64_consts f64_ge_def ret_def)
  from decision_names_candidates [OF this]
  show "from_candidates [sample_similar (Finite 1)] (DUseExisting ''n'' ''n'')" by blast
next
  obtain r h' where run: "decide_concept_action world ''Openings'' [] thresholds_trait_node sample_service
      ''Chess'' ''Trait'' [] = (r, h')" by fastforce
  have "f64_lt (top_score []) (auto_create thresholds_trait_node)"
    by (simp add: top_score_def thresholds_trait_node_def f64_consts)
  with decision_names_candidates [OF run] run
  show "\<exists>d. decide_concept_action world ''Openings'' [] thresholds_trait_node sample_service
      ''Chess'' ''Trait'' [] = (Ok d, [])" by blast
qed

text \<open>C29. A job that succeeds, whatever its type, answers for that job: its id, an element id, no error,
  and the level that it was asked for, brought into the range 1 to 5 (3 without a suggestion).\<close>

theorem job_result_is_for_job:
  assumes "process_job E llm job h = (Ok r, h')"
  shows "result_for job r \<and> (\<exists>l. res_assigned_level r = Some l \<and> 1 \<le> l \<and> l \<le> 5)"
  using job_processor.success [OF assms] job_processor.level_in_range [OF assms] by blast

theorem job_result_is_for_job_witness:
  "\<exists>h'. process_job reusing_world (Some sample_service) (sample_job KnowledgeT) [] =
      (Ok (result_success ''j'' ''n'' True (Some 3) 0), h') \<and>
    result_for (sample_job KnowledgeT) (result_success ''j'' ''n'' True (Some 3) 0)"
proof -
  obtain h' where run: "process_job reusing_world (Some sample_service) (sample_job KnowledgeT) [] =
      (Ok (result_success ''j'' ''n'' True (Some 3) 0), h')"
    using sample_job_succeeds by blast
  from job_result_is_for_job [OF run] run show ?thesis by blast
qed

text \<open>C30. A batch ends with an error exactly when a record before the end decodes to a job that fails
  with a database, embedding or LLM error; the records after it are not looked at (and those before it
  run again with the batch).\<close>

theorem batch_fails_at_first_retryable:
  assumes "records \<noteq> []" and "create_graph_connection connect cfg = Ok ()"
  shows "handle_sqs_event E connect records cfg h = (Err m, h') \<longleftrightarrow>
    (\<exists>llm done body todo h1 job e. create_llm_service E cfg = Ok llm \<and> records = done @ Some body # todo \<and>
       fold_prog (handle_record E llm) () done h = (Ok (), h1) \<and>
       from_str E de_node_job body = Ok job \<and> process_job E llm job h1 = (Err e, h') \<and>
       is_retryable_error e \<and> m = ''Retryable error: '' @ processing_error_text e)"
  using assms by (rule handle_batch_Err_iff)

theorem batch_fails_at_first_retryable_witness:
  "\<exists>h'. handle_sqs_event unlinked_world (\<lambda>_ _ _. None) [None, Some ''J'', Some ''J''] sample_config [] =
     (Err ''Retryable error: Neo4j error: down'', h')"
proof -
  obtain h' where run: "process_job unlinked_world (Some sample_service) (sample_job KnowledgeT) [] =
      (Err (PNeo4j ''down''), h')"
    using sample_job_unlinked by blast
  have "\<exists>llm done body todo h1 job e. create_llm_service unlinked_world sample_config = Ok llm \<and>
      [None, Some ''J'', Some ''J''] = done @ Some body # todo \<and>
      fold_prog (handle_record unlinked_world llm) () done [] = (Ok (), h1) \<and>
      from_str unlinked_world de_node_job body = Ok job \<and> process_job unlinked_world llm job h1 = (Err e, h') \<and>
      is_retryable_error e \<and> ''Retryable error: Neo4j error: down'' = ''Retryable error: '' @ processing_error_text e"
    using run sample_record sample_create_llm
    by (intro exI [of _ "Some sample_service"] exI [of _ "[None]"] exI [of _ "''J''"] exI [of _ "[Some ''J'']"]
        exI [of _ "[]"] exI [of _ "sample_job KnowledgeT"] exI [of _ "PNeo4j ''down''"])
      (simp add: handle_record_def bind_def ret_def)
  then show ?thesis
    using batch_fails_at_first_retryable [of "[None, Some ''J'', Some ''J'']" "\<lambda>_ _ _. None" sample_config
        unlinked_world "[]" "''Retryable error: Neo4j error: down''" h']
    by (auto simp: create_graph_connection_def)
qed

text \<open>C31. A batch is acknowledged (which makes SQS delete its messages) exactly when making the LLM
  service did not panic and every record, taken in order from where the one before ended, was settled: a
  record without a body or one that does not decode to a job is passed over without any effect, and a job
  has either succeeded or failed with an error that is not retried (similarity search, an answer of the LLM
  that cannot be read, configuration). No record of an acknowledged batch is skipped, and none keeps a batch from being
  acknowledged but by a retryable error.\<close>

theorem acknowledged_batch_settles_all:
  assumes "records \<noteq> []" and "create_graph_connection connect cfg = Ok ()"
  shows "handle_sqs_event E connect records cfg h = (Ok (), h') \<longleftrightarrow>
    (\<exists>llm hs. create_llm_service E cfg = Ok llm \<and> length hs = Suc (length records) \<and>
       hs ! 0 = h \<and> last hs = h' \<and> (\<forall>i<length records. settled E llm (records ! i) (hs ! i) (hs ! Suc i)))"
  using assms by (rule handle_batch_Ok_iff)

theorem acknowledged_batch_settles_all_witness:
  "\<exists>h'. handle_sqs_event reusing_world (\<lambda>_ _ _. None) [None, Some ''J''] sample_config [] = (Ok (), h')"
proof -
  obtain h' where run: "process_job reusing_world (Some sample_service) (sample_job KnowledgeT) [] =
      (Ok (result_success ''j'' ''n'' True (Some 3) 0), h')"
    using sample_job_succeeds by blast
  have "\<forall>i<length [None, Some ''J'']. settled reusing_world (Some sample_service) ([None, Some ''J''] ! i)
      ([[], [], h'] ! i) ([[], [], h'] ! Suc i)"
    using run sample_record by (auto simp: settled_def less_Suc_eq)
  then show ?thesis
    using acknowledged_batch_settles_all [of "[None, Some ''J'']" "\<lambda>_ _ _. None" sample_config
        reusing_world "[]" h'] sample_create_llm
    by (intro exI [of _ h'])
      (auto simp: create_graph_connection_def intro!: exI [of _ "Some sample_service"] exI [of _ "[[], [], h']"])
qed

text \<open>C32. Without an API key the handler acknowledges every batch without doing anything: each job is
  a configuration error, which is not retried, so that the queue deletes the messages.\<close>

theorem batch_without_key_is_lost:
  assumes "create_graph_connection connect cfg = Ok ()" and "cfg_anthropic_api_key cfg = None"
  shows "handle_sqs_event E connect records cfg h = (Ok (), h)"
  using assms by (rule handle_batch_without_key)

theorem batch_without_key_is_lost_witness:
  "handle_sqs_event world (\<lambda>_ _ _. None) [Some ''J'', Some ''J'']
     \<lparr>cfg_neo4j_uri = ''u'', cfg_neo4j_user = ''n'', cfg_neo4j_password = ''p'',
      cfg_embedding_endpoint = ''embed'', cfg_llm_endpoint = None, cfg_anthropic_api_key = None,
      cfg_queue_url = ''nodes''\<rparr> [] = (Ok (), [])"
  by (rule batch_without_key_is_lost) (simp_all add: create_graph_connection_def)

text \<open>C33. An invocation of the worker ends for every batch, database, service and configuration, after at
  most four requests to the embedding service and the LLM and four statements for each record. It ends
  with a panic exactly when there are records, the connection stands, an API key is configured and the
  HTTP client of the LLM service cannot be built (an \<open>expect\<close>); otherwise with \<open>Ok\<close> or an error. (The
  clients of the embedding service are made later, and only when that one could be built.)\<close>

theorem batch_ends_within_bounds:
  "\<exists>r u. handle_sqs_event E connect records cfg h = (r, h @ u) \<and>
     (r = Panic \<longleftrightarrow> records \<noteq> [] \<and> create_graph_connection connect cfg = Ok () \<and>
        cfg_anthropic_api_key cfg \<noteq> None \<and> client_error E \<noteq> None) \<and>
     length (filter is_http u) \<le> 4 * length records \<and> length (filter is_db u) \<le> 4 * length records \<and>
     length u \<le> 8 * length records"
  by (rule batch_ends)

text \<open>C34. A milestone job is not idempotent: when the relationship to the level fails after the node was
  created, the job ends with a retryable error, and the history of the retry already holds the
  statement that created the node.\<close>

theorem failed_link_leaves_milestone:
  assumes "worker_milestone_properties E llm (job_node_name job) (job_domain_name job)
             (job_domain_description job) h = (Ok props, h1)"
    and "worker_create_milestone E props h1 = (Ok created, h2)"
    and "find (\<lambda>l. dli_level l = determine_level (job_suggested_level job) (job_node_name job)
             (job_domain_levels job)) (job_domain_levels job) = Some info"
    and "db_run E h2 (level_requirement_query (dli_element_id info) (wn_element_id created)
             ''REQUIRES_MILESTONE'') = Some m"
  shows "\<exists>h3 u params. milestone_process E llm job h = (Err (PNeo4j m), h3) \<and> prefix h2 h3 \<and>
    is_retryable_error (PNeo4j m) \<and>
    h2 = u @ [DbExecute \<lparr>q_text = worker_milestone_query, q_params = params\<rparr>]"
proof -
  obtain u emb where "h2 = h1 @ u @ [DbExecute \<lparr>q_text = worker_milestone_query,
      q_params = worker_milestone_params props @ [(''embedding'', BList (map BFloat emb))]\<rparr>]"
    using write_node_creates assms(2) unfolding worker_create_milestone_def by blast
  then show ?thesis
    using milestone_link_fails_after_create [OF assms]
    by (metis append.assoc is_retryable_error.simps(1))
qed

theorem failed_link_leaves_milestone_witness:
  "\<exists>h3. milestone_process unlinked_world sample_service (sample_job MilestoneT) [] = (Err (PNeo4j ''down''), h3)"
proof -
  let ?j = "sample_job MilestoneT"
  obtain h1 where 1: "worker_milestone_properties unlinked_world sample_service (job_node_name ?j)
      (job_domain_name ?j) (job_domain_description ?j) [] = (Ok first_win, h1)"
    using givesD [OF gives_worker_milestone] by blast
  obtain h2 where 2: "worker_create_milestone unlinked_world first_win h1 =
      (Ok \<lparr>wn_element_id = ''n'', wn_name = ''n''\<rparr>, h2)"
    using givesD [OF gives_worker_create] unfolding worker_create_milestone_def by blast
  show ?thesis
    using failed_link_leaves_milestone [OF 1 2, of "\<lparr>dli_level = 3, dli_name = ''Chess Competent'',
        dli_element_id = ''l''\<rparr>" "''down''"]
    by (auto simp: sample_level)
qed

text \<open>C35. The worker's copies of the embedding service and of the similarity search do what the API's
  do: they send the same requests and statements from every history and return the same values; only the
  errors have other names (\<open>forget\<close> forgets them).\<close>

theorem worker_services_agree:
  "forget (worker_generate_embedding E s) = forget (generate_embedding E s) \<and>
   forget (worker_find_similar_nodes E r) = forget (find_similar_nodes E r)"
  by (rule conjI [OF forget_worker_embedding forget_worker_search])

section \<open>Users, tokens and requests\<close>

text \<open>C36. The endpoint of a user's profile answers with every property of the person's node apart from
  the embedding, as it is stored: the property \<open>password\<close>, the hash, is among them.\<close>

theorem profile_answers_stored_password:
  assumes "db_execute E h (user_profile_query username) = Inr [Inr r]"
    and "col_value r ''node'' = Some (JObj obj)" and "map_of obj ''props'' = Some (JObj props)"
    and "map_of props ''password'' = Some hashed"
  shows "\<exists>row node rest shown.
    get_user_profile_handler E username h = (Ok (JArr [row]), h @ [DbExecute (user_profile_query username)]) \<and>
    jget row ''Values'' = Some (JArr (node # rest)) \<and> jget node ''Props'' = Some (JObj shown) \<and>
    map_of shown ''password'' = Some hashed"
proof -
  obtain row node rest shown where
    "get_user_profile E username h = (Ok (JArr [row]), h @ [DbExecute (user_profile_query username)])"
    "jget row ''Values'' = Some (JArr (node # rest))" "jget node ''Props'' = Some (JObj shown)"
    "map_of shown ''password'' = Some hashed"
    using profile_shows_property [OF assms] by auto
  then show ?thesis by (auto simp: get_user_profile_handler_def map_err_def)
qed

theorem profile_answers_stored_password_witness:
  "\<exists>row node rest shown.
    get_user_profile_handler person_world ''ann'' [] = (Ok (JArr [row]), [DbExecute (user_profile_query ''ann'')]) \<and>
    jget row ''Values'' = Some (JArr (node # rest)) \<and> jget node ''Props'' = Some (JObj shown) \<and>
    map_of shown ''password'' = Some (JStr ''n'')"
  using profile_answers_stored_password [of person_world "[]" "''ann''" ann_row
      "[(''props'', JObj [(''username'', JStr ''ann''), (''password'', JStr ''n'')])]"
      "[(''username'', JStr ''ann''), (''password'', JStr ''n'')]" "JStr ''n''"]
  by (simp add: person_world_def ann_row_def)

text \<open>C37. A login succeeds exactly when the request is valid, one person with the name is stored and its
  hash accepts the password; the answer is then a token for that name.\<close>

theorem login_succeeds_iff:
  "login E C r h = (Ok j, h') \<longleftrightarrow>
     login_valid r \<and>
     (\<exists>row stored ns token. db_execute E h (login_query r) = Inr [Inr row] \<and>
        col_string row ''n.password'' = Some stored \<and>
        verify_password C (log_password r) stored = Some True \<and>
        unix_nanos E (h @ [DbExecute (login_query r)]) = Some ns \<and>
        jwt_encode C (jwt_secret E) (claims_for (log_username r) (ns div 1000000000)) = Some token \<and>
        j = token_response token \<and> h' = h @ [DbExecute (login_query r), ReadClock])"
  unfolding login_Ok_iff issue_token_Ok by auto

text \<open>C38. The middleware lets the token of a login through for 24 hours, as long as the secret stays the
  same. The hypothesis on the token library is its documented behaviour: what it signed it accepts with
  the same secret until the expiry (with a leeway of a minute).\<close>

theorem token_opens_secure_routes:
  assumes "jwt_round_trip C"
    and "login E C r h = (Ok j, h1)" and "unix_nanos E (h @ [DbExecute (login_query r)]) = Some t0"
    and "unix_nanos E h2 = Some t" and "t div 1000000000 \<le> t0 div 1000000000 + 24 * 60 * 60"
    and "t0 div 1000000000 + 24 * 60 * 60 < 2 ^ 64"
  shows "\<exists>token. j = token_response token \<and>
    jwt_auth_middleware E C (Some (''Bearer '' @ token)) next h2 = next (h2 @ [ReadClock])"
proof -
  have "issue_token E C (log_username r) (h @ [DbExecute (login_query r)]) = (Ok j, h1)"
    using assms(2) by (auto simp: login_Ok_iff)
  from issued_token_accepted [OF assms(1) this assms(3-6)] show ?thesis .
qed

theorem token_opens_secure_routes_witness:
  "let login_of = \<lparr>log_username = ''ann'', log_password = ''pw''\<rparr>
   in \<exists>token h1. login world sample_crypto login_of [] = (Ok (token_response token), h1) \<and>
     jwt_auth_middleware world sample_crypto (Some (''Bearer '' @ token)) (ret (5 :: nat)) h1 =
       ret 5 (h1 @ [ReadClock])"
proof -
  let ?r = "\<lparr>log_username = ''ann'', log_password = ''pw''\<rparr>"
  have run: "login world sample_crypto ?r [] = (Ok (token_response ''t''), [DbExecute (login_query ?r), ReadClock])"
    using sample_token [of "Finite 0" None "[DbExecute (login_query ?r)]"]
    by (auto simp: login_Ok_iff login_valid_def verify_password_def sample_crypto_def char_count_def)
  from token_opens_secure_routes [OF sample_crypto_round_trip run, of 0
      "[DbExecute (login_query ?r), ReadClock]" 0] run
  show ?thesis by (auto simp: Let_def)
qed

text \<open>C39. No request to a path below \<open>/api/secure/\<close> reaches a handler without a token that decodes: the
  server refuses it with 401 (404 for a path without a route), without a body, and with no effect but
  reading the clocks.
  (A preflight is answered by the CORS layer before the routes.)\<close>

theorem secure_paths_need_a_token:
  assumes "prefix ''/api/secure/'' (rq_path rq)" and "rq_method rq \<noteq> MOptions"
    and "\<And>t. bearer_token (rq_auth rq) = Some t \<Longrightarrow>
      jwt_decode (be_crypto B) (unix_nanos E (h @ [ReadInstant])) (jwt_secret E) t = None"
  shows "\<exists>status u. serve E B cors rq h = (Err (rejected status), h @ u) \<and>
    status \<in> {UNAUTHORIZED, NOT_FOUND} \<and> set u \<subseteq> {ReadClock, ReadInstant}"
  using assms by (rule serve_secure_without_token)

theorem secure_paths_need_a_token_witness:
  "\<exists>status u. serve world sample_backend (''*'', allow_methods, allow_headers)
      (sample_request MPost ''/api/secure/graph/create-node'') [] = (Err (rejected status), [] @ u) \<and>
    status \<in> {UNAUTHORIZED, NOT_FOUND} \<and> set u \<subseteq> {ReadClock, ReadInstant}"
  by (rule secure_paths_need_a_token) (auto simp: sample_request_def bearer_token_def)

text \<open>C40. Whatever request arrives, the server answers it with a response or an error and never
  panics, as long as the clock is not before the epoch (an \<open>expect\<close> when a token is made) and the S3
  client does not panic. (The panics of a generation stay in its own task.)\<close>

theorem server_never_panics:
  assumes "\<And>h. unix_nanos E h \<noteq> None" and "s3_safe (be_s3 B)"
  shows "fst (serve E B cors rq h) \<noteq> Panic"
  using serve_no_panic [OF assms] unfolding no_panic_iff by (metis prod.collapse)

theorem server_never_panics_witness:
  "fst (serve world sample_backend (''*'', allow_methods, allow_headers)
     (sample_request MPost ''/api/secure/graph/create-node'') []) \<noteq> Panic"
  by (rule server_never_panics) (auto simp: sample_backend_def s3_safe_def intro: prog_rules)

end
